(* ===== verification/WW_Prelude.thy ===== *)
theory WW_Prelude
  imports
    Complex_Main
    "HOL-Library.AList"
    "HOL-Library.Char_ord"
    "HOL-Library.List_Lexorder"
    "HOL-Library.Sublist"
begin

text \<open>
  Shared vocabulary of the WeatherWise development.

  \<^item> \<open>number\<close> is the JavaScript number type, modelled by the reals: every operation the
    sources apply to numbers (\<open>+\<close>, \<open>*\<close>, \<open>/\<close>, comparison, \<open>Math.round\<close>,
    \<open>Math.max\<close>, \<open>Math.min\<close>) is taken exactly, so IEEE-754 rounding, \<open>NaN\<close> and the
    infinities are outside the model. Where JavaScript would produce \<open>NaN\<close> or an
    infinity (the mean or the extrema of an empty array) the helper returns \<open>None\<close>.
  \<^item> Optional properties (\<open>x?: T\<close>, or a value that may be \<open>undefined\<close>) are \<open>T option\<close>.
    \<open>truthy\<close>, \<open>nonzero\<close>, \<open>nullish\<close> and \<open>or_else\<close> are JavaScript's truthiness test,
    \<open>??\<close> and \<open>||\<close> at the types the sources use them.
  \<^item> \<open>slice0 n xs\<close> is \<open>xs.slice(0, n)\<close> for an integer \<open>n\<close>, negative \<open>n\<close> included;
    \<open>to_integer\<close> is the truncation JavaScript applies to a number used as an index.
  \<^item> Results of fallible operations are sums \<open>'e + 'a\<close>, \<open>Inl\<close> the thrown error.
  \<^item> The collections \<open>js_defs\<close>, \<open>inv_intros\<close> and \<open>frame_simps\<close> gather the helper
    definitions, the invariant-preservation lemmas and the frame lemmas (fields an
    operation leaves alone) that the component theories add to.
\<close>

section \<open>Collections\<close>

named_theorems js_defs "definitions of the JavaScript helper operations"
named_theorems inv_intros "preservation of well-formedness invariants"
named_theorems frame_simps "fields that an operation does not change"

section \<open>Numbers, time and text\<close>

type_synonym number = real

type_synonym millis = nat

text \<open>
  A template literal that interpolates numbers is kept symbolic: number formatting
  (\<open>Number.prototype.toString\<close>) is not modelled, so a template is the list of its literal
  and interpolated pieces.
\<close>

datatype piece = Lit string | Num number | Undefined

type_synonym template = "piece list"

text \<open>
  \<open>new Date(...).toISOString()\<close> is kept symbolic as well: an instant records what the
  \<open>Date\<close> was built from.
\<close>

datatype instant = ParsedDate string | EpochSeconds int | Now millis

section \<open>JavaScript helper operations\<close>

definition truthy :: "string option \<Rightarrow> bool" where
  "truthy s = (case s of None \<Rightarrow> False | Some x \<Rightarrow> x \<noteq> [])"

definition nonzero :: "number option \<Rightarrow> bool" where
  "nonzero n = (case n of None \<Rightarrow> False | Some x \<Rightarrow> x \<noteq> 0)"

definition nullish :: "'a option \<Rightarrow> 'a \<Rightarrow> 'a" where
  "nullish x d = (case x of None \<Rightarrow> d | Some v \<Rightarrow> v)"

definition or_else :: "string option \<Rightarrow> string option \<Rightarrow> string option" where
  "or_else x y = (if truthy x then x else y)"

definition or_num :: "number option \<Rightarrow> number option \<Rightarrow> number option" where
  "or_num x y = (if nonzero x then x else y)"

definition Math_round :: "number \<Rightarrow> int" where
  "Math_round x = \<lfloor>x + 1 / 2\<rfloor>"

definition to_integer :: "number \<Rightarrow> int" where
  "to_integer x = (if 0 \<le> x then \<lfloor>x\<rfloor> else \<lceil>x\<rceil>)"

definition slice0 :: "int \<Rightarrow> 'a list \<Rightarrow> 'a list" where
  "slice0 n xs = (if n < 0 then take (nat (int (length xs) + n)) xs else take (nat n) xs)"

definition Math_max :: "number list \<Rightarrow> number option" where
  "Math_max xs = (case xs of [] \<Rightarrow> None | x # r \<Rightarrow> Some (fold max r x))"

definition Math_min :: "number list \<Rightarrow> number option" where
  "Math_min xs = (case xs of [] \<Rightarrow> None | x # r \<Rightarrow> Some (fold min r x))"

definition mean :: "number list \<Rightarrow> number option" where
  "mean xs = (if xs = [] then None else Some (sum_list xs / real (length xs)))"

lemmas [js_defs] =
  truthy_def nonzero_def nullish_def or_else_def or_num_def Math_round_def slice0_def
  Math_max_def Math_min_def mean_def

section \<open>Truthiness and defaults\<close>

lemma truthy_simps [simp]:
  "truthy None = False"
  "truthy (Some s) = (s \<noteq> [])"
  by (simp_all add: truthy_def)

lemma nonzero_simps [simp]:
  "nonzero None = False"
  "nonzero (Some x) = (x \<noteq> 0)"
  by (simp_all add: nonzero_def)

lemma nullish_simps [simp]:
  "nullish None d = d"
  "nullish (Some v) d = v"
  by (simp_all add: nullish_def)

lemma or_else_simps [simp]:
  "or_else None y = y"
  "or_else (Some []) y = y"
  "s \<noteq> [] \<Longrightarrow> or_else (Some s) y = Some s"
  by (simp_all add: or_else_def)

lemma truthy_or_else [simp]: "truthy (or_else x y) = (truthy x \<or> truthy y)"
  by (simp add: or_else_def)

lemma or_num_simps [simp]:
  "or_num None y = y"
  "or_num (Some 0) y = y"
  "x \<noteq> 0 \<Longrightarrow> or_num (Some x) y = Some x"
  by (simp_all add: or_num_def)

section \<open>Array slices\<close>

lemma ceiling_minus_one [simp]: "\<lceil>- 1 :: real\<rceil> = - 1"
  using ceiling_of_int [of "- 1", where ?'a = real] by simp

lemma to_integer_simps [simp]:
  "to_integer (of_int k) = k"
  "to_integer (of_nat m) = int m"
  "to_integer (numeral v) = numeral v"
  "to_integer (- numeral v) = - numeral v"
  "to_integer 0 = 0"
  "to_integer 1 = 1"
  "to_integer (- 1) = - 1"
  by (simp_all add: to_integer_def)

lemma to_integer_nonneg: "0 \<le> x \<Longrightarrow> to_integer x = \<lfloor>x\<rfloor>"
  by (simp add: to_integer_def)

lemma to_integer_neg: "x < 0 \<Longrightarrow> to_integer x = \<lceil>x\<rceil>"
  by (simp add: to_integer_def)

lemma to_integer_sign: "0 \<le> to_integer x \<longleftrightarrow> - 1 < x"
  by (auto simp: to_integer_def)

lemma slice0_Nil [simp]: "slice0 n [] = []"
  by (simp add: slice0_def)

lemma slice0_nonneg: "0 \<le> n \<Longrightarrow> slice0 n xs = take (nat n) xs"
  by (simp add: slice0_def)

lemma slice0_neg: "n < 0 \<Longrightarrow> slice0 n xs = take (length xs - nat (- n)) xs"
proof -
  assume neg: "n < 0"
  then have "nat (int (length xs) + n) = length xs - nat (- n)" by linarith
  with neg show ?thesis by (simp add: slice0_def)
qed

lemma slice0_take: "\<exists>k. slice0 n xs = take k xs"
  by (auto simp: slice0_def)

lemma length_slice0_le: "length (slice0 n xs) \<le> length xs"
  by (auto simp: slice0_def)

lemma length_slice0_bound: "0 \<le> n \<Longrightarrow> length (slice0 n xs) \<le> nat n"
  by (simp add: slice0_def)

lemma set_slice0_subset: "set (slice0 n xs) \<subseteq> set xs"
  by (auto simp: slice0_def dest: in_set_takeD)

lemma sorted_slice0: "sorted xs \<Longrightarrow> sorted (slice0 n xs)"
  by (simp add: slice0_def)

lemma distinct_slice0: "distinct xs \<Longrightarrow> distinct (slice0 n xs)"
  by (simp add: slice0_def)

lemma slice0_all: "int (length xs) \<le> n \<Longrightarrow> slice0 n xs = xs"
  by (simp add: slice0_def)

section \<open>Rounding\<close>

lemma Math_round_of_int [simp]: "Math_round (of_int k) = k"
  by (simp add: Math_round_def)

lemma Math_round_mono: "x \<le> y \<Longrightarrow> Math_round x \<le> Math_round y"
  by (simp add: Math_round_def floor_mono)

lemma Math_round_bounds:
  assumes "of_int a \<le> x" and "x \<le> of_int b"
  shows "a \<le> Math_round x \<and> Math_round x \<le> b"
  using Math_round_mono [OF assms(1)] Math_round_mono [OF assms(2)] by simp

lemma ratio_percent_bounds:
  assumes "k \<le> n" and "0 < n"
  shows "0 \<le> real k / real n * 100 \<and> real k / real n * 100 \<le> 100"
  using assms by (simp add: field_simps)

section \<open>Extrema and mean of a non-empty array\<close>

lemma fold_max_ge_init: "(a::number) \<le> fold max xs a"
  by (induction xs arbitrary: a) (auto intro: order_trans [OF max.cobounded2])

lemma fold_max_ge_elem: "(x::number) \<in> set xs \<Longrightarrow> x \<le> fold max xs a"
  by (induction xs arbitrary: a)
    (auto intro: order_trans [OF max.cobounded1 fold_max_ge_init])

lemma fold_max_in: "fold max xs (a::number) \<in> insert a (set xs)"
  by (induction xs arbitrary: a) (auto simp: max_def)

lemma fold_min_le_init: "fold min xs a \<le> (a::number)"
  by (induction xs arbitrary: a) (auto intro: order_trans [OF _ min.cobounded2])

lemma fold_min_le_elem: "(x::number) \<in> set xs \<Longrightarrow> fold min xs a \<le> x"
  by (induction xs arbitrary: a)
    (auto intro: order_trans [OF fold_min_le_init min.cobounded1])

lemma fold_min_in: "fold min xs (a::number) \<in> insert a (set xs)"
  by (induction xs arbitrary: a) (auto simp: min_def)

lemma Math_max_Nil [simp]: "Math_max [] = None"
  by (simp add: Math_max_def)

lemma Math_min_Nil [simp]: "Math_min [] = None"
  by (simp add: Math_min_def)

lemma mean_Nil [simp]: "mean [] = None"
  by (simp add: mean_def)

lemma Math_max_Some: "xs \<noteq> [] \<Longrightarrow> \<exists>m. Math_max xs = Some m"
  by (cases xs) (simp_all add: Math_max_def)

lemma Math_min_Some: "xs \<noteq> [] \<Longrightarrow> \<exists>m. Math_min xs = Some m"
  by (cases xs) (simp_all add: Math_min_def)

lemma mean_Some: "xs \<noteq> [] \<Longrightarrow> mean xs = Some (sum_list xs / real (length xs))"
  by (simp add: mean_def)

lemma Math_max_ge: "Math_max xs = Some m \<Longrightarrow> x \<in> set xs \<Longrightarrow> x \<le> m"
  by (cases xs) (auto simp: Math_max_def fold_max_ge_init fold_max_ge_elem)

lemma Math_min_le: "Math_min xs = Some m \<Longrightarrow> x \<in> set xs \<Longrightarrow> m \<le> x"
  by (cases xs) (auto simp: Math_min_def fold_min_le_init fold_min_le_elem)

lemma Math_max_in: "Math_max xs = Some m \<Longrightarrow> m \<in> set xs"
  using fold_max_in by (cases xs) (auto simp: Math_max_def)

lemma Math_min_in: "Math_min xs = Some m \<Longrightarrow> m \<in> set xs"
  using fold_min_in by (cases xs) (auto simp: Math_min_def)

lemma sum_list_le_bound:
  "(\<And>x. x \<in> set xs \<Longrightarrow> x \<le> (m::number)) \<Longrightarrow> sum_list xs \<le> real (length xs) * m"
  by (induction xs) (auto simp: algebra_simps intro: add_mono)

lemma sum_list_ge_bound:
  "(\<And>x. x \<in> set xs \<Longrightarrow> (m::number) \<le> x) \<Longrightarrow> real (length xs) * m \<le> sum_list xs"
  by (induction xs) (auto simp: algebra_simps intro: add_mono)

lemma mean_between:
  assumes "mean xs = Some a" and "Math_min xs = Some lo" and "Math_max xs = Some hi"
  shows "lo \<le> a \<and> a \<le> hi"
proof -
  from assms(1) have ne: "xs \<noteq> []" and a: "a = sum_list xs / real (length xs)"
    by (auto simp: mean_def split: if_splits)
  then have pos: "0 < real (length xs)" by simp
  have "real (length xs) * lo \<le> sum_list xs"
    by (rule sum_list_ge_bound) (rule Math_min_le [OF assms(2)])
  moreover have "sum_list xs \<le> real (length xs) * hi"
    by (rule sum_list_le_bound) (rule Math_max_ge [OF assms(3)])
  ultimately show ?thesis using pos by (simp add: a field_simps)
qed

section \<open>Results\<close>

definition is_ok :: "'e + 'a \<Rightarrow> bool" where
  "is_ok r = (case r of Inl _ \<Rightarrow> False | Inr _ \<Rightarrow> True)"

lemma is_ok_simps [simp]: "is_ok (Inl e) = False" "is_ok (Inr v) = True"
  by (simp_all add: is_ok_def)

lemma is_ok_iff: "is_ok r \<longleftrightarrow> (\<exists>v. r = Inr v)"
  by (cases r) simp_all

section \<open>Association lists in insertion order\<close>

text \<open>
  A JavaScript \<open>Map\<close> (and an object used as a dictionary with non-numeric keys)
  iterates in insertion order, and setting an existing key keeps its position:
  \<open>AList.update\<close> on a list with distinct keys.
\<close>

lemma map_of_update_same [simp]: "map_of (AList.update k v al) k = Some v"
  by (simp add: update_conv')

lemma map_of_update_other [simp]: "k' \<noteq> k \<Longrightarrow> map_of (AList.update k v al) k' = map_of al k'"
  by (simp add: update_conv')

lemma map_of_delete_same [simp]: "map_of (AList.delete k al) k = None"
  by (simp add: delete_conv')

lemma update_fresh: "k \<notin> fst ` set al \<Longrightarrow> AList.update k v al = al @ [(k, v)]"
  by (induction al) auto

lemma length_update_fresh: "k \<notin> fst ` set al \<Longrightarrow> length (AList.update k v al) = Suc (length al)"
  by (simp add: update_fresh)

lemma length_update_present: "k \<in> fst ` set al \<Longrightarrow> length (AList.update k v al) = length al"
  by (induction al) auto

lemma map_fst_update_present:
  "k \<in> fst ` set al \<Longrightarrow> map fst (AList.update k v al) = map fst al"
  by (induction al) auto

lemma map_of_eq_None_fst: "map_of al k = None \<longleftrightarrow> k \<notin> fst ` set al"
  by (simp add: map_of_eq_None_iff)

lemma list_all_update:
  "list_all P al \<Longrightarrow> P (k, v) \<Longrightarrow> list_all P (AList.update k v al)"
  by (induction al) auto

lemma list_all_map_of:
  "list_all P al \<Longrightarrow> map_of al k = Some v \<Longrightarrow> P (k, v)"
  by (induction al) (auto split: if_splits)

lemma list_all_delete: "list_all P al \<Longrightarrow> list_all P (AList.delete k al)"
  by (induction al) auto

lemma map_snd_update_fresh:
  "k \<notin> fst ` set al \<Longrightarrow> map snd (AList.update k v al) = map snd al @ [v]"
  by (induction al) auto

lemma map_snd_delete:
  "distinct (map fst al) \<Longrightarrow> map_of al k = Some v \<Longrightarrow>
    map snd (AList.delete k al) = remove1 v (map snd al) \<or> v \<in> snd ` set (AList.delete k al)"
  by (induction al) (auto split: if_splits)

lemma delete_absent: "map_of al k = None \<Longrightarrow> AList.delete k al = al"
  by (induction al) (auto split: if_splits)

lemma set_update_cases:
  assumes "distinct (map fst al)" and "(k', v') \<in> set (AList.update k v al)"
  shows "k' = k \<and> v' = v \<or> k' \<noteq> k \<and> (k', v') \<in> set al"
  using assms by (induction al) (force split: if_splits)+

lemma delete_length_lt: "k \<in> fst ` set al \<Longrightarrow> length (AList.delete k al) < length al"
proof (induction al)
  case Nil
  then show ?case by simp
next
  case (Cons p al)
  show ?case
  proof (cases "fst p = k")
    case True
    then show ?thesis
      using length_delete_le [of k al] by (cases p) (simp add: less_Suc_eq_le)
  next
    case False
    with Cons show ?thesis by (cases p) auto
  qed
qed

end
