(* ===== verification/WW_Types.thy ===== *)
theory WW_Types
  imports WW_Prelude
begin

text \<open>
  The data model of \<open>weather/types.ts\<close> and the configuration of \<open>config.ts\<close>.

  Every interface is a record with the source's field names; a field the source
  declares optional is an \<open>option\<close>. Where two interfaces use the same field name the
  later one carries a prefix (\<open>loc_\<close> for the inline \<open>location\<close> object, \<open>cond_\<close>
  for the inline \<open>condition\<close> object, \<open>f_\<close> for \<open>Forecast\<close>, \<open>h_\<close> for
  \<open>HistoricalWeather\<close>, \<open>day_\<close> for \<open>ForecastDay\<close>). \<open>HistoricalWeather\<close> extends
  \<open>CurrentWeather\<close> as in the source. The \<open>condition.text\<close> of a current record is
  optional here although the interface declares it a string, because both adapters can
  store \<open>undefined\<close> there.

  \<open>error\<close> lists the exceptions that cross a function boundary, one constructor per
  throw site or kind of rejected promise.
\<close>

section \<open>Units and queries\<close>

text \<open>
  The type \<open>Units\<close> has the two literals \<open>metric\<close> and \<open>imperial\<close>. The REST routes of
  the server hand the \<open>units\<close> query parameter to the aggregator unchecked, so at run
  time any other string can stand where a \<open>Units\<close> is expected: \<open>other_units s\<close>.
\<close>

datatype Units = metric | imperial | other_units string

record LocationQuery =
  city :: "string option"
  country :: "string option"
  lat :: "number option"
  lon :: "number option"

section \<open>Normalized weather records\<close>

record Location =
  name :: template
  loc_lat :: number
  loc_lon :: number
  loc_country :: "string option"

record Condition =
  cond_text :: "string option"
  cond_iconUrl :: "string option"
  cond_code :: "number option"

record CurrentWeather =
  provider :: string
  location :: Location
  observedAt :: instant
  temperatureC :: number
  temperatureF :: number
  feelsLikeC :: "number option"
  feelsLikeF :: "number option"
  humidity :: "number option"
  windKph :: "number option"
  windMph :: "number option"
  windDir :: "template option"
  pressureMb :: "number option"
  uv :: "number option"
  condition :: Condition

record ForecastDay =
  date :: string
  avgTempC :: "number option"
  avgTempF :: "number option"
  maxTempC :: "number option"
  maxTempF :: "number option"
  minTempC :: "number option"
  minTempF :: "number option"
  chanceOfRainPct :: "number option"
  chanceOfSnowPct :: "number option"
  day_condition :: "Condition option"

record Forecast =
  f_provider :: string
  f_location :: Location
  days :: "ForecastDay list"

record HistoricalWeather = CurrentWeather +
  h_date :: string

section \<open>Errors\<close>

datatype error =
    ProvideCityOrLatLon string
  | AxiosError
  | TypeError
  | NoWeatherProvider
  | HistoricalNotAvailable
  | AgentBuildFailed

type_synonym 'a result = "error + 'a"

section \<open>Configuration\<close>

record config =
  port :: nat
  openWeatherApiKey :: string
  weatherApiKey :: string
  defaultUnits :: Units
  cacheTtlSeconds :: nat
  forecastCacheTtlSeconds :: nat
  alertPollIntervalSeconds :: nat
  googleApiKey :: string

record provider_keys =
  openWeather :: bool
  weatherApi :: bool

definition hasProviderKeys :: "config \<Rightarrow> provider_keys" where
  "hasProviderKeys cfg =
     \<lparr>openWeather = (openWeatherApiKey cfg \<noteq> []), weatherApi = (weatherApiKey cfg \<noteq> [])\<rparr>"

text \<open>The values \<open>config.ts\<close> falls back to when the environment sets nothing.\<close>

definition default_config :: config where
  "default_config =
     \<lparr>port = 3000, openWeatherApiKey = [], weatherApiKey = [], defaultUnits = metric,
      cacheTtlSeconds = 600, forecastCacheTtlSeconds = 10800,
      alertPollIntervalSeconds = 600, googleApiKey = []\<rparr>"

lemma hasProviderKeys_simps [simp]:
  "openWeather (hasProviderKeys cfg) = (openWeatherApiKey cfg \<noteq> [])"
  "weatherApi (hasProviderKeys cfg) = (weatherApiKey cfg \<noteq> [])"
  by (simp_all add: hasProviderKeys_def)

lemma default_config_no_keys:
  "\<not> openWeather (hasProviderKeys default_config) \<and> \<not> weatherApi (hasProviderKeys default_config)"
  by (simp add: default_config_def)

end
