(* ===== verification/JS_Builtins.thy ===== *)
theory JS_Builtins
  imports WW_Prelude
begin

text \<open>
  Built-in functions of JavaScript whose results the sources compute with, modelled
  from the language specification.

  \<^item> \<open>toLowerCase\<close> maps the letters \<open>A\<close> to \<open>Z\<close> to lower case and leaves every
    other character alone (the model of strings is bytes, so letters outside ASCII are
    not folded; the sources compare against ASCII words only).
  \<^item> \<open>str_includes hay needle\<close> is \<open>hay.includes(needle)\<close>: \<open>needle\<close> occurs in \<open>hay\<close> as
    a contiguous part.

  \<^item> \<open>encodeURIComponent\<close>: a string is its UTF-8 bytes, an unreserved byte is kept
    and every other byte becomes \<open>%XX\<close>. (A lone surrogate, on which JavaScript
    throws, has no UTF-8 form and cannot occur.)
  \<^item> \<open>toISODate secs\<close> is \<open>new Date(secs * 1000).toISOString().slice(0, 10)\<close>: the UTC
    calendar date of a Unix time in seconds, as \<open>YYYY-MM-DD\<close>. The civil date is
    computed from the day number by the usual era/day-of-era arithmetic. The model is
    the JavaScript result for years 0000 to 9999; outside them JavaScript prints an
    expanded year, which the slice would cut.
  \<^item> \<open>parseInt10 s\<close> is \<open>parseInt(s, 10)\<close>, with \<open>None\<close> for \<open>NaN\<close>: white space is
    skipped, a sign is read, and the longest run of decimal digits that follows is the
    number. \<open>String_nat n\<close> is \<open>String(n)\<close> for a natural number.
\<close>

section \<open>Strings\<close>

definition lower_char :: "char \<Rightarrow> char" where
  "lower_char c =
     (let n = (of_char c :: nat) in if 65 \<le> n \<and> n \<le> 90 then char_of (n + 32) else c)"

definition toLowerCase :: "string \<Rightarrow> string" where
  "toLowerCase s = map lower_char s"

definition str_includes :: "string \<Rightarrow> string \<Rightarrow> bool" where
  "str_includes hay needle = list_ex (prefix needle) (suffixes hay)"

section \<open>Percent encoding\<close>

definition unreserved :: "char \<Rightarrow> bool" where
  "unreserved c =
     (let n = (of_char c :: nat)
      in (65 \<le> n \<and> n \<le> 90) \<or> (97 \<le> n \<and> n \<le> 122) \<or> (48 \<le> n \<and> n \<le> 57) \<or>
         n \<in> {45, 95, 46, 33, 126, 42, 39, 40, 41})"

definition hex :: "nat \<Rightarrow> char" where
  "hex n = (if n < 10 then char_of (48 + n) else char_of (55 + n))"

definition pct_encode :: "char \<Rightarrow> string" where
  "pct_encode c =
     (if unreserved c then [c]
      else [CHR ''%'', hex (of_char c div 16), hex (of_char c mod 16)])"

definition encodeURIComponent :: "string \<Rightarrow> string" where
  "encodeURIComponent s = concat (map pct_encode s)"

section \<open>Calendar dates\<close>

definition civil_from_days :: "int \<Rightarrow> int \<times> int \<times> int" where
  "civil_from_days z0 =
     (let z = z0 + 719468;
          era = z div 146097;
          doe = z mod 146097;
          yoe = (doe - doe div 1460 + doe div 36524 - doe div 146096) div 365;
          y = yoe + era * 400;
          doy = doe - (365 * yoe + yoe div 4 - yoe div 100);
          mp = (5 * doy + 2) div 153;
          d = doy - (153 * mp + 2) div 5 + 1;
          m = (if mp < 10 then mp + 3 else mp - 9)
      in (if m \<le> 2 then y + 1 else y, m, d))"

definition digit :: "int \<Rightarrow> char" where
  "digit n = char_of (48 + n mod 10)"

definition pad :: "nat \<Rightarrow> int \<Rightarrow> string" where
  "pad w n = map (\<lambda>i. digit (n div 10 ^ i)) (rev [0..<w])"

definition toISODate :: "int \<Rightarrow> string" where
  "toISODate secs =
     (case civil_from_days (secs div 86400) of
        (y, m, d) \<Rightarrow> pad 4 y @ ''-'' @ pad 2 m @ ''-'' @ pad 2 d)"

section \<open>Numbers as strings\<close>

definition is_digit :: "char \<Rightarrow> bool" where
  "is_digit c = (48 \<le> (of_char c :: int) \<and> (of_char c :: int) \<le> 57)"

definition digit_value :: "char \<Rightarrow> int" where
  "digit_value c = of_char c - 48"

definition js_whitespace :: "char \<Rightarrow> bool" where
  "js_whitespace c = ((of_char c :: int) \<in> {9, 10, 11, 12, 13, 32})"

definition parseInt10 :: "string \<Rightarrow> int option" where
  "parseInt10 s =
     (let t = dropWhile js_whitespace s;
          neg = (t \<noteq> [] \<and> hd t = CHR ''-'');
          u = (if t \<noteq> [] \<and> (hd t = CHR ''-'' \<or> hd t = CHR ''+'') then tl t else t);
          ds = takeWhile is_digit u
      in if ds = [] then None
         else Some ((if neg then - 1 else 1) * foldl (\<lambda>a c. 10 * a + digit_value c) 0 ds))"

function String_nat :: "nat \<Rightarrow> string" where
  "String_nat n =
     (if n < 10 then [digit (int n)] else String_nat (n div 10) @ [digit (int n)])"
  by pat_completeness auto

termination String_nat
  by (relation "measure id") auto

declare String_nat.simps [simp del]

section \<open>Strings: what the operations mean\<close>

lemma str_includes_iff: "str_includes hay needle \<longleftrightarrow> sublist needle hay"
  by (auto simp: str_includes_def list_ex_iff in_set_suffixes sublist_altdef')

lemma str_includes_Nil [simp]: "str_includes hay []"
  by (simp add: str_includes_iff)

lemma str_includes_self [simp]: "str_includes s s"
  by (simp add: str_includes_iff)

lemma str_includes_append: "str_includes (a @ needle @ b) needle"
  by (simp add: str_includes_iff sublist_appendI)

lemma length_toLowerCase [simp]: "length (toLowerCase s) = length s"
  by (simp add: toLowerCase_def)

lemma lower_char_idem [simp]: "lower_char (lower_char c) = lower_char c"
  by (simp add: lower_char_def Let_def)

lemma toLowerCase_idem [simp]: "toLowerCase (toLowerCase s) = toLowerCase s"
  by (simp add: toLowerCase_def)

lemma toLowerCase_samples:
  "toLowerCase ''Heavy Rain'' = ''heavy rain''"
  "toLowerCase ''Trail RUNNING'' = ''trail running''"
  "str_includes ''heavy rain'' ''rain''"
  "\<not> str_includes ''sunny'' ''rain''"
  by code_simp+

section \<open>Percent encoding: length and fixed points\<close>

lemma encodeURIComponent_Nil [simp]: "encodeURIComponent [] = []"
  by (simp add: encodeURIComponent_def)

lemma encodeURIComponent_Cons [simp]:
  "encodeURIComponent (c # s) = pct_encode c @ encodeURIComponent s"
  by (simp add: encodeURIComponent_def)

lemma encodeURIComponent_append [simp]:
  "encodeURIComponent (s @ t) = encodeURIComponent s @ encodeURIComponent t"
  by (simp add: encodeURIComponent_def)

lemma percent_reserved [simp]: "\<not> unreserved CHR ''%''"
  by (simp add: unreserved_def)

lemma comma_reserved [simp]: "\<not> unreserved CHR '',''"
  by (simp add: unreserved_def)

lemma pct_encode_comma: "pct_encode CHR '','' = ''%2C''"
  by code_simp

lemma pct_encode_space: "pct_encode CHR '' '' = ''%20''"
  by code_simp

lemma pct_encode_percent: "pct_encode CHR ''%'' = ''%25''"
  by code_simp

lemma length_pct_encode: "length (pct_encode c) = (if unreserved c then 1 else 3)"
  by (simp add: pct_encode_def)

lemma length_encodeURIComponent:
  "length (encodeURIComponent s) = length s + 2 * length (filter (\<lambda>c. \<not> unreserved c) s)"
  by (induction s) (simp_all add: length_pct_encode)

lemma encodeURIComponent_id_iff: "encodeURIComponent s = s \<longleftrightarrow> (\<forall>c \<in> set s. unreserved c)"
proof
  assume "encodeURIComponent s = s"
  then have "length (filter (\<lambda>c. \<not> unreserved c) s) = 0"
    using length_encodeURIComponent [of s] by simp
  then show "\<forall>c \<in> set s. unreserved c"
    by (simp add: filter_empty_conv)
next
  assume "\<forall>c \<in> set s. unreserved c"
  then show "encodeURIComponent s = s"
    by (induction s) (simp_all add: pct_encode_def)
qed

lemma percent_in_encoded:
  "\<not> (\<forall>c \<in> set s. unreserved c) \<Longrightarrow> CHR ''%'' \<in> set (encodeURIComponent s)"
  by (induction s) (auto simp: pct_encode_def)

lemma double_encoding_differs:
  assumes "\<not> (\<forall>c \<in> set s. unreserved c)"
  shows "encodeURIComponent (encodeURIComponent s) \<noteq> encodeURIComponent s"
proof -
  from assms have "CHR ''%'' \<in> set (encodeURIComponent s)" by (rule percent_in_encoded)
  then have "\<not> (\<forall>c \<in> set (encodeURIComponent s). unreserved c)"
    using percent_reserved by blast
  then show ?thesis by (simp add: encodeURIComponent_id_iff)
qed

section \<open>Calendar dates: shape and samples\<close>

lemma length_pad [simp]: "length (pad w n) = w"
  by (simp add: pad_def)

lemma length_toISODate [simp]: "length (toISODate secs) = 10"
  by (simp add: toISODate_def split: prod.splits)

lemma toISODate_same_day:
  "a div 86400 = b div 86400 \<Longrightarrow> toISODate a = toISODate b"
  by (simp add: toISODate_def)

lemma toISODate_samples:
  "toISODate 0 = ''1970-01-01''"
  "toISODate (- 1) = ''1969-12-31''"
  "toISODate 951782400 = ''2000-02-29''"
  "toISODate 1704067200 = ''2024-01-01''"
  "toISODate 1704153599 = ''2024-01-01''"
  "toISODate 1704153600 = ''2024-01-02''"
  by code_simp+

section \<open>Numbers as strings: writing and reading back\<close>

lemma of_char_digit [simp]: "(of_char (digit k) :: int) = 48 + k mod 10"
proof -
  have "(48 + k mod 10) mod 256 = 48 + k mod 10"
    by (rule mod_pos_pos_trivial) (use pos_mod_bound [of 10 k] pos_mod_sign [of 10 k] in simp_all)
  then show ?thesis by (simp add: digit_def)
qed

lemma is_digit_not_sign:
  "is_digit c \<Longrightarrow> \<not> js_whitespace c \<and> c \<noteq> CHR ''-'' \<and> c \<noteq> CHR ''+''"
  by (auto simp: is_digit_def js_whitespace_def)

lemma digit_facts [simp]: "is_digit (digit k)" "digit_value (digit k) = k mod 10"
  by (simp_all add: is_digit_def digit_value_def)

lemma String_nat_digits: "String_nat n \<noteq> [] \<and> list_all is_digit (String_nat n)"
  by (induction n rule: String_nat.induct) (subst (1 2) String_nat.simps, simp)

lemma String_nat_value:
  "foldl (\<lambda>a c. 10 * a + digit_value c) 0 (String_nat n) = int n"
proof (induction n rule: String_nat.induct)
  case (1 n)
  show ?case
  proof (cases "n < 10")
    case True
    then show ?thesis by (subst String_nat.simps) simp
  next
    case False
    with 1 have "foldl (\<lambda>a c. 10 * a + digit_value c) 0 (String_nat n) =
        10 * int (n div 10) + int n mod 10"
      by (subst String_nat.simps) simp
    then show ?thesis by (simp add: zdiv_int zmod_int)
  qed
qed

text \<open>A string of digits is read as the number it writes.\<close>

lemma parseInt10_digits:
  assumes "s \<noteq> []" and "list_all is_digit s"
  shows "parseInt10 s = Some (foldl (\<lambda>a c. 10 * a + digit_value c) 0 s)"
proof -
  from assms obtain c r where s: "s = c # r" and c: "is_digit c" by (cases s) auto
  from c have n: "\<not> js_whitespace c" "c \<noteq> CHR ''-''" "c \<noteq> CHR ''+''"
    using is_digit_not_sign by auto
  have t: "takeWhile is_digit s = s"
    using assms(2) by (simp add: takeWhile_eq_all_conv list_all_iff)
  have d: "dropWhile js_whitespace s = s" "hd s = c" using n s by simp_all
  show ?thesis using assms(1) n by (simp add: parseInt10_def Let_def d t)
qed

text \<open>\<open>parseInt(String(n), 10)\<close> is \<open>n\<close>.\<close>

lemma parseInt10_String_nat [simp]: "parseInt10 (String_nat n) = Some (int n)"
  using String_nat_digits [of n] by (simp add: parseInt10_digits String_nat_value)

lemma parseInt10_samples:
  "parseInt10 ''8080'' = Some 8080" "parseInt10 '' 80abc'' = Some 80" "parseInt10 ''-1'' = Some (- 1)"
  "parseInt10 ''http'' = None" "parseInt10 [] = None" "String_nat 3000 = ''3000''"
  by code_simp+

end
