(* ===== verification/LRU_Cache.thy ===== *)
theory LRU_Cache
  imports WW_Prelude
begin

text \<open>
  The bounded, time-expiring store behind the aggregator's three caches. The sources
  only construct it (\<open>new LRUCache({max, ttl})\<close>) and call \<open>get\<close> and \<open>set\<close>; the
  store itself is a library, so it is modelled from the specification's description:
  an entry is \<open>{key, value, insertedAt, ttl}\<close>, it is logically absent once
  \<open>now - insertedAt > ttl\<close>, \<open>get\<close> returns only live entries, drops an expired one it
  meets and refreshes the recency of a live one, \<open>set\<close> inserts or replaces with age
  zero and evicts the least recently used entry when the capacity is exceeded.

  The entries are kept most recently used first, so the entry evicted on overflow is the
  last one. \<open>live\<close> is the abstraction function to the partial map of unexpired
  entries; the lemmas relate \<open>lru_get\<close> and \<open>lru_set\<close> to it, and \<open>lru_inv\<close> (distinct
  keys, at most \<open>maxEntries\<close> entries) is kept by both. The last section reads the
  store as a table: time, reads and evictions only take entries out of it, and a write
  enters the written value and no other.
\<close>

section \<open>State\<close>

record ('k, 'v) entry =
  e_key :: 'k
  e_value :: 'v
  insertedAt :: millis
  e_ttl :: millis

record ('k, 'v) lru =
  maxEntries :: nat
  ttl :: millis
  entries :: "('k, 'v) entry list"

definition lru_new :: "nat \<Rightarrow> millis \<Rightarrow> ('k, 'v) lru" where
  "lru_new m t = \<lparr>maxEntries = m, ttl = t, entries = []\<rparr>"

section \<open>Operations\<close>

definition expired :: "millis \<Rightarrow> ('k, 'v) entry \<Rightarrow> bool" where
  "expired now e = (insertedAt e + e_ttl e < now)"

definition find_entry :: "'k \<Rightarrow> ('k, 'v) entry list \<Rightarrow> ('k, 'v) entry option" where
  "find_entry k es = find (\<lambda>e. e_key e = k) es"

definition remove_key :: "'k \<Rightarrow> ('k, 'v) entry list \<Rightarrow> ('k, 'v) entry list" where
  "remove_key k es = filter (\<lambda>e. e_key e \<noteq> k) es"

definition lru_get :: "millis \<Rightarrow> 'k \<Rightarrow> ('k, 'v) lru \<Rightarrow> 'v option \<times> ('k, 'v) lru" where
  "lru_get now k c =
     (case find_entry k (entries c) of
        None \<Rightarrow> (None, c)
      | Some e \<Rightarrow>
          if expired now e then (None, c\<lparr>entries := remove_key k (entries c)\<rparr>)
          else (Some (e_value e), c\<lparr>entries := e # remove_key k (entries c)\<rparr>))"

definition lru_set :: "millis \<Rightarrow> 'k \<Rightarrow> 'v \<Rightarrow> ('k, 'v) lru \<Rightarrow> ('k, 'v) lru" where
  "lru_set now k v c =
     c\<lparr>entries :=
         take (maxEntries c)
           (\<lparr>e_key = k, e_value = v, insertedAt = now, e_ttl = ttl c\<rparr> # remove_key k (entries c))\<rparr>"

section \<open>Abstraction and invariant\<close>

definition live :: "millis \<Rightarrow> ('k, 'v) lru \<Rightarrow> 'k \<Rightarrow> 'v option" where
  "live now c k =
     (case find_entry k (entries c) of
        None \<Rightarrow> None
      | Some e \<Rightarrow> if expired now e then None else Some (e_value e))"

definition keys_of :: "('k, 'v) lru \<Rightarrow> 'k list" where
  "keys_of c = map e_key (entries c)"

definition values_of :: "('k, 'v) lru \<Rightarrow> 'v list" where
  "values_of c = map e_value (entries c)"

definition lru_inv :: "('k, 'v) lru \<Rightarrow> bool" where
  "lru_inv c = (distinct (keys_of c) \<and> length (entries c) \<le> maxEntries c)"

named_theorems lru_defs "definitions of the cache operations"

lemmas [lru_defs] =
  lru_new_def expired_def find_entry_def remove_key_def lru_get_def lru_set_def live_def
  keys_of_def values_of_def lru_inv_def

section \<open>Entry lists\<close>

lemma find_entry_Nil [simp]: "find_entry k [] = None"
  by (simp add: find_entry_def)

lemma find_entry_Cons [simp]:
  "find_entry k (e # es) = (if e_key e = k then Some e else find_entry k es)"
  by (simp add: find_entry_def)

lemma remove_key_Nil [simp]: "remove_key k [] = []"
  by (simp add: remove_key_def)

lemma remove_key_Cons [simp]:
  "remove_key k (e # es) = (if e_key e = k then remove_key k es else e # remove_key k es)"
  by (simp add: remove_key_def)

lemma find_entry_None_iff: "find_entry k es = None \<longleftrightarrow> k \<notin> e_key ` set es"
  by (induction es) auto

lemma find_entry_SomeD: "find_entry k es = Some e \<Longrightarrow> e \<in> set es \<and> e_key e = k"
  by (induction es) (auto split: if_splits)

lemma find_entry_remove_same [simp]: "find_entry k (remove_key k es) = None"
  by (induction es) auto

lemma find_entry_remove_other [simp]:
  "k' \<noteq> k \<Longrightarrow> find_entry k' (remove_key k es) = find_entry k' es"
  by (induction es) auto

lemma keys_remove_key: "map e_key (remove_key k es) = removeAll k (map e_key es)"
  by (induction es) auto

lemma set_remove_key: "set (remove_key k es) = {e \<in> set es. e_key e \<noteq> k}"
  by (auto simp: remove_key_def)

lemma distinct_remove_key: "distinct (map e_key es) \<Longrightarrow> distinct (map e_key (remove_key k es))"
  by (simp add: keys_remove_key distinct_removeAll)

lemma length_remove_key_le: "length (remove_key k es) \<le> length es"
  by (simp add: remove_key_def)

lemma remove_key_absent: "k \<notin> e_key ` set es \<Longrightarrow> remove_key k es = es"
  by (induction es) auto

lemma length_remove_key_present:
  "distinct (map e_key es) \<Longrightarrow> k \<in> e_key ` set es \<Longrightarrow> Suc (length (remove_key k es)) = length es"
  by (induction es) (auto simp: remove_key_absent)

lemma find_entry_take:
  "distinct (map e_key es) \<Longrightarrow> find_entry k (take n es) = Some e \<Longrightarrow> find_entry k es = Some e"
  by (induction es arbitrary: n) (auto simp: take_Cons split: nat.splits if_splits)

lemma find_entry_butlast_other:
  "es \<noteq> [] \<Longrightarrow> k \<noteq> e_key (last es) \<Longrightarrow> find_entry k (butlast es) = find_entry k es"
  by (induction es) auto

section \<open>The invariant is kept\<close>

lemma lru_inv_new [inv_intros, simp]: "lru_inv (lru_new m t)"
  by (simp add: lru_inv_def keys_of_def lru_new_def)

lemma lru_inv_get [inv_intros]: "lru_inv c \<Longrightarrow> lru_inv (snd (lru_get now k c))"
proof -
  assume inv: "lru_inv c"
  then have d: "distinct (map e_key (remove_key k (entries c)))"
    by (simp add: lru_inv_def keys_of_def distinct_remove_key)
  have l: "length (remove_key k (entries c)) \<le> maxEntries c"
    using inv length_remove_key_le [of k "entries c"] by (simp add: lru_inv_def)
  show ?thesis
  proof (cases "find_entry k (entries c)")
    case None
    with inv show ?thesis by (simp add: lru_get_def)
  next
    case (Some e)
    then have mem: "k \<in> e_key ` set (entries c)" and ek: "e_key e = k"
      by (auto dest: find_entry_SomeD)
    from inv mem have "Suc (length (remove_key k (entries c))) \<le> maxEntries c"
      by (simp add: lru_inv_def keys_of_def length_remove_key_present)
    with Some d l ek show ?thesis
      by (auto simp: lru_get_def lru_inv_def keys_of_def set_remove_key)
  qed
qed

lemma lru_inv_set [inv_intros]: "lru_inv c \<Longrightarrow> lru_inv (lru_set now k v c)"
proof -
  assume inv: "lru_inv c"
  let ?es = "\<lparr>e_key = k, e_value = v, insertedAt = now, e_ttl = ttl c\<rparr> # remove_key k (entries c)"
  from inv have "distinct (map e_key ?es)"
    by (auto simp: lru_inv_def keys_of_def distinct_remove_key set_remove_key)
  then have "distinct (map e_key (take (maxEntries c) ?es))"
    by (simp only: take_map [symmetric] distinct_take)
  then show ?thesis
    by (simp add: lru_inv_def keys_of_def lru_set_def)
qed

lemma maxEntries_get [frame_simps, simp]: "maxEntries (snd (lru_get now k c)) = maxEntries c"
  by (simp add: lru_get_def split: option.splits)

lemma ttl_get [frame_simps, simp]: "ttl (snd (lru_get now k c)) = ttl c"
  by (simp add: lru_get_def split: option.splits)

lemma maxEntries_set [frame_simps, simp]: "maxEntries (lru_set now k v c) = maxEntries c"
  by (simp add: lru_set_def)

lemma ttl_set [frame_simps, simp]: "ttl (lru_set now k v c) = ttl c"
  by (simp add: lru_set_def)

section \<open>Reading\<close>

lemma lru_get_live: "fst (lru_get now k c) = live now c k"
  by (simp add: lru_get_def live_def split: option.splits)

lemma lru_get_miss_unchanged_keys:
  "fst (lru_get now k c) = None \<Longrightarrow> set (keys_of (snd (lru_get now k c))) \<subseteq> set (keys_of c)"
  by (auto simp: lru_get_def keys_of_def set_remove_key split: option.splits if_splits)

lemma live_after_get: "live now' (snd (lru_get now k c)) k' =
    (if k' = k \<and> live now c k = None then None else live now' c k')"
proof (cases "find_entry k (entries c)")
  case None
  then show ?thesis by (auto simp: lru_get_def live_def)
next
  case (Some e)
  then have "e_key e = k" by (auto dest: find_entry_SomeD)
  with Some show ?thesis by (auto simp: lru_get_def live_def)
qed

lemma lru_get_absent: "k \<notin> set (keys_of c) \<Longrightarrow> lru_get now k c = (None, c)"
  by (simp add: lru_get_def keys_of_def find_entry_None_iff [THEN iffD2])

lemma lru_get_hit_front:
  "fst (lru_get now k c) = Some v \<Longrightarrow> \<exists>e es. entries (snd (lru_get now k c)) = e # es \<and> e_key e = k"
  by (auto simp: lru_get_def split: option.splits if_splits dest: find_entry_SomeD)

lemma live_in_values: "live now c k = Some v \<Longrightarrow> v \<in> set (values_of c)"
  by (auto simp: live_def values_of_def split: option.splits if_splits dest: find_entry_SomeD)

lemma values_get_subset: "set (values_of (snd (lru_get now k c))) \<subseteq> set (values_of c)"
  by (auto simp: lru_get_def values_of_def set_remove_key split: option.splits
      dest: find_entry_SomeD)

lemma live_expires: "now \<le> now' \<Longrightarrow> live now c k = None \<Longrightarrow> live now' c k = None"
  by (auto simp: live_def expired_def split: option.splits if_splits)

section \<open>Writing\<close>

lemma values_set_subset: "set (values_of (lru_set now k v c)) \<subseteq> insert v (set (values_of c))"
  by (auto simp: lru_set_def values_of_def set_remove_key dest!: in_set_takeD)

lemma live_set_same:
  "0 < maxEntries c \<Longrightarrow> live now' (lru_set now k v c) k = (if now + ttl c < now' then None else Some v)"
  by (cases "maxEntries c") (simp_all add: lru_set_def live_def expired_def)

lemma lru_get_after_set:
  "0 < maxEntries c \<Longrightarrow> now' \<le> now + ttl c \<Longrightarrow> fst (lru_get now' k (lru_set now k v c)) = Some v"
  by (simp add: lru_get_live live_set_same)

lemma lru_get_after_set_expired:
  "0 < maxEntries c \<Longrightarrow> now + ttl c < now' \<Longrightarrow> fst (lru_get now' k (lru_set now k v c)) = None"
  by (simp add: lru_get_live live_set_same)

lemma entries_set_room:
  assumes "length (remove_key k (entries c)) < maxEntries c"
  shows "entries (lru_set now k v c) =
    \<lparr>e_key = k, e_value = v, insertedAt = now, e_ttl = ttl c\<rparr> # remove_key k (entries c)"
  using assms by (simp add: lru_set_def)

lemma live_set_other_room:
  assumes "k' \<noteq> k" and "length (remove_key k (entries c)) < maxEntries c"
  shows "live now' (lru_set now k v c) k' = live now' c k'"
  using assms by (simp add: live_def entries_set_room)

lemma entries_set_full:
  assumes "lru_inv c" and "length (entries c) = maxEntries c" and "k \<notin> set (keys_of c)"
    and "0 < maxEntries c"
  shows "entries (lru_set now k v c) =
    \<lparr>e_key = k, e_value = v, insertedAt = now, e_ttl = ttl c\<rparr> # butlast (entries c)"
proof -
  from assms(3) have "remove_key k (entries c) = entries c"
    by (simp add: keys_of_def remove_key_absent)
  moreover from assms(4) obtain m where m: "maxEntries c = Suc m" by (cases "maxEntries c") auto
  moreover from assms(2) m have "take m (entries c) = butlast (entries c)"
    by (simp add: butlast_conv_take)
  ultimately show ?thesis by (simp add: lru_set_def)
qed

lemma live_set_other_full:
  assumes "lru_inv c" and "length (entries c) = maxEntries c" and "k \<notin> set (keys_of c)"
    and "0 < maxEntries c" and "k' \<noteq> k"
  shows "live now' (lru_set now k v c) k' =
    (if k' = e_key (last (entries c)) then None else live now' c k')"
proof -
  from assms(2,4) have ne: "entries c \<noteq> []" by auto
  have es: "entries (lru_set now k v c) =
      \<lparr>e_key = k, e_value = v, insertedAt = now, e_ttl = ttl c\<rparr> # butlast (entries c)"
    using assms(1-4) by (rule entries_set_full)
  show ?thesis
  proof (cases "k' = e_key (last (entries c))")
    case True
    from assms(1) have "distinct (map e_key (entries c))" by (simp add: lru_inv_def keys_of_def)
    with ne have "e_key (last (entries c)) \<notin> e_key ` set (butlast (entries c))"
      by (metis append_butlast_last_id distinct_append distinct.simps(2) image_set
          disjoint_iff list.simps(15) list.simps(9) map_append insertI1)
    with True assms(5) show ?thesis
      by (simp add: live_def es find_entry_None_iff [THEN iffD2])
  next
    case False
    with ne assms(5) show ?thesis by (simp add: live_def es find_entry_butlast_other)
  qed
qed

section \<open>The cache as a table\<close>

text \<open>
  \<open>live now c\<close> is the table the cache stands for at one time. Time only takes entries
  out of it, a read leaves it as it is, and a write enters the written value and nothing
  else: whatever else the table holds afterwards it held before, the entry that the
  capacity has pushed out being gone.
\<close>

lemma live_mono: "now \<le> now' \<Longrightarrow> live now' c \<subseteq>\<^sub>m live now c"
  by (auto simp: map_le_def live_def expired_def split: option.splits if_splits)

lemma live_get_le: "now \<le> now' \<Longrightarrow> live now' (snd (lru_get now k c)) \<subseteq>\<^sub>m live now c"
  using live_mono [of now now' c] by (auto simp: map_le_def live_after_get split: if_splits)

lemma live_set_le:
  assumes "lru_inv c"
  shows "live now' (lru_set now k v c) \<subseteq>\<^sub>m (live now' c)(k \<mapsto> v)"
proof -
  let ?e = "\<lparr>e_key = k, e_value = v, insertedAt = now, e_ttl = ttl c\<rparr>"
  from assms have d: "distinct (map e_key (?e # remove_key k (entries c)))"
    by (auto simp: lru_inv_def keys_of_def distinct_remove_key set_remove_key)
  have other: "find_entry k' (entries c) = Some e"
    if "find_entry k' (entries (lru_set now k v c)) = Some e" and "k' \<noteq> k" for k' e
    using find_entry_take [OF d, of k' "maxEntries c" e] that by (simp add: lru_set_def)
  have same: "e_value e = v"
    if "find_entry k (entries (lru_set now k v c)) = Some e" for e
    using find_entry_take [OF d, of k "maxEntries c" e] that by (auto simp: lru_set_def)
  show ?thesis
    unfolding map_le_def
  proof
    fix k' assume "k' \<in> dom (live now' (lru_set now k v c))"
    then show "live now' (lru_set now k v c) k' = ((live now' c)(k \<mapsto> v)) k'"
      by (cases "k' = k") (auto simp: live_def split: option.splits if_splits dest: other same)
  qed
qed

end
