(* ===== verification/Upstream.thy ===== *)
theory Upstream
  imports WW_Types
begin

text \<open>
  The outside world as the provider adapters and the alert service see it: the HTTP
  requests they issue through \<open>axios\<close> and the JSON bodies that come back.

  \<^item> A \<open>request\<close> names the endpoint and the parameters the adapter puts into the URL.
  \<^item> The response bodies are records of the properties the adapters read from
    \<open>res.data\<close>. An object the adapter dereferences (\<open>d.location.name\<close>) is an
    \<open>option\<close>: reading through a missing one is the \<open>TypeError\<close> JavaScript throws. A
    property read with \<open>?.\<close>, \<open>??\<close> or \<open>||\<close>, or stored in an optional field, is an
    \<open>option\<close> too; a property used in arithmetic or stored in a required field is
    taken to be present.
  \<^item> A \<open>world\<close> answers a request sent at a given time with the time the answer takes
    and either a body or nothing (the promise is rejected: a network failure or a
    non-2xx status).
  \<^item> \<open>net_state\<close> is the part of the program state the outside world sees: the clock,
    the log of requests issued so far, and the warnings written to the console about
    providers (\<open>console_warn\<close>). \<open>axios_get\<close> (through \<open>sent\<close>) is the only operation
    that extends the log of requests, so the log counts the upstream calls of any run.
\<close>

section \<open>Requests\<close>

datatype request =
    WA_current string template
  | WA_forecast string template number
  | WA_history string template string
  | OW_weather string template string
  | OW_forecast string template string
  | Webhook string string

section \<open>WeatherAPI bodies\<close>

record wa_location =
  wl_name :: string
  wl_lat :: number
  wl_lon :: number
  wl_country :: "string option"

record wa_condition =
  wc_text :: "string option"
  wc_icon :: "string option"
  wc_code :: "number option"

record wa_current =
  last_updated :: "string option"
  temp_c :: number
  temp_f :: number
  feelslike_c :: "number option"
  feelslike_f :: "number option"
  wa_humidity :: "number option"
  wind_kph :: "number option"
  wind_mph :: "number option"
  wind_dir :: "string option"
  pressure_mb :: "number option"
  wa_uv :: "number option"
  wa_condition :: "wa_condition option"

record wa_day =
  avgtemp_c :: "number option"
  avgtemp_f :: "number option"
  maxtemp_c :: "number option"
  maxtemp_f :: "number option"
  mintemp_c :: "number option"
  mintemp_f :: "number option"
  daily_chance_of_rain :: "number option"
  daily_chance_of_snow :: "number option"
  avghumidity :: "number option"
  maxwind_kph :: "number option"
  maxwind_mph :: "number option"
  wd_condition :: "wa_condition option"

record wa_forecastday =
  fd_date :: string
  fd_day :: "wa_day option"

record wa_body =
  d_location :: "wa_location option"
  d_current :: "wa_current option"
  d_forecastday :: "wa_forecastday list option"

section \<open>OpenWeather bodies\<close>

record ow_coord =
  coord_lat :: number
  coord_lon :: number

record ow_main =
  main_temp :: number
  feels_like :: number
  main_humidity :: "number option"
  pressure :: "number option"

record ow_wind =
  speed :: number
  deg :: "number option"

record ow_weather =
  description :: "string option"
  icon :: "string option"
  weather_id :: "number option"

record ow_current_body =
  ow_name :: "string option"
  coord :: "ow_coord option"
  main :: "ow_main option"
  wind :: "ow_wind option"
  sys_country :: "string option"
  dt :: int
  weather :: "ow_weather list option"

record ow_item =
  item_dt :: int
  item_main :: "ow_main option"
  item_weather :: "ow_weather list option"
  rain_3h :: "number option"
  snow_3h :: "number option"

record ow_city =
  city_name :: "string option"
  city_coord :: "ow_coord option"
  city_country :: "string option"

record ow_forecast_body =
  ow_city :: "ow_city option"
  ow_list :: "ow_item list option"

section \<open>The world and the network state\<close>

datatype response =
    WA_body wa_body
  | OW_current_body ow_current_body
  | OW_forecast_body ow_forecast_body
  | Other_body

type_synonym world = "millis \<Rightarrow> request \<Rightarrow> millis \<times> response option"

text \<open>
  What the aggregator writes to the console when a provider fails inside a \<open>try\<close>: the
  operation (\<open>current\<close>, \<open>forecast\<close>, \<open>historical\<close>) and the error, whose message the
  source prints.
\<close>

datatype console_line = WeatherApiFailed string error

record net_state =
  clock :: millis
  calls :: "request list"
  warned :: "console_line list"

definition console_warn :: "console_line \<Rightarrow> net_state \<Rightarrow> net_state" where
  "console_warn l s = s\<lparr>warned := warned s @ [l]\<rparr>"

definition sent :: "world \<Rightarrow> request \<Rightarrow> net_state \<Rightarrow> net_state" where
  "sent w r s = s\<lparr>clock := clock s + fst (w (clock s) r), calls := calls s @ [r]\<rparr>"

definition axios_get :: "world \<Rightarrow> request \<Rightarrow> net_state \<Rightarrow> response result \<times> net_state" where
  "axios_get w r s =
     (case snd (w (clock s) r) of None \<Rightarrow> Inl AxiosError | Some b \<Rightarrow> Inr b, sent w r s)"

text \<open>
  \<open>grew k s s'\<close>: from \<open>s\<close> to \<open>s'\<close> at most \<open>k\<close> requests were issued, nothing logged
  before was rewritten, and the clock did not run backwards.
\<close>

definition grew :: "nat \<Rightarrow> net_state \<Rightarrow> net_state \<Rightarrow> bool" where
  "grew k s s' =
     (prefix (calls s) (calls s') \<and> length (calls s') \<le> length (calls s) + k \<and>
      clock s \<le> clock s')"

text \<open>\<open>d.weather?.[0]\<close>: the first element of an optional array.\<close>

definition first_weather :: "ow_weather list option \<Rightarrow> ow_weather option" where
  "first_weather ws = (case ws of None \<Rightarrow> None | Some [] \<Rightarrow> None | Some (x # _) \<Rightarrow> Some x)"

section \<open>Every request is logged, and time does not run backwards\<close>

lemma snd_axios_get [simp]: "snd (axios_get w r s) = sent w r s"
  by (simp add: axios_get_def)

lemma calls_sent [simp]: "calls (sent w r s) = calls s @ [r]"
  by (simp add: sent_def)

lemma clock_sent [simp]: "clock (sent w r s) = clock s + fst (w (clock s) r)"
  by (simp add: sent_def)

lemma clock_sent_mono: "clock s \<le> clock (sent w r s)"
  by simp

lemma console_warn_simps [simp]:
  "clock (console_warn l s) = clock s"
  "calls (console_warn l s) = calls s"
  "warned (console_warn l s) = warned s @ [l]"
  by (simp_all add: console_warn_def)

lemma warned_sent [simp]: "warned (sent w r s) = warned s"
  by (simp add: sent_def)

lemma sent_console_warn: "sent w r (console_warn l s) = console_warn l (sent w r s)"
  by (simp add: sent_def console_warn_def)

lemma axios_get_console_warn:
  "axios_get w r (console_warn l s) = (fst (axios_get w r s), console_warn l (snd (axios_get w r s)))"
  by (simp add: axios_get_def sent_console_warn)

lemma grew_console_warn [simp]:
  "grew k s (console_warn l s') = grew k s s'"
  "grew k (console_warn l s) s' = grew k s s'"
  by (simp_all add: grew_def)

lemma grew_refl [simp, intro]: "grew k s s"
  by (simp add: grew_def)

lemma grew_sent [simp, intro]: "grew (Suc k) s (sent w r s)"
  by (simp add: grew_def)

lemma grew_trans: "grew j a b \<Longrightarrow> grew k b c \<Longrightarrow> grew (j + k) a c"
  by (auto simp: grew_def elim: prefix_order.trans)

lemma grew_mono: "grew j a b \<Longrightarrow> j \<le> k \<Longrightarrow> grew k a b"
  by (auto simp: grew_def)

lemma grew_zero: "grew 0 a b \<Longrightarrow> calls b = calls a"
  by (auto simp: grew_def prefix_def)

lemma grew_calls: "grew k a b \<Longrightarrow> length (calls b) \<le> length (calls a) + k"
  by (simp add: grew_def)

lemma grew_clock: "grew k a b \<Longrightarrow> clock a \<le> clock b"
  by (simp add: grew_def)

lemma grew_axios_get [simp, intro]: "grew (Suc k) s (snd (axios_get w r s))"
  by simp

lemma axios_get_result:
  "fst (axios_get w r s) = (case snd (w (clock s) r) of None \<Rightarrow> Inl AxiosError | Some b \<Rightarrow> Inr b)"
  by (simp add: axios_get_def)

lemma axios_get_Inl: "fst (axios_get w r s) = Inl e \<Longrightarrow> e = AxiosError"
  by (auto simp: axios_get_result split: option.splits)

lemma first_weather_simps [simp]:
  "first_weather None = None"
  "first_weather (Some []) = None"
  "first_weather (Some (x # xs)) = Some x"
  by (simp_all add: first_weather_def)

end
