(* ===== verification/Samples.thy ===== *)
theory Samples
  imports Upstream
begin

text \<open>
  Concrete inputs on which the theorems of the development are applied: a query, the
  bodies the two providers could return for it, three worlds (both providers answer;
  WeatherAPI is down and OpenWeather answers; nothing answers) and the configurations
  with every combination of provider keys. The forecast body of OpenWeather holds four
  three-hour samples on the first day, two of them with rain, and two dry samples on the
  second, given out of order.
\<close>

section \<open>Queries and configurations\<close>

definition male_query :: LocationQuery where
  "male_query = \<lparr>city = Some ''Male'', country = Some ''MV'', lat = None, lon = None\<rparr>"

definition coords_query :: LocationQuery where
  "coords_query = \<lparr>city = None, country = None, lat = Some 4, lon = Some 73\<rparr>"

definition empty_query :: LocationQuery where
  "empty_query = \<lparr>city = None, country = None, lat = None, lon = None\<rparr>"

definition cfg_none :: config where
  "cfg_none = default_config"

definition cfg_wa :: config where
  "cfg_wa = default_config\<lparr>weatherApiKey := ''wa-key''\<rparr>"

definition cfg_ow :: config where
  "cfg_ow = default_config\<lparr>openWeatherApiKey := ''ow-key''\<rparr>"

definition cfg_both :: config where
  "cfg_both = default_config\<lparr>weatherApiKey := ''wa-key'', openWeatherApiKey := ''ow-key''\<rparr>"

section \<open>Bodies\<close>

definition sunny :: wa_condition where
  "sunny = \<lparr>wc_text = Some ''Sunny'', wc_icon = Some ''//cdn/113.png'', wc_code = Some 1000\<rparr>"

definition wa_now :: wa_current where
  "wa_now =
     \<lparr>last_updated = Some ''2024-01-01 12:00'', temp_c = 30, temp_f = 86,
      feelslike_c = Some 33, feelslike_f = Some 91, wa_humidity = Some 70,
      wind_kph = Some 18, wind_mph = Some 11, wind_dir = Some ''NE'',
      pressure_mb = Some 1010, wa_uv = Some 9, wa_condition = Some sunny\<rparr>"

definition wa_day1 :: wa_day where
  "wa_day1 =
     \<lparr>avgtemp_c = Some 29, avgtemp_f = Some 84, maxtemp_c = Some 31, maxtemp_f = Some 88,
      mintemp_c = Some 27, mintemp_f = Some 81, daily_chance_of_rain = Some 40,
      daily_chance_of_snow = Some 0, avghumidity = Some 75, maxwind_kph = Some 20,
      maxwind_mph = Some 12, wd_condition = Some sunny\<rparr>"

definition wa_male :: wa_body where
  "wa_male =
     \<lparr>d_location = Some \<lparr>wl_name = ''Male'', wl_lat = 4, wl_lon = 73, wl_country = Some ''Maldives''\<rparr>,
      d_current = Some wa_now,
      d_forecastday =
        Some [\<lparr>fd_date = ''2024-01-02'', fd_day = Some wa_day1\<rparr>,
              \<lparr>fd_date = ''2024-01-01'', fd_day = Some wa_day1\<rparr>,
              \<lparr>fd_date = ''2024-01-03'', fd_day = None\<rparr>,
              \<lparr>fd_date = ''2024-01-04'', fd_day = Some wa_day1\<rparr>]\<rparr>"

definition clouds :: ow_weather where
  "clouds = \<lparr>description = Some ''few clouds'', icon = Some ''02d'', weather_id = Some 801\<rparr>"

definition ow_male :: ow_current_body where
  "ow_male =
     \<lparr>ow_name = Some ''Male'', coord = Some \<lparr>coord_lat = 4, coord_lon = 73\<rparr>,
      main = Some \<lparr>main_temp = 30, feels_like = 35, main_humidity = Some 70, pressure = Some 1010\<rparr>,
      wind = Some \<lparr>speed = 5, deg = Some 45\<rparr>, sys_country = Some ''MV'',
      dt = 1704110400, weather = Some [clouds]\<rparr>"

definition slot :: "int \<Rightarrow> number \<Rightarrow> number option \<Rightarrow> ow_item" where
  "slot t temp rain =
     \<lparr>item_dt = t, item_main = Some \<lparr>main_temp = temp, feels_like = temp, main_humidity = None,
        pressure = None\<rparr>,
      item_weather = Some [clouds], rain_3h = rain, snow_3h = None\<rparr>"

definition ow_male_forecast :: ow_forecast_body where
  "ow_male_forecast =
     \<lparr>ow_city = Some \<lparr>city_name = Some ''Male'', city_coord = Some \<lparr>coord_lat = 4, coord_lon = 73\<rparr>,
        city_country = Some ''MV''\<rparr>,
      ow_list =
        Some [slot 1704153600 28 None, slot 1704067200 26 (Some 2), slot 1704078000 28 None,
              slot 1704088800 30 (Some 1), slot 1704099600 32 None, slot 1704164400 30 None]\<rparr>"

section \<open>The normalized records these bodies stand for\<close>

definition wa_male_now :: CurrentWeather where
  "wa_male_now =
     \<lparr>provider = ''weatherapi'',
      location = \<lparr>name = [Lit ''Male''], loc_lat = 4, loc_lon = 73, loc_country = Some ''Maldives''\<rparr>,
      observedAt = ParsedDate ''2024-01-01 12:00'', temperatureC = 30, temperatureF = 86,
      feelsLikeC = Some 33, feelsLikeF = Some 91, humidity = Some 70, windKph = Some 18,
      windMph = Some 11, windDir = Some [Lit ''NE''], pressureMb = Some 1010, uv = Some 9,
      condition = \<lparr>cond_text = Some ''Sunny'', cond_iconUrl = Some ''//cdn/113.png'',
                    cond_code = Some 1000\<rparr>\<rparr>"

definition few_clouds :: Condition where
  "few_clouds =
     \<lparr>cond_text = Some ''few clouds'',
      cond_iconUrl = Some ''https://openweathermap.org/img/wn/02d@2x.png'',
      cond_code = Some 801\<rparr>"

definition ow_male_now :: CurrentWeather where
  "ow_male_now =
     \<lparr>provider = ''openweather'',
      location = \<lparr>name = [Lit ''Male''], loc_lat = 4, loc_lon = 73, loc_country = Some ''MV''\<rparr>,
      observedAt = EpochSeconds 1704110400, temperatureC = 30, temperatureF = 86,
      feelsLikeC = Some 35, feelsLikeF = Some 95, humidity = Some 70, windKph = Some 18,
      windMph = Some (18 / 1.60934), windDir = Some [Num 45, Lit [CHR 0xC2, CHR 0xB0]],
      pressureMb = Some 1010, uv = None, condition = few_clouds\<rparr>"

definition ow_male_days :: Forecast where
  "ow_male_days =
     \<lparr>f_provider = ''openweather'',
      f_location = \<lparr>name = [Lit ''Male''], loc_lat = 4, loc_lon = 73, loc_country = Some ''MV''\<rparr>,
      days =
        [\<lparr>date = ''2024-01-01'', avgTempC = Some 29, avgTempF = Some (421 / 5),
           maxTempC = Some 32, maxTempF = Some (448 / 5), minTempC = Some 26,
           minTempF = Some (394 / 5), chanceOfRainPct = Some 50, chanceOfSnowPct = Some 0,
           day_condition = Some few_clouds\<rparr>,
         \<lparr>date = ''2024-01-02'', avgTempC = Some 29, avgTempF = Some (421 / 5),
           maxTempC = Some 30, maxTempF = Some 86, minTempC = Some 28,
           minTempF = Some (412 / 5), chanceOfRainPct = Some 0, chanceOfSnowPct = Some 0,
           day_condition = Some few_clouds\<rparr>]\<rparr>"

section \<open>Worlds\<close>

definition world_ok :: world where
  "world_ok t r =
     (120,
      Some (case r of
              WA_current _ _ \<Rightarrow> WA_body wa_male
            | WA_forecast _ _ _ \<Rightarrow> WA_body wa_male
            | WA_history _ _ _ \<Rightarrow> WA_body wa_male
            | OW_weather _ _ _ \<Rightarrow> OW_current_body ow_male
            | OW_forecast _ _ _ \<Rightarrow> OW_forecast_body ow_male_forecast
            | Webhook _ _ \<Rightarrow> Other_body))"

definition world_down :: world where
  "world_down t r = (30, None)"

definition world_wa_down :: world where
  "world_wa_down t r =
     (case r of
        OW_weather _ _ _ \<Rightarrow> world_ok t r
      | OW_forecast _ _ _ \<Rightarrow> world_ok t r
      | _ \<Rightarrow> world_down t r)"

named_theorems sample_defs "the sample inputs"

lemmas [sample_defs] =
  male_query_def coords_query_def empty_query_def cfg_none_def cfg_wa_def cfg_ow_def cfg_both_def
  default_config_def sunny_def wa_now_def wa_day1_def wa_male_def clouds_def ow_male_def slot_def
  ow_male_forecast_def world_ok_def world_down_def world_wa_down_def wa_male_now_def
  few_clouds_def ow_male_now_def ow_male_days_def

lemma world_ok_simps [simp]:
  "world_ok t (WA_current k q) = (120, Some (WA_body wa_male))"
  "world_ok t (WA_forecast k q n) = (120, Some (WA_body wa_male))"
  "world_ok t (WA_history k q d) = (120, Some (WA_body wa_male))"
  "world_ok t (OW_weather k q u) = (120, Some (OW_current_body ow_male))"
  "world_ok t (OW_forecast k q u) = (120, Some (OW_forecast_body ow_male_forecast))"
  by (simp_all add: world_ok_def)

lemma world_down_simp [simp]: "world_down t r = (30, None)"
  by (simp add: world_down_def)

lemma world_wa_down_simps [simp]:
  "world_wa_down t (WA_current k q) = (30, None)"
  "world_wa_down t (WA_forecast k q n) = (30, None)"
  "world_wa_down t (WA_history k q d) = (30, None)"
  "world_wa_down t (OW_weather k q u) = (120, Some (OW_current_body ow_male))"
  "world_wa_down t (OW_forecast k q u) = (120, Some (OW_forecast_body ow_male_forecast))"
  by (simp_all add: world_wa_down_def)

lemma cfg_keys [simp]:
  "weatherApiKey cfg_none = []" "openWeatherApiKey cfg_none = []"
  "weatherApiKey cfg_wa = ''wa-key''" "openWeatherApiKey cfg_wa = []"
  "weatherApiKey cfg_ow = []" "openWeatherApiKey cfg_ow = ''ow-key''"
  "weatherApiKey cfg_both = ''wa-key''" "openWeatherApiKey cfg_both = ''ow-key''"
  by (simp_all add: cfg_none_def cfg_wa_def cfg_ow_def cfg_both_def default_config_def)

lemma cfg_defaults [simp]:
  "defaultUnits cfg_none = metric" "defaultUnits cfg_wa = metric"
  "defaultUnits cfg_ow = metric" "defaultUnits cfg_both = metric"
  "cacheTtlSeconds cfg_both = 600" "forecastCacheTtlSeconds cfg_both = 10800"
  "forecastCacheTtlSeconds cfg_wa = 10800" "forecastCacheTtlSeconds cfg_ow = 10800"
  "forecastCacheTtlSeconds cfg_none = 10800"
  "alertPollIntervalSeconds cfg_wa = 600" "alertPollIntervalSeconds cfg_both = 600"
  "cacheTtlSeconds cfg_wa = 600" "cacheTtlSeconds cfg_ow = 600" "cacheTtlSeconds cfg_none = 600"
  by (simp_all add: cfg_none_def cfg_wa_def cfg_ow_def cfg_both_def default_config_def)

end
