(* ===== verification/Provider_WeatherApi.thy ===== *)
theory Provider_WeatherApi
  imports Samples
begin

text \<open>
  The WeatherAPI adapter, \<open>weather/providers/weatherApi.ts\<close> (imported by the
  aggregator as \<open>wa\<close>, hence the prefix of \<open>wa_getCurrent\<close>, \<open>wa_getForecast\<close> and
  \<open>wa_getHistorical\<close>).

  Each operation resolves the query (\<open>resolveQuery\<close>, which throws before any request
  is made), issues one request and maps the body to a normalized record
  (\<open>wa_current_of\<close>, \<open>wa_forecast_of\<close>, \<open>wa_historical_of\<close>: the object literal each
  function returns). A body without the object the literal dereferences gives
  \<open>TypeError\<close>. \<open>new Date(s).toISOString()\<close> stays symbolic (\<open>ParsedDate s\<close>), so the
  \<open>RangeError\<close> of an unparsable date string is outside the model.

  The lemmas give the branches of \<open>resolveQuery\<close>, the number of requests each
  operation issues, the provider tag of every result, and what the forecast and the
  historical record contain.
\<close>

section \<open>Resolving the query\<close>

definition resolveQuery :: "LocationQuery \<Rightarrow> template result" where
  "resolveQuery q =
     (case (lat q, lon q) of
        (Some la, Some lo) \<Rightarrow> Inr [Num la, Lit '','', Num lo]
      | _ \<Rightarrow>
          if truthy (city q)
          then Inr [Lit (if truthy (country q)
                         then nullish (city q) [] @ '','' @ nullish (country q) []
                         else nullish (city q) [])]
          else Inl (ProvideCityOrLatLon ''WeatherAPI: provide city or lat/lon''))"

section \<open>Mapping a body to normalized records\<close>

definition wa_loc :: "wa_location \<Rightarrow> Location" where
  "wa_loc l =
     \<lparr>name = [Lit (wl_name l)], loc_lat = wl_lat l, loc_lon = wl_lon l,
      loc_country = wl_country l\<rparr>"

definition wa_cond :: "wa_condition option \<Rightarrow> Condition" where
  "wa_cond c =
     \<lparr>cond_text = Option.bind c wc_text, cond_iconUrl = Option.bind c wc_icon,
      cond_code = Option.bind c wc_code\<rparr>"

definition wa_current_of :: "millis \<Rightarrow> wa_body \<Rightarrow> CurrentWeather result" where
  "wa_current_of now d =
     (case d_location d of
        None \<Rightarrow> Inl TypeError
      | Some l \<Rightarrow>
          (case d_current d of
             None \<Rightarrow> Inl TypeError
           | Some c \<Rightarrow>
               Inr \<lparr>provider = ''weatherapi'',
                    location = wa_loc l,
                    observedAt = (if truthy (last_updated c)
                                  then ParsedDate (nullish (last_updated c) []) else Now now),
                    temperatureC = temp_c c,
                    temperatureF = temp_f c,
                    feelsLikeC = feelslike_c c,
                    feelsLikeF = feelslike_f c,
                    humidity = wa_humidity c,
                    windKph = wind_kph c,
                    windMph = wind_mph c,
                    windDir = map_option (\<lambda>s. [Lit s]) (wind_dir c),
                    pressureMb = pressure_mb c,
                    uv = wa_uv c,
                    condition = wa_cond (wa_condition c)\<rparr>))"

definition wa_day_of :: "wa_forecastday \<Rightarrow> ForecastDay" where
  "wa_day_of fd =
     \<lparr>date = fd_date fd,
      avgTempC = Option.bind (fd_day fd) avgtemp_c,
      avgTempF = Option.bind (fd_day fd) avgtemp_f,
      maxTempC = Option.bind (fd_day fd) maxtemp_c,
      maxTempF = Option.bind (fd_day fd) maxtemp_f,
      minTempC = Option.bind (fd_day fd) mintemp_c,
      minTempF = Option.bind (fd_day fd) mintemp_f,
      chanceOfRainPct = Option.bind (fd_day fd) daily_chance_of_rain,
      chanceOfSnowPct = Option.bind (fd_day fd) daily_chance_of_snow,
      day_condition = Some (wa_cond (Option.bind (fd_day fd) wd_condition))\<rparr>"

definition wa_forecast_of :: "wa_body \<Rightarrow> Forecast result" where
  "wa_forecast_of d =
     (let daysOut = map wa_day_of (nullish (d_forecastday d) [])
      in case d_location d of
           None \<Rightarrow> Inl TypeError
         | Some l \<Rightarrow> Inr \<lparr>f_provider = ''weatherapi'', f_location = wa_loc l, days = daysOut\<rparr>)"

definition first_day :: "wa_body \<Rightarrow> wa_forecastday option" where
  "first_day d = (case d_forecastday d of None \<Rightarrow> None | Some [] \<Rightarrow> None | Some (x # _) \<Rightarrow> Some x)"

definition wa_historical_of :: "millis \<Rightarrow> string \<Rightarrow> wa_body \<Rightarrow> HistoricalWeather result" where
  "wa_historical_of now dateISO d =
     (let day = first_day d;
          dd = Option.bind day fd_day;
          cur = d_current d;
          day_date = map_option fd_date day
      in case d_location d of
           None \<Rightarrow> Inl TypeError
         | Some l \<Rightarrow>
             Inr \<lparr>provider = ''weatherapi'',
                  location = wa_loc l,
                  observedAt = (if truthy day_date then ParsedDate (nullish day_date []) else Now now),
                  temperatureC = nullish (Option.bind dd avgtemp_c) (nullish (map_option temp_c cur) 0),
                  temperatureF = nullish (Option.bind dd avgtemp_f) (nullish (map_option temp_f cur) 0),
                  feelsLikeC = Option.bind cur feelslike_c,
                  feelsLikeF = Option.bind cur feelslike_f,
                  humidity = (case Option.bind dd avghumidity of
                                Some h \<Rightarrow> Some h | None \<Rightarrow> Option.bind cur wa_humidity),
                  windKph = (case Option.bind dd maxwind_kph of
                               Some v \<Rightarrow> Some v | None \<Rightarrow> Option.bind cur wind_kph),
                  windMph = (case Option.bind dd maxwind_mph of
                               Some v \<Rightarrow> Some v | None \<Rightarrow> Option.bind cur wind_mph),
                  windDir = map_option (\<lambda>s. [Lit s]) (Option.bind cur wind_dir),
                  pressureMb = Option.bind cur pressure_mb,
                  uv = Option.bind cur wa_uv,
                  condition = wa_cond (Option.bind dd wd_condition),
                  h_date = nullish (or_else day_date (Some (take 10 dateISO))) []\<rparr>)"

section \<open>The three operations\<close>

definition wa_body_of :: "response \<Rightarrow> wa_body" where
  "wa_body_of r =
     (case r of
        WA_body d \<Rightarrow> d
      | _ \<Rightarrow> \<lparr>d_location = None, d_current = None, d_forecastday = None\<rparr>)"

definition wa_getCurrent ::
  "config \<Rightarrow> world \<Rightarrow> LocationQuery \<Rightarrow> net_state \<Rightarrow> CurrentWeather result \<times> net_state" where
  "wa_getCurrent cfg w q s =
     (case resolveQuery q of
        Inl e \<Rightarrow> (Inl e, s)
      | Inr qStr \<Rightarrow>
          (case axios_get w (WA_current (weatherApiKey cfg) qStr) s of
             (Inl e, s') \<Rightarrow> (Inl e, s')
           | (Inr r, s') \<Rightarrow> (wa_current_of (clock s') (wa_body_of r), s')))"

definition wa_getForecast ::
  "config \<Rightarrow> world \<Rightarrow> LocationQuery \<Rightarrow> number \<Rightarrow> net_state \<Rightarrow> Forecast result \<times> net_state" where
  "wa_getForecast cfg w q n s =
     (case resolveQuery q of
        Inl e \<Rightarrow> (Inl e, s)
      | Inr qStr \<Rightarrow>
          (case axios_get w (WA_forecast (weatherApiKey cfg) qStr n) s of
             (Inl e, s') \<Rightarrow> (Inl e, s')
           | (Inr r, s') \<Rightarrow> (wa_forecast_of (wa_body_of r), s')))"

definition wa_getHistorical ::
  "config \<Rightarrow> world \<Rightarrow> LocationQuery \<Rightarrow> string \<Rightarrow> net_state \<Rightarrow> HistoricalWeather result \<times> net_state" where
  "wa_getHistorical cfg w q dateISO s =
     (case resolveQuery q of
        Inl e \<Rightarrow> (Inl e, s)
      | Inr qStr \<Rightarrow>
          (case axios_get w (WA_history (weatherApiKey cfg) qStr (take 10 dateISO)) s of
             (Inl e, s') \<Rightarrow> (Inl e, s')
           | (Inr r, s') \<Rightarrow> (wa_historical_of (clock s') dateISO (wa_body_of r), s')))"

named_theorems wa_defs "definitions of the WeatherAPI adapter"

lemmas [wa_defs] =
  wa_loc_def wa_cond_def wa_current_of_def wa_day_of_def wa_forecast_of_def first_day_def
  wa_historical_of_def wa_body_of_def wa_getCurrent_def wa_getForecast_def wa_getHistorical_def

section \<open>Branches of the query resolution\<close>

lemma resolveQuery_coords [simp]:
  "lat q = Some la \<Longrightarrow> lon q = Some lo \<Longrightarrow> resolveQuery q = Inr [Num la, Lit '','', Num lo]"
  by (simp add: resolveQuery_def)

lemma resolveQuery_city:
  assumes "lat q = None \<or> lon q = None" and "city q = Some c" and "c \<noteq> []"
  shows "resolveQuery q =
    Inr [Lit (case country q of None \<Rightarrow> c | Some co \<Rightarrow> if co = [] then c else c @ '','' @ co)]"
  using assms by (auto simp: resolveQuery_def split: option.splits)

lemma resolveQuery_error_iff:
  "(\<exists>e. resolveQuery q = Inl e) \<longleftrightarrow> (lat q = None \<or> lon q = None) \<and> \<not> truthy (city q)"
  by (auto simp: resolveQuery_def split: option.splits)

lemma resolveQuery_Inl:
  "resolveQuery q = Inl e \<Longrightarrow> e = ProvideCityOrLatLon ''WeatherAPI: provide city or lat/lon''"
  by (auto simp: resolveQuery_def split: option.splits if_splits)

section \<open>Requests issued\<close>

lemma wa_getCurrent_calls:
  "calls (snd (wa_getCurrent cfg w q s)) =
    (case resolveQuery q of
       Inl _ \<Rightarrow> calls s
     | Inr qStr \<Rightarrow> calls s @ [WA_current (weatherApiKey cfg) qStr])"
  by (simp add: wa_getCurrent_def axios_get_def split: sum.splits option.splits)

lemma wa_getForecast_calls:
  "calls (snd (wa_getForecast cfg w q n s)) =
    (case resolveQuery q of
       Inl _ \<Rightarrow> calls s
     | Inr qStr \<Rightarrow> calls s @ [WA_forecast (weatherApiKey cfg) qStr n])"
  by (simp add: wa_getForecast_def axios_get_def split: sum.splits option.splits)

lemma wa_getHistorical_calls:
  "calls (snd (wa_getHistorical cfg w q dateISO s)) =
    (case resolveQuery q of
       Inl _ \<Rightarrow> calls s
     | Inr qStr \<Rightarrow> calls s @ [WA_history (weatherApiKey cfg) qStr (take 10 dateISO)])"
  by (simp add: wa_getHistorical_def axios_get_def split: sum.splits option.splits)

lemma wa_getCurrent_clock_mono: "clock s \<le> clock (snd (wa_getCurrent cfg w q s))"
  by (simp add: wa_getCurrent_def axios_get_def split: sum.splits option.splits)

lemma wa_getForecast_clock_mono: "clock s \<le> clock (snd (wa_getForecast cfg w q n s))"
  by (simp add: wa_getForecast_def axios_get_def split: sum.splits option.splits)

lemma wa_getHistorical_clock_mono: "clock s \<le> clock (snd (wa_getHistorical cfg w q dateISO s))"
  by (simp add: wa_getHistorical_def axios_get_def split: sum.splits option.splits)

lemma wa_getCurrent_state:
  "snd (wa_getCurrent cfg w q s) =
    (case resolveQuery q of Inl _ \<Rightarrow> s | Inr qStr \<Rightarrow> sent w (WA_current (weatherApiKey cfg) qStr) s)"
  by (simp add: wa_getCurrent_def axios_get_def split: sum.splits option.splits)

lemma wa_getForecast_state:
  "snd (wa_getForecast cfg w q n s) =
    (case resolveQuery q of
       Inl _ \<Rightarrow> s | Inr qStr \<Rightarrow> sent w (WA_forecast (weatherApiKey cfg) qStr n) s)"
  by (simp add: wa_getForecast_def axios_get_def split: sum.splits option.splits)

lemma wa_getHistorical_state:
  "snd (wa_getHistorical cfg w q dateISO s) =
    (case resolveQuery q of
       Inl _ \<Rightarrow> s
     | Inr qStr \<Rightarrow> sent w (WA_history (weatherApiKey cfg) qStr (take 10 dateISO)) s)"
  by (simp add: wa_getHistorical_def axios_get_def split: sum.splits option.splits)

lemma wa_grew [simp, intro]:
  "grew (Suc k) s (snd (wa_getCurrent cfg w q s))"
  "grew (Suc k) s (snd (wa_getForecast cfg w q n s))"
  "grew (Suc k) s (snd (wa_getHistorical cfg w q dateISO s))"
  by (simp_all add: wa_getCurrent_state wa_getForecast_state wa_getHistorical_state
      split: sum.splits)

lemma wa_warned [simp]:
  "warned (snd (wa_getCurrent cfg w q s)) = warned s"
  "warned (snd (wa_getForecast cfg w q n s)) = warned s"
  "warned (snd (wa_getHistorical cfg w q dateISO s)) = warned s"
  by (simp_all add: wa_getCurrent_state wa_getForecast_state wa_getHistorical_state
      split: sum.splits)

section \<open>Results\<close>

lemma wa_current_of_provider: "wa_current_of now d = Inr c \<Longrightarrow> provider c = ''weatherapi''"
  by (auto simp: wa_current_of_def split: option.splits)

lemma wa_forecast_of_provider: "wa_forecast_of d = Inr f \<Longrightarrow> f_provider f = ''weatherapi''"
  by (auto simp: wa_forecast_of_def split: option.splits)

lemma wa_historical_of_provider:
  "wa_historical_of now dateISO d = Inr h \<Longrightarrow> provider h = ''weatherapi''"
  by (auto simp: wa_historical_of_def Let_def split: option.splits)

lemma wa_getCurrent_provider:
  "fst (wa_getCurrent cfg w q s) = Inr c \<Longrightarrow> provider c = ''weatherapi''"
  by (auto simp: wa_getCurrent_def axios_get_def split: sum.splits option.splits
      dest: wa_current_of_provider)

lemma wa_getForecast_provider:
  "fst (wa_getForecast cfg w q n s) = Inr f \<Longrightarrow> f_provider f = ''weatherapi''"
  by (auto simp: wa_getForecast_def axios_get_def split: sum.splits option.splits
      dest: wa_forecast_of_provider)

lemma wa_getHistorical_provider:
  "fst (wa_getHistorical cfg w q dateISO s) = Inr h \<Longrightarrow> provider h = ''weatherapi''"
  by (auto simp: wa_getHistorical_def axios_get_def split: sum.splits option.splits
      dest: wa_historical_of_provider)

lemma wa_current_of_temps:
  "wa_current_of now d = Inr c \<Longrightarrow>
    \<exists>cur. d_current d = Some cur \<and> temperatureC c = temp_c cur \<and> temperatureF c = temp_f cur"
  by (auto simp: wa_current_of_def split: option.splits)

lemma wa_current_of_error_iff:
  "(\<exists>e. wa_current_of now d = Inl e) \<longleftrightarrow> d_location d = None \<or> d_current d = None"
  by (auto simp: wa_current_of_def split: option.splits)

lemma wa_forecast_of_days:
  "wa_forecast_of d = Inr f \<Longrightarrow> days f = map wa_day_of (nullish (d_forecastday d) [])"
  by (auto simp: wa_forecast_of_def Let_def split: option.splits)

lemma wa_forecast_of_dates:
  "wa_forecast_of d = Inr f \<Longrightarrow> map date (days f) = map fd_date (nullish (d_forecastday d) [])"
  by (auto simp: wa_forecast_of_def wa_day_of_def Let_def split: option.splits)

lemma wa_historical_of_temperatureC:
  "wa_historical_of now dateISO d = Inr h \<Longrightarrow>
    temperatureC h =
      (case Option.bind (Option.bind (first_day d) fd_day) avgtemp_c of
         Some t \<Rightarrow> t
       | None \<Rightarrow> (case d_current d of Some c \<Rightarrow> temp_c c | None \<Rightarrow> 0))"
  by (auto simp: wa_historical_of_def Let_def split: option.splits)

lemma wa_historical_of_date:
  "wa_historical_of now dateISO d = Inr h \<Longrightarrow>
    h_date h = (case first_day d of
                  None \<Rightarrow> take 10 dateISO
                | Some fd \<Rightarrow> if fd_date fd = [] then take 10 dateISO else fd_date fd)"
  by (auto simp: wa_historical_of_def Let_def split: option.splits)

section \<open>The request is answered or rejected\<close>

lemma wa_getCurrent_answered:
  assumes "resolveQuery q = Inr qStr"
    and "snd (w (clock s) (WA_current (weatherApiKey cfg) qStr)) = Some (WA_body d)"
  shows "wa_getCurrent cfg w q s =
    (wa_current_of (clock (sent w (WA_current (weatherApiKey cfg) qStr) s)) d,
     sent w (WA_current (weatherApiKey cfg) qStr) s)"
  using assms by (simp add: wa_getCurrent_def axios_get_def wa_body_of_def)

lemma wa_getCurrent_rejected:
  assumes "resolveQuery q = Inr qStr"
    and "snd (w (clock s) (WA_current (weatherApiKey cfg) qStr)) = None"
  shows "wa_getCurrent cfg w q s = (Inl AxiosError, sent w (WA_current (weatherApiKey cfg) qStr) s)"
  using assms by (simp add: wa_getCurrent_def axios_get_def)

lemma wa_getForecast_answered:
  assumes "resolveQuery q = Inr qStr"
    and "snd (w (clock s) (WA_forecast (weatherApiKey cfg) qStr n)) = Some (WA_body d)"
  shows "wa_getForecast cfg w q n s =
    (wa_forecast_of d, sent w (WA_forecast (weatherApiKey cfg) qStr n) s)"
  using assms by (simp add: wa_getForecast_def axios_get_def wa_body_of_def)

lemma wa_getForecast_rejected:
  assumes "resolveQuery q = Inr qStr"
    and "snd (w (clock s) (WA_forecast (weatherApiKey cfg) qStr n)) = None"
  shows "wa_getForecast cfg w q n s =
    (Inl AxiosError, sent w (WA_forecast (weatherApiKey cfg) qStr n) s)"
  using assms by (simp add: wa_getForecast_def axios_get_def)

lemma wa_getHistorical_answered:
  assumes "resolveQuery q = Inr qStr"
    and "snd (w (clock s) (WA_history (weatherApiKey cfg) qStr (take 10 dateISO))) = Some (WA_body d)"
  shows "wa_getHistorical cfg w q dateISO s =
    (wa_historical_of (clock (sent w (WA_history (weatherApiKey cfg) qStr (take 10 dateISO)) s))
       dateISO d,
     sent w (WA_history (weatherApiKey cfg) qStr (take 10 dateISO)) s)"
  using assms by (simp add: wa_getHistorical_def axios_get_def wa_body_of_def)

lemma wa_getHistorical_rejected:
  assumes "resolveQuery q = Inr qStr"
    and "snd (w (clock s) (WA_history (weatherApiKey cfg) qStr (take 10 dateISO))) = None"
  shows "wa_getHistorical cfg w q dateISO s =
    (Inl AxiosError, sent w (WA_history (weatherApiKey cfg) qStr (take 10 dateISO)) s)"
  using assms by (simp add: wa_getHistorical_def axios_get_def)

lemma wa_errors:
  "fst (wa_getCurrent cfg w q s) = Inl e \<Longrightarrow> e \<noteq> NoWeatherProvider \<and> e \<noteq> HistoricalNotAvailable"
  "fst (wa_getForecast cfg w q n s) = Inl e \<Longrightarrow> e \<noteq> NoWeatherProvider \<and> e \<noteq> HistoricalNotAvailable"
  "fst (wa_getHistorical cfg w q dateISO s) = Inl e \<Longrightarrow>
    e \<noteq> NoWeatherProvider \<and> e \<noteq> HistoricalNotAvailable"
  by (auto simp: wa_defs axios_get_def Let_def dest: resolveQuery_Inl
      split: sum.splits option.splits if_splits prod.splits)

section \<open>The sample query\<close>

lemma resolveQuery_male [simp]: "resolveQuery male_query = Inr [Lit ''Male,MV'']"
  by (simp add: resolveQuery_def male_query_def)

lemma wa_current_of_male [simp]: "wa_current_of now wa_male = Inr wa_male_now"
  by (simp add: wa_current_of_def wa_loc_def wa_cond_def sample_defs)

lemma wa_getCurrent_male:
  "wa_getCurrent cfg world_ok male_query s =
    (Inr wa_male_now, sent world_ok (WA_current (weatherApiKey cfg) [Lit ''Male,MV'']) s)"
  by (simp add: wa_getCurrent_answered [where d = wa_male])

lemma wa_getCurrent_male_down:
  "wa_getCurrent cfg world_down male_query s =
    (Inl AxiosError, sent world_down (WA_current (weatherApiKey cfg) [Lit ''Male,MV'']) s)"
  "wa_getCurrent cfg world_wa_down male_query s =
    (Inl AxiosError, sent world_wa_down (WA_current (weatherApiKey cfg) [Lit ''Male,MV'']) s)"
  by (simp_all add: wa_getCurrent_rejected)

section \<open>Properties\<close>

text \<open>
  A query with neither a complete coordinate pair nor a non-empty city is rejected
  by the WeatherAPI adapter before any request is issued: the result is the adapter's
  own error and the state, request log included, is unchanged.
\<close>

theorem wa_invalid_query_no_request:
  assumes "lat q = None \<or> lon q = None" and "\<not> truthy (city q)"
  shows "wa_getCurrent cfg w q s =
    (Inl (ProvideCityOrLatLon ''WeatherAPI: provide city or lat/lon''), s)"
  using assms by (auto simp: wa_getCurrent_def resolveQuery_def split: option.splits)

theorem wa_invalid_query_no_request_witness:
  "wa_getCurrent default_config (\<lambda>_ _. (0, None))
     \<lparr>city = Some [], country = Some ''FR'', lat = Some 48, lon = None\<rparr>
     \<lparr>clock = 5, calls = [], warned = []\<rparr> =
    (Inl (ProvideCityOrLatLon ''WeatherAPI: provide city or lat/lon''), \<lparr>clock = 5, calls = [], warned = []\<rparr>)"
  by (rule wa_invalid_query_no_request) simp_all

text \<open>
  C38. A WeatherAPI forecast passes the upstream days through in upstream order and
  number, whatever day count was requested: the adapter neither sorts nor truncates.
\<close>

theorem wa_forecast_not_truncated:
  assumes "resolveQuery q = Inr qStr"
    and "snd (w (clock s) (WA_forecast (weatherApiKey cfg) qStr n)) = Some (WA_body d)"
    and "d_location d = Some l"
  shows "\<exists>f. fst (wa_getForecast cfg w q n s) = Inr f \<and>
    map date (days f) = map fd_date (nullish (d_forecastday d) [])"
  using assms
  by (simp add: wa_getForecast_def axios_get_def wa_body_of_def wa_forecast_of_def
      wa_day_of_def Let_def comp_def)

theorem wa_forecast_not_truncated_witness:
  "\<exists>f. fst (wa_getForecast cfg_wa world_ok male_query 3 \<lparr>clock = 0, calls = [], warned = []\<rparr>) = Inr f \<and>
    map date (days f) = [''2024-01-02'', ''2024-01-01'', ''2024-01-03'', ''2024-01-04'']"
  using wa_forecast_not_truncated [where q = male_query and qStr = "[Lit ''Male,MV'']"
      and w = world_ok and s = "\<lparr>clock = 0, calls = [], warned = []\<rparr>" and cfg = cfg_wa and n = 3
      and d = wa_male and l = "\<lparr>wl_name = ''Male'', wl_lat = 4, wl_lon = 73, wl_country = Some ''Maldives''\<rparr>"]
  by (simp add: wa_male_def)

text \<open>
  A historical body that carries a location but neither a day nor current
  conditions still yields a record: its temperatures are 0 in both units and its date
  is the first ten characters of the date asked for.
\<close>

theorem wa_historical_fabricates_zero:
  assumes "d_location d = Some l" and "first_day d = None" and "d_current d = None"
  shows "\<exists>h. wa_historical_of now dateISO d = Inr h \<and> temperatureC h = 0 \<and>
    temperatureF h = 0 \<and> h_date h = take 10 dateISO \<and> observedAt h = Now now"
  using assms by (simp add: wa_historical_of_def Let_def)

theorem wa_historical_fabricates_zero_witness:
  "\<exists>h. wa_historical_of 7 ''2024-01-01T00:00:00Z''
      \<lparr>d_location = d_location wa_male, d_current = None, d_forecastday = Some []\<rparr> = Inr h \<and>
    temperatureC h = 0 \<and> temperatureF h = 0 \<and> h_date h = ''2024-01-01'' \<and> observedAt h = Now 7"
  using wa_historical_fabricates_zero [where now = 7 and dateISO = "''2024-01-01T00:00:00Z''"
      and d = "\<lparr>d_location = d_location wa_male, d_current = None, d_forecastday = Some []\<rparr>"
      and l = "\<lparr>wl_name = ''Male'', wl_lat = 4, wl_lon = 73, wl_country = Some ''Maldives''\<rparr>"]
  by (simp add: wa_male_def first_day_def)

end
