(* ===== verification/Provider_OpenWeather.thy ===== *)
theory Provider_OpenWeather
  imports Samples JS_Builtins
begin

text \<open>
  The OpenWeather adapter (the provider module the aggregator imports as \<open>ow\<close>).

  \<^item> \<open>unitsParam\<close> and \<open>resolveQueryParams\<close> build the query string.
  \<^item> \<open>ow_tempC\<close>, \<open>ow_tempF\<close>, \<open>ow_windKph\<close>, \<open>ow_windMph\<close> are the unit conversions the
    module writes inline: upstream answers in one unit system and the adapter fills in
    the other.
  \<^item> \<open>ow_current_of\<close> is the object literal of \<open>getCurrent\<close>, \<open>ow_getCurrent\<close> the whole
    function.
  \<^item> The forecast loop groups three-hour samples by UTC date: \<open>bucket\<close> is the record
    kept per date, \<open>add_item\<close> the loop body, \<open>add_items\<close> the loop, \<open>byDate\<close> an
    association list in insertion order, \<open>bucket_at\<close> the read \<open>byDate[isoDate]\<close>
    with the empty record the loop stores on first sight. \<open>day_of_bucket\<close> summarizes
    a bucket,
    \<open>ow_forecast_of\<close> sorts the dates, keeps the requested number and builds the
    result, \<open>ow_getForecast\<close> is the whole function.
  \<^item> \<open>ow_getHistorical\<close> is the stub that returns \<open>null\<close>.

  The lemmas give the round trip and consistency of the conversions, the invariant of
  the buckets (\<open>bucket_ok\<close>: as many temperatures as slots, at least one, flagged slots
  not above the total) and, from it, the bounds of every forecast day.
\<close>

section \<open>Query string\<close>

definition unitsParam :: "Units \<Rightarrow> string" where
  "unitsParam units = (if units = imperial then ''imperial'' else ''metric'')"

definition resolveQueryParams :: "LocationQuery \<Rightarrow> template result" where
  "resolveQueryParams q =
     (case (lat q, lon q) of
        (Some la, Some lo) \<Rightarrow> Inr [Lit ''lat='', Num la, Lit ''&lon='', Num lo]
      | _ \<Rightarrow>
          if truthy (city q)
          then (let suffix = (if truthy (country q)
                              then '','' @ encodeURIComponent (nullish (country q) [])
                              else [])
                in Inr [Lit (''q='' @ encodeURIComponent (nullish (city q) [] @ suffix))])
          else Inl (ProvideCityOrLatLon ''OpenWeather: provide city or lat/lon''))"

section \<open>Unit conversion\<close>

definition ow_tempC :: "Units \<Rightarrow> number \<Rightarrow> number" where
  "ow_tempC units t = (if units = metric then t else (t - 32) * (5 / 9))"

definition ow_tempF :: "Units \<Rightarrow> number \<Rightarrow> number" where
  "ow_tempF units t = (if units = imperial then t else t * (9 / 5) + 32)"

definition ow_windKph :: "Units \<Rightarrow> number \<Rightarrow> number" where
  "ow_windKph units v = (if units = metric then v * 3.6 else v * 1.60934)"

definition ow_windMph :: "Units \<Rightarrow> number \<Rightarrow> number" where
  "ow_windMph units v = (if units = imperial then v else (v * 3.6) / 1.60934)"

section \<open>Current conditions\<close>

definition coord_piece :: "number option \<Rightarrow> piece" where
  "coord_piece x = (case x of None \<Rightarrow> Undefined | Some v \<Rightarrow> Num v)"

definition coord_name :: "ow_coord option \<Rightarrow> template" where
  "coord_name c =
     [coord_piece (map_option coord_lat c), Lit '','', coord_piece (map_option coord_lon c)]"

definition icon_url :: "string option \<Rightarrow> string option" where
  "icon_url i =
     (if truthy i then Some (''https://openweathermap.org/img/wn/'' @ nullish i [] @ ''@2x.png'')
      else None)"

definition ow_current_of :: "Units \<Rightarrow> ow_current_body \<Rightarrow> CurrentWeather result" where
  "ow_current_of units d =
     (case (main d, coord d, wind d) of
        (Some m, Some co, Some wi) \<Rightarrow>
          (let w0 = first_weather (weather d)
           in Inr \<lparr>provider = ''openweather'',
                   location = \<lparr>name = (if truthy (ow_name d) then [Lit (nullish (ow_name d) [])]
                                       else coord_name (coord d)),
                               loc_lat = coord_lat co, loc_lon = coord_lon co,
                               loc_country = sys_country d\<rparr>,
                   observedAt = EpochSeconds (dt d),
                   temperatureC = ow_tempC units (main_temp m),
                   temperatureF = ow_tempF units (main_temp m),
                   feelsLikeC = Some (ow_tempC units (feels_like m)),
                   feelsLikeF = Some (ow_tempF units (feels_like m)),
                   humidity = main_humidity m,
                   windKph = Some (ow_windKph units (speed wi)),
                   windMph = Some (ow_windMph units (speed wi)),
                   windDir = map_option (\<lambda>g. [Num g, Lit [CHR 0xC2, CHR 0xB0]]) (deg wi),
                   pressureMb = pressure m,
                   uv = None,
                   condition = \<lparr>cond_text = or_else (Option.bind w0 description) (Some ''Unknown''),
                                cond_iconUrl = icon_url (Option.bind w0 icon),
                                cond_code = Option.bind w0 weather_id\<rparr>\<rparr>)
      | _ \<Rightarrow> Inl TypeError)"

definition ow_current_body_of :: "response \<Rightarrow> ow_current_body" where
  "ow_current_body_of r =
     (case r of
        OW_current_body d \<Rightarrow> d
      | _ \<Rightarrow> \<lparr>ow_name = None, coord = None, main = None, wind = None, sys_country = None,
              dt = 0, weather = None\<rparr>)"

definition ow_getCurrent ::
  "config \<Rightarrow> world \<Rightarrow> LocationQuery \<Rightarrow> Units \<Rightarrow> net_state \<Rightarrow> CurrentWeather result \<times> net_state" where
  "ow_getCurrent cfg w q units s =
     (case resolveQueryParams q of
        Inl e \<Rightarrow> (Inl e, s)
      | Inr params \<Rightarrow>
          (case axios_get w (OW_weather (openWeatherApiKey cfg) params (unitsParam units)) s of
             (Inl e, s') \<Rightarrow> (Inl e, s')
           | (Inr r, s') \<Rightarrow> (ow_current_of units (ow_current_body_of r), s')))"

section \<open>Forecast: grouping samples by date\<close>

record bucket =
  tempsC :: "number list"
  tempsF :: "number list"
  rainSlots :: nat
  snowSlots :: nat
  totalSlots :: nat
  condText :: "string option"
  b_icon :: "string option"
  b_code :: "number option"

type_synonym byDate = "(string \<times> bucket) list"

definition empty_bucket :: bucket where
  "empty_bucket =
     \<lparr>tempsC = [], tempsF = [], rainSlots = 0, snowSlots = 0, totalSlots = 0,
      condText = None, b_icon = None, b_code = None\<rparr>"

definition push_sample :: "Units \<Rightarrow> ow_item \<Rightarrow> number \<Rightarrow> bucket \<Rightarrow> bucket" where
  "push_sample units item t b =
     (let cond = first_weather (item_weather item)
      in b\<lparr>tempsC := tempsC b @ [ow_tempC units t],
           tempsF := tempsF b @ [ow_tempF units t],
           totalSlots := totalSlots b + 1,
           rainSlots := (if nonzero (rain_3h item) then rainSlots b + 1 else rainSlots b),
           snowSlots := (if nonzero (snow_3h item) then snowSlots b + 1 else snowSlots b),
           condText := or_else (Option.bind cond description) (condText b),
           b_icon := or_else (Option.bind cond icon) (b_icon b),
           b_code := or_num (Option.bind cond weather_id) (b_code b)\<rparr>)"

definition bucket_at :: "byDate \<Rightarrow> string \<Rightarrow> bucket" where
  "bucket_at bd d = (case map_of bd d of None \<Rightarrow> empty_bucket | Some b \<Rightarrow> b)"

definition add_item :: "Units \<Rightarrow> ow_item \<Rightarrow> byDate \<Rightarrow> byDate result" where
  "add_item units item bd =
     (case item_main item of
        None \<Rightarrow> Inl TypeError
      | Some m \<Rightarrow>
          (let isoDate = toISODate (item_dt item)
           in Inr (AList.update isoDate
                     (push_sample units item (main_temp m) (bucket_at bd isoDate)) bd)))"

fun add_items :: "Units \<Rightarrow> ow_item list \<Rightarrow> byDate \<Rightarrow> byDate result" where
  "add_items units [] bd = Inr bd"
| "add_items units (item # items) bd =
     (case add_item units item bd of
        Inl e \<Rightarrow> Inl e
      | Inr bd' \<Rightarrow> add_items units items bd')"

definition chance :: "nat \<Rightarrow> nat \<Rightarrow> number option" where
  "chance slots n =
     (if n \<noteq> 0 then Some (of_int (Math_round (real slots / real n * 100))) else None)"

definition day_of_bucket :: "string \<Rightarrow> bucket \<Rightarrow> ForecastDay" where
  "day_of_bucket d rec =
     \<lparr>date = d,
      avgTempC = mean (tempsC rec),
      avgTempF = mean (tempsF rec),
      maxTempC = Math_max (tempsC rec),
      maxTempF = Math_max (tempsF rec),
      minTempC = Math_min (tempsC rec),
      minTempF = Math_min (tempsF rec),
      chanceOfRainPct = chance (rainSlots rec) (totalSlots rec),
      chanceOfSnowPct = chance (snowSlots rec) (totalSlots rec),
      day_condition = Some \<lparr>cond_text = condText rec, cond_iconUrl = icon_url (b_icon rec),
                            cond_code = b_code rec\<rparr>\<rparr>"

definition sortedDates :: "number \<Rightarrow> byDate \<Rightarrow> string list" where
  "sortedDates n bd = slice0 (to_integer n) (sort (map fst bd))"

definition daysOut :: "number \<Rightarrow> byDate \<Rightarrow> ForecastDay list" where
  "daysOut n bd =
     map (\<lambda>d. day_of_bucket d (bucket_at bd d)) (sortedDates n bd)"

definition ow_forecast_of :: "Units \<Rightarrow> number \<Rightarrow> ow_forecast_body \<Rightarrow> Forecast result" where
  "ow_forecast_of units n d =
     (case ow_list d of
        None \<Rightarrow> Inl TypeError
      | Some items \<Rightarrow>
          (case add_items units items [] of
             Inl e \<Rightarrow> Inl e
           | Inr bd \<Rightarrow>
               (case ow_city d of
                  None \<Rightarrow> Inl TypeError
                | Some c \<Rightarrow>
                    (case city_coord c of
                       None \<Rightarrow> Inl TypeError
                     | Some co \<Rightarrow>
                         Inr \<lparr>f_provider = ''openweather'',
                              f_location =
                                \<lparr>name = (if truthy (city_name c) then [Lit (nullish (city_name c) [])]
                                         else coord_name (city_coord c)),
                                 loc_lat = coord_lat co, loc_lon = coord_lon co,
                                 loc_country = city_country c\<rparr>,
                              days = daysOut n bd\<rparr>))))"

definition ow_forecast_body_of :: "response \<Rightarrow> ow_forecast_body" where
  "ow_forecast_body_of r =
     (case r of OW_forecast_body d \<Rightarrow> d | _ \<Rightarrow> \<lparr>ow_city = None, ow_list = None\<rparr>)"

definition ow_getForecast ::
  "config \<Rightarrow> world \<Rightarrow> LocationQuery \<Rightarrow> Units \<Rightarrow> number \<Rightarrow> net_state \<Rightarrow> Forecast result \<times> net_state" where
  "ow_getForecast cfg w q units n s =
     (case resolveQueryParams q of
        Inl e \<Rightarrow> (Inl e, s)
      | Inr params \<Rightarrow>
          (case axios_get w (OW_forecast (openWeatherApiKey cfg) params (unitsParam units)) s of
             (Inl e, s') \<Rightarrow> (Inl e, s')
           | (Inr r, s') \<Rightarrow> (ow_forecast_of units n (ow_forecast_body_of r), s')))"

definition ow_getHistorical :: "HistoricalWeather option" where
  "ow_getHistorical = None"

named_theorems ow_defs "definitions of the OpenWeather adapter"

lemmas [ow_defs] =
  unitsParam_def ow_tempC_def ow_tempF_def ow_windKph_def ow_windMph_def coord_piece_def
  coord_name_def icon_url_def ow_current_of_def ow_current_body_of_def ow_getCurrent_def
  empty_bucket_def push_sample_def bucket_at_def add_item_def chance_def day_of_bucket_def sortedDates_def
  daysOut_def ow_forecast_of_def ow_forecast_body_of_def ow_getForecast_def

section \<open>Conversions\<close>

lemma ow_temp_roundtrip:
  "ow_tempC imperial (ow_tempF metric t) = t"
  "ow_tempF metric (ow_tempC imperial t) = t"
  by (simp_all add: ow_tempC_def ow_tempF_def field_simps)

lemma ow_temp_consistent:
  "units = metric \<or> units = imperial \<Longrightarrow> ow_tempF units t = ow_tempC units t * (9 / 5) + 32"
  by (auto simp: ow_tempC_def ow_tempF_def field_simps)

lemma ow_wind_consistent:
  "units = metric \<or> units = imperial \<Longrightarrow> ow_windKph units v = ow_windMph units v * 1.60934"
  by (auto simp: ow_windKph_def ow_windMph_def)

lemma ow_temp_other_units:
  "ow_tempC (other_units u) t = (t - 32) * (5 / 9)"
  "ow_tempF (other_units u) t = t * (9 / 5) + 32"
  by (simp_all add: ow_tempC_def ow_tempF_def)

lemma unitsParam_other [simp]: "unitsParam (other_units u) = ''metric''"
  by (simp add: unitsParam_def)

section \<open>Query string\<close>

lemma resolveQueryParams_coords [simp]:
  "lat q = Some la \<Longrightarrow> lon q = Some lo \<Longrightarrow>
    resolveQueryParams q = Inr [Lit ''lat='', Num la, Lit ''&lon='', Num lo]"
  by (simp add: resolveQueryParams_def)

lemma resolveQueryParams_city:
  assumes "lat q = None \<or> lon q = None" and "city q = Some c" and "c \<noteq> []"
  shows "resolveQueryParams q =
    Inr [Lit (''q='' @ encodeURIComponent c @
      (case country q of
         None \<Rightarrow> []
       | Some co \<Rightarrow> if co = [] then [] else ''%2C'' @ encodeURIComponent (encodeURIComponent co)))]"
  using assms
  by (auto simp: resolveQueryParams_def pct_encode_comma split: option.splits)

lemma resolveQueryParams_error_iff:
  "(\<exists>e. resolveQueryParams q = Inl e) \<longleftrightarrow> (lat q = None \<or> lon q = None) \<and> \<not> truthy (city q)"
  by (auto simp: resolveQueryParams_def Let_def split: option.splits)

lemma resolveQueryParams_Inl:
  "resolveQueryParams q = Inl e \<Longrightarrow> e = ProvideCityOrLatLon ''OpenWeather: provide city or lat/lon''"
  by (auto simp: resolveQueryParams_def Let_def split: option.splits if_splits)

section \<open>Requests issued\<close>

lemma ow_getCurrent_calls:
  "calls (snd (ow_getCurrent cfg w q units s)) =
    (case resolveQueryParams q of
       Inl _ \<Rightarrow> calls s
     | Inr params \<Rightarrow> calls s @ [OW_weather (openWeatherApiKey cfg) params (unitsParam units)])"
  by (simp add: ow_getCurrent_def axios_get_def split: sum.splits option.splits)

lemma ow_getForecast_calls:
  "calls (snd (ow_getForecast cfg w q units n s)) =
    (case resolveQueryParams q of
       Inl _ \<Rightarrow> calls s
     | Inr params \<Rightarrow> calls s @ [OW_forecast (openWeatherApiKey cfg) params (unitsParam units)])"
  by (simp add: ow_getForecast_def axios_get_def split: sum.splits option.splits)

lemma ow_getCurrent_clock_mono: "clock s \<le> clock (snd (ow_getCurrent cfg w q units s))"
  by (simp add: ow_getCurrent_def axios_get_def split: sum.splits option.splits)

lemma ow_getForecast_clock_mono: "clock s \<le> clock (snd (ow_getForecast cfg w q units n s))"
  by (simp add: ow_getForecast_def axios_get_def split: sum.splits option.splits)

lemma ow_getCurrent_state:
  "snd (ow_getCurrent cfg w q units s) =
    (case resolveQueryParams q of
       Inl _ \<Rightarrow> s | Inr params \<Rightarrow> sent w (OW_weather (openWeatherApiKey cfg) params (unitsParam units)) s)"
  by (simp add: ow_getCurrent_def axios_get_def split: sum.splits option.splits)

lemma ow_getForecast_state:
  "snd (ow_getForecast cfg w q units n s) =
    (case resolveQueryParams q of
       Inl _ \<Rightarrow> s | Inr params \<Rightarrow> sent w (OW_forecast (openWeatherApiKey cfg) params (unitsParam units)) s)"
  by (simp add: ow_getForecast_def axios_get_def split: sum.splits option.splits)

lemma ow_grew [simp, intro]:
  "grew (Suc k) s (snd (ow_getCurrent cfg w q units s))"
  "grew (Suc k) s (snd (ow_getForecast cfg w q units n s))"
  by (simp_all add: ow_getCurrent_state ow_getForecast_state split: sum.splits)

lemma ow_warned [simp]:
  "warned (snd (ow_getCurrent cfg w q units s)) = warned s"
  "warned (snd (ow_getForecast cfg w q units n s)) = warned s"
  by (simp_all add: ow_getCurrent_state ow_getForecast_state split: sum.splits)

text \<open>A line on the console changes nothing of what the adapter does.\<close>

lemma ow_console_warn [simp]:
  "fst (ow_getCurrent cfg w q units (console_warn l s)) = fst (ow_getCurrent cfg w q units s)"
  "snd (ow_getCurrent cfg w q units (console_warn l s)) =
    console_warn l (snd (ow_getCurrent cfg w q units s))"
  "fst (ow_getForecast cfg w q units n (console_warn l s)) = fst (ow_getForecast cfg w q units n s)"
  "snd (ow_getForecast cfg w q units n (console_warn l s)) =
    console_warn l (snd (ow_getForecast cfg w q units n s))"
  by (simp_all add: ow_getCurrent_def ow_getForecast_def axios_get_def sent_console_warn
      split: sum.splits option.splits)

section \<open>Current conditions\<close>

lemma ow_current_of_provider: "ow_current_of units d = Inr c \<Longrightarrow> provider c = ''openweather''"
  by (auto simp: ow_current_of_def Let_def split: option.splits)

lemma ow_getCurrent_provider:
  "fst (ow_getCurrent cfg w q units s) = Inr c \<Longrightarrow> provider c = ''openweather''"
  by (auto simp: ow_getCurrent_def axios_get_def split: sum.splits option.splits
      dest: ow_current_of_provider)

lemma ow_current_of_error_iff:
  "(\<exists>e. ow_current_of units d = Inl e) \<longleftrightarrow> main d = None \<or> coord d = None \<or> wind d = None"
  by (auto simp: ow_current_of_def Let_def split: option.splits)

lemma ow_current_of_InrE:
  assumes "ow_current_of units d = Inr c"
  obtains m co wi where "main d = Some m" and "coord d = Some co" and "wind d = Some wi"
    and "temperatureC c = ow_tempC units (main_temp m)"
    and "temperatureF c = ow_tempF units (main_temp m)"
    and "feelsLikeC c = Some (ow_tempC units (feels_like m))"
    and "feelsLikeF c = Some (ow_tempF units (feels_like m))"
    and "windKph c = Some (ow_windKph units (speed wi))"
    and "windMph c = Some (ow_windMph units (speed wi))"
  using assms by (auto simp: ow_current_of_def Let_def split: option.splits)

lemma ow_current_of_temps:
  "ow_current_of units d = Inr c \<Longrightarrow>
    \<exists>m. main d = Some m \<and> temperatureC c = ow_tempC units (main_temp m) \<and>
      temperatureF c = ow_tempF units (main_temp m)"
  by (auto simp: ow_current_of_def Let_def split: option.splits)

section \<open>The invariant of the buckets\<close>

definition bucket_ok :: "bucket \<Rightarrow> bool" where
  "bucket_ok b =
     (length (tempsC b) = totalSlots b \<and> length (tempsF b) = totalSlots b \<and>
      0 < totalSlots b \<and> rainSlots b \<le> totalSlots b \<and> snowSlots b \<le> totalSlots b)"

definition byDate_ok :: "byDate \<Rightarrow> bool" where
  "byDate_ok bd = (distinct (map fst bd) \<and> list_all (\<lambda>p. bucket_ok (snd p)) bd)"

lemma byDate_ok_Nil [simp]: "byDate_ok []"
  by (simp add: byDate_ok_def)

lemma push_sample_counts:
  "totalSlots (push_sample units item t b) = totalSlots b + 1"
  "length (tempsC (push_sample units item t b)) = length (tempsC b) + 1"
  "length (tempsF (push_sample units item t b)) = length (tempsF b) + 1"
  "rainSlots (push_sample units item t b) = rainSlots b + (if nonzero (rain_3h item) then 1 else 0)"
  "snowSlots (push_sample units item t b) = snowSlots b + (if nonzero (snow_3h item) then 1 else 0)"
  by (simp_all add: push_sample_def Let_def)

lemma bucket_ok_push_empty [inv_intros]: "bucket_ok (push_sample units item t empty_bucket)"
  by (simp add: bucket_ok_def push_sample_counts) (simp add: empty_bucket_def)

lemma bucket_ok_push [inv_intros]: "bucket_ok b \<Longrightarrow> bucket_ok (push_sample units item t b)"
  by (simp add: bucket_ok_def push_sample_counts)

lemma add_item_InrE:
  assumes "add_item units item bd = Inr bd'"
  obtains m where "item_main item = Some m"
    and "bd' = AList.update (toISODate (item_dt item))
        (push_sample units item (main_temp m) (bucket_at bd (toISODate (item_dt item)))) bd"
  using assms by (auto simp: add_item_def Let_def split: option.splits)

lemma bucket_at_simps:
  "map_of bd d = None \<Longrightarrow> bucket_at bd d = empty_bucket"
  "map_of bd d = Some b \<Longrightarrow> bucket_at bd d = b"
  by (simp_all add: bucket_at_def)

lemma bucket_ok_bucket_at: "byDate_ok bd \<Longrightarrow> map_of bd d = Some b \<Longrightarrow> bucket_ok b"
  by (auto simp: byDate_ok_def dest: list_all_map_of)

lemma bucket_ok_push_at [inv_intros]:
  "byDate_ok bd \<Longrightarrow> bucket_ok (push_sample units item t (bucket_at bd d))"
  by (cases "map_of bd d")
    (auto simp: bucket_at_simps intro: bucket_ok_push_empty bucket_ok_push bucket_ok_bucket_at)

lemma byDate_ok_add_item [inv_intros]:
  assumes "byDate_ok bd" and "add_item units item bd = Inr bd'"
  shows "byDate_ok bd'"
proof -
  from assms(2) obtain m :: ow_main where
    bd': "bd' = AList.update (toISODate (item_dt item))
        (push_sample units item (main_temp m) (bucket_at bd (toISODate (item_dt item)))) bd"
    by (rule add_item_InrE)
  with assms(1) bucket_ok_push_at [OF assms(1)] show ?thesis
    by (simp add: byDate_ok_def distinct_update list_all_update)
qed

lemma byDate_ok_add_items [inv_intros]:
  "byDate_ok bd \<Longrightarrow> add_items units items bd = Inr bd' \<Longrightarrow> byDate_ok bd'"
  by (induction items arbitrary: bd) (auto split: sum.splits intro: byDate_ok_add_item)

section \<open>What the loop collects\<close>

lemma add_item_error_iff: "(\<exists>e. add_item units item bd = Inl e) \<longleftrightarrow> item_main item = None"
  by (auto simp: add_item_def Let_def split: option.splits)

lemma add_items_error_iff:
  "(\<exists>e. add_items units items bd = Inl e) \<longleftrightarrow> (\<exists>i \<in> set items. item_main i = None)"
proof (induction items arbitrary: bd)
  case Nil
  then show ?case by simp
next
  case (Cons item items)
  show ?case
  proof (cases "add_item units item bd")
    case (Inl e)
    then have "item_main item = None" using add_item_error_iff [of units item bd] by auto
    with Inl show ?thesis by auto
  next
    case (Inr bd')
    then have "item_main item \<noteq> None" using add_item_error_iff [of units item bd] by auto
    with Inr Cons.IH [of bd'] show ?thesis by auto
  qed
qed

lemma add_items_Inl: "add_items units items bd = Inl e \<Longrightarrow> e = TypeError"
  by (induction items arbitrary: bd) (auto simp: add_item_def Let_def split: sum.splits option.splits)

lemma add_item_keys:
  "add_item units item bd = Inr bd' \<Longrightarrow>
    fst ` set bd' = insert (toISODate (item_dt item)) (fst ` set bd)"
  by (erule add_item_InrE) (simp add: dom_update)

lemma add_items_keys:
  "add_items units items bd = Inr bd' \<Longrightarrow>
    fst ` set bd' = fst ` set bd \<union> (\<lambda>i. toISODate (item_dt i)) ` set items"
proof (induction items arbitrary: bd)
  case Nil
  then show ?case by simp
next
  case (Cons item items)
  then obtain bd1 where 1: "add_item units item bd = Inr bd1"
    and 2: "add_items units items bd1 = Inr bd'"
    by (auto split: sum.splits)
  from Cons.IH [OF 2] add_item_keys [OF 1] show ?case by auto
qed

definition slot_count :: "byDate \<Rightarrow> nat" where
  "slot_count bd = sum_list (map (\<lambda>p. totalSlots (snd p)) bd)"

lemma slot_count_Nil [simp]: "slot_count [] = 0"
  by (simp add: slot_count_def)

lemma slot_count_update_fresh:
  "map_of bd k = None \<Longrightarrow> slot_count (AList.update k b bd) = slot_count bd + totalSlots b"
  by (simp add: slot_count_def update_fresh map_of_eq_None_fst)

lemma slot_count_update_present:
  "map_of bd k = Some b0 \<Longrightarrow> distinct (map fst bd) \<Longrightarrow>
    slot_count (AList.update k b bd) + totalSlots b0 = slot_count bd + totalSlots b"
proof (induction bd)
  case Nil
  then show ?case by simp
next
  case (Cons p bd)
  show ?case
  proof (cases "fst p = k")
    case True
    with Cons.prems show ?thesis by (cases p) (simp add: slot_count_def)
  next
    case False
    with Cons show ?thesis by (cases p) (simp add: slot_count_def)
  qed
qed

lemma slot_count_add_item:
  assumes "distinct (map fst bd)" and "add_item units item bd = Inr bd'"
  shows "slot_count bd' = slot_count bd + 1"
proof -
  let ?d = "toISODate (item_dt item)"
  from assms(2) obtain m :: ow_main where
    bd': "bd' = AList.update ?d (push_sample units item (main_temp m) (bucket_at bd ?d)) bd"
    by (rule add_item_InrE)
  show ?thesis
  proof (cases "map_of bd ?d")
    case None
    then show ?thesis
      by (simp add: bd' slot_count_update_fresh push_sample_counts bucket_at_simps)
        (simp add: empty_bucket_def)
  next
    case (Some b)
    from slot_count_update_present [OF Some assms(1),
        of "push_sample units item (main_temp m) b"] Some
    show ?thesis by (simp add: bd' push_sample_counts bucket_at_simps)
  qed
qed

lemma slot_count_add_items:
  "byDate_ok bd \<Longrightarrow> add_items units items bd = Inr bd' \<Longrightarrow>
    slot_count bd' = slot_count bd + length items"
proof (induction items arbitrary: bd)
  case Nil
  then show ?case by simp
next
  case (Cons item items)
  then obtain bd1 where 1: "add_item units item bd = Inr bd1"
    and 2: "add_items units items bd1 = Inr bd'"
    by (auto split: sum.splits)
  from Cons.prems(1) 1 have ok1: "byDate_ok bd1" by (rule byDate_ok_add_item)
  from Cons.prems(1) have "distinct (map fst bd)" by (simp add: byDate_ok_def)
  from slot_count_add_item [OF this 1] Cons.IH [OF ok1 2] show ?case by simp
qed

lemma slot_count_ge_length: "byDate_ok bd \<Longrightarrow> length bd \<le> slot_count bd"
  by (induction bd) (auto simp: slot_count_def byDate_ok_def bucket_ok_def)

section \<open>The forecast days\<close>

definition pct_ok :: "number option \<Rightarrow> bool" where
  "pct_ok p = (case p of None \<Rightarrow> False | Some x \<Rightarrow> 0 \<le> x \<and> x \<le> 100)"

definition ordered3 :: "number option \<Rightarrow> number option \<Rightarrow> number option \<Rightarrow> bool" where
  "ordered3 lo mid hi =
     (case (lo, mid, hi) of (Some a, Some b, Some c) \<Rightarrow> a \<le> b \<and> b \<le> c | _ \<Rightarrow> False)"

definition day_ok :: "ForecastDay \<Rightarrow> bool" where
  "day_ok dy =
     (pct_ok (chanceOfRainPct dy) \<and> pct_ok (chanceOfSnowPct dy) \<and>
      ordered3 (minTempC dy) (avgTempC dy) (maxTempC dy) \<and>
      ordered3 (minTempF dy) (avgTempF dy) (maxTempF dy))"

lemma date_daysOut [simp]: "map date (daysOut n bd) = sortedDates n bd"
  by (simp add: daysOut_def day_of_bucket_def comp_def)

lemma sorted_sortedDates [simp]: "sorted (sortedDates n bd)"
  by (simp add: sortedDates_def sorted_slice0)

lemma distinct_sortedDates: "distinct (map fst bd) \<Longrightarrow> distinct (sortedDates n bd)"
  by (simp add: sortedDates_def distinct_slice0)

lemma set_sortedDates: "set (sortedDates n bd) \<subseteq> fst ` set bd"
  using set_slice0_subset [of "to_integer n" "sort (map fst bd)"] by (simp add: sortedDates_def)

lemma length_daysOut_le: "length (daysOut n bd) \<le> length bd"
  using length_slice0_le [of "to_integer n" "sort (map fst bd)"]
  by (simp add: daysOut_def sortedDates_def)

lemma length_daysOut_bound: "0 \<le> n \<Longrightarrow> length (daysOut n bd) \<le> nat \<lfloor>n\<rfloor>"
  using length_slice0_bound [of "\<lfloor>n\<rfloor>" "sort (map fst bd)"]
  by (simp add: daysOut_def sortedDates_def to_integer_nonneg)

lemma sortedDates_all: "real (length bd) \<le> n \<Longrightarrow> sortedDates n bd = sort (map fst bd)"
  by (simp add: sortedDates_def slice0_all to_integer_nonneg le_floor_iff)

lemma sortedDates_negative:
  assumes "n \<le> - 1"
  shows "sortedDates n bd = take (length bd - nat (- \<lceil>n\<rceil>)) (sort (map fst bd))"
proof -
  from assms have "\<lceil>n\<rceil> < 0" by (simp add: ceiling_less_iff)
  with assms show ?thesis by (simp add: sortedDates_def slice0_neg to_integer_neg)
qed

lemma sortedDates_fraction: "- 1 < n \<Longrightarrow> n < 1 \<Longrightarrow> sortedDates n bd = []"
proof -
  assume "- 1 < n" and "n < 1"
  then have "to_integer n = 0" by (auto simp: to_integer_def) linarith+
  then show ?thesis by (simp add: sortedDates_def slice0_def)
qed

lemma chance_ok: "k \<le> n \<Longrightarrow> 0 < n \<Longrightarrow> pct_ok (chance k n)"
proof -
  assume kn: "k \<le> n" and n: "0 < n"
  then have "0 \<le> real k / real n * 100 \<and> real k / real n * 100 \<le> 100"
    by (rule ratio_percent_bounds)
  then have "0 \<le> Math_round (real k / real n * 100) \<and> Math_round (real k / real n * 100) \<le> 100"
    using Math_round_bounds [of 0 "real k / real n * 100" 100] by simp
  with n show ?thesis by (simp add: pct_ok_def chance_def)
qed

lemma ordered3_temps: "xs \<noteq> [] \<Longrightarrow> ordered3 (Math_min xs) (mean xs) (Math_max xs)"
proof -
  assume ne: "xs \<noteq> []"
  then obtain lo hi where lo: "Math_min xs = Some lo" and hi: "Math_max xs = Some hi"
    using Math_min_Some Math_max_Some by blast
  from ne have m: "mean xs = Some (sum_list xs / real (length xs))" by (rule mean_Some)
  from mean_between [OF m lo hi] lo hi m show ?thesis by (simp add: ordered3_def)
qed

lemma day_ok_bucket: "bucket_ok b \<Longrightarrow> day_ok (day_of_bucket d b)"
proof -
  assume ok: "bucket_ok b"
  then have "tempsC b \<noteq> []" and "tempsF b \<noteq> []" by (auto simp: bucket_ok_def)
  with ok show ?thesis
    by (simp add: day_ok_def day_of_bucket_def chance_ok ordered3_temps bucket_ok_def)
qed

lemma day_ok_daysOut: "byDate_ok bd \<Longrightarrow> list_all day_ok (daysOut n bd)"
proof -
  assume ok: "byDate_ok bd"
  have "day_ok (day_of_bucket d (bucket_at bd d))" if "d \<in> set (sortedDates n bd)" for d
  proof -
    from that set_sortedDates have "d \<in> fst ` set bd" by blast
    then obtain b where b: "map_of bd d = Some b"
      by (cases "map_of bd d") (auto simp: map_of_eq_None_fst)
    with ok have "bucket_ok b" by (auto intro: bucket_ok_bucket_at)
    with b show ?thesis by (simp add: bucket_at_simps day_ok_bucket)
  qed
  then show ?thesis by (simp add: daysOut_def list_all_iff)
qed

lemma ow_forecast_of_InrE:
  assumes "ow_forecast_of units n d = Inr f"
  obtains items bd where "ow_list d = Some items" and "add_items units items [] = Inr bd"
    and "days f = daysOut n bd" and "f_provider f = ''openweather''"
  using assms by (auto simp: ow_forecast_of_def split: option.splits sum.splits)

lemma ow_forecast_of_provider:
  "ow_forecast_of units n d = Inr f \<Longrightarrow> f_provider f = ''openweather''"
  by (erule ow_forecast_of_InrE)

lemma ow_getForecast_provider:
  "fst (ow_getForecast cfg w q units n s) = Inr f \<Longrightarrow> f_provider f = ''openweather''"
  by (auto simp: ow_getForecast_def axios_get_def split: sum.splits option.splits
      dest: ow_forecast_of_provider)

lemma ow_forecast_of_error_iff:
  "(\<exists>e. ow_forecast_of units n d = Inl e) \<longleftrightarrow>
    (case ow_list d of
       None \<Rightarrow> True
     | Some items \<Rightarrow>
         (\<exists>i \<in> set items. item_main i = None) \<or> Option.bind (ow_city d) city_coord = None)"
proof (cases "ow_list d")
  case None
  then show ?thesis by (simp add: ow_forecast_of_def)
next
  case (Some items)
  show ?thesis
  proof (cases "add_items units items []")
    case (Inl e)
    with Some add_items_error_iff [of units items "[]"] show ?thesis
      by (auto simp: ow_forecast_of_def)
  next
    case (Inr bd)
    with Some add_items_error_iff [of units items "[]"] show ?thesis
      by (auto simp: ow_forecast_of_def split: option.splits)
  qed
qed

section \<open>The request is answered or rejected\<close>

lemma ow_getCurrent_answered:
  assumes "resolveQueryParams q = Inr params"
    and "snd (w (clock s) (OW_weather (openWeatherApiKey cfg) params (unitsParam units))) =
      Some (OW_current_body d)"
  shows "ow_getCurrent cfg w q units s =
    (ow_current_of units d,
     sent w (OW_weather (openWeatherApiKey cfg) params (unitsParam units)) s)"
  using assms by (simp add: ow_getCurrent_def axios_get_def ow_current_body_of_def)

lemma ow_getCurrent_rejected:
  assumes "resolveQueryParams q = Inr params"
    and "snd (w (clock s) (OW_weather (openWeatherApiKey cfg) params (unitsParam units))) = None"
  shows "ow_getCurrent cfg w q units s =
    (Inl AxiosError, sent w (OW_weather (openWeatherApiKey cfg) params (unitsParam units)) s)"
  using assms by (simp add: ow_getCurrent_def axios_get_def)

lemma ow_getForecast_answered:
  assumes "resolveQueryParams q = Inr params"
    and "snd (w (clock s) (OW_forecast (openWeatherApiKey cfg) params (unitsParam units))) =
      Some (OW_forecast_body d)"
  shows "ow_getForecast cfg w q units n s =
    (ow_forecast_of units n d,
     sent w (OW_forecast (openWeatherApiKey cfg) params (unitsParam units)) s)"
  using assms by (simp add: ow_getForecast_def axios_get_def ow_forecast_body_of_def)

lemma ow_getForecast_rejected:
  assumes "resolveQueryParams q = Inr params"
    and "snd (w (clock s) (OW_forecast (openWeatherApiKey cfg) params (unitsParam units))) = None"
  shows "ow_getForecast cfg w q units n s =
    (Inl AxiosError, sent w (OW_forecast (openWeatherApiKey cfg) params (unitsParam units)) s)"
  using assms by (simp add: ow_getForecast_def axios_get_def)

lemma ow_current_of_Inl: "ow_current_of units d = Inl e \<Longrightarrow> e = TypeError"
  by (auto simp: ow_current_of_def Let_def split: option.splits)

lemma ow_forecast_of_Inl: "ow_forecast_of units n d = Inl e \<Longrightarrow> e = TypeError"
  by (auto simp: ow_forecast_of_def split: option.splits sum.splits dest: add_items_Inl)

lemma ow_errors:
  "fst (ow_getCurrent cfg w q units s) = Inl e \<Longrightarrow>
    e \<noteq> NoWeatherProvider \<and> e \<noteq> HistoricalNotAvailable"
  "fst (ow_getForecast cfg w q units n s) = Inl e \<Longrightarrow>
    e \<noteq> NoWeatherProvider \<and> e \<noteq> HistoricalNotAvailable"
  by (auto simp: ow_getCurrent_def ow_getForecast_def axios_get_def
      dest: resolveQueryParams_Inl ow_current_of_Inl ow_forecast_of_Inl
      split: sum.splits option.splits)

section \<open>The sample query\<close>

lemma resolveQueryParams_male [simp]: "resolveQueryParams male_query = Inr [Lit ''q=Male%2CMV'']"
  by code_simp

lemma ow_current_of_male [simp]: "ow_current_of metric ow_male = Inr ow_male_now"
  by (simp add: ow_current_of_def ow_tempC_def ow_tempF_def ow_windKph_def ow_windMph_def
      icon_url_def sample_defs)

lemma ow_getCurrent_male:
  "ow_getCurrent cfg world_ok male_query metric s =
    (Inr ow_male_now, sent world_ok (OW_weather (openWeatherApiKey cfg) [Lit ''q=Male%2CMV''] ''metric'') s)"
  "ow_getCurrent cfg world_wa_down male_query metric s =
    (Inr ow_male_now,
     sent world_wa_down (OW_weather (openWeatherApiKey cfg) [Lit ''q=Male%2CMV''] ''metric'') s)"
  by (simp_all add: ow_getCurrent_answered [where d = ow_male] unitsParam_def)

lemma ow_getCurrent_male_down:
  "ow_getCurrent cfg world_down male_query metric s =
    (Inl AxiosError,
     sent world_down (OW_weather (openWeatherApiKey cfg) [Lit ''q=Male%2CMV''] ''metric'') s)"
  by (simp add: ow_getCurrent_rejected unitsParam_def)

lemma encode_samples:
  "encodeURIComponent ''Male'' = ''Male''"
  "encodeURIComponent ''M V'' = ''M%20V''"
  "encodeURIComponent ''M%20V'' = ''M%2520V''"
  by code_simp+

lemma toISODate_slots:
  "toISODate 1704067200 = ''2024-01-01''"
  "toISODate 1704078000 = ''2024-01-01''"
  "toISODate 1704088800 = ''2024-01-01''"
  "toISODate 1704099600 = ''2024-01-01''"
  "toISODate 1704153600 = ''2024-01-02''"
  "toISODate 1704164400 = ''2024-01-02''"
  by code_simp+

lemmas forecast_eval =
  ow_forecast_of_def add_item_def push_sample_def bucket_at_def empty_bucket_def ow_tempC_def
  ow_tempF_def daysOut_def sortedDates_def day_of_bucket_def chance_def mean_def Math_max_def
  Math_min_def Math_round_def icon_url_def slice0_def toISODate_slots

lemma ow_forecast_of_male [simp]: "ow_forecast_of metric 3 ow_male_forecast = Inr ow_male_days"
  by (simp add: forecast_eval sample_defs)

lemma ow_getForecast_male:
  "ow_getForecast cfg world_ok male_query metric 3 s =
    (Inr ow_male_days,
     sent world_ok (OW_forecast (openWeatherApiKey cfg) [Lit ''q=Male%2CMV''] ''metric'') s)"
  by (simp add: ow_getForecast_answered [where d = ow_male_forecast] unitsParam_def)

section \<open>Properties\<close>

text \<open>
  C10. The days of an OpenWeather forecast are in ascending order of date, no date occurs
  twice, and a requested count that is not negative bounds their number.
\<close>

theorem ow_forecast_days_sorted:
  assumes "ow_forecast_of units n d = Inr f"
  shows "sorted (map date (days f)) \<and> distinct (map date (days f)) \<and>
    (0 \<le> n \<longrightarrow> length (days f) \<le> nat \<lfloor>n\<rfloor>)"
proof -
  from assms obtain items bd where bd: "add_items units items [] = Inr bd"
    and f: "days f = daysOut n bd"
    by (rule ow_forecast_of_InrE)
  from bd have "byDate_ok bd" by (rule byDate_ok_add_items [rotated]) simp
  then have "distinct (map fst bd)" by (simp add: byDate_ok_def)
  with f show ?thesis by (simp add: distinct_sortedDates length_daysOut_bound)
qed

theorem ow_forecast_days_sorted_witness:
  "sorted (map date (days ow_male_days)) \<and> distinct (map date (days ow_male_days)) \<and>
    length (days ow_male_days) \<le> 3"
  using ow_forecast_days_sorted [where units = metric and d = ow_male_forecast and n = 3
      and f = ow_male_days]
  by simp

text \<open>
  C8. Every day of an OpenWeather forecast is well formed: the chances of rain and snow
  are present and between 0 and 100, and in both units the minimum, the average and the
  maximum temperature are present and in this order.
\<close>

theorem ow_forecast_days_ok:
  assumes "ow_forecast_of units n d = Inr f"
  shows "list_all day_ok (days f)"
proof -
  from assms obtain items bd where bd: "add_items units items [] = Inr bd"
    and f: "days f = daysOut n bd"
    by (rule ow_forecast_of_InrE)
  from bd have "byDate_ok bd" by (rule byDate_ok_add_items [rotated]) simp
  with f show ?thesis by (simp add: day_ok_daysOut)
qed

theorem ow_forecast_days_ok_witness: "list_all day_ok (days ow_male_days)"
  by (rule ow_forecast_days_ok [where units = metric and n = 3 and d = ow_male_forecast]) simp

text \<open>
  C9. The grouping loses no sample and invents none: the slots of all days together are
  as many as the samples of the body, and the dates of the days are the UTC dates of
  the samples.
\<close>

theorem add_items_conserves:
  assumes "add_items units items [] = Inr bd"
  shows "slot_count bd = length items \<and> fst ` set bd = (\<lambda>i. toISODate (item_dt i)) ` set items"
  using slot_count_add_items [OF _ assms] add_items_keys [OF assms] by simp

theorem add_items_conserves_witness:
  "slot_count [(''1970-01-01'', push_sample metric (slot 0 20 None) 20 empty_bucket)] = length [slot 0 20 None]"
  using add_items_conserves [where units = metric and items = "[slot 0 20 None]"
      and bd = "[(''1970-01-01'', push_sample metric (slot 0 20 None) 20 empty_bucket)]"]
  by (simp add: add_item_def slot_def bucket_at_def toISODate_samples)

text \<open>
  For the two units of the type, the Celsius and Fahrenheit readings of a current
  record of OpenWeather describe the same temperature, and the two wind speeds the same
  speed.
\<close>

theorem ow_current_consistent:
  assumes "units = metric \<or> units = imperial" and "ow_current_of units d = Inr c"
  shows "temperatureF c = temperatureC c * (9 / 5) + 32 \<and>
    feelsLikeF c = map_option (\<lambda>t. t * (9 / 5) + 32) (feelsLikeC c) \<and>
    windKph c = map_option (\<lambda>v. v * 1.60934) (windMph c)"
proof -
  from assms(2) obtain m co wi where "main d = Some m" and "coord d = Some co"
    and "wind d = Some wi" and "temperatureC c = ow_tempC units (main_temp m)"
    and "temperatureF c = ow_tempF units (main_temp m)"
    and "feelsLikeC c = Some (ow_tempC units (feels_like m))"
    and "feelsLikeF c = Some (ow_tempF units (feels_like m))"
    and "windKph c = Some (ow_windKph units (speed wi))"
    and "windMph c = Some (ow_windMph units (speed wi))"
    by (rule ow_current_of_InrE)
  then show ?thesis
    by (simp add: ow_temp_consistent [OF assms(1)] ow_wind_consistent [OF assms(1)])
qed

theorem ow_current_consistent_witness:
  "temperatureF ow_male_now = temperatureC ow_male_now * (9 / 5) + 32"
  using ow_current_consistent [where units = metric and d = ow_male and c = ow_male_now]
  by simp

text \<open>
  A units value other than the two of the type reaches the adapter from the REST
  routes unchecked. The request then asks OpenWeather for metric readings and the
  adapter converts them as if they were Fahrenheit: the two temperatures of the record
  disagree for every reading but -40.
\<close>

lemma ow_current_unchecked_units:
  assumes "ow_current_of (other_units x) d = Inr c" and "main d = Some m"
  shows "unitsParam (other_units x) = ''metric'' \<and>
    (temperatureF c = temperatureC c * (9 / 5) + 32 \<longleftrightarrow> main_temp m = - 40)"
proof -
  from ow_current_of_temps [OF assms(1)] assms(2)
  have "temperatureC c = (main_temp m - 32) * (5 / 9)"
    and "temperatureF c = main_temp m * (9 / 5) + 32"
    by (auto simp: ow_temp_other_units)
  then show ?thesis by (auto simp: field_simps)
qed

lemma ow_current_unchecked_units_witness:
  "temperatureF (projr (ow_current_of (other_units ''kelvin'') ow_male)) \<noteq>
    temperatureC (projr (ow_current_of (other_units ''kelvin'') ow_male)) * (9 / 5) + 32"
  using ow_current_unchecked_units [where x = "''kelvin''" and d = ow_male
      and c = "projr (ow_current_of (other_units ''kelvin'') ow_male)"
      and m = "\<lparr>main_temp = 30, feels_like = 35, main_humidity = Some 70, pressure = Some 1010\<rparr>"]
  by (simp add: ow_current_of_def ow_male_def)

text \<open>
  C39. The country of a city query is percent-encoded twice: once on its own and once
  more with the city. A country with a character outside the unreserved set therefore
  reaches OpenWeather in a form that decodes to something other than the country.
\<close>

theorem resolveQueryParams_double_encodes:
  assumes "lat q = None \<or> lon q = None" and "city q = Some c" and "c \<noteq> []"
    and "country q = Some co" and "co \<noteq> []"
  shows "resolveQueryParams q =
      Inr [Lit (''q='' @ encodeURIComponent c @ ''%2C'' @ encodeURIComponent (encodeURIComponent co))] \<and>
    (\<not> list_all unreserved co \<longrightarrow>
       encodeURIComponent (encodeURIComponent co) \<noteq> encodeURIComponent co)"
  using assms
  by (simp add: resolveQueryParams_city double_encoding_differs list_all_iff)

theorem resolveQueryParams_double_encodes_witness:
  "resolveQueryParams \<lparr>city = Some ''Male'', country = Some ''M V'', lat = None, lon = None\<rparr> =
    Inr [Lit ''q=Male%2CM%2520V'']"
  using resolveQueryParams_double_encodes [where c = "''Male''" and co = "''M V''"
      and q = "\<lparr>city = Some ''Male'', country = Some ''M V'', lat = None, lon = None\<rparr>"]
  by (simp add: encode_samples del: encodeURIComponent_Cons)

text \<open>
  A negative day count does not give an empty forecast: the adapter drops that many
  of the last days and returns the others.
\<close>

theorem ow_forecast_negative_days:
  assumes "n \<le> - 1" and "ow_forecast_of units n d = Inr f"
    and "ow_forecast_of units (real (length (nullish (ow_list d) []))) d = Inr g"
  shows "map date (days f) = take (length (days g) - nat (- \<lceil>n\<rceil>)) (map date (days g))"
proof -
  from assms(2) obtain items bd where items: "ow_list d = Some items"
    and bd: "add_items units items [] = Inr bd" and f: "days f = daysOut n bd"
    by (rule ow_forecast_of_InrE)
  from assms(3) items bd have g: "days g = daysOut (real (length items)) bd"
    by (auto elim!: ow_forecast_of_InrE)
  from bd have ok: "byDate_ok bd" by (rule byDate_ok_add_items [rotated]) simp
  with slot_count_add_items [OF _ bd] have "length bd \<le> length items"
    using slot_count_ge_length [of bd] by simp
  then have "sortedDates (real (length items)) bd = sort (map fst bd)"
    by (simp add: sortedDates_all)
  with g have dg: "map date (days g) = sort (map fst bd)" by simp
  then have "length (map date (days g)) = length (sort (map fst bd))" by simp
  then have "length (days g) = length bd" by simp
  moreover note dg
  moreover from f assms(1)
  have "map date (days f) = take (length bd - nat (- \<lceil>n\<rceil>)) (sort (map fst bd))"
    by (simp add: sortedDates_negative)
  ultimately show ?thesis by simp
qed

theorem ow_forecast_negative_days_witness:
  "map date (days (projr (ow_forecast_of metric (- 1) ow_male_forecast))) = [''2024-01-01'']"
  using ow_forecast_negative_days [where n = "- 1" and units = metric and d = ow_male_forecast
      and f = "projr (ow_forecast_of metric (- 1) ow_male_forecast)"
      and g = "projr (ow_forecast_of metric 6 ow_male_forecast)"]
  by (simp add: forecast_eval sample_defs)

end
