(* ===== verification/Aggregator.thy ===== *)
theory Aggregator
  imports LRU_Cache Provider_WeatherApi Provider_OpenWeather
begin

text \<open>
  The aggregator, \<open>weather/aggregator.ts\<close>.

  \<^item> \<open>agg_state\<close> is the state the module owns or reaches: the network state and the
    three module-level caches. \<open>agg_init\<close> is their construction (\<open>max: 500\<close>, the
    time to live from the configuration, in milliseconds).
  \<^item> \<open>keyOf\<close> is the cache key. The source prints prefix, query and extra parameters
    into one string with \<open>JSON.stringify\<close>; the model keeps the three parts as a
    triple, which identifies the same keys as long as the properties of a query are
    always written in one order (they are: the schema of the server fixes it).
  \<^item> \<open>try_catch\<close> is the statement \<open>try { data = await f() } catch (e) { ... }\<close>
    with the \<open>catch\<close> block as a handler, and \<open>warn_failed\<close> the handler of the source,
    which writes a warning to the console. \<open>fetch_first\<close> is the provider sequence all
    three operations share: WeatherAPI inside \<open>try_catch\<close> if its key is set, then
    OpenWeather, not guarded, if there is no data yet and its key is set, then the
    terminal error if there is still no data.
  \<^item> \<open>getCurrentWeather\<close>, \<open>getForecast\<close> and \<open>getHistorical\<close> are the exported
    functions: key, cache lookup, provider sequence, cache store.
  \<^item> \<open>cache_or_fetch\<close> is the shape the three operations share, over any cache and
    any fetcher: a live entry is returned and nothing is fetched; otherwise the fetcher
    runs, and its result is stored if and only if it is a value. It is a device of the
    proofs: the lemmas \<open>current_refines\<close> and its siblings rewrite each operation
    into it, so that the properties of the operations are proved once, for this shape
    and for \<open>fetch_first\<close>.
  \<^item> \<open>memo\<close> is the specification of a cache as its callers understand it, a table
    from keys to records with no capacity and no clock, and \<open>implements\<close> the relation
    between an outcome of an operation and an outcome of the specification; the table of
    a cache is \<open>live\<close> of the store at the time of the network.
  \<^item> \<open>agg_inv\<close>: each cache keeps the invariant of the store, has room for at least
    one entry, and holds only records tagged with one of the two providers.
\<close>

section \<open>State\<close>

datatype extra = ExtraUnits Units | ExtraUnitsDays Units number | ExtraDate string

type_synonym cache_key = "string \<times> LocationQuery \<times> extra"

record agg_state =
  net :: net_state
  currentCache :: "(cache_key, CurrentWeather) lru"
  forecastCache :: "(cache_key, Forecast) lru"
  historicalCache :: "(cache_key, HistoricalWeather) lru"

definition agg_init :: "config \<Rightarrow> millis \<Rightarrow> agg_state" where
  "agg_init cfg now =
     \<lparr>net = \<lparr>clock = now, calls = [], warned = []\<rparr>,
      currentCache = lru_new 500 (cacheTtlSeconds cfg * 1000),
      forecastCache = lru_new 500 (forecastCacheTtlSeconds cfg * 1000),
      historicalCache = lru_new 500 (cacheTtlSeconds cfg * 1000)\<rparr>"

definition keyOf :: "string \<Rightarrow> LocationQuery \<Rightarrow> extra \<Rightarrow> cache_key" where
  "keyOf pre q ex = (pre, q, ex)"

section \<open>The provider sequence\<close>

definition try_catch ::
  "('s \<Rightarrow> 'a result \<times> 's) \<Rightarrow> (error \<Rightarrow> 's \<Rightarrow> 's) \<Rightarrow> 's \<Rightarrow> 'a option \<times> 's" where
  "try_catch f handler s =
     (case fst (f s) of
        Inl e \<Rightarrow> (None, handler e (snd (f s)))
      | Inr v \<Rightarrow> (Some v, snd (f s)))"

definition warn_failed :: "string \<Rightarrow> error \<Rightarrow> net_state \<Rightarrow> net_state" where
  "warn_failed what e n = console_warn (WeatherApiFailed what e) n"

definition fetch_first ::
  "bool \<Rightarrow> ('s \<Rightarrow> 'a result \<times> 's) \<Rightarrow> (error \<Rightarrow> 's \<Rightarrow> 's) \<Rightarrow> bool \<Rightarrow>
    ('s \<Rightarrow> 'a result \<times> 's) \<Rightarrow> error \<Rightarrow> 's \<Rightarrow> 'a result \<times> 's" where
  "fetch_first useWa wa handler useOw ow err s =
     (case (if useWa then try_catch wa handler s else (None, s)) of
        (Some v, s1) \<Rightarrow> (Inr v, s1)
      | (None, s1) \<Rightarrow> if useOw then ow s1 else (Inl err, s1))"

section \<open>The exported operations\<close>

definition getCurrentWeather ::
  "config \<Rightarrow> world \<Rightarrow> LocationQuery \<Rightarrow> Units option \<Rightarrow> agg_state \<Rightarrow> CurrentWeather result \<times> agg_state" where
  "getCurrentWeather cfg w q units0 s =
     (let units = nullish units0 (defaultUnits cfg);
          key = keyOf ''current'' q (ExtraUnits units);
          s1 = s\<lparr>currentCache := snd (lru_get (clock (net s)) key (currentCache s))\<rparr>
      in case fst (lru_get (clock (net s)) key (currentCache s)) of
           Some cached \<Rightarrow> (Inr cached, s1)
         | None \<Rightarrow>
             (case fetch_first (weatherApiKey cfg \<noteq> []) (wa_getCurrent cfg w q)
                     (warn_failed ''current'')
                     (openWeatherApiKey cfg \<noteq> []) (ow_getCurrent cfg w q units)
                     NoWeatherProvider (net s1) of
                (Inl e, n2) \<Rightarrow> (Inl e, s1\<lparr>net := n2\<rparr>)
              | (Inr data, n2) \<Rightarrow>
                  (Inr data,
                   s1\<lparr>net := n2, currentCache := lru_set (clock n2) key data (currentCache s1)\<rparr>)))"

definition getForecast ::
  "config \<Rightarrow> world \<Rightarrow> LocationQuery \<Rightarrow> Units option \<Rightarrow> number option \<Rightarrow> agg_state \<Rightarrow> Forecast result \<times> agg_state" where
  "getForecast cfg w q units0 days0 s =
     (let units = nullish units0 (defaultUnits cfg);
          n = nullish days0 3;
          key = keyOf ''forecast'' q (ExtraUnitsDays units n);
          s1 = s\<lparr>forecastCache := snd (lru_get (clock (net s)) key (forecastCache s))\<rparr>
      in case fst (lru_get (clock (net s)) key (forecastCache s)) of
           Some cached \<Rightarrow> (Inr cached, s1)
         | None \<Rightarrow>
             (case fetch_first (weatherApiKey cfg \<noteq> []) (wa_getForecast cfg w q n)
                     (warn_failed ''forecast'')
                     (openWeatherApiKey cfg \<noteq> []) (ow_getForecast cfg w q units n)
                     NoWeatherProvider (net s1) of
                (Inl e, n2) \<Rightarrow> (Inl e, s1\<lparr>net := n2\<rparr>)
              | (Inr data, n2) \<Rightarrow>
                  (Inr data,
                   s1\<lparr>net := n2, forecastCache := lru_set (clock n2) key data (forecastCache s1)\<rparr>)))"

definition getHistorical ::
  "config \<Rightarrow> world \<Rightarrow> LocationQuery \<Rightarrow> string \<Rightarrow> agg_state \<Rightarrow> HistoricalWeather result \<times> agg_state" where
  "getHistorical cfg w q dateISO s =
     (let key = keyOf ''historical'' q (ExtraDate dateISO);
          s1 = s\<lparr>historicalCache := snd (lru_get (clock (net s)) key (historicalCache s))\<rparr>
      in case fst (lru_get (clock (net s)) key (historicalCache s)) of
           Some cached \<Rightarrow> (Inr cached, s1)
         | None \<Rightarrow>
             (case (if weatherApiKey cfg \<noteq> []
                    then try_catch (wa_getHistorical cfg w q dateISO) (warn_failed ''historical'')
                           (net s1)
                    else (None, net s1)) of
                (None, n2) \<Rightarrow> (Inl HistoricalNotAvailable, s1\<lparr>net := n2\<rparr>)
              | (Some data, n2) \<Rightarrow>
                  (Inr data,
                   s1\<lparr>net := n2,
                      historicalCache := lru_set (clock n2) key data (historicalCache s1)\<rparr>)))"

named_theorems agg_defs "definitions of the aggregator"

lemmas [agg_defs] =
  agg_init_def keyOf_def try_catch_def fetch_first_def getCurrentWeather_def getForecast_def
  getHistorical_def

section \<open>The contract: cache or fetch\<close>

definition cache_or_fetch ::
  "'k \<Rightarrow> (net_state \<Rightarrow> 'v result \<times> net_state) \<Rightarrow> ('k, 'v) lru \<Rightarrow> net_state \<Rightarrow>
    'v result \<times> ('k, 'v) lru \<times> net_state" where
  "cache_or_fetch key fetch c n =
     (case live (clock n) c key of
        Some v \<Rightarrow> (Inr v, snd (lru_get (clock n) key c), n)
      | None \<Rightarrow>
          (case fst (fetch n) of
             Inl e \<Rightarrow> (Inl e, snd (lru_get (clock n) key c), snd (fetch n))
           | Inr d \<Rightarrow>
               (Inr d,
                lru_set (clock (snd (fetch n))) key d (snd (lru_get (clock n) key c)),
                snd (fetch n))))"

text \<open>The key and the provider sequence of each operation, as the statements below name them.\<close>

abbreviation current_key :: "config \<Rightarrow> LocationQuery \<Rightarrow> Units option \<Rightarrow> cache_key" where
  "current_key cfg q units0 \<equiv> keyOf ''current'' q (ExtraUnits (nullish units0 (defaultUnits cfg)))"

abbreviation forecast_key :: "config \<Rightarrow> LocationQuery \<Rightarrow> Units option \<Rightarrow> number option \<Rightarrow> cache_key" where
  "forecast_key cfg q units0 days0 \<equiv>
     keyOf ''forecast'' q (ExtraUnitsDays (nullish units0 (defaultUnits cfg)) (nullish days0 3))"

abbreviation historical_key :: "LocationQuery \<Rightarrow> string \<Rightarrow> cache_key" where
  "historical_key q dateISO \<equiv> keyOf ''historical'' q (ExtraDate dateISO)"

abbreviation fetch_current ::
  "config \<Rightarrow> world \<Rightarrow> LocationQuery \<Rightarrow> Units option \<Rightarrow> net_state \<Rightarrow> CurrentWeather result \<times> net_state" where
  "fetch_current cfg w q units0 \<equiv>
     fetch_first (weatherApiKey cfg \<noteq> []) (wa_getCurrent cfg w q)
       (warn_failed ''current'')
       (openWeatherApiKey cfg \<noteq> []) (ow_getCurrent cfg w q (nullish units0 (defaultUnits cfg)))
       NoWeatherProvider"

abbreviation fetch_forecast ::
  "config \<Rightarrow> world \<Rightarrow> LocationQuery \<Rightarrow> Units option \<Rightarrow> number option \<Rightarrow> net_state \<Rightarrow> Forecast result \<times> net_state" where
  "fetch_forecast cfg w q units0 days0 \<equiv>
     fetch_first (weatherApiKey cfg \<noteq> []) (wa_getForecast cfg w q (nullish days0 3))
       (warn_failed ''forecast'') (openWeatherApiKey cfg \<noteq> [])
       (ow_getForecast cfg w q (nullish units0 (defaultUnits cfg)) (nullish days0 3))
       NoWeatherProvider"

abbreviation fetch_historical ::
  "config \<Rightarrow> world \<Rightarrow> LocationQuery \<Rightarrow> string \<Rightarrow> net_state \<Rightarrow> HistoricalWeather result \<times> net_state" where
  "fetch_historical cfg w q dateISO \<equiv>
     fetch_first (weatherApiKey cfg \<noteq> []) (wa_getHistorical cfg w q dateISO)
       (warn_failed ''historical'') False (\<lambda>n. (Inl HistoricalNotAvailable, n))
       HistoricalNotAvailable"

section \<open>Invariant\<close>

definition known_provider :: "string \<Rightarrow> bool" where
  "known_provider p = (p = ''weatherapi'' \<or> p = ''openweather'')"

definition cache_ok :: "('v \<Rightarrow> string) \<Rightarrow> ('k, 'v) lru \<Rightarrow> bool" where
  "cache_ok tag c =
     (lru_inv c \<and> 0 < maxEntries c \<and> list_all (\<lambda>v. known_provider (tag v)) (values_of c))"

definition agg_inv :: "agg_state \<Rightarrow> bool" where
  "agg_inv s =
     (cache_ok provider (currentCache s) \<and> cache_ok f_provider (forecastCache s) \<and>
      cache_ok provider (historicalCache s))"

section \<open>The provider sequence, branch by branch\<close>

lemma try_catch_simps:
  "fst (f s) = Inl e \<Longrightarrow> try_catch f h s = (None, h e (snd (f s)))"
  "fst (f s) = Inr v \<Longrightarrow> try_catch f h s = (Some v, snd (f s))"
  by (simp_all add: try_catch_def)

lemma fst_try_catch:
  "fst (try_catch f h s) = (case fst (f s) of Inl e \<Rightarrow> None | Inr v \<Rightarrow> Some v)"
  by (simp add: try_catch_def split: sum.splits)

lemma warn_failed_simps [simp]:
  "clock (warn_failed what e n) = clock n"
  "calls (warn_failed what e n) = calls n"
  "warned (warn_failed what e n) = warned n @ [WeatherApiFailed what e]"
  "grew k n (warn_failed what e n') = grew k n n'"
  "fst (ow_getCurrent cfg w q units (warn_failed what e n)) = fst (ow_getCurrent cfg w q units n)"
  "snd (ow_getCurrent cfg w q units (warn_failed what e n)) =
    warn_failed what e (snd (ow_getCurrent cfg w q units n))"
  "fst (ow_getForecast cfg w q units k (warn_failed what e n)) =
    fst (ow_getForecast cfg w q units k n)"
  "snd (ow_getForecast cfg w q units k (warn_failed what e n)) =
    warn_failed what e (snd (ow_getForecast cfg w q units k n))"
  by (simp_all add: warn_failed_def)

lemma fetch_first_none [simp]: "fetch_first False wa h False ow err s = (Inl err, s)"
  by (simp add: fetch_first_def)

lemma fetch_first_wa_ok:
  "fst (wa s) = Inr v \<Longrightarrow> fetch_first True wa h useOw ow err s = (Inr v, snd (wa s))"
  by (simp add: fetch_first_def try_catch_simps)

lemma fetch_first_wa_fails:
  "fst (wa s) = Inl e \<Longrightarrow>
    fetch_first True wa h useOw ow err s =
      (if useOw then ow (h e (snd (wa s))) else (Inl err, h e (snd (wa s))))"
  by (simp add: fetch_first_def try_catch_simps)

lemma fetch_first_ow_only: "fetch_first False wa h True ow err s = ow s"
  by (simp add: fetch_first_def)

lemma fetch_first_cases:
  obtains (none) "\<not> useWa" "\<not> useOw" "fetch_first useWa wa h useOw ow err s = (Inl err, s)"
  | (wa) v where "useWa" "fst (wa s) = Inr v"
      "fetch_first useWa wa h useOw ow err s = (Inr v, snd (wa s))"
  | (wa_failed) e where "useWa" "\<not> useOw" "fst (wa s) = Inl e"
      "fetch_first useWa wa h useOw ow err s = (Inl err, h e (snd (wa s)))"
  | (fallback) e where "useWa" "useOw" "fst (wa s) = Inl e"
      "fetch_first useWa wa h useOw ow err s = ow (h e (snd (wa s)))"
  | (ow) "\<not> useWa" "useOw" "fetch_first useWa wa h useOw ow err s = ow s"
proof (cases useWa)
  case True
  show ?thesis
  proof (cases "fst (wa s)")
    case (Inl e)
    with True show ?thesis
      by (cases useOw) (auto intro: wa_failed fallback simp: fetch_first_wa_fails)
  next
    case (Inr v)
    with True show ?thesis by (auto intro: wa simp: fetch_first_wa_ok)
  qed
next
  case False
  then show ?thesis by (cases useOw) (auto intro: none ow simp: fetch_first_ow_only)
qed

section \<open>The provider sequence: requests, tags and errors\<close>

lemma fetch_first_grew:
  assumes "\<And>n. grew 1 n (snd (wa n))" and "\<And>n. grew 1 n (snd (ow n))"
    and h: "\<And>k e n n'. grew k n (h e n') = grew k n n'"
  shows "grew 2 s (snd (fetch_first useWa wa h useOw ow err s))"
proof -
  have "grew (1 + 1) s (snd (ow (h e (snd (wa s)))))" for e
    using assms(1,2) by (blast intro: grew_trans [OF h [THEN iffD2]])
  then have "grew 2 s (snd (ow (h e (snd (wa s)))))" for e
    by (simp add: numeral_2_eq_2)
  moreover have "grew 2 s (h e (snd (wa s)))" "grew 2 s (snd (wa s))" "grew 2 s (snd (ow s))" for e
    using assms(1,2) by (auto intro: grew_mono [of 1 _ _ 2] simp: h)
  ultimately show ?thesis
    by (cases rule: fetch_first_cases [of useWa useOw wa h ow err s]) simp_all
qed

lemma fetch_first_wa_only_grew:
  assumes "\<And>n. grew 1 n (snd (wa n))" and h: "\<And>k e n n'. grew k n (h e n') = grew k n n'"
  shows "grew 1 s (snd (fetch_first useWa wa h False ow err s))"
  using assms by (cases rule: fetch_first_cases [of useWa False wa h ow err s]) simp_all

lemma fetch_first_warned:
  assumes "\<And>n. warned (snd (wa n)) = warned n" and "\<And>n. warned (snd (ow n)) = warned n"
  shows "warned (snd (fetch_first useWa wa (warn_failed what) useOw ow err s)) =
    warned s @ (case fst (wa s) of Inl e \<Rightarrow> if useWa then [WeatherApiFailed what e] else [] | Inr v \<Rightarrow> [])"
  using assms
  by (cases rule: fetch_first_cases [of useWa useOw wa "warn_failed what" ow err s])
    (auto split: sum.splits)

lemma fetch_first_tag:
  assumes "fst (fetch_first useWa wa h useOw ow err s) = Inr v"
    and "\<And>n v. fst (wa n) = Inr v \<Longrightarrow> P v" and "\<And>n v. fst (ow n) = Inr v \<Longrightarrow> P v"
  shows "P v"
  using assms by (cases rule: fetch_first_cases [of useWa useOw wa h ow err s]) auto

lemma fetch_first_error:
  assumes "fst (fetch_first useWa wa h useOw ow err s) = Inl e"
  shows "e = err \<and> \<not> useOw \<or> useOw \<and> (\<exists>n. fst (ow n) = Inl e)"
  using assms by (cases rule: fetch_first_cases [of useWa useOw wa h ow err s]) auto

section \<open>The contract, branch by branch\<close>

lemma cof_hit:
  "live (clock n) c key = Some v \<Longrightarrow>
    cache_or_fetch key fetch c n = (Inr v, snd (lru_get (clock n) key c), n)"
  by (simp add: cache_or_fetch_def)

lemma cof_miss_error:
  "live (clock n) c key = None \<Longrightarrow> fst (fetch n) = Inl e \<Longrightarrow>
    cache_or_fetch key fetch c n = (Inl e, snd (lru_get (clock n) key c), snd (fetch n))"
  by (simp add: cache_or_fetch_def)

lemma cof_miss_ok:
  "live (clock n) c key = None \<Longrightarrow> fst (fetch n) = Inr d \<Longrightarrow>
    cache_or_fetch key fetch c n =
      (Inr d, lru_set (clock (snd (fetch n))) key d (snd (lru_get (clock n) key c)), snd (fetch n))"
  by (simp add: cache_or_fetch_def)

lemma cof_cases:
  obtains (hit) v where "live (clock n) c key = Some v"
      "cache_or_fetch key fetch c n = (Inr v, snd (lru_get (clock n) key c), n)"
  | (error) e where "live (clock n) c key = None" "fst (fetch n) = Inl e"
      "cache_or_fetch key fetch c n = (Inl e, snd (lru_get (clock n) key c), snd (fetch n))"
  | (fetched) d where "live (clock n) c key = None" "fst (fetch n) = Inr d"
      "cache_or_fetch key fetch c n =
        (Inr d, lru_set (clock (snd (fetch n))) key d (snd (lru_get (clock n) key c)),
         snd (fetch n))"
proof (cases "live (clock n) c key")
  case None
  then show ?thesis
    by (cases "fst (fetch n)") (auto intro: error fetched simp: cof_miss_error cof_miss_ok)
next
  case (Some v)
  then show ?thesis by (auto intro: hit simp: cof_hit)
qed

lemma cof_net:
  "snd (snd (cache_or_fetch key fetch c n)) = (if live (clock n) c key = None then snd (fetch n) else n)"
  by (cases rule: cof_cases [of n c key fetch]) simp_all

lemma cof_grew:
  assumes "\<And>n. grew k n (snd (fetch n))"
  shows "grew k n (snd (snd (cache_or_fetch key fetch c n)))"
  using assms by (simp add: cof_net)

lemma cof_frame [frame_simps, simp]:
  "maxEntries (fst (snd (cache_or_fetch key fetch c n))) = maxEntries c"
  "ttl (fst (snd (cache_or_fetch key fetch c n))) = ttl c"
  by (cases rule: cof_cases [of n c key fetch]; simp)+

section \<open>The contract keeps the invariant\<close>

lemma cache_ok_new [inv_intros, simp]: "0 < m \<Longrightarrow> cache_ok tag (lru_new m t)"
  by (simp add: cache_ok_def values_of_def lru_inv_def keys_of_def lru_new_def)

lemma cache_ok_get [inv_intros]: "cache_ok tag c \<Longrightarrow> cache_ok tag (snd (lru_get now k c))"
  using values_get_subset [of now k c]
  by (auto simp: cache_ok_def list_all_iff intro: lru_inv_get)

lemma cache_ok_set [inv_intros]:
  "cache_ok tag c \<Longrightarrow> known_provider (tag v) \<Longrightarrow> cache_ok tag (lru_set now k v c)"
  using values_set_subset [of now k v c]
  by (auto simp: cache_ok_def list_all_iff intro: lru_inv_set)

lemma cache_ok_live: "cache_ok tag c \<Longrightarrow> live now c k = Some v \<Longrightarrow> known_provider (tag v)"
  by (auto simp: cache_ok_def list_all_iff dest: live_in_values)

lemma cof_cache_ok [inv_intros]:
  assumes "cache_ok tag c" and "\<And>d. fst (fetch n) = Inr d \<Longrightarrow> known_provider (tag d)"
  shows "cache_ok tag (fst (snd (cache_or_fetch key fetch c n)))"
  using assms by (cases rule: cof_cases [of n c key fetch]) (simp_all add: inv_intros)

lemma cof_result_tag:
  assumes "cache_ok tag c" and "\<And>d. fst (fetch n) = Inr d \<Longrightarrow> known_provider (tag d)"
    and "fst (cache_or_fetch key fetch c n) = Inr v"
  shows "known_provider (tag v)"
  using assms by (cases rule: cof_cases [of n c key fetch]) (auto dest: cache_ok_live)

section \<open>What a call leaves in the cache\<close>

lemma cof_result_live:
  assumes "0 < maxEntries c" and "fst (cache_or_fetch key fetch c n) = Inr v"
  shows "live (clock (snd (snd (cache_or_fetch key fetch c n))))
           (fst (snd (cache_or_fetch key fetch c n))) key = Some v"
  using assms
  by (cases rule: cof_cases [of n c key fetch]) (simp_all add: live_after_get live_set_same)

lemma cof_fetched:
  assumes "live (clock n) c key = None" and "fst (cache_or_fetch key fetch c n) = Inr v"
  shows "fst (snd (cache_or_fetch key fetch c n)) =
    lru_set (clock (snd (snd (cache_or_fetch key fetch c n)))) key v (snd (lru_get (clock n) key c))"
  using assms by (cases rule: cof_cases [of n c key fetch]) auto

lemma cof_again:
  assumes "0 < maxEntries c" and "fst (cache_or_fetch key fetch c n) = Inr v"
  shows "cache_or_fetch key fetch' (fst (snd (cache_or_fetch key fetch c n)))
      (snd (snd (cache_or_fetch key fetch c n))) =
    (Inr v,
     snd (lru_get (clock (snd (snd (cache_or_fetch key fetch c n)))) key
       (fst (snd (cache_or_fetch key fetch c n)))),
     snd (snd (cache_or_fetch key fetch c n)))"
  using cof_result_live [OF assms] by (rule cof_hit)

lemma cof_within_ttl:
  assumes "0 < maxEntries c" and "live (clock n) c key = None"
    and "fst (cache_or_fetch key fetch c n) = Inr v"
    and "clock n'' \<le> clock (snd (snd (cache_or_fetch key fetch c n))) + ttl c"
  shows "cache_or_fetch key fetch' (fst (snd (cache_or_fetch key fetch c n))) n'' =
    (Inr v, snd (lru_get (clock n'') key (fst (snd (cache_or_fetch key fetch c n)))), n'')"
proof -
  have "live (clock n'') (fst (snd (cache_or_fetch key fetch c n))) key = Some v"
    using assms(1,4) by (subst cof_fetched [OF assms(2,3)]) (simp add: live_set_same)
  then show ?thesis by (rule cof_hit)
qed

lemma cof_after_ttl:
  assumes "0 < maxEntries c" and "live (clock n) c key = None"
    and "fst (cache_or_fetch key fetch c n) = Inr v"
    and "clock (snd (snd (cache_or_fetch key fetch c n))) + ttl c < clock n''"
  shows "fst (cache_or_fetch key fetch' (fst (snd (cache_or_fetch key fetch c n))) n'') =
    fst (fetch' n'')"
proof -
  have "live (clock n'') (fst (snd (cache_or_fetch key fetch c n))) key = None"
    using assms(1,4) by (subst cof_fetched [OF assms(2,3)]) (simp add: live_set_same)
  then show ?thesis by (simp add: cache_or_fetch_def split: sum.splits)
qed

lemma cof_error_not_cached:
  assumes "fst (cache_or_fetch key fetch c n) = Inl e" and "clock n \<le> now"
  shows "live now (fst (snd (cache_or_fetch key fetch c n))) key = None"
  using assms by (cases rule: cof_cases [of n c key fetch]) (simp_all add: live_after_get)

section \<open>Each operation implements the contract\<close>

lemma current_refines:
  "getCurrentWeather cfg w q u s =
    (case cache_or_fetch (current_key cfg q u) (fetch_current cfg w q u) (currentCache s) (net s) of
       (r, c, n) \<Rightarrow> (r, s\<lparr>currentCache := c, net := n\<rparr>))"
  by (simp add: getCurrentWeather_def cache_or_fetch_def lru_get_live Let_def
      split: option.splits sum.splits prod.splits)

lemma forecast_refines:
  "getForecast cfg w q u n s =
    (case cache_or_fetch (forecast_key cfg q u n) (fetch_forecast cfg w q u n) (forecastCache s)
            (net s) of
       (r, c, n') \<Rightarrow> (r, s\<lparr>forecastCache := c, net := n'\<rparr>))"
  by (simp add: getForecast_def cache_or_fetch_def lru_get_live Let_def
      split: option.splits sum.splits prod.splits)

lemma historical_refines:
  "getHistorical cfg w q dateISO s =
    (case cache_or_fetch (historical_key q dateISO) (fetch_historical cfg w q dateISO)
            (historicalCache s) (net s) of
       (r, c, n) \<Rightarrow> (r, s\<lparr>historicalCache := c, net := n\<rparr>))"
  by (simp add: getHistorical_def cache_or_fetch_def fetch_first_def lru_get_live Let_def
      split: option.splits sum.splits prod.splits)

lemma current_proj:
  "fst (getCurrentWeather cfg w q u s) =
    fst (cache_or_fetch (current_key cfg q u) (fetch_current cfg w q u) (currentCache s) (net s))"
  "currentCache (snd (getCurrentWeather cfg w q u s)) =
    fst (snd (cache_or_fetch (current_key cfg q u) (fetch_current cfg w q u) (currentCache s) (net s)))"
  "net (snd (getCurrentWeather cfg w q u s)) =
    snd (snd (cache_or_fetch (current_key cfg q u) (fetch_current cfg w q u) (currentCache s) (net s)))"
  "forecastCache (snd (getCurrentWeather cfg w q u s)) = forecastCache s"
  "historicalCache (snd (getCurrentWeather cfg w q u s)) = historicalCache s"
  by (simp_all add: current_refines split: prod.splits)

lemma forecast_proj:
  "fst (getForecast cfg w q u n s) =
    fst (cache_or_fetch (forecast_key cfg q u n) (fetch_forecast cfg w q u n) (forecastCache s) (net s))"
  "forecastCache (snd (getForecast cfg w q u n s)) =
    fst (snd (cache_or_fetch (forecast_key cfg q u n) (fetch_forecast cfg w q u n) (forecastCache s)
      (net s)))"
  "net (snd (getForecast cfg w q u n s)) =
    snd (snd (cache_or_fetch (forecast_key cfg q u n) (fetch_forecast cfg w q u n) (forecastCache s)
      (net s)))"
  "currentCache (snd (getForecast cfg w q u n s)) = currentCache s"
  "historicalCache (snd (getForecast cfg w q u n s)) = historicalCache s"
  by (simp_all add: forecast_refines split: prod.splits)

lemma historical_proj:
  "fst (getHistorical cfg w q dateISO s) =
    fst (cache_or_fetch (historical_key q dateISO) (fetch_historical cfg w q dateISO)
      (historicalCache s) (net s))"
  "historicalCache (snd (getHistorical cfg w q dateISO s)) =
    fst (snd (cache_or_fetch (historical_key q dateISO) (fetch_historical cfg w q dateISO)
      (historicalCache s) (net s)))"
  "net (snd (getHistorical cfg w q dateISO s)) =
    snd (snd (cache_or_fetch (historical_key q dateISO) (fetch_historical cfg w q dateISO)
      (historicalCache s) (net s)))"
  "currentCache (snd (getHistorical cfg w q dateISO s)) = currentCache s"
  "forecastCache (snd (getHistorical cfg w q dateISO s)) = forecastCache s"
  by (simp_all add: historical_refines split: prod.splits)

section \<open>The specification: a memo table\<close>

text \<open>
  What a cache promises to a caller, with its capacity, its clock and its order of use
  left out: a table from keys to records. A call answers from the table when the table
  has the key; otherwise it asks the providers and enters the answer, and an error
  enters nothing.
\<close>

definition memo ::
  "'k \<Rightarrow> (net_state \<Rightarrow> 'v result \<times> net_state) \<Rightarrow> ('k \<rightharpoonup> 'v) \<Rightarrow> net_state \<Rightarrow>
    'v result \<times> ('k \<rightharpoonup> 'v) \<times> net_state" where
  "memo key fetch m n =
     (case m key of
        Some v \<Rightarrow> (Inr v, m, n)
      | None \<Rightarrow>
          (case fetch n of
             (Inl e, n') \<Rightarrow> (Inl e, m, n')
           | (Inr d, n') \<Rightarrow> (Inr d, m(key \<mapsto> d), n')))"

text \<open>
  The table of a cache is \<open>live\<close> at the time of the network. An outcome of an operation
  (its answer, its cache, its network) implements an outcome of the specification when
  the answers and the networks are the same, the cache has no entry that the table
  lacks (entries may have expired or been pushed out), and a record that was answered
  is in the cache under the key of the call.
\<close>

definition implements ::
  "'k \<Rightarrow> 'v result \<times> ('k, 'v) lru \<times> net_state \<Rightarrow>
    'v result \<times> ('k \<rightharpoonup> 'v) \<times> net_state \<Rightarrow> bool" where
  "implements key conc abst =
     (case (conc, abst) of
        ((r, c, n), (r', m, n')) \<Rightarrow>
          r = r' \<and> n = n' \<and> live (clock n) c \<subseteq>\<^sub>m m \<and>
          (\<forall>v. r = Inr v \<longrightarrow> live (clock n) c key = Some v))"

lemma cof_implements_memo:
  assumes "cache_ok tag c" and "clock n \<le> clock (snd (fetch n))"
  shows "implements key (cache_or_fetch key fetch c n) (memo key fetch (live (clock n) c) n)"
proof (cases rule: cof_cases [of n c key fetch])
  case (hit v)
  then show ?thesis
    by (simp add: implements_def memo_def live_after_get map_le_def)
next
  case (error e)
  with assms(2) show ?thesis
    by (cases "fetch n") (simp add: implements_def memo_def live_get_le)
next
  case (fetched d)
  from assms(1) have inv: "lru_inv (snd (lru_get (clock n) key c))" and m: "0 < maxEntries c"
    by (simp_all add: cache_ok_def lru_inv_get)
  have "live (clock (snd (fetch n))) (snd (lru_get (clock n) key c)) \<subseteq>\<^sub>m live (clock n) c"
    using assms(2) by (rule live_get_le)
  then have "(live (clock (snd (fetch n))) (snd (lru_get (clock n) key c)))(key \<mapsto> d) \<subseteq>\<^sub>m
      (live (clock n) c)(key \<mapsto> d)"
    by (auto simp: map_le_def)
  with live_set_le [OF inv, of "clock (snd (fetch n))" "clock (snd (fetch n))" key d]
  have "live (clock (snd (fetch n)))
      (lru_set (clock (snd (fetch n))) key d (snd (lru_get (clock n) key c)))
      \<subseteq>\<^sub>m (live (clock n) c)(key \<mapsto> d)"
    by (rule map_le_trans)
  with fetched m show ?thesis
    by (cases "fetch n") (simp add: implements_def memo_def live_set_same)
qed

section \<open>Runs\<close>

text \<open>
  What a client can do to the aggregator: call one of the three operations, or let time
  pass. \<open>agg_step\<close> is the state after one such step, \<open>run\<close> the state after a
  sequence of them, and \<open>reachable\<close> the states a process can be in.
\<close>

definition elapse :: "millis \<Rightarrow> agg_state \<Rightarrow> agg_state" where
  "elapse d s = s\<lparr>net := (net s)\<lparr>clock := clock (net s) + d\<rparr>\<rparr>"

datatype call =
    Current LocationQuery "Units option"
  | Forecast LocationQuery "Units option" "number option"
  | Historical LocationQuery string
  | Elapse millis

fun agg_step :: "config \<Rightarrow> world \<Rightarrow> call \<Rightarrow> agg_state \<Rightarrow> agg_state" where
  "agg_step cfg w (Current q u) s = snd (getCurrentWeather cfg w q u s)"
| "agg_step cfg w (Forecast q u n) s = snd (getForecast cfg w q u n s)"
| "agg_step cfg w (Historical q d) s = snd (getHistorical cfg w q d s)"
| "agg_step cfg w (Elapse d) s = elapse d s"

definition run :: "config \<Rightarrow> world \<Rightarrow> call list \<Rightarrow> agg_state \<Rightarrow> agg_state" where
  "run cfg w cs s = fold (agg_step cfg w) cs s"

inductive reachable :: "config \<Rightarrow> world \<Rightarrow> agg_state \<Rightarrow> bool" for cfg w where
  init: "reachable cfg w (agg_init cfg now)"
| step: "reachable cfg w s \<Longrightarrow> reachable cfg w (agg_step cfg w c s)"

text \<open>The number of requests a step may issue.\<close>

fun cost :: "call \<Rightarrow> nat" where
  "cost (Current q u) = 2"
| "cost (Forecast q u n) = 2"
| "cost (Historical q d) = 1"
| "cost (Elapse d) = 0"

lemma elapse_simps [simp]:
  "clock (net (elapse d s)) = clock (net s) + d"
  "calls (net (elapse d s)) = calls (net s)"
  "warned (net (elapse d s)) = warned (net s)"
  "currentCache (elapse d s) = currentCache s"
  "forecastCache (elapse d s) = forecastCache s"
  "historicalCache (elapse d s) = historicalCache s"
  by (simp_all add: elapse_def)

lemma grew_elapse [simp]: "grew k (net s) (net (elapse d s))"
  by (simp add: grew_def)

lemma run_simps [simp]:
  "run cfg w [] s = s"
  "run cfg w (c # cs) s = run cfg w cs (agg_step cfg w c s)"
  "run cfg w (cs @ cs') s = run cfg w cs' (run cfg w cs s)"
  by (simp_all add: run_def)

lemma reachable_run: "reachable cfg w s \<Longrightarrow> reachable cfg w (run cfg w cs s)"
  by (induction cs arbitrary: s) (auto intro: reachable.step)

lemma reachable_iff_run: "reachable cfg w s \<longleftrightarrow> (\<exists>now cs. s = run cfg w cs (agg_init cfg now))"
proof
  assume "reachable cfg w s"
  then show "\<exists>now cs. s = run cfg w cs (agg_init cfg now)"
  proof induction
    case (init now)
    have "agg_init cfg now = run cfg w [] (agg_init cfg now)" by simp
    then show ?case by blast
  next
    case (step s c)
    then obtain now cs where "s = run cfg w cs (agg_init cfg now)" by blast
    then have "agg_step cfg w c s = run cfg w (cs @ [c]) (agg_init cfg now)" by simp
    then show ?case by blast
  qed
next
  assume "\<exists>now cs. s = run cfg w cs (agg_init cfg now)"
  then show "reachable cfg w s" by (auto intro: reachable_run reachable.init)
qed

section \<open>Requests and tags of the operations\<close>

lemma fetch_grew:
  "grew 2 n (snd (fetch_current cfg w q u n))"
  "grew 2 n (snd (fetch_forecast cfg w q u d n))"
  "grew 1 n (snd (fetch_historical cfg w q dateISO n))"
  by (rule fetch_first_grew fetch_first_wa_only_grew; simp)+

lemma fetch_clock:
  "clock n \<le> clock (snd (fetch_current cfg w q u n))"
  "clock n \<le> clock (snd (fetch_forecast cfg w q u d n))"
  "clock n \<le> clock (snd (fetch_historical cfg w q dateISO n))"
  by (rule fetch_grew [unfolded grew_def, THEN conjunct2, THEN conjunct2])+

lemma fetch_tag:
  "fst (fetch_current cfg w q u n) = Inr c \<Longrightarrow> known_provider (provider c)"
  "fst (fetch_forecast cfg w q u d n) = Inr f \<Longrightarrow> known_provider (f_provider f)"
  "fst (fetch_historical cfg w q dateISO n) = Inr h \<Longrightarrow> known_provider (provider h)"
  by (erule fetch_first_tag;
      simp add: known_provider_def wa_getCurrent_provider ow_getCurrent_provider
        wa_getForecast_provider ow_getForecast_provider wa_getHistorical_provider)+

lemma step_grew: "grew (cost c) (net s) (net (agg_step cfg w c s))"
  by (cases c)
    (simp_all add: current_proj forecast_proj historical_proj cof_grew fetch_grew
      del: One_nat_def)

lemma agg_inv_init [inv_intros, simp]: "agg_inv (agg_init cfg now)"
  by (simp add: agg_inv_def agg_init_def)

lemma agg_inv_step [inv_intros]: "agg_inv s \<Longrightarrow> agg_inv (agg_step cfg w c s)"
  by (cases c)
    (auto simp: agg_inv_def current_proj forecast_proj historical_proj
      intro!: cof_cache_ok fetch_tag)

section \<open>Sample states\<close>

text \<open>
  \<open>warm_state\<close> is the state of a process configured with the WeatherAPI key only,
  started at time 0, after one call for the current weather of the sample query in the
  world where every provider answers.
\<close>

definition warm_state :: agg_state where
  "warm_state =
     \<lparr>net = \<lparr>clock = 120, calls = [WA_current ''wa-key'' [Lit ''Male,MV'']], warned = []\<rparr>,
      currentCache =
        \<lparr>maxEntries = 500, ttl = 600000,
         entries = [\<lparr>e_key = (''current'', male_query, ExtraUnits metric), e_value = wa_male_now,
                     insertedAt = 120, e_ttl = 600000\<rparr>]\<rparr>,
      forecastCache = lru_new 500 10800000,
      historicalCache = lru_new 500 600000\<rparr>"

lemma cold_simps [simp]:
  "net (agg_init cfg now) = \<lparr>clock = now, calls = [], warned = []\<rparr>"
  "live t (currentCache (agg_init cfg now)) k = None"
  "live t (forecastCache (agg_init cfg now)) k' = None"
  "live t (historicalCache (agg_init cfg now)) k'' = None"
  "ttl (currentCache (agg_init cfg now)) = cacheTtlSeconds cfg * 1000"
  "maxEntries (currentCache (agg_init cfg now)) = 500"
  by (simp_all add: agg_init_def live_def lru_new_def)

lemma lru_get_new [simp]: "lru_get t k (lru_new m x) = (None, lru_new m x)"
  by (simp add: lru_get_def lru_new_def)

lemma first_call_male:
  "getCurrentWeather cfg_wa world_ok male_query None (agg_init cfg_wa 0) = (Inr wa_male_now, warm_state)"
  by (simp add: current_refines cof_miss_ok fetch_first_wa_ok wa_getCurrent_male)
    (simp add: agg_init_def keyOf_def sent_def lru_get_def lru_set_def lru_new_def warm_state_def)

lemma warm_state_simps [simp]:
  "live t (currentCache warm_state) (keyOf ''current'' male_query (ExtraUnits metric)) =
    (if 600120 < t then None else Some wa_male_now)"
  "net warm_state = \<lparr>clock = 120, calls = [WA_current ''wa-key'' [Lit ''Male,MV'']], warned = []\<rparr>"
  by (simp_all add: warm_state_def live_def expired_def keyOf_def)

lemma reachable_warm_state: "reachable cfg_wa world_ok warm_state"
  using reachable.step [OF reachable.init [of cfg_wa world_ok 0], where c = "Current male_query None"]
  by (simp add: first_call_male)

lemma agg_inv_warm_state [simp]: "agg_inv warm_state"
  using agg_inv_step [OF agg_inv_init, where cfg = cfg_wa and w = world_ok
      and c = "Current male_query None" and cfg1 = cfg_wa and now1 = 0]
  by (simp add: first_call_male)

lemma getCurrentWeather_both_fail_sample:
  "fst (getCurrentWeather cfg_both world_down male_query None (agg_init cfg_both 0)) = Inl AxiosError"
  by (simp add: current_proj cof_miss_error fetch_first_wa_fails wa_getCurrent_male_down
      ow_getCurrent_male_down)

section \<open>Properties of the current-weather operation\<close>

text \<open>
  C1. A live cache entry under the key of the call is returned as it is, and the network
  state is untouched: no request is issued and no time passes, whatever the world would
  answer.
\<close>

theorem getCurrentWeather_cache_hit:
  assumes "live (clock (net s)) (currentCache s) (current_key cfg q u) = Some v"
  shows "fst (getCurrentWeather cfg w q u s) = Inr v \<and>
    net (snd (getCurrentWeather cfg w q u s)) = net s"
  using assms by (simp add: current_proj cof_hit)

theorem getCurrentWeather_cache_hit_witness:
  "fst (getCurrentWeather cfg_wa world_down male_query None warm_state) = Inr wa_male_now \<and>
    net (snd (getCurrentWeather cfg_wa world_down male_query None warm_state)) = net warm_state"
  by (rule getCurrentWeather_cache_hit) simp

text \<open>
  C14. With no provider key configured and nothing cached, the call fails with the
  terminal error without issuing a request, and leaves nothing in the cache under its
  key.
\<close>

theorem getCurrentWeather_no_provider:
  assumes "weatherApiKey cfg = []" and "openWeatherApiKey cfg = []"
    and "live (clock (net s)) (currentCache s) (current_key cfg q u) = None"
  shows "fst (getCurrentWeather cfg w q u s) = Inl NoWeatherProvider \<and>
    net (snd (getCurrentWeather cfg w q u s)) = net s \<and>
    live (clock (net s)) (currentCache (snd (getCurrentWeather cfg w q u s))) (current_key cfg q u) =
      None"
  using assms by (simp add: current_proj cof_miss_error live_after_get)

theorem getCurrentWeather_no_provider_witness:
  "fst (getCurrentWeather cfg_none world_ok male_query None (agg_init cfg_none 0)) =
    Inl NoWeatherProvider \<and>
   net (snd (getCurrentWeather cfg_none world_ok male_query None (agg_init cfg_none 0))) =
    \<lparr>clock = 0, calls = [], warned = []\<rparr>"
  using getCurrentWeather_no_provider [of cfg_none "agg_init cfg_none 0" male_query None world_ok]
  by simp

text \<open>
  C2. First success wins: when the WeatherAPI key is set, nothing is cached and
  WeatherAPI answers, its record is the result, the network state is the one WeatherAPI
  left (OpenWeather is never asked, whether or not its key is set), and the record is
  live in the cache afterwards.
\<close>

theorem getCurrentWeather_first_wins:
  assumes "weatherApiKey cfg \<noteq> []"
    and "live (clock (net s)) (currentCache s) (current_key cfg q u) = None"
    and "fst (wa_getCurrent cfg w q (net s)) = Inr d"
    and "0 < maxEntries (currentCache s)"
  shows "fst (getCurrentWeather cfg w q u s) = Inr d \<and>
    net (snd (getCurrentWeather cfg w q u s)) = snd (wa_getCurrent cfg w q (net s)) \<and>
    live (clock (net (snd (getCurrentWeather cfg w q u s))))
      (currentCache (snd (getCurrentWeather cfg w q u s))) (current_key cfg q u) = Some d"
  using assms by (simp add: current_proj cof_miss_ok fetch_first_wa_ok live_set_same)

theorem getCurrentWeather_first_wins_witness:
  "fst (getCurrentWeather cfg_both world_ok male_query None (agg_init cfg_both 0)) = Inr wa_male_now \<and>
   calls (net (snd (getCurrentWeather cfg_both world_ok male_query None (agg_init cfg_both 0)))) =
    [WA_current ''wa-key'' [Lit ''Male,MV'']]"
  using getCurrentWeather_first_wins [of cfg_both "agg_init cfg_both 0" male_query None world_ok
      wa_male_now]
  by (simp add: wa_getCurrent_male)

text \<open>
  C3. Fallback: when both keys are set, nothing is cached and WeatherAPI fails, the
  result of the call is whatever OpenWeather returns when asked after it, the failure
  of WeatherAPI is written to the console as a warning and is not raised, and a record
  so obtained carries the tag of OpenWeather.
\<close>

theorem getCurrentWeather_fallback:
  assumes "weatherApiKey cfg \<noteq> []" and "openWeatherApiKey cfg \<noteq> []"
    and "live (clock (net s)) (currentCache s) (current_key cfg q u) = None"
    and "fst (wa_getCurrent cfg w q (net s)) = Inl e"
  shows "fst (getCurrentWeather cfg w q u s) =
      fst (ow_getCurrent cfg w q (nullish u (defaultUnits cfg)) (snd (wa_getCurrent cfg w q (net s)))) \<and>
    warned (net (snd (getCurrentWeather cfg w q u s))) =
      warned (net s) @ [WeatherApiFailed ''current'' e] \<and>
    (\<forall>d. fst (getCurrentWeather cfg w q u s) = Inr d \<longrightarrow> provider d = ''openweather'')"
proof -
  have "fst (getCurrentWeather cfg w q u s) =
      fst (ow_getCurrent cfg w q (nullish u (defaultUnits cfg)) (snd (wa_getCurrent cfg w q (net s))))"
    and "warned (net (snd (getCurrentWeather cfg w q u s))) =
      warned (net s) @ [WeatherApiFailed ''current'' e]"
    using assms
    by (cases rule: cof_cases [of "net s" "currentCache s" "current_key cfg q u"
          "fetch_current cfg w q u"];
        simp add: current_proj fetch_first_wa_fails)+
  then show ?thesis by (auto dest: ow_getCurrent_provider)
qed

theorem getCurrentWeather_fallback_witness:
  "fst (getCurrentWeather cfg_both world_wa_down male_query None (agg_init cfg_both 0)) =
    Inr ow_male_now \<and>
   warned (net (snd (getCurrentWeather cfg_both world_wa_down male_query None
     (agg_init cfg_both 0)))) = [WeatherApiFailed ''current'' AxiosError]"
  using getCurrentWeather_fallback [of cfg_both "agg_init cfg_both 0" male_query None world_wa_down
      AxiosError]
  by (simp add: wa_getCurrent_male_down ow_getCurrent_male)

text \<open>
  C4. When both keys are set and both providers fail, the caller does not get the
  terminal error: the call fails with the error OpenWeather raised, because only the
  WeatherAPI call is guarded.
\<close>

theorem getCurrentWeather_both_fail:
  assumes "weatherApiKey cfg \<noteq> []" and "openWeatherApiKey cfg \<noteq> []"
    and "live (clock (net s)) (currentCache s) (current_key cfg q u) = None"
    and "fst (wa_getCurrent cfg w q (net s)) = Inl e"
    and "fst (ow_getCurrent cfg w q (nullish u (defaultUnits cfg))
           (snd (wa_getCurrent cfg w q (net s)))) = Inl e'"
  shows "fst (getCurrentWeather cfg w q u s) = Inl e' \<and> e' \<noteq> NoWeatherProvider"
  using assms ow_errors(1) [OF assms(5)]
  by (cases rule: cof_cases [of "net s" "currentCache s" "current_key cfg q u"
        "fetch_current cfg w q u"])
    (simp_all add: current_proj fetch_first_wa_fails)

theorem getCurrentWeather_both_fail_witness:
  "fst (getCurrentWeather cfg_both world_down male_query None (agg_init cfg_both 0)) = Inl AxiosError"
  using getCurrentWeather_both_fail [of cfg_both "agg_init cfg_both 0" male_query None world_down
      AxiosError AxiosError]
  by (simp add: wa_getCurrent_male_down ow_getCurrent_male_down)

text \<open>
  Idempotence: a successful call repeated at once with the same arguments returns
  the same record and leaves the network state alone, in any world.
\<close>

theorem getCurrentWeather_repeat:
  assumes "agg_inv s" and "fst (getCurrentWeather cfg w q u s) = Inr v"
  shows "fst (getCurrentWeather cfg w' q u (snd (getCurrentWeather cfg w q u s))) = Inr v \<and>
    net (snd (getCurrentWeather cfg w' q u (snd (getCurrentWeather cfg w q u s)))) =
      net (snd (getCurrentWeather cfg w q u s))"
  using assms by (simp add: current_proj cof_again agg_inv_def cache_ok_def)

theorem getCurrentWeather_repeat_witness:
  "fst (getCurrentWeather cfg_wa world_down male_query None
          (snd (getCurrentWeather cfg_wa world_ok male_query None (agg_init cfg_wa 0)))) =
    Inr wa_male_now"
  using getCurrentWeather_repeat [where s = "agg_init cfg_wa 0" and cfg = cfg_wa and w = world_ok
      and q = male_query and u = None and v = wa_male_now and w' = world_down]
  by (simp add: first_call_male)

text \<open>
  C11. A record fetched on a miss is served from the cache for as long as its time to
  live: a call with the same arguments made \<open>d\<close> milliseconds after the first one
  returned, \<open>d\<close> not above the time to live, returns the same record and issues no
  request.
\<close>

theorem getCurrentWeather_within_ttl:
  assumes "agg_inv s"
    and "live (clock (net s)) (currentCache s) (current_key cfg q u) = None"
    and "fst (getCurrentWeather cfg w q u s) = Inr v"
    and "d \<le> ttl (currentCache s)"
  shows "fst (getCurrentWeather cfg w' q u (elapse d (snd (getCurrentWeather cfg w q u s)))) = Inr v \<and>
    calls (net (snd (getCurrentWeather cfg w' q u (elapse d (snd (getCurrentWeather cfg w q u s)))))) =
      calls (net (snd (getCurrentWeather cfg w q u s)))"
  using assms by (simp add: current_proj cof_within_ttl agg_inv_def cache_ok_def)

theorem getCurrentWeather_within_ttl_witness:
  "fst (getCurrentWeather cfg_wa world_down male_query None (elapse 600000 warm_state)) =
    Inr wa_male_now \<and>
   calls (net (snd (getCurrentWeather cfg_wa world_down male_query None (elapse 600000 warm_state)))) =
    [WA_current ''wa-key'' [Lit ''Male,MV'']]"
  using getCurrentWeather_within_ttl [where s = "agg_init cfg_wa 0" and cfg = cfg_wa
      and w = world_ok and q = male_query and u = None and v = wa_male_now and d = 600000
      and w' = world_down]
  by (simp add: first_call_male)

text \<open>
  C12. Entries expire: once more than the time to live has passed since a record was
  fetched, a call with the same arguments goes upstream again; its result is the result
  of the provider sequence in the world of that moment.
\<close>

theorem getCurrentWeather_after_ttl:
  assumes "agg_inv s"
    and "live (clock (net s)) (currentCache s) (current_key cfg q u) = None"
    and "fst (getCurrentWeather cfg w q u s) = Inr v"
    and "ttl (currentCache s) < d"
  shows "fst (getCurrentWeather cfg w' q u (elapse d (snd (getCurrentWeather cfg w q u s)))) =
      fst (fetch_first (weatherApiKey cfg \<noteq> []) (wa_getCurrent cfg w' q) (warn_failed ''current'')
        (openWeatherApiKey cfg \<noteq> []) (ow_getCurrent cfg w' q (nullish u (defaultUnits cfg)))
        NoWeatherProvider (net (elapse d (snd (getCurrentWeather cfg w q u s)))))"
  using assms by (simp add: current_proj cof_after_ttl agg_inv_def cache_ok_def)

theorem getCurrentWeather_after_ttl_witness:
  "fst (getCurrentWeather cfg_wa world_down male_query None (elapse 600001 warm_state)) =
    Inl NoWeatherProvider"
  using getCurrentWeather_after_ttl [where s = "agg_init cfg_wa 0" and cfg = cfg_wa
      and w = world_ok and q = male_query and u = None and v = wa_male_now and d = 600001
      and w' = world_down]
  by (simp add: first_call_male fetch_first_wa_fails wa_getCurrent_male_down)

text \<open>
  C13. A failed call caches nothing: after it no entry is live under its key, so the
  next call with the same arguments asks the providers again.
\<close>

theorem getCurrentWeather_error_not_cached:
  assumes "fst (getCurrentWeather cfg w q u s) = Inl e"
  shows "live (clock (net (snd (getCurrentWeather cfg w q u s))))
      (currentCache (snd (getCurrentWeather cfg w q u s))) (current_key cfg q u) = None"
proof -
  have "clock (net s) \<le> clock (net (snd (getCurrentWeather cfg w q u s)))"
    using step_grew [where c = "Current q u" and s = s and cfg = cfg and w = w]
    by (simp add: grew_def)
  with assms show ?thesis by (simp add: current_proj cof_error_not_cached)
qed

theorem getCurrentWeather_error_not_cached_witness:
  "live (clock (net (snd (getCurrentWeather cfg_both world_down male_query None (agg_init cfg_both 0)))))
     (currentCache (snd (getCurrentWeather cfg_both world_down male_query None (agg_init cfg_both 0))))
     (current_key cfg_both male_query None) = None"
  using getCurrentWeather_error_not_cached [where s = "agg_init cfg_both 0" and cfg = cfg_both
      and w = world_down and q = male_query and u = None and e = AxiosError]
    getCurrentWeather_both_fail_sample
  by simp

text \<open>
  C37. Every record the operation returns, fetched or cached, carries the tag of one of
  the two providers, in every state that satisfies the invariant.
\<close>

theorem getCurrentWeather_provider_known:
  assumes "agg_inv s" and "fst (getCurrentWeather cfg w q u s) = Inr v"
  shows "known_provider (provider v)"
  using assms
  by (auto simp: agg_inv_def current_proj intro: fetch_tag
      elim!: cof_result_tag [where tag = provider, rotated 2])

theorem getCurrentWeather_provider_known_witness:
  "known_provider (provider wa_male_now)"
  using getCurrentWeather_provider_known [where s = "agg_init cfg_wa 0" and cfg = cfg_wa
      and w = world_ok and q = male_query and u = None and v = wa_male_now]
  by (simp add: first_call_male)

section \<open>Properties of the historical operation\<close>

text \<open>
  Historical data has one provider only: without the WeatherAPI key and with nothing
  cached the call fails with its own terminal error and issues no request, whether or
  not the OpenWeather key is set.
\<close>

theorem getHistorical_needs_weatherapi:
  assumes "weatherApiKey cfg = []"
    and "live (clock (net s)) (historicalCache s) (historical_key q dateISO) = None"
  shows "fst (getHistorical cfg w q dateISO s) = Inl HistoricalNotAvailable \<and>
    net (snd (getHistorical cfg w q dateISO s)) = net s"
  using assms by (simp add: historical_proj cof_miss_error)

theorem getHistorical_needs_weatherapi_witness:
  "fst (getHistorical cfg_ow world_ok male_query ''2024-01-01'' (agg_init cfg_ow 0)) =
    Inl HistoricalNotAvailable \<and>
   net (snd (getHistorical cfg_ow world_ok male_query ''2024-01-01'' (agg_init cfg_ow 0))) =
    \<lparr>clock = 0, calls = [], warned = []\<rparr>"
  using getHistorical_needs_weatherapi [where cfg = cfg_ow and s = "agg_init cfg_ow 0"
      and q = male_query and dateISO = "''2024-01-01''" and w = world_ok]
  by simp

section \<open>Properties of runs\<close>

text \<open>
  C5. The invariant holds in every reachable state: whatever sequence of calls and
  pauses a process has gone through, each cache has distinct keys, at most its capacity
  of entries, and only records tagged with a known provider.
\<close>

theorem reachable_agg_inv:
  assumes "reachable cfg w s"
  shows "agg_inv s"
  using assms by induction (simp_all add: agg_inv_step)

theorem reachable_agg_inv_witness: "agg_inv warm_state"
  by (rule reachable_agg_inv [OF reachable_warm_state])

text \<open>
  The upstream traffic of a run is bounded by its steps: a current-weather or
  forecast call issues at most two requests, a historical call at most one and a pause
  none; the request log only grows at its end and the clock never runs backwards.
\<close>

theorem run_grew: "grew (sum_list (map cost cs)) (net s) (net (run cfg w cs s))"
proof (induction cs arbitrary: s)
  case Nil
  show ?case by simp
next
  case (Cons c cs)
  from grew_trans [OF step_grew Cons.IH] show ?case by simp
qed

text \<open>
  C7. Each exported operation implements the memo table on its own cache: in a state
  that satisfies the invariant it answers what the table of its cache answers under the
  key of the call, asking the providers only when the table lacks the key; the table of
  the cache afterwards holds nothing but what it held before and the record fetched; a
  record that was answered is in the cache under that key at the time the call returns,
  and an error is not; and the other two caches are as they were.
\<close>

theorem caches_implement_memo:
  assumes "agg_inv s"
  shows
    "implements (current_key cfg q u)
       (fst (getCurrentWeather cfg w q u s), currentCache (snd (getCurrentWeather cfg w q u s)),
        net (snd (getCurrentWeather cfg w q u s)))
       (memo (current_key cfg q u) (fetch_current cfg w q u)
          (live (clock (net s)) (currentCache s)) (net s)) \<and>
     forecastCache (snd (getCurrentWeather cfg w q u s)) = forecastCache s \<and>
     historicalCache (snd (getCurrentWeather cfg w q u s)) = historicalCache s \<and>
     implements (forecast_key cfg q u k)
       (fst (getForecast cfg w q u k s), forecastCache (snd (getForecast cfg w q u k s)),
        net (snd (getForecast cfg w q u k s)))
       (memo (forecast_key cfg q u k) (fetch_forecast cfg w q u k)
          (live (clock (net s)) (forecastCache s)) (net s)) \<and>
     currentCache (snd (getForecast cfg w q u k s)) = currentCache s \<and>
     historicalCache (snd (getForecast cfg w q u k s)) = historicalCache s \<and>
     implements (historical_key q dateISO)
       (fst (getHistorical cfg w q dateISO s), historicalCache (snd (getHistorical cfg w q dateISO s)),
        net (snd (getHistorical cfg w q dateISO s)))
       (memo (historical_key q dateISO) (fetch_historical cfg w q dateISO)
          (live (clock (net s)) (historicalCache s)) (net s)) \<and>
     currentCache (snd (getHistorical cfg w q dateISO s)) = currentCache s \<and>
     forecastCache (snd (getHistorical cfg w q dateISO s)) = forecastCache s"
  using assms
  by (simp add: agg_inv_def current_proj forecast_proj historical_proj
      cof_implements_memo [where tag = provider] cof_implements_memo [where tag = f_provider]
      fetch_clock)

theorem caches_implement_memo_witness:
  "fst (getCurrentWeather cfg_wa world_ok male_query None warm_state) = Inr wa_male_now \<and>
   net (snd (getCurrentWeather cfg_wa world_ok male_query None warm_state)) = net warm_state \<and>
   live 120 (currentCache (snd (getCurrentWeather cfg_wa world_ok male_query None warm_state)))
     \<subseteq>\<^sub>m live 120 (currentCache warm_state)"
  using caches_implement_memo [where s = warm_state and cfg = cfg_wa and w = world_ok
      and q = male_query and u = None, THEN conjunct1]
  by (auto simp: implements_def memo_def)

end
