(* ===== verification/Alert_Service.thy ===== *)
theory Alert_Service
  imports Aggregator
begin

text \<open>
  The alert service, \<open>alerts/alertService.ts\<close>.

  \<^item> \<open>WeatherAlert\<close> and its parts are the interfaces of the source. An alert is an
    object that the registry, a snapshot taken by a sweep and the caller of
    \<open>registerAlert\<close> share, and \<open>notify\<close> writes to it; so alerts live in a
    \<open>heap\<close> (a list, an address is an index, allocation appends) and the registry
    maps an id to an address. The JavaScript \<open>Map\<close> keeps insertion order and
    replaces the value of a present key in place: an association list under
    \<open>AList.update\<close> and \<open>AList.delete\<close>.
  \<^item> \<open>generateId\<close> takes the string \<open>Math.random().toString(36)\<close> as an input
    from the environment.
  \<^item> \<open>notify\<close>, \<open>adjustThreshold\<close>, \<open>evaluateAlert\<close>, \<open>pollAlerts\<close>,
    \<open>startAlertScheduler\<close> and \<open>stopAlertScheduler\<close> follow the source statement by
    statement. The messages stay symbolic (\<open>alert_message\<close>, one constructor per
    template literal), the console is a list of lines, and the timers of the runtime
    are a table from handles to periods.
  \<^item> A sweep suspends at every network call, and handlers and further sweeps run
    meanwhile. \<open>alert_step\<close> is the process at the granularity of one alert: an
    event registers or removes an alert, starts or stops the scheduler, lets a timer
    fire (which takes the snapshot of a new sweep), evaluates the next alert of a sweep
    in flight, is a call of the aggregator by a client, or is a line the server that
    embeds the service writes to the console. \<open>pollAlerts\<close> is the sweep
    run without interruption, and \<open>alert_reachable\<close> the states of a process.
  \<^item> \<open>alert_inv\<close>: the registry has distinct ids, every address in the registry or
    in a sweep is allocated and the object at the address of an id carries that id, the
    scheduler flag agrees with the handle, the timer table holds exactly the timer of
    the handle, and the aggregator's invariant holds.
\<close>

section \<open>Alerts\<close>

datatype AlertConditionType = rain | temp_above | temp_below | wind_above

record WeatherAlertCondition =
  ctype :: AlertConditionType
  threshold :: "number option"
  daysAhead :: "number option"

datatype AlertChannel = console | webhook

datatype Sensitivity = low | medium | high

record alert_input =
  al_name :: "string option"
  al_location :: LocationQuery
  al_condition :: WeatherAlertCondition
  channel :: AlertChannel
  webhookUrl :: "string option"
  sensitivity :: "Sensitivity option"
  lastTriggeredAt :: "instant option"

record WeatherAlert = alert_input +
  al_id :: string
  createdAt :: instant

datatype alert_message =
    RainExpected number Location
  | TemperatureAbove number template
  | TemperatureBelow number template
  | WindAbove number template

datatype log_line =
    AlertLine string alert_message
  | WebhookNotifyFailed
  | AlertEvaluationFailed string error
  | SchedulerStarted nat
  | ServerRunning nat

section \<open>State\<close>

record alert_state =
  agg :: agg_state
  heap :: "WeatherAlert list"
  alerts :: "(string \<times> nat) list"
  schedulerStarted :: bool
  intervalHandle :: "nat option"
  timers :: "(nat \<times> millis) list"
  nextHandle :: nat
  console_log :: "log_line list"
  sweeps :: "nat list list"

definition alert_init :: "config \<Rightarrow> millis \<Rightarrow> alert_state" where
  "alert_init cfg now =
     \<lparr>agg = agg_init cfg now, heap = [], alerts = [], schedulerStarted = False,
      intervalHandle = None, timers = [], nextHandle = 0, console_log = [], sweeps = []\<rparr>"

definition now_of :: "alert_state \<Rightarrow> millis" where
  "now_of s = clock (net (agg s))"

section \<open>Registry\<close>

definition generateId :: "string \<Rightarrow> string" where
  "generateId rnd = drop 2 rnd"

definition listAlerts :: "alert_state \<Rightarrow> nat list" where
  "listAlerts s = map snd (alerts s)"

text \<open>What a caller that serializes the result of \<open>listAlerts\<close> sees.\<close>

definition list_view :: "alert_state \<Rightarrow> WeatherAlert list" where
  "list_view s = map (\<lambda>a. heap s ! a) (listAlerts s)"

definition removeAlert :: "string \<Rightarrow> alert_state \<Rightarrow> bool \<times> alert_state" where
  "removeAlert i s = (map_of (alerts s) i \<noteq> None, s\<lparr>alerts := AList.delete i (alerts s)\<rparr>)"

definition registerAlert :: "alert_input \<Rightarrow> string \<Rightarrow> alert_state \<Rightarrow> nat \<times> alert_state" where
  "registerAlert alert rnd s =
     (let i = generateId rnd;
          full = alert_input.extend alert \<lparr>al_id = i, createdAt = Now (now_of s)\<rparr>;
          a = length (heap s)
      in (a, s\<lparr>heap := heap s @ [full], alerts := AList.update i a (alerts s)\<rparr>))"

section \<open>Notification\<close>

definition axios_post :: "world \<Rightarrow> string \<Rightarrow> string \<Rightarrow> net_state \<Rightarrow> response result \<times> net_state" where
  "axios_post w url i n = axios_get w (Webhook url i) n"

definition notify :: "world \<Rightarrow> nat \<Rightarrow> alert_message \<Rightarrow> alert_state \<Rightarrow> alert_state" where
  "notify w a message s =
     (let s1 = s\<lparr>heap := (heap s)[a := (heap s ! a)\<lparr>lastTriggeredAt := Some (Now (now_of s))\<rparr>]\<rparr>;
          alert = heap s1 ! a
      in if channel alert = console
         then s1\<lparr>console_log := console_log s1 @ [AlertLine (al_id alert) message]\<rparr>
         else if channel alert = webhook \<and> truthy (webhookUrl alert)
         then (case axios_post w (nullish (webhookUrl alert) []) (al_id alert) (net (agg s1)) of
                 (Inl e, n) \<Rightarrow>
                   s1\<lparr>agg := (agg s1)\<lparr>net := n\<rparr>,
                      console_log := console_log s1 @ [WebhookNotifyFailed]\<rparr>
               | (Inr r, n) \<Rightarrow> s1\<lparr>agg := (agg s1)\<lparr>net := n\<rparr>\<rparr>)
         else s1)"

definition adjustThreshold :: "number \<Rightarrow> Sensitivity option \<Rightarrow> number" where
  "adjustThreshold base sens =
     (if sens = None \<or> sens = Some medium then base
      else if sens = Some high then base * 0.9
      else base * 1.1)"

section \<open>Evaluation\<close>

definition evaluateAlert :: "config \<Rightarrow> world \<Rightarrow> nat \<Rightarrow> alert_state \<Rightarrow> unit result \<times> alert_state" where
  "evaluateAlert cfg w a s =
     (let alert = heap s ! a;
          cond = al_condition alert
      in if ctype cond = rain
         then (let nd = nullish (daysAhead cond) 1
               in case getForecast cfg w (al_location alert) None (Some nd) (agg s) of
                    (Inl e, g) \<Rightarrow> (Inl e, s\<lparr>agg := g\<rparr>)
                  | (Inr forecast, g) \<Rightarrow>
                      (let raining =
                             list_ex (\<lambda>d. adjustThreshold 50 (sensitivity alert)
                                             \<le> nullish (chanceOfRainPct d) 0)
                               (days forecast)
                       in if raining
                          then (Inr (),
                                notify w a (RainExpected nd (f_location forecast)) (s\<lparr>agg := g\<rparr>))
                          else (Inr (), s\<lparr>agg := g\<rparr>)))
         else (case getCurrentWeather cfg w (al_location alert) None (agg s) of
                 (Inl e, g) \<Rightarrow> (Inl e, s\<lparr>agg := g\<rparr>)
               | (Inr current, g) \<Rightarrow>
                   (let th = adjustThreshold (nullish (threshold cond) 0) (sensitivity alert);
                        place = name (location current);
                        s1 = s\<lparr>agg := g\<rparr>
                    in if ctype cond = temp_above \<and> threshold cond \<noteq> None
                       then (if th \<le> temperatureC current
                             then (Inr (), notify w a (TemperatureAbove th place) s1)
                             else (Inr (), s1))
                       else if ctype cond = temp_below \<and> threshold cond \<noteq> None
                       then (if temperatureC current \<le> th
                             then (Inr (), notify w a (TemperatureBelow th place) s1)
                             else (Inr (), s1))
                       else if ctype cond = wind_above \<and> threshold cond \<noteq> None
                       then (if th \<le> nullish (windKph current) 0
                             then (Inr (), notify w a (WindAbove th place) s1)
                             else (Inr (), s1))
                       else (Inr (), s1))))"

definition try_evaluate :: "config \<Rightarrow> world \<Rightarrow> nat \<Rightarrow> alert_state \<Rightarrow> alert_state" where
  "try_evaluate cfg w a s =
     (case evaluateAlert cfg w a s of
        (Inl e, s') \<Rightarrow>
          s'\<lparr>console_log := console_log s' @ [AlertEvaluationFailed (al_id (heap s' ! a)) e]\<rparr>
      | (Inr u, s') \<Rightarrow> s')"

fun poll_items :: "config \<Rightarrow> world \<Rightarrow> nat list \<Rightarrow> alert_state \<Rightarrow> alert_state" where
  "poll_items cfg w [] s = s"
| "poll_items cfg w (a # items) s = poll_items cfg w items (try_evaluate cfg w a s)"

definition pollAlerts :: "config \<Rightarrow> world \<Rightarrow> alert_state \<Rightarrow> alert_state" where
  "pollAlerts cfg w s = poll_items cfg w (listAlerts s) s"

section \<open>Scheduler\<close>

definition setInterval :: "millis \<Rightarrow> alert_state \<Rightarrow> nat \<times> alert_state" where
  "setInterval period s =
     (nextHandle s,
      s\<lparr>timers := timers s @ [(nextHandle s, period)], nextHandle := Suc (nextHandle s)\<rparr>)"

definition clearInterval :: "nat \<Rightarrow> alert_state \<Rightarrow> alert_state" where
  "clearInterval h s = s\<lparr>timers := AList.delete h (timers s)\<rparr>"

definition startAlertScheduler :: "config \<Rightarrow> alert_state \<Rightarrow> alert_state" where
  "startAlertScheduler cfg s =
     (if schedulerStarted s then s
      else (let s1 = s\<lparr>schedulerStarted := True\<rparr>;
                (h, s2) = setInterval (alertPollIntervalSeconds cfg * 1000) s1;
                s3 = s2\<lparr>intervalHandle := Some h\<rparr>
            in s3\<lparr>console_log := console_log s3 @ [SchedulerStarted (alertPollIntervalSeconds cfg)]\<rparr>))"

definition stopAlertScheduler :: "alert_state \<Rightarrow> alert_state" where
  "stopAlertScheduler s =
     (let s1 = (case intervalHandle s of None \<Rightarrow> s | Some h \<Rightarrow> clearInterval h s)
      in s1\<lparr>intervalHandle := None, schedulerStarted := False\<rparr>)"

section \<open>The process\<close>

datatype event =
    Register alert_input string
  | Remove string
  | Start
  | Stop
  | Fire nat
  | Eval nat
  | Client call
  | Print log_line

fun alert_step :: "config \<Rightarrow> world \<Rightarrow> event \<Rightarrow> alert_state \<Rightarrow> alert_state option" where
  "alert_step cfg w (Register alert rnd) s = Some (snd (registerAlert alert rnd s))"
| "alert_step cfg w (Remove i) s = Some (snd (removeAlert i s))"
| "alert_step cfg w Start s = Some (startAlertScheduler cfg s)"
| "alert_step cfg w Stop s = Some (stopAlertScheduler s)"
| "alert_step cfg w (Fire h) s =
     (if map_of (timers s) h = None then None
      else Some (s\<lparr>sweeps := sweeps s @ [listAlerts s]\<rparr>))"
| "alert_step cfg w (Eval k) s =
     (if k < length (sweeps s)
      then (case sweeps s ! k of
              [] \<Rightarrow> None
            | a # items \<Rightarrow> Some (try_evaluate cfg w a (s\<lparr>sweeps := (sweeps s)[k := items]\<rparr>)))
      else None)"
| "alert_step cfg w (Client c) s = Some (s\<lparr>agg := agg_step cfg w c (agg s)\<rparr>)"
| "alert_step cfg w (Print l) s = Some (s\<lparr>console_log := console_log s @ [l]\<rparr>)"

inductive alert_reachable :: "config \<Rightarrow> world \<Rightarrow> alert_state \<Rightarrow> bool" for cfg w where
  init: "alert_reachable cfg w (alert_init cfg now)"
| step: "alert_reachable cfg w s \<Longrightarrow> alert_step cfg w ev s = Some s' \<Longrightarrow> alert_reachable cfg w s'"

fun alert_run :: "config \<Rightarrow> world \<Rightarrow> event list \<Rightarrow> alert_state \<Rightarrow> alert_state option" where
  "alert_run cfg w [] s = Some s"
| "alert_run cfg w (ev # evs) s =
     (case alert_step cfg w ev s of None \<Rightarrow> None | Some s' \<Rightarrow> alert_run cfg w evs s')"

named_theorems alert_defs "definitions of the alert service"

lemmas [alert_defs] =
  alert_init_def now_of_def generateId_def listAlerts_def list_view_def removeAlert_def
  registerAlert_def axios_post_def notify_def adjustThreshold_def evaluateAlert_def
  try_evaluate_def pollAlerts_def setInterval_def clearInterval_def startAlertScheduler_def
  stopAlertScheduler_def

section \<open>Invariant\<close>

definition registry_ok :: "alert_state \<Rightarrow> bool" where
  "registry_ok s =
     (distinct (map fst (alerts s)) \<and>
      list_all (\<lambda>(i, a). a < length (heap s) \<and> al_id (heap s ! a) = i) (alerts s) \<and>
      list_all (list_all (\<lambda>a. a < length (heap s))) (sweeps s))"

definition scheduler_ok :: "alert_state \<Rightarrow> bool" where
  "scheduler_ok s =
     (schedulerStarted s = (intervalHandle s \<noteq> None) \<and>
      map fst (timers s) = (case intervalHandle s of None \<Rightarrow> [] | Some h \<Rightarrow> [h]) \<and>
      list_all (\<lambda>h. h < nextHandle s) (map fst (timers s)))"

definition alert_inv :: "alert_state \<Rightarrow> bool" where
  "alert_inv s = (registry_ok s \<and> scheduler_ok s \<and> agg_inv (agg s))"

section \<open>What evaluation may change\<close>

text \<open>
  \<open>evolves s s'\<close>: from \<open>s\<close> to \<open>s'\<close> the registry, the sweeps and the scheduler are
  the same, the objects of the heap differ at most in their \<open>lastTriggeredAt\<close>, the
  console has only grown, the caches keep their capacity and time to live, and the
  network has issued at most \<open>k\<close> requests.
\<close>

definition unstamped :: "WeatherAlert \<Rightarrow> WeatherAlert" where
  "unstamped x = x\<lparr>lastTriggeredAt := None\<rparr>"

definition evolves :: "nat \<Rightarrow> alert_state \<Rightarrow> alert_state \<Rightarrow> bool" where
  "evolves k s s' =
     (alerts s' = alerts s \<and> sweeps s' = sweeps s \<and> schedulerStarted s' = schedulerStarted s \<and>
      intervalHandle s' = intervalHandle s \<and> timers s' = timers s \<and>
      nextHandle s' = nextHandle s \<and> map unstamped (heap s') = map unstamped (heap s) \<and>
      prefix (console_log s) (console_log s') \<and> grew k (net (agg s)) (net (agg s')))"

lemma unstamped_simps [simp]:
  "al_id (unstamped x) = al_id x"
  "al_condition (unstamped x) = al_condition x"
  "al_location (unstamped x) = al_location x"
  "channel (unstamped x) = channel x"
  "webhookUrl (unstamped x) = webhookUrl x"
  "sensitivity (unstamped x) = sensitivity x"
  "createdAt (unstamped x) = createdAt x"
  "unstamped (x\<lparr>lastTriggeredAt := t\<rparr>) = unstamped x"
  by (simp_all add: unstamped_def)

lemma evolves_refl [simp, intro]: "evolves k s s"
  by (simp add: evolves_def)

lemma evolves_trans: "evolves j s s' \<Longrightarrow> evolves k s' s'' \<Longrightarrow> evolves (j + k) s s''"
  by (auto simp: evolves_def intro: grew_trans elim: prefix_order.trans)

lemma evolves_mono: "evolves j s s' \<Longrightarrow> j \<le> k \<Longrightarrow> evolves k s s'"
  by (auto simp: evolves_def intro: grew_mono)

lemma evolves_length: "evolves k s s' \<Longrightarrow> length (heap s') = length (heap s)"
  by (auto simp: evolves_def dest: map_eq_imp_length_eq)

lemma evolves_nth:
  assumes "evolves k s s'" and "a < length (heap s)"
  shows "unstamped (heap s' ! a) = unstamped (heap s ! a)"
proof -
  from assms(1) have "map unstamped (heap s') ! a = map unstamped (heap s) ! a"
    by (simp add: evolves_def)
  with assms evolves_length [OF assms(1)] show ?thesis by simp
qed

lemma evolves_al_id:
  "evolves k s s' \<Longrightarrow> a < length (heap s) \<Longrightarrow> al_id (heap s' ! a) = al_id (heap s ! a)"
  using evolves_nth [of k s s' a] unstamped_simps(1) by metis

lemma evolves_fields:
  "evolves k s s' \<Longrightarrow> alerts s' = alerts s"
  "evolves k s s' \<Longrightarrow> sweeps s' = sweeps s"
  "evolves k s s' \<Longrightarrow> timers s' = timers s"
  "evolves k s s' \<Longrightarrow> intervalHandle s' = intervalHandle s"
  "evolves k s s' \<Longrightarrow> schedulerStarted s' = schedulerStarted s"
  "evolves k s s' \<Longrightarrow> listAlerts s' = listAlerts s"
  by (simp_all add: evolves_def listAlerts_def)

lemma map_unstamped_update:
  "a < length h \<Longrightarrow> map unstamped (h[a := (h ! a)\<lparr>lastTriggeredAt := t\<rparr>]) = map unstamped h"
  by (simp add: map_update list_update_same_conv)

lemma map_unstamped_update_any:
  "map unstamped (h[a := (h ! a)\<lparr>lastTriggeredAt := t\<rparr>]) = map unstamped h"
  by (cases "a < length h") (simp_all add: map_unstamped_update list_update_beyond)

text \<open>\<open>notify\<close> with the outcome of the request read off by projections.\<close>

definition stamp :: "nat \<Rightarrow> alert_state \<Rightarrow> alert_state" where
  "stamp a s = s\<lparr>heap := (heap s)[a := (heap s ! a)\<lparr>lastTriggeredAt := Some (Now (now_of s))\<rparr>]\<rparr>"

lemma notify_alt:
  "notify w a message s =
     (let alert = heap (stamp a s) ! a;
          r = axios_post w (nullish (webhookUrl alert) []) (al_id alert) (net (agg s))
      in if channel alert = console
         then (stamp a s)\<lparr>console_log := console_log s @ [AlertLine (al_id alert) message]\<rparr>
         else if truthy (webhookUrl alert)
         then (stamp a s)
                \<lparr>agg := (agg s)\<lparr>net := snd r\<rparr>,
                 console_log := console_log s @
                   (case fst r of Inl e \<Rightarrow> [WebhookNotifyFailed] | Inr b \<Rightarrow> [])\<rparr>
         else stamp a s)"
  by (cases "channel (heap (stamp a s) ! a)")
    (auto simp: notify_def stamp_def Let_def split: prod.splits sum.splits)

lemma stamp_simps [simp]:
  "alerts (stamp a s) = alerts s"
  "sweeps (stamp a s) = sweeps s"
  "agg (stamp a s) = agg s"
  "console_log (stamp a s) = console_log s"
  "timers (stamp a s) = timers s"
  "intervalHandle (stamp a s) = intervalHandle s"
  "schedulerStarted (stamp a s) = schedulerStarted s"
  "nextHandle (stamp a s) = nextHandle s"
  "length (heap (stamp a s)) = length (heap s)"
  "map unstamped (heap (stamp a s)) = map unstamped (heap s)"
  by (simp_all add: stamp_def map_unstamped_update_any)

lemma stamp_nth:
  "a < length (heap s) \<Longrightarrow>
    heap (stamp a s) ! b =
      (if b = a then (heap s ! a)\<lparr>lastTriggeredAt := Some (Now (now_of s))\<rparr> else heap s ! b)"
  by (simp add: stamp_def)

lemma evolves_notify: "evolves 1 s (notify w a message s)"
  by (simp add: notify_alt evolves_def Let_def axios_post_def)

lemma evolves_agg: "grew k (net (agg s)) (net g) \<Longrightarrow> evolves k s (s\<lparr>agg := g\<rparr>)"
  by (simp add: evolves_def)

lemma evolves_evaluateAlert: "evolves 3 s (snd (evaluateAlert cfg w a s))"
proof -
  have g: "grew 2 (net (agg s)) (net (agg_step cfg w c (agg s)))" if "cost c \<le> 2" for c
    using step_grew [of c "agg s" cfg w] that by (rule grew_mono)
  have n: "evolves 3 s (notify w a m (s\<lparr>agg := g'\<rparr>))" if "grew 2 (net (agg s)) (net g')" for m g'
    using evolves_trans [OF evolves_agg [OF that] evolves_notify] by simp
  have p: "evolves 3 s (s\<lparr>agg := g'\<rparr>)" if "grew 2 (net (agg s)) (net g')" for g'
    using evolves_agg [OF that] by (rule evolves_mono) simp
  show ?thesis
    using g [of "Forecast (al_location (heap s ! a)) None (Some (nullish (daysAhead (al_condition (heap s ! a))) 1))"]
      g [of "Current (al_location (heap s ! a)) None"]
    by (auto simp: evaluateAlert_def Let_def n p split: prod.splits sum.splits)
qed

lemma evolves_try_evaluate: "evolves 3 s (try_evaluate cfg w a s)"
  using evolves_evaluateAlert [of s cfg w a]
  by (auto simp: try_evaluate_def evolves_def split: prod.splits sum.splits)

lemma evolves_poll_items: "evolves (3 * length items) s (poll_items cfg w items s)"
proof (induction items arbitrary: s)
  case Nil
  show ?case by simp
next
  case (Cons a items)
  from evolves_trans [OF evolves_try_evaluate Cons.IH] show ?case by simp
qed

section \<open>The invariant is kept\<close>

lemma agg_inv_net [simp]: "agg_inv (g\<lparr>net := n\<rparr>) = agg_inv g"
  by (simp add: agg_inv_def)

lemma agg_inv_notify [simp]: "agg_inv (agg (notify w a m s)) = agg_inv (agg s)"
  by (simp add: notify_alt Let_def)

lemma agg_inv_evaluateAlert:
  assumes "agg_inv (agg s)"
  shows "agg_inv (agg (snd (evaluateAlert cfg w a s)))"
  using agg_inv_step [OF assms, of cfg w "Current (al_location (heap s ! a)) None"]
    agg_inv_step [OF assms, of cfg w
      "Forecast (al_location (heap s ! a)) None (Some (nullish (daysAhead (al_condition (heap s ! a))) 1))"]
  by (auto simp: evaluateAlert_def Let_def split: prod.splits sum.splits)

lemma agg_inv_try_evaluate: "agg_inv (agg s) \<Longrightarrow> agg_inv (agg (try_evaluate cfg w a s))"
  using agg_inv_evaluateAlert [of s cfg w a]
  by (auto simp: try_evaluate_def split: prod.splits sum.splits)

lemma registry_ok_evolves:
  assumes "evolves k s s'" and "registry_ok s"
  shows "registry_ok s'"
  using assms evolves_length [OF assms(1)] evolves_al_id [OF assms(1)]
  by (auto simp: registry_ok_def evolves_fields list_all_iff)

lemma scheduler_ok_evolves: "evolves k s s' \<Longrightarrow> scheduler_ok s \<Longrightarrow> scheduler_ok s'"
  by (auto simp: scheduler_ok_def evolves_def)

lemma alert_inv_try_evaluate [inv_intros]:
  "alert_inv s \<Longrightarrow> alert_inv (try_evaluate cfg w a s)"
  using evolves_try_evaluate [of s cfg w a]
  by (auto simp: alert_inv_def intro: registry_ok_evolves scheduler_ok_evolves agg_inv_try_evaluate)

lemma alert_inv_poll_items [inv_intros]: "alert_inv s \<Longrightarrow> alert_inv (poll_items cfg w items s)"
  by (induction items arbitrary: s) (simp_all add: alert_inv_try_evaluate)

lemma alert_inv_init [inv_intros, simp]: "alert_inv (alert_init cfg now)"
  by (simp add: alert_inv_def registry_ok_def scheduler_ok_def alert_init_def)

lemma extend_simps [simp]:
  "al_id (alert_input.extend alert \<lparr>al_id = i, createdAt = c\<rparr>) = i"
  "createdAt (alert_input.extend alert \<lparr>al_id = i, createdAt = c\<rparr>) = c"
  "al_condition (alert_input.extend alert x) = al_condition alert"
  "al_location (alert_input.extend alert x) = al_location alert"
  "al_name (alert_input.extend alert x) = al_name alert"
  "channel (alert_input.extend alert x) = channel alert"
  "webhookUrl (alert_input.extend alert x) = webhookUrl alert"
  "sensitivity (alert_input.extend alert x) = sensitivity alert"
  "lastTriggeredAt (alert_input.extend alert x) = lastTriggeredAt alert"
  by (simp_all add: alert_input.defs)

lemma registerAlert_simps [simp]:
  "fst (registerAlert alert rnd s) = length (heap s)"
  "heap (snd (registerAlert alert rnd s)) =
    heap s @ [alert_input.extend alert \<lparr>al_id = generateId rnd, createdAt = Now (now_of s)\<rparr>]"
  "alerts (snd (registerAlert alert rnd s)) = AList.update (generateId rnd) (length (heap s)) (alerts s)"
  "sweeps (snd (registerAlert alert rnd s)) = sweeps s"
  "agg (snd (registerAlert alert rnd s)) = agg s"
  "timers (snd (registerAlert alert rnd s)) = timers s"
  "intervalHandle (snd (registerAlert alert rnd s)) = intervalHandle s"
  "schedulerStarted (snd (registerAlert alert rnd s)) = schedulerStarted s"
  "nextHandle (snd (registerAlert alert rnd s)) = nextHandle s"
  "console_log (snd (registerAlert alert rnd s)) = console_log s"
  by (simp_all add: registerAlert_def Let_def)

lemma removeAlert_simps [simp]:
  "fst (removeAlert i s) = (map_of (alerts s) i \<noteq> None)"
  "alerts (snd (removeAlert i s)) = AList.delete i (alerts s)"
  "heap (snd (removeAlert i s)) = heap s"
  "sweeps (snd (removeAlert i s)) = sweeps s"
  "agg (snd (removeAlert i s)) = agg s"
  "timers (snd (removeAlert i s)) = timers s"
  "intervalHandle (snd (removeAlert i s)) = intervalHandle s"
  "schedulerStarted (snd (removeAlert i s)) = schedulerStarted s"
  "nextHandle (snd (removeAlert i s)) = nextHandle s"
  "console_log (snd (removeAlert i s)) = console_log s"
  by (simp_all add: removeAlert_def)

lemma registry_ok_register: "registry_ok s \<Longrightarrow> registry_ok (snd (registerAlert alert rnd s))"
proof -
  assume ok: "registry_ok s"
  let ?h = "heap (snd (registerAlert alert rnd s))"
  let ?P = "\<lambda>(i, a). a < length ?h \<and> al_id (?h ! a) = i"
  from ok have "list_all ?P (alerts s)"
    by (auto simp: registry_ok_def list_all_iff nth_append)
  moreover have "?P (generateId rnd, length (heap s))"
    by simp
  ultimately have "list_all ?P (AList.update (generateId rnd) (length (heap s)) (alerts s))"
    by (rule list_all_update)
  moreover from ok have "list_all (list_all (\<lambda>a. a < length ?h)) (sweeps s)"
    by (fastforce simp: registry_ok_def list_all_iff less_Suc_eq)
  moreover from ok have "distinct (map fst (AList.update (generateId rnd) (length (heap s)) (alerts s)))"
    by (simp add: registry_ok_def distinct_update)
  ultimately show ?thesis by (simp add: registry_ok_def)
qed

lemma registry_ok_remove: "registry_ok s \<Longrightarrow> registry_ok (snd (removeAlert i s))"
  by (simp add: registry_ok_def distinct_delete list_all_delete)

lemma scheduler_ok_start: "scheduler_ok s \<Longrightarrow> scheduler_ok (startAlertScheduler cfg s)"
  by (auto simp: scheduler_ok_def startAlertScheduler_def setInterval_def Let_def
      split: option.splits)

lemma scheduler_ok_stop: "scheduler_ok s \<Longrightarrow> scheduler_ok (stopAlertScheduler s)"
  by (auto simp: scheduler_ok_def stopAlertScheduler_def clearInterval_def Let_def
      AList.delete_eq split: option.splits)

lemma registry_ok_fire: "registry_ok s \<Longrightarrow> registry_ok (s\<lparr>sweeps := sweeps s @ [listAlerts s]\<rparr>)"
  by (auto simp: registry_ok_def listAlerts_def list_all_iff)

lemma registry_ok_advance:
  assumes "registry_ok s" and "k < length (sweeps s)" and "sweeps s ! k = a # items"
  shows "registry_ok (s\<lparr>sweeps := (sweeps s)[k := items]\<rparr>)"
proof -
  from assms have "list_all (\<lambda>a. a < length (heap s)) (a # items)"
    by (auto simp: registry_ok_def list_all_iff dest: nth_mem)
  with assms(1) show ?thesis
    by (auto simp: registry_ok_def list_all_iff dest!: set_update_subset_insert [THEN subsetD])
qed

lemma registry_frame [simp]:
  "registry_ok (s\<lparr>agg := g\<rparr>) = registry_ok s"
  "registry_ok (s\<lparr>schedulerStarted := b\<rparr>) = registry_ok s"
  "registry_ok (s\<lparr>intervalHandle := h\<rparr>) = registry_ok s"
  "registry_ok (s\<lparr>timers := t\<rparr>) = registry_ok s"
  "registry_ok (s\<lparr>nextHandle := n\<rparr>) = registry_ok s"
  "registry_ok (s\<lparr>console_log := l\<rparr>) = registry_ok s"
  by (simp_all add: registry_ok_def)

lemma scheduler_frame [simp]:
  "scheduler_ok (s\<lparr>agg := g\<rparr>) = scheduler_ok s"
  "scheduler_ok (s\<lparr>heap := hp\<rparr>) = scheduler_ok s"
  "scheduler_ok (s\<lparr>alerts := al\<rparr>) = scheduler_ok s"
  "scheduler_ok (s\<lparr>sweeps := sw\<rparr>) = scheduler_ok s"
  "scheduler_ok (s\<lparr>console_log := l\<rparr>) = scheduler_ok s"
  by (simp_all add: scheduler_ok_def)

lemma alert_inv_step [inv_intros]:
  assumes "alert_inv s" and "alert_step cfg w ev s = Some s'"
  shows "alert_inv s'"
proof (cases ev)
  case (Register alert rnd)
  with assms registry_ok_register [of s alert rnd] show ?thesis
    by (auto simp: alert_inv_def scheduler_ok_def)
next
  case (Remove i)
  with assms registry_ok_remove [of s i] show ?thesis
    by (auto simp: alert_inv_def scheduler_ok_def)
next
  case Start
  with assms scheduler_ok_start [of s cfg] show ?thesis
    by (auto simp: alert_inv_def startAlertScheduler_def setInterval_def Let_def)
next
  case Stop
  with assms scheduler_ok_stop [of s] show ?thesis
    by (auto simp: alert_inv_def stopAlertScheduler_def clearInterval_def Let_def
        split: option.splits)
next
  case (Fire h)
  with assms registry_ok_fire [of s] show ?thesis
    by (auto simp: alert_inv_def split: if_splits)
next
  case (Eval k)
  with assms obtain a items where k: "k < length (sweeps s)" and sw: "sweeps s ! k = a # items"
    and s': "s' = try_evaluate cfg w a (s\<lparr>sweeps := (sweeps s)[k := items]\<rparr>)"
    by (auto split: if_splits list.splits)
  from assms(1) k sw have "alert_inv (s\<lparr>sweeps := (sweeps s)[k := items]\<rparr>)"
    by (simp add: alert_inv_def registry_ok_advance)
  with s' show ?thesis by (simp add: alert_inv_try_evaluate)
next
  case (Client c)
  with assms show ?thesis by (auto simp: alert_inv_def agg_inv_step)
next
  case (Print l)
  with assms show ?thesis by (auto simp: alert_inv_def)
qed

lemma alert_inv_reachable: "alert_reachable cfg w s \<Longrightarrow> alert_inv s"
  by (induction rule: alert_reachable.induct) (simp_all add: alert_inv_step)

lemma alert_reachable_run:
  "alert_reachable cfg w s \<Longrightarrow> alert_run cfg w evs s = Some s' \<Longrightarrow> alert_reachable cfg w s'"
  by (induction evs arbitrary: s) (auto split: option.splits intro: alert_reachable.step)

section \<open>The registry as a caller sees it\<close>

lemma list_view_alt: "list_view s = map (\<lambda>(i, a). heap s ! a) (alerts s)"
  by (simp add: list_view_def listAlerts_def case_prod_unfold)

lemma registry_ok_ids:
  "registry_ok s \<Longrightarrow> map al_id (list_view s) = map fst (alerts s)"
  by (auto simp: registry_ok_def list_view_alt list_all_iff)

lemma registry_ok_addr: "registry_ok s \<Longrightarrow> a \<in> set (listAlerts s) \<Longrightarrow> a < length (heap s)"
  by (auto simp: registry_ok_def listAlerts_def list_all_iff)

lemma registry_ok_entry:
  "registry_ok s \<Longrightarrow> map_of (alerts s) i = Some a \<Longrightarrow>
    a < length (heap s) \<and> al_id (heap s ! a) = i"
  by (auto simp: registry_ok_def list_all_iff dest: map_of_SomeD)

lemma registry_ok_removed:
  assumes "registry_ok s" and "map_of (alerts s) i = Some a"
  shows "i \<notin> fst ` set (AList.delete i (alerts s))"
    and "a \<notin> snd ` set (AList.delete i (alerts s))"
proof -
  show "i \<notin> fst ` set (AList.delete i (alerts s))"
    by (auto simp: AList.delete_eq)
  from assms have "al_id (heap s ! a) = i" by (simp add: registry_ok_entry)
  moreover from assms(1) have "\<forall>(j, b) \<in> set (alerts s). al_id (heap s ! b) = j"
    by (auto simp: registry_ok_def list_all_iff)
  ultimately show "a \<notin> snd ` set (AList.delete i (alerts s))"
    by (auto simp: AList.delete_eq)
qed

lemma list_view_delete:
  assumes "registry_ok s"
  shows "map (\<lambda>(k, a). heap s ! a) (AList.delete i (alerts s)) =
    filter (\<lambda>x. al_id x \<noteq> i) (list_view s)"
proof -
  from assms have "\<forall>(k, a) \<in> set (alerts s). al_id (heap s ! a) = k"
    by (auto simp: registry_ok_def list_all_iff)
  then show ?thesis
    unfolding list_view_alt AList.delete_eq filter_map
    by (intro arg_cong [where f = "map _"] filter_cong) (auto simp: comp_def)
qed

section \<open>Sample alerts\<close>

definition hot_alert :: alert_input where
  "hot_alert =
     \<lparr>al_name = Some ''hot'', al_location = male_query,
      al_condition = \<lparr>ctype = temp_above, threshold = Some 30, daysAhead = None\<rparr>,
      channel = console, webhookUrl = None, sensitivity = Some high, lastTriggeredAt = None\<rparr>"

definition hook_alert :: alert_input where
  "hook_alert =
     \<lparr>al_name = None, al_location = male_query,
      al_condition = \<lparr>ctype = wind_above, threshold = Some 10, daysAhead = None\<rparr>,
      channel = webhook, webhookUrl = Some ''http://hook'', sensitivity = None,
      lastTriggeredAt = None\<rparr>"

definition one_alert :: "config \<Rightarrow> alert_state" where
  "one_alert cfg = snd (registerAlert hot_alert ''0.k3'' (alert_init cfg 0))"

lemma generateId_sample [simp]: "generateId ''0.k3'' = ''k3''"
  by (simp add: generateId_def)

lemma alert_init_simps [simp]:
  "agg (alert_init cfg now) = agg_init cfg now"
  "heap (alert_init cfg now) = []"
  "alerts (alert_init cfg now) = []"
  "sweeps (alert_init cfg now) = []"
  "timers (alert_init cfg now) = []"
  "console_log (alert_init cfg now) = []"
  "intervalHandle (alert_init cfg now) = None"
  "schedulerStarted (alert_init cfg now) = False"
  "nextHandle (alert_init cfg now) = 0"
  "now_of (alert_init cfg now) = now"
  by (simp_all add: alert_init_def now_of_def)

lemma one_alert_simps [simp]:
  "agg (one_alert cfg) = agg_init cfg 0"
  "heap (one_alert cfg) = [alert_input.extend hot_alert \<lparr>al_id = ''k3'', createdAt = Now 0\<rparr>]"
  "alerts (one_alert cfg) = [(''k3'', 0)]"
  "sweeps (one_alert cfg) = []"
  "timers (one_alert cfg) = []"
  "console_log (one_alert cfg) = []"
  "intervalHandle (one_alert cfg) = None"
  "schedulerStarted (one_alert cfg) = False"
  "nextHandle (one_alert cfg) = 0"
  by (simp_all add: one_alert_def)

lemma hot_alert_simps [simp]:
  "al_location hot_alert = male_query"
  "ctype (al_condition hot_alert) = temp_above"
  "threshold (al_condition hot_alert) = Some 30"
  "sensitivity hot_alert = Some high"
  "channel hot_alert = console"
  "lastTriggeredAt hot_alert = None"
  by (simp_all add: hot_alert_def)

lemma one_alert_reachable: "alert_reachable cfg w (one_alert cfg)"
  using alert_reachable.step [OF alert_reachable.init [of cfg w 0],
      where ev = "Register hot_alert ''0.k3''"]
  by (simp add: one_alert_def)

lemma registry_ok_one_alert [simp]: "registry_ok (one_alert cfg)"
  using alert_inv_reachable [OF one_alert_reachable] by (simp add: alert_inv_def)

section \<open>Properties of the registry\<close>

text \<open>
  C6. The invariant of the alert service holds in every state a process can reach,
  whatever the interleaving of registrations, removals, scheduler calls, timer firings,
  evaluations of sweeps in flight and client calls.
\<close>

theorem alert_reachable_inv:
  assumes "alert_reachable cfg w s"
  shows "alert_inv s"
  using assms by (rule alert_inv_reachable)

theorem alert_reachable_inv_witness: "alert_inv (one_alert cfg_wa)"
  by (rule alert_reachable_inv [OF one_alert_reachable])

text \<open>
  Registration under an id that is not in use appends: the list of alerts afterwards
  is the list before followed by the new alert, which carries the generated id, the
  time of the call as its creation time and the fields of the input.
\<close>

lemma registerAlert_appends:
  assumes "registry_ok s" and "map_of (alerts s) (generateId rnd) = None"
  shows "list_view (snd (registerAlert alert rnd s)) =
    list_view s @ [alert_input.extend alert \<lparr>al_id = generateId rnd, createdAt = Now (now_of s)\<rparr>]"
proof -
  from assms(2) have "generateId rnd \<notin> fst ` set (alerts s)"
    by (simp add: map_of_eq_None_fst)
  then have "alerts (snd (registerAlert alert rnd s)) = alerts s @ [(generateId rnd, length (heap s))]"
    by (simp add: update_fresh)
  moreover from assms(1) have "\<forall>(k, a) \<in> set (alerts s). a < length (heap s)"
    by (auto simp: registry_ok_def list_all_iff)
  ultimately show ?thesis
    by (auto simp: list_view_alt nth_append)
qed

lemma registerAlert_appends_witness:
  "list_view (snd (registerAlert hook_alert ''0.z9'' (one_alert cfg_wa))) =
    list_view (one_alert cfg_wa) @
      [alert_input.extend hook_alert \<lparr>al_id = ''z9'', createdAt = Now 0\<rparr>]"
  using registerAlert_appends [where s = "one_alert cfg_wa" and rnd = "''0.z9''"
      and alert = hook_alert]
  by (simp add: generateId_def now_of_def)

text \<open>
  C33. Generated ids are not checked for freshness. Registration under an id that is in
  use keeps the number of listed alerts, and the alert that had the id is no longer in
  the registry: it is replaced without a trace.
\<close>

theorem registerAlert_collision:
  assumes "registry_ok s" and "map_of (alerts s) (generateId rnd) = Some a"
  shows "length (listAlerts (snd (registerAlert alert rnd s))) = length (listAlerts s) \<and>
    a \<notin> set (listAlerts (snd (registerAlert alert rnd s)))"
proof -
  let ?i = "generateId rnd"
  from assms(2) have mem: "?i \<in> fst ` set (alerts s)"
    using map_of_eq_None_fst [of "alerts s" ?i] by auto
  from assms have a: "a < length (heap s)" and ida: "al_id (heap s ! a) = ?i"
    by (auto simp: registry_ok_def list_all_iff dest: map_of_SomeD)
  from assms(1) have d: "distinct (map fst (alerts s))" by (simp add: registry_ok_def)
  have "b \<noteq> a" if "(k, b) \<in> set (AList.update ?i (length (heap s)) (alerts s))" for k b
    using set_update_cases [OF d that] a ida assms(1)
    by (auto simp: registry_ok_def list_all_iff)
  then have "a \<notin> snd ` set (AList.update ?i (length (heap s)) (alerts s))" by force
  with mem show ?thesis by (simp add: listAlerts_def length_update_present)
qed

theorem registerAlert_collision_witness:
  "length (listAlerts (snd (registerAlert hook_alert ''0.k3'' (one_alert cfg_wa)))) = 1 \<and>
    0 \<notin> set (listAlerts (snd (registerAlert hook_alert ''0.k3'' (one_alert cfg_wa))))"
  using registerAlert_collision [where s = "one_alert cfg_wa" and rnd = "''0.k3''" and a = 0
      and alert = hook_alert]
  by (simp add: listAlerts_def)

text \<open>
  C32. Removal reports whether the id was registered, and afterwards the list of alerts is
  the list before without the alert of that id, in the same order.
\<close>

theorem removeAlert_removes:
  assumes "registry_ok s"
  shows "fst (removeAlert i s) = (i \<in> set (map al_id (list_view s))) \<and>
    list_view (snd (removeAlert i s)) = filter (\<lambda>x. al_id x \<noteq> i) (list_view s)"
proof
  show "fst (removeAlert i s) = (i \<in> set (map al_id (list_view s)))"
    by (simp add: registry_ok_ids [OF assms] map_of_eq_None_fst)
  show "list_view (snd (removeAlert i s)) = filter (\<lambda>x. al_id x \<noteq> i) (list_view s)"
    using list_view_delete [OF assms, of i] by (simp add: list_view_alt)
qed

theorem removeAlert_removes_witness:
  "fst (removeAlert ''k3'' (one_alert cfg_wa)) \<and> list_view (snd (removeAlert ''k3'' (one_alert cfg_wa))) = []"
  using removeAlert_removes [where s = "one_alert cfg_wa" and i = "''k3''"]
  by (simp add: list_view_alt)

section \<open>Properties of the scheduler\<close>

lemma startAlertScheduler_simps [simp]:
  "schedulerStarted (startAlertScheduler cfg s)"
  "schedulerStarted s \<Longrightarrow> startAlertScheduler cfg s = s"
  "\<not> schedulerStarted s \<Longrightarrow> timers (startAlertScheduler cfg s) =
    timers s @ [(nextHandle s, alertPollIntervalSeconds cfg * 1000)]"
  "\<not> schedulerStarted s \<Longrightarrow> intervalHandle (startAlertScheduler cfg s) = Some (nextHandle s)"
  "\<not> schedulerStarted s \<Longrightarrow> console_log (startAlertScheduler cfg s) =
    console_log s @ [SchedulerStarted (alertPollIntervalSeconds cfg)]"
  "sweeps (startAlertScheduler cfg s) = sweeps s"
  "alerts (startAlertScheduler cfg s) = alerts s"
  "heap (startAlertScheduler cfg s) = heap s"
  "agg (startAlertScheduler cfg s) = agg s"
  by (simp_all add: startAlertScheduler_def setInterval_def Let_def)

lemma stopAlertScheduler_simps [simp]:
  "\<not> schedulerStarted (stopAlertScheduler s)"
  "intervalHandle (stopAlertScheduler s) = None"
  "sweeps (stopAlertScheduler s) = sweeps s"
  "alerts (stopAlertScheduler s) = alerts s"
  "heap (stopAlertScheduler s) = heap s"
  "agg (stopAlertScheduler s) = agg s"
  by (simp_all add: stopAlertScheduler_def clearInterval_def Let_def split: option.splits)

lemma scheduler_ok_timers:
  "scheduler_ok s \<Longrightarrow> length (timers s) \<le> 1 \<and> (schedulerStarted s \<longleftrightarrow> timers s \<noteq> [])"
  by (cases "intervalHandle s") (auto simp: scheduler_ok_def dest: arg_cong [where f = length])

lemma timers_stop:
  assumes "scheduler_ok s"
  shows "timers (stopAlertScheduler s) = []"
proof -
  from scheduler_ok_stop [OF assms] have "map fst (timers (stopAlertScheduler s)) = []"
    by (simp add: scheduler_ok_def)
  then show ?thesis by simp
qed

text \<open>
  C34. In every reachable state at most one timer is active, and the scheduler flag is set
  exactly when there is one: however often the scheduler is started and stopped, sweeps
  are never started by two timers at once.
\<close>

theorem scheduler_single_timer:
  assumes "alert_reachable cfg w s"
  shows "length (timers s) \<le> 1 \<and> (schedulerStarted s \<longleftrightarrow> timers s \<noteq> [])"
  using alert_inv_reachable [OF assms] by (intro scheduler_ok_timers) (simp add: alert_inv_def)

theorem scheduler_single_timer_witness:
  "length (timers (startAlertScheduler cfg_wa (one_alert cfg_wa))) \<le> 1 \<and>
    (schedulerStarted (startAlertScheduler cfg_wa (one_alert cfg_wa)) \<longleftrightarrow>
      timers (startAlertScheduler cfg_wa (one_alert cfg_wa)) \<noteq> [])"
  by (rule scheduler_single_timer [of cfg_wa world_ok])
    (rule alert_reachable.step [OF one_alert_reachable, where ev = Start], simp)

text \<open>
  Starting the scheduler is idempotent: a second call changes nothing, so it creates
  no second timer.
\<close>

theorem startAlertScheduler_idempotent:
  "startAlertScheduler cfg (startAlertScheduler cfg s) = startAlertScheduler cfg s"
  by simp

text \<open>
  Stopping the scheduler only prevents sweeps from starting: afterwards no timer can
  fire, and the sweeps in flight are left as they are.
\<close>

theorem stop_prevents_new_sweeps:
  assumes "scheduler_ok s"
  shows "alert_step cfg w (Fire h) (stopAlertScheduler s) = None \<and>
    sweeps (stopAlertScheduler s) = sweeps s"
  using timers_stop [OF assms] by simp

theorem stop_prevents_new_sweeps_witness:
  "alert_step cfg_wa world_ok (Fire 0) (stopAlertScheduler (startAlertScheduler cfg_wa (one_alert cfg_wa))) =
    None"
  using stop_prevents_new_sweeps [where s = "startAlertScheduler cfg_wa (one_alert cfg_wa)"
      and cfg = cfg_wa and w = world_ok and h = 0]
    scheduler_ok_start [of "one_alert cfg_wa" cfg_wa]
  by (simp add: scheduler_ok_def)

section \<open>Notification\<close>

lemma notify_stamp:
  "a < length (heap s) \<Longrightarrow> lastTriggeredAt (heap (notify w a m s) ! a) = Some (Now (now_of s))"
  by (simp add: notify_alt Let_def stamp_nth)

lemma notify_console:
  assumes "a < length (heap s)" and "channel (heap s ! a) = console"
  shows "notify w a m s = (stamp a s)\<lparr>console_log := console_log s @ [AlertLine (al_id (heap s ! a)) m]\<rparr>"
  using assms by (simp add: notify_alt Let_def stamp_nth)

lemma notify_frame:
  "alerts (notify w a m s) = alerts s"
  "sweeps (notify w a m s) = sweeps s"
  using evolves_notify [of s w a m] by (simp_all add: evolves_def)

text \<open>
  A webhook alert that trips posts once to its URL, whatever the outcome: the
  request log grows by exactly that request, the alert is stamped, and a rejected
  request only leaves a line on the console.
\<close>

theorem notify_webhook_once:
  assumes "a < length (heap s)" and "channel (heap s ! a) = webhook"
    and "webhookUrl (heap s ! a) = Some url" and "url \<noteq> []"
  shows "calls (net (agg (notify w a m s))) = calls (net (agg s)) @ [Webhook url (al_id (heap s ! a))] \<and>
    lastTriggeredAt (heap (notify w a m s) ! a) = Some (Now (now_of s)) \<and>
    console_log (notify w a m s) =
      console_log s @
        (if snd (w (now_of s) (Webhook url (al_id (heap s ! a)))) = None then [WebhookNotifyFailed]
         else [])"
  using assms
  by (simp add: notify_alt Let_def stamp_nth axios_post_def axios_get_result now_of_def
      split: option.splits)

theorem notify_webhook_once_witness:
  "calls (net (agg (notify world_down 0 (WindAbove 10 [])
      (snd (registerAlert hook_alert ''0.z9'' (alert_init cfg_wa 0)))))) = [Webhook ''http://hook'' ''z9''] \<and>
   console_log (notify world_down 0 (WindAbove 10 [])
      (snd (registerAlert hook_alert ''0.z9'' (alert_init cfg_wa 0)))) = [WebhookNotifyFailed]"
  using notify_webhook_once [where s = "snd (registerAlert hook_alert ''0.z9'' (alert_init cfg_wa 0))"
      and a = 0 and url = "''http://hook''" and w = world_down and m = "WindAbove 10 []"]
  by (simp add: hook_alert_def generateId_def)

lemma notify_webhook_without_url:
  assumes "a < length (heap s)" and "channel (heap s ! a) = webhook"
    and "\<not> truthy (webhookUrl (heap s ! a))"
  shows "notify w a m s = stamp a s"
  using assms by (simp add: notify_alt Let_def stamp_nth)

section \<open>Evaluation, branch by branch\<close>

lemma adjustThreshold_simps [simp]:
  "adjustThreshold base None = base"
  "adjustThreshold base (Some medium) = base"
  "adjustThreshold base (Some high) = base * 0.9"
  "adjustThreshold base (Some low) = base * 1.1"
  by (simp_all add: adjustThreshold_def)

text \<open>The example of the specification: a threshold of 30 against a reading of 28.\<close>

lemma sensitivity_example:
  "adjustThreshold 30 (Some high) \<le> 28" "\<not> adjustThreshold 30 (Some low) \<le> 28"
  by simp_all

lemma evaluateAlert_alt:
  "evaluateAlert cfg w a s =
     (let alert = heap s ! a;
          cond = al_condition alert;
          rf = getForecast cfg w (al_location alert) None (Some (nullish (daysAhead cond) 1)) (agg s);
          rc = getCurrentWeather cfg w (al_location alert) None (agg s);
          th = adjustThreshold (nullish (threshold cond) 0) (sensitivity alert)
      in if ctype cond = rain
         then (case fst rf of
                 Inl e \<Rightarrow> (Inl e, s\<lparr>agg := snd rf\<rparr>)
               | Inr forecast \<Rightarrow>
                   (Inr (),
                    if list_ex (\<lambda>d. adjustThreshold 50 (sensitivity alert)
                                      \<le> nullish (chanceOfRainPct d) 0) (days forecast)
                    then notify w a (RainExpected (nullish (daysAhead cond) 1) (f_location forecast))
                           (s\<lparr>agg := snd rf\<rparr>)
                    else s\<lparr>agg := snd rf\<rparr>))
         else (case fst rc of
                 Inl e \<Rightarrow> (Inl e, s\<lparr>agg := snd rc\<rparr>)
               | Inr current \<Rightarrow>
                   (Inr (),
                    if threshold cond = None then s\<lparr>agg := snd rc\<rparr>
                    else (case ctype cond of
                            temp_above \<Rightarrow>
                              if th \<le> temperatureC current
                              then notify w a (TemperatureAbove th (name (location current)))
                                     (s\<lparr>agg := snd rc\<rparr>)
                              else s\<lparr>agg := snd rc\<rparr>
                          | temp_below \<Rightarrow>
                              if temperatureC current \<le> th
                              then notify w a (TemperatureBelow th (name (location current)))
                                     (s\<lparr>agg := snd rc\<rparr>)
                              else s\<lparr>agg := snd rc\<rparr>
                          | wind_above \<Rightarrow>
                              if th \<le> nullish (windKph current) 0
                              then notify w a (WindAbove th (name (location current)))
                                     (s\<lparr>agg := snd rc\<rparr>)
                              else s\<lparr>agg := snd rc\<rparr>
                          | rain \<Rightarrow> s\<lparr>agg := snd rc\<rparr>))))"
  by (cases "ctype (al_condition (heap s ! a))")
    (auto simp: evaluateAlert_def Let_def split: prod.splits sum.splits)

lemma evaluateAlert_fetch_fails:
  assumes "ctype (al_condition (heap s ! a)) \<noteq> rain"
    and "fst (getCurrentWeather cfg w (al_location (heap s ! a)) None (agg s)) = Inl e"
  shows "evaluateAlert cfg w a s =
    (Inl e, s\<lparr>agg := snd (getCurrentWeather cfg w (al_location (heap s ! a)) None (agg s))\<rparr>)"
  using assms by (simp add: evaluateAlert_alt Let_def split: AlertConditionType.splits)

lemma evaluateAlert_forecast_fails:
  assumes "ctype (al_condition (heap s ! a)) = rain"
    and "fst (getForecast cfg w (al_location (heap s ! a)) None
           (Some (nullish (daysAhead (al_condition (heap s ! a))) 1)) (agg s)) = Inl e"
  shows "evaluateAlert cfg w a s =
    (Inl e, s\<lparr>agg := snd (getForecast cfg w (al_location (heap s ! a)) None
       (Some (nullish (daysAhead (al_condition (heap s ! a))) 1)) (agg s))\<rparr>)"
  using assms by (simp add: evaluateAlert_alt Let_def split: AlertConditionType.splits)

lemma evaluateAlert_Inl:
  assumes "fst (evaluateAlert cfg w a s) = Inl e"
  shows "\<exists>g. snd (evaluateAlert cfg w a s) = s\<lparr>agg := g\<rparr>"
  using assms by (auto simp: evaluateAlert_alt Let_def split: sum.splits if_splits)

lemma evaluateAlert_temp_above:
  assumes "ctype (al_condition (heap s ! a)) = temp_above"
    and "threshold (al_condition (heap s ! a)) = Some base"
    and "fst (getCurrentWeather cfg w (al_location (heap s ! a)) None (agg s)) = Inr cur"
  shows "evaluateAlert cfg w a s =
    (Inr (),
     let s1 = s\<lparr>agg := snd (getCurrentWeather cfg w (al_location (heap s ! a)) None (agg s))\<rparr>;
         th = adjustThreshold base (sensitivity (heap s ! a))
     in if th \<le> temperatureC cur then notify w a (TemperatureAbove th (name (location cur))) s1
        else s1)"
  using assms by (simp add: evaluateAlert_alt Let_def split: AlertConditionType.splits)

lemma evaluateAlert_temp_below:
  assumes "ctype (al_condition (heap s ! a)) = temp_below"
    and "threshold (al_condition (heap s ! a)) = Some base"
    and "fst (getCurrentWeather cfg w (al_location (heap s ! a)) None (agg s)) = Inr cur"
  shows "evaluateAlert cfg w a s =
    (Inr (),
     let s1 = s\<lparr>agg := snd (getCurrentWeather cfg w (al_location (heap s ! a)) None (agg s))\<rparr>;
         th = adjustThreshold base (sensitivity (heap s ! a))
     in if temperatureC cur \<le> th then notify w a (TemperatureBelow th (name (location cur))) s1
        else s1)"
  using assms by (simp add: evaluateAlert_alt Let_def split: AlertConditionType.splits)

lemma evaluateAlert_wind_above:
  assumes "ctype (al_condition (heap s ! a)) = wind_above"
    and "threshold (al_condition (heap s ! a)) = Some base"
    and "fst (getCurrentWeather cfg w (al_location (heap s ! a)) None (agg s)) = Inr cur"
  shows "evaluateAlert cfg w a s =
    (Inr (),
     let s1 = s\<lparr>agg := snd (getCurrentWeather cfg w (al_location (heap s ! a)) None (agg s))\<rparr>;
         th = adjustThreshold base (sensitivity (heap s ! a))
     in if th \<le> nullish (windKph cur) 0 then notify w a (WindAbove th (name (location cur))) s1
        else s1)"
  using assms by (simp add: evaluateAlert_alt Let_def split: AlertConditionType.splits)

lemma evaluateAlert_no_threshold:
  assumes "ctype (al_condition (heap s ! a)) \<noteq> rain"
    and "threshold (al_condition (heap s ! a)) = None"
    and "fst (getCurrentWeather cfg w (al_location (heap s ! a)) None (agg s)) = Inr cur"
  shows "evaluateAlert cfg w a s =
    (Inr (), s\<lparr>agg := snd (getCurrentWeather cfg w (al_location (heap s ! a)) None (agg s))\<rparr>)"
  using assms by (simp add: evaluateAlert_alt Let_def split: AlertConditionType.splits)

lemma evaluateAlert_rain:
  assumes "ctype (al_condition (heap s ! a)) = rain"
    and "fst (getForecast cfg w (al_location (heap s ! a)) None
           (Some (nullish (daysAhead (al_condition (heap s ! a))) 1)) (agg s)) = Inr f"
  shows "evaluateAlert cfg w a s =
    (Inr (),
     let s1 = s\<lparr>agg := snd (getForecast cfg w (al_location (heap s ! a)) None
                  (Some (nullish (daysAhead (al_condition (heap s ! a))) 1)) (agg s))\<rparr>
     in if list_ex (\<lambda>d. adjustThreshold 50 (sensitivity (heap s ! a)) \<le> nullish (chanceOfRainPct d) 0)
             (days f)
        then notify w a (RainExpected (nullish (daysAhead (al_condition (heap s ! a))) 1) (f_location f)) s1
        else s1)"
  using assms by (simp add: evaluateAlert_alt Let_def split: AlertConditionType.splits)

lemma try_evaluate_fails:
  assumes "fst (evaluateAlert cfg w a s) = Inl e"
  shows "try_evaluate cfg w a s =
    (snd (evaluateAlert cfg w a s))
      \<lparr>console_log := console_log s @ [AlertEvaluationFailed (al_id (heap s ! a)) e]\<rparr>"
  using assms evaluateAlert_Inl [OF assms]
  by (auto simp: try_evaluate_def split: prod.splits)

lemma try_evaluate_ok:
  "fst (evaluateAlert cfg w a s) = Inr u \<Longrightarrow> try_evaluate cfg w a s = snd (evaluateAlert cfg w a s)"
  by (auto simp: try_evaluate_def split: prod.splits)

lemma try_evaluate_trips:
  assumes "a < length (heap s)" and "ctype (al_condition (heap s ! a)) = temp_above"
    and "threshold (al_condition (heap s ! a)) = Some base"
    and "fst (getCurrentWeather cfg w (al_location (heap s ! a)) None (agg s)) = Inr cur"
    and "adjustThreshold base (sensitivity (heap s ! a)) \<le> temperatureC cur"
  shows "try_evaluate cfg w a s =
    notify w a (TemperatureAbove (adjustThreshold base (sensitivity (heap s ! a))) (name (location cur)))
      (s\<lparr>agg := snd (getCurrentWeather cfg w (al_location (heap s ! a)) None (agg s))\<rparr>)"
  using assms by (simp add: try_evaluate_ok [where u = "()"] evaluateAlert_temp_above Let_def)

lemma remove_then_eval:
  assumes "k < length (sweeps s)" and "sweeps s ! k = a # items"
  shows "alert_run cfg w [Remove i, Eval k] s =
    Some (try_evaluate cfg w a ((snd (removeAlert i s))\<lparr>sweeps := (sweeps s)[k := items]\<rparr>))"
  using assms by simp

lemma poll_items_append:
  "poll_items cfg w (xs @ ys) s = poll_items cfg w ys (poll_items cfg w xs s)"
  by (induction xs arbitrary: s) simp_all

section \<open>Properties of evaluation\<close>

lemma first_call_male_proj [simp]:
  "fst (getCurrentWeather cfg_wa world_ok male_query None (agg_init cfg_wa 0)) = Inr wa_male_now"
  "snd (getCurrentWeather cfg_wa world_ok male_query None (agg_init cfg_wa 0)) = warm_state"
  by (simp_all add: first_call_male)

lemma all_down_male [simp]:
  "fst (getCurrentWeather cfg_wa world_down male_query None (agg_init cfg_wa 0)) = Inl NoWeatherProvider"
  by (simp add: current_proj cof_miss_error fetch_first_wa_fails wa_getCurrent_male_down)

lemma evaluate_hot:
  assumes "heap s = heap (one_alert cfg_wa)" and "agg s = agg_init cfg_wa 0"
  shows "try_evaluate cfg_wa world_ok 0 s =
    (stamp 0 (s\<lparr>agg := warm_state\<rparr>))
      \<lparr>console_log := console_log s @ [AlertLine ''k3'' (TemperatureAbove 27 [Lit ''Male''])]\<rparr>"
proof -
  have "evaluateAlert cfg_wa world_ok 0 s =
      (Inr (), notify world_ok 0 (TemperatureAbove 27 [Lit ''Male'']) (s\<lparr>agg := warm_state\<rparr>))"
    using assms
    by (simp add: evaluateAlert_temp_above [where base = 30 and cur = wa_male_now] Let_def
        wa_male_now_def)
  with assms show ?thesis
    by (simp add: try_evaluate_def notify_console)
qed

text \<open>
  C15. A \<open>temp_above\<close> alert with a threshold trips exactly when the current Celsius
  temperature is at least the threshold adjusted by the sensitivity of the alert; a
  trip stamps the alert with the time at which the weather call returned, and no trip
  leaves the stamp as it was.
\<close>

theorem temp_above_trips_iff:
  assumes "a < length (heap s)" and "ctype (al_condition (heap s ! a)) = temp_above"
    and "threshold (al_condition (heap s ! a)) = Some base"
    and "fst (getCurrentWeather cfg w (al_location (heap s ! a)) None (agg s)) = Inr cur"
  shows "fst (evaluateAlert cfg w a s) = Inr () \<and>
    lastTriggeredAt (heap (snd (evaluateAlert cfg w a s)) ! a) =
      (if adjustThreshold base (sensitivity (heap s ! a)) \<le> temperatureC cur
       then Some (Now (clock (net (snd (getCurrentWeather cfg w (al_location (heap s ! a)) None (agg s))))))
       else lastTriggeredAt (heap s ! a))"
  using assms by (simp add: evaluateAlert_temp_above Let_def notify_stamp now_of_def)

theorem temp_above_trips_iff_witness:
  "lastTriggeredAt (heap (snd (evaluateAlert cfg_wa world_ok 0 (one_alert cfg_wa))) ! 0) = Some (Now 120)"
  using temp_above_trips_iff [where s = "one_alert cfg_wa" and a = 0 and base = 30 and cfg = cfg_wa
      and w = world_ok and cur = wa_male_now]
  by (simp add: wa_male_now_def)

text \<open>
  The sensitivity scales the threshold whatever the condition. For a \<open>temp_below\<close>
  alert with a positive threshold this makes \<open>high\<close> the less sensitive setting: at a
  temperature between nine tenths of the threshold and the threshold the alert does not
  trip, although it would with no sensitivity set.
\<close>

theorem temp_below_high_misses:
  assumes "a < length (heap s)" and "ctype (al_condition (heap s ! a)) = temp_below"
    and "threshold (al_condition (heap s ! a)) = Some base"
    and "sensitivity (heap s ! a) = Some high"
    and "fst (getCurrentWeather cfg w (al_location (heap s ! a)) None (agg s)) = Inr cur"
    and "base * 0.9 < temperatureC cur" and "temperatureC cur \<le> base"
  shows "heap (snd (evaluateAlert cfg w a s)) = heap s \<and>
    temperatureC cur \<le> adjustThreshold base None"
  using assms by (simp add: evaluateAlert_temp_below Let_def)

theorem temp_below_high_misses_witness:
  "heap (snd (evaluateAlert cfg_wa world_ok 0
      (snd (registerAlert
         (hot_alert\<lparr>al_condition := \<lparr>ctype = temp_below, threshold = Some 32, daysAhead = None\<rparr>\<rparr>)
         ''0.k3'' (alert_init cfg_wa 0))))) =
    [alert_input.extend
       (hot_alert\<lparr>al_condition := \<lparr>ctype = temp_below, threshold = Some 32, daysAhead = None\<rparr>\<rparr>)
       \<lparr>al_id = ''k3'', createdAt = Now 0\<rparr>]"
  using temp_below_high_misses [where a = 0 and base = 32 and cfg = cfg_wa and w = world_ok
      and cur = wa_male_now
      and s = "snd (registerAlert
         (hot_alert\<lparr>al_condition := \<lparr>ctype = temp_below, threshold = Some 32, daysAhead = None\<rparr>\<rparr>)
         ''0.k3'' (alert_init cfg_wa 0))"]
  by (simp add: wa_male_now_def hot_alert_def)

text \<open>
  C16. A failure while one alert is evaluated does not stop the sweep: the failure is
  written to the console, nothing but the aggregator state and the console has changed,
  and the sweep goes on with the alerts that follow.
\<close>

theorem sweep_survives_failure:
  assumes "fst (evaluateAlert cfg w a s) = Inl e"
  shows "poll_items cfg w (a # items) s =
    poll_items cfg w items
      (s\<lparr>agg := agg (snd (evaluateAlert cfg w a s)),
         console_log := console_log s @ [AlertEvaluationFailed (al_id (heap s ! a)) e]\<rparr>)"
  using evaluateAlert_Inl [OF assms] by (auto simp: try_evaluate_fails [OF assms])

theorem sweep_survives_failure_witness:
  "console_log (poll_items cfg_wa world_down [0] (one_alert cfg_wa)) =
    [AlertEvaluationFailed ''k3'' NoWeatherProvider]"
  using sweep_survives_failure [where cfg = cfg_wa and w = world_down and a = 0
      and s = "one_alert cfg_wa" and e = NoWeatherProvider and items = "[]"]
  by (simp add: evaluateAlert_fetch_fails)

text \<open>
  C40. No order is kept between a removal and a sweep in flight. Let an alert be
  registered under an id, let a sweep that has started hold it as the next of its
  snapshot, and let it be a \<open>temp_above\<close> alert whose condition holds in the weather the
  providers report. When the alert is removed and the sweep then goes on, the removal
  has taken effect, the registry has no such id and \<open>listAlerts\<close> does not return the
  alert, and yet the alert is evaluated and notifies: it is stamped with the time the
  weather call returned, and on the console channel its line is written under the id
  that was removed.
\<close>

theorem removed_alert_still_evaluated:
  assumes "registry_ok s" and "map_of (alerts s) i = Some a"
    and "k < length (sweeps s)" and "sweeps s ! k = a # items"
    and "ctype (al_condition (heap s ! a)) = temp_above"
    and "threshold (al_condition (heap s ! a)) = Some base"
    and "fst (getCurrentWeather cfg w (al_location (heap s ! a)) None (agg s)) = Inr cur"
    and "adjustThreshold base (sensitivity (heap s ! a)) \<le> temperatureC cur"
  shows "\<exists>s'. alert_run cfg w [Remove i, Eval k] s = Some s' \<and>
    i \<notin> set (map fst (alerts s')) \<and> a \<notin> set (listAlerts s') \<and>
    lastTriggeredAt (heap s' ! a) =
      Some (Now (clock (net (snd (getCurrentWeather cfg w (al_location (heap s ! a)) None (agg s)))))) \<and>
    (channel (heap s ! a) = console \<longrightarrow>
      console_log s' = console_log s @
        [AlertLine i (TemperatureAbove (adjustThreshold base (sensitivity (heap s ! a)))
           (name (location cur)))])"
proof -
  let ?s0 = "(snd (removeAlert i s))\<lparr>sweeps := (sweeps s)[k := items]\<rparr>"
  from assms(1,2) have a: "a < length (heap s)" and i: "al_id (heap s ! a) = i"
    by (simp_all add: registry_ok_entry)
  have "try_evaluate cfg w a ?s0 =
      notify w a (TemperatureAbove (adjustThreshold base (sensitivity (heap s ! a))) (name (location cur)))
        (?s0\<lparr>agg := snd (getCurrentWeather cfg w (al_location (heap s ! a)) None (agg s))\<rparr>)"
    using a assms(5-8) try_evaluate_trips [where s = ?s0 and a = a and base = base and cur = cur
        and cfg = cfg and w = w]
    by simp
  with a i registry_ok_removed [OF assms(1,2)] show ?thesis
    unfolding remove_then_eval [OF assms(3,4)]
    by (simp add: listAlerts_def notify_frame notify_stamp notify_console now_of_def)
qed

theorem removed_alert_still_evaluated_witness:
  "\<exists>s'. alert_run cfg_wa world_ok [Start, Fire 0, Remove ''k3'', Eval 0] (one_alert cfg_wa) = Some s' \<and>
    list_view s' = [] \<and> lastTriggeredAt (heap s' ! 0) = Some (Now 120) \<and>
    console_log s' = [SchedulerStarted 600, AlertLine ''k3'' (TemperatureAbove 27 [Lit ''Male''])]"
  using removed_alert_still_evaluated [where cfg = cfg_wa and w = world_ok and k = 0 and a = 0
      and items = "[]" and i = "''k3''" and base = 30 and cur = wa_male_now
      and s = "(startAlertScheduler cfg_wa (one_alert cfg_wa))\<lparr>sweeps := [[0]]\<rparr>"]
  by (simp add: listAlerts_def list_view_def evaluate_hot stamp_nth now_of_def)

end
