(* ===== verification/Alert_Sweeps.thy ===== *)
theory Alert_Sweeps
  imports Alert_Service
begin

text \<open>
  Sweeps of the alert service as the event loop runs them.

  \<open>pollAlerts\<close> of \<open>alerts/alertService.ts\<close> is a loop with an \<open>await\<close> in its body: the
  runtime runs it one alert at a time and lets other handlers run in between. The
  process of \<open>Alert_Service\<close> has an event for one such step (\<open>Eval\<close>). This theory
  relates the two views.

  \<^item> \<open>pending k s\<close> is what sweep \<open>k\<close> has still to evaluate.
  \<^item> \<open>drain\<close> keeps taking evaluation steps of one sweep until none is possible. It
    is a loop over the state, not over a list; its termination is proved from the
    fact that every step shortens the sweep.
  \<^item> The lemmas show that an evaluation neither reads nor writes the sweeps, that a
    sweep of \<open>n\<close> alerts, left alone, is complete after exactly \<open>n\<close> steps and is then
    what \<open>pollAlerts\<close> computes, and that under any interleaving a sweep loses exactly
    one alert per step of its own and none otherwise.
\<close>

section \<open>Evaluation does not look at the sweeps\<close>

lemma notify_sweeps:
  "notify w a m (s\<lparr>sweeps := x\<rparr>) = (notify w a m s)\<lparr>sweeps := x\<rparr>"
  "notify w a m (s\<lparr>sweeps := x, agg := g\<rparr>) = (notify w a m (s\<lparr>agg := g\<rparr>))\<lparr>sweeps := x\<rparr>"
  by (simp_all add: notify_alt stamp_def now_of_def Let_def)

lemma evaluateAlert_sweeps:
  "evaluateAlert cfg w a (s\<lparr>sweeps := x\<rparr>) =
    (fst (evaluateAlert cfg w a s), (snd (evaluateAlert cfg w a s))\<lparr>sweeps := x\<rparr>)"
  by (simp add: evaluateAlert_alt Let_def notify_sweeps
      split: sum.splits AlertConditionType.splits)

lemma try_evaluate_sweeps:
  "try_evaluate cfg w a (s\<lparr>sweeps := x\<rparr>) = (try_evaluate cfg w a s)\<lparr>sweeps := x\<rparr>"
  by (cases "evaluateAlert cfg w a s")
    (simp add: try_evaluate_def evaluateAlert_sweeps split: sum.splits)

lemma sweeps_try_evaluate [simp]: "sweeps (try_evaluate cfg w a s) = sweeps s"
  using evolves_try_evaluate [of s cfg w a] by (simp add: evolves_def)

lemma sweeps_poll_items [simp]: "sweeps (poll_items cfg w items s) = sweeps s"
  using evolves_poll_items [of items s cfg w] by (simp add: evolves_def)

lemma poll_items_sweeps:
  "poll_items cfg w items (s\<lparr>sweeps := x\<rparr>) = (poll_items cfg w items s)\<lparr>sweeps := x\<rparr>"
  by (induction items arbitrary: s) (simp_all add: try_evaluate_sweeps)

section \<open>One step of a sweep\<close>

definition pending :: "nat \<Rightarrow> alert_state \<Rightarrow> nat list" where
  "pending k s = (if k < length (sweeps s) then sweeps s ! k else [])"

lemma pending_sweeps [simp]:
  "k < length x \<Longrightarrow> pending k (s\<lparr>sweeps := x\<rparr>) = x ! k"
  by (simp add: pending_def)

lemma pending_frame [simp]:
  "pending k (s\<lparr>agg := g\<rparr>) = pending k s"
  "pending k (s\<lparr>console_log := l\<rparr>) = pending k s"
  "pending k (try_evaluate cfg w a s) = pending k s"
  "pending k (snd (registerAlert alert rnd s)) = pending k s"
  "pending k (snd (removeAlert i s)) = pending k s"
  "pending k (startAlertScheduler cfg s) = pending k s"
  "pending k (stopAlertScheduler s) = pending k s"
  by (simp_all add: pending_def registerAlert_def removeAlert_def Let_def
      startAlertScheduler_def stopAlertScheduler_def setInterval_def clearInterval_def
      split: option.splits prod.splits)

lemma eval_step:
  "alert_step cfg w (Eval k) s =
    (case pending k s of
       [] \<Rightarrow> None
     | a # items \<Rightarrow> Some (try_evaluate cfg w a (s\<lparr>sweeps := (sweeps s)[k := items]\<rparr>)))"
  by (simp add: pending_def)

lemma eval_step_None: "pending k s = [] \<Longrightarrow> alert_step cfg w (Eval k) s = None"
  by (simp add: eval_step del: alert_step.simps)

lemma eval_step_Some:
  assumes "pending k s = a # items"
  shows "alert_step cfg w (Eval k) s =
    Some ((try_evaluate cfg w a s)\<lparr>sweeps := (sweeps s)[k := items]\<rparr>)"
  using assms by (simp add: eval_step try_evaluate_sweeps del: alert_step.simps)

text \<open>From here on a step of a sweep is rewritten by these two lemmas only.\<close>

lemmas eval_steps = eval_step_None eval_step_Some

text \<open>What one event does to what a sweep in flight has still to do.\<close>

lemma step_pending:
  assumes "alert_step cfg w ev s = Some s'" and "k < length (sweeps s)"
  shows "k < length (sweeps s') \<and>
    pending k s' = (if ev = Eval k then tl (pending k s) else pending k s) \<and>
    (ev = Eval k \<longrightarrow> pending k s \<noteq> [])"
proof (cases ev)
  case (Eval j)
  with assms obtain a items where j: "j < length (sweeps s)" and "sweeps s ! j = a # items"
    and "s' = try_evaluate cfg w a (s\<lparr>sweeps := (sweeps s)[j := items]\<rparr>)"
    by (auto split: if_splits list.splits)
  with assms(2) Eval show ?thesis
    by (cases "j = k") (simp_all add: pending_def)
next
  case (Fire h)
  with assms show ?thesis
    by (auto simp: pending_def nth_append split: if_splits)
qed (use assms in \<open>auto simp: pending_def registerAlert_def removeAlert_def Let_def
      startAlertScheduler_def stopAlertScheduler_def setInterval_def clearInterval_def
      split: option.splits prod.splits\<close>)

lemma run_pending:
  assumes "alert_run cfg w evs s = Some s'" and "k < length (sweeps s)"
  shows "k < length (sweeps s') \<and> count_list evs (Eval k) \<le> length (pending k s) \<and>
    pending k s' = drop (count_list evs (Eval k)) (pending k s)"
  using assms
proof (induction evs arbitrary: s)
  case Nil
  then show ?case by simp
next
  case (Cons ev evs)
  then obtain s1 where s1: "alert_step cfg w ev s = Some s1" and run: "alert_run cfg w evs s1 = Some s'"
    by (auto split: option.splits)
  from step_pending [OF s1 Cons.prems(2)] Cons.IH [OF run]
  show ?case by (cases "pending k s") (auto simp: drop_Suc tl_drop)
qed

section \<open>Running a sweep to completion\<close>

function drain :: "config \<Rightarrow> world \<Rightarrow> nat \<Rightarrow> alert_state \<Rightarrow> alert_state" where
  "drain cfg w k s =
     (case alert_step cfg w (Eval k) s of None \<Rightarrow> s | Some s' \<Rightarrow> drain cfg w k s')"
  by pat_completeness auto

lemma eval_step_shortens:
  assumes "alert_step cfg w (Eval k) s = Some s'"
  shows "length (pending k s') < length (pending k s)"
proof -
  from assms have "k < length (sweeps s)" "pending k s \<noteq> []"
    by (auto simp: pending_def split: if_splits list.splits)
  with step_pending [OF assms, of k] show ?thesis by simp
qed

termination drain
  by (relation "measure (\<lambda>(cfg, w, k, s). length (pending k s))")
    (simp_all add: eval_step_shortens)

declare drain.simps [simp del]

lemma drain_Nil [simp]: "pending k s = [] \<Longrightarrow> drain cfg w k s = s"
  by (simp add: drain.simps eval_steps del: alert_step.simps)

lemma drain_Cons:
  "pending k s = a # items \<Longrightarrow>
    drain cfg w k s = drain cfg w k ((try_evaluate cfg w a s)\<lparr>sweeps := (sweeps s)[k := items]\<rparr>)"
  by (simp add: drain.simps [of cfg w k s] eval_steps del: alert_step.simps)

lemma drain_run:
  "alert_run cfg w (replicate (length (pending k s)) (Eval k)) s = Some (drain cfg w k s)"
proof (induction "pending k s" arbitrary: s)
  case Nil
  then show ?case by simp
next
  case (Cons a items)
  from Cons.hyps(2) have k: "k < length (sweeps s)"
    by (auto simp: pending_def split: if_splits)
  let ?s' = "(try_evaluate cfg w a s)\<lparr>sweeps := (sweeps s)[k := items]\<rparr>"
  from k have "items = pending k ?s'" by simp
  from Cons.hyps(1) [OF this] Cons.hyps(2) [symmetric] k show ?case
    by (simp add: eval_steps drain_Cons del: alert_step.simps)
qed

lemma drain_poll_items:
  assumes "k < length (sweeps s)"
  shows "drain cfg w k s = (poll_items cfg w (pending k s) s)\<lparr>sweeps := (sweeps s)[k := []]\<rparr>"
  using assms
proof (induction "pending k s" arbitrary: s)
  case Nil
  then have "sweeps s ! k = []" by (simp add: pending_def)
  then have "(sweeps s)[k := []] = sweeps s" by (metis list_update_id)
  with Nil(1) [symmetric] show ?case by simp
next
  case (Cons a items)
  let ?s' = "(try_evaluate cfg w a s)\<lparr>sweeps := (sweeps s)[k := items]\<rparr>"
  from Cons.prems have "items = pending k ?s'" and "k < length (sweeps ?s')" by simp_all
  from Cons.hyps(1) [OF this] Cons.hyps(2) [symmetric] Cons.prems show ?case
    by (simp add: drain_Cons poll_items_sweeps)
qed

section \<open>Samples\<close>

definition sweeping :: alert_state where
  "sweeping = (startAlertScheduler cfg_wa (one_alert cfg_wa))\<lparr>sweeps := [[0]]\<rparr>"

lemma sweeping_run:
  "alert_run cfg_wa world_ok [Start, Fire 0] (one_alert cfg_wa) = Some sweeping"
  by (simp add: sweeping_def listAlerts_def)

lemma sweeping_simps [simp]:
  "sweeps sweeping = [[0]]"
  "heap sweeping = heap (one_alert cfg_wa)"
  "agg sweeping = agg_init cfg_wa 0"
  "alerts sweeping = [(''k3'', 0)]"
  "timers sweeping = [(0, 600000)]"
  "console_log sweeping = [SchedulerStarted 600]"
  "pending 0 sweeping = [0]"
  by (simp_all add: sweeping_def pending_def)

section \<open>Properties\<close>

text \<open>
  C19. A sweep terminates: the loop that keeps evaluating the next alert of a sweep is
  total, it stops after exactly as many steps as the sweep has alerts to evaluate, and
  then nothing of the sweep is left.
\<close>

theorem sweep_terminates:
  assumes "k < length (sweeps s)"
  shows "alert_run cfg w (replicate (length (sweeps s ! k)) (Eval k)) s = Some (drain cfg w k s) \<and>
    pending k (drain cfg w k s) = [] \<and>
    alert_step cfg w (Eval k) (drain cfg w k s) = None"
proof -
  from assms have p: "pending k s = sweeps s ! k" by (simp add: pending_def)
  from assms have "pending k (drain cfg w k s) = []"
    by (simp add: drain_poll_items)
  with drain_run [of cfg w k s] p show ?thesis
    by (simp add: eval_steps del: alert_step.simps)
qed

theorem sweep_terminates_witness:
  "alert_run cfg_wa world_ok [Eval 0] sweeping = Some (drain cfg_wa world_ok 0 sweeping) \<and>
    sweeps (drain cfg_wa world_ok 0 sweeping) = [[]]"
  using sweep_terminates [where s = sweeping and k = 0 and cfg = cfg_wa and w = world_ok]
  by (simp add: drain_poll_items)

text \<open>
  C20. The two views of a sweep agree: a timer that fires, followed by one evaluation step
  for each registered alert with nothing in between, leaves the state \<open>pollAlerts\<close>
  computes, with one more completed sweep on record.
\<close>

theorem pollAlerts_as_events:
  assumes "map_of (timers s) h = Some period"
  shows "alert_run cfg w (Fire h # replicate (length (listAlerts s)) (Eval (length (sweeps s)))) s =
    Some ((pollAlerts cfg w s)\<lparr>sweeps := sweeps s @ [[]]\<rparr>)"
proof -
  let ?s = "s\<lparr>sweeps := sweeps s @ [listAlerts s]\<rparr>"
  let ?k = "length (sweeps s)"
  have p: "pending ?k ?s = listAlerts s" by (simp add: pending_def)
  from drain_run [of cfg w ?k ?s] drain_poll_items [of ?k ?s cfg w] p assms
  show ?thesis by (simp add: pollAlerts_def poll_items_sweeps listAlerts_def)
qed

theorem pollAlerts_as_events_witness:
  "alert_run cfg_wa world_ok [Fire 0, Eval 0] (startAlertScheduler cfg_wa (one_alert cfg_wa)) =
    Some ((pollAlerts cfg_wa world_ok (startAlertScheduler cfg_wa (one_alert cfg_wa)))
      \<lparr>sweeps := [[]]\<rparr>)"
  using pollAlerts_as_events [where s = "startAlertScheduler cfg_wa (one_alert cfg_wa)" and h = 0
      and period = 600000 and cfg = cfg_wa and w = world_ok]
  by (simp add: listAlerts_def)

text \<open>
  C21. Progress of a sweep under any interleaving: whatever registrations, removals,
  scheduler calls, further timers, client calls and steps of other sweeps happen in
  between, a sweep in flight loses exactly one alert, the first, per step of its own, and
  none otherwise. So a sweep whose steps keep being scheduled evaluates every alert of
  its snapshot, in order, and is complete after as many steps as it had alerts.
\<close>

theorem sweep_progress:
  assumes "alert_run cfg w evs s = Some s'" and "k < length (sweeps s)"
  shows "count_list evs (Eval k) \<le> length (pending k s) \<and>
    pending k s' = drop (count_list evs (Eval k)) (pending k s) \<and>
    (pending k s' = [] \<longleftrightarrow> count_list evs (Eval k) = length (pending k s))"
  using run_pending [OF assms] by auto

theorem sweep_progress_witness:
  "\<exists>s'. alert_run cfg_wa world_ok [Remove ''k3'', Print WebhookNotifyFailed, Eval 0, Stop] sweeping =
      Some s' \<and> pending 0 s' = []"
  using sweep_progress [where cfg = cfg_wa and w = world_ok and k = 0 and s = sweeping
      and evs = "[Remove ''k3'', Print WebhookNotifyFailed, Eval 0, Stop]"]
  by (simp add: eval_step_Some sweeping_def)

end
