(* ===== verification/Insights.thy ===== *)
theory Insights
  imports Samples JS_Builtins
begin

text \<open>
  The activity insights, \<open>insights/insights.ts\<close>: a pure function from an activity, a
  current record and an optional forecast to a risk level, a summary and a list of tips.

  \<open>rainRiskPct\<close> and \<open>assessActivity\<close> follow the source. The two variables the source
  assigns to, \<open>risk\<close> and \<open>tips\<close>, are threaded as a pair through the three hazard blocks
  (\<open>rain_block\<close>, \<open>wind_block\<close>, \<open>temp_block\<close>, in the order of the source), and
  \<open>activity_tips\<close> is what the last block pushes; the tips are the \<open>tip\<close> datatype, one constructor per
  string literal (\<open>tip_text\<close> gives the literal), and the summary is a template. The predicates \<open>rain_high\<close> to
  \<open>temp_moderate\<close> name the conditions of the blocks; the lemmas characterize the risk
  level by them and bound the tips.
\<close>

section \<open>Result\<close>

datatype Risk = low | moderate | high

datatype tip =
    Waterproof_gear
  | Light_rain
  | Strong_winds
  | Gusty
  | High_heat
  | Warm
  | Extreme_cold
  | Cold
  | Avoid_headwinds
  | Warm_up
  | Trail_conditions
  | Backup_indoor
  | Pack_shade

definition tip_text :: "tip \<Rightarrow> string" where
  "tip_text t =
     (case t of
        Waterproof_gear \<Rightarrow> ''Carry waterproof gear or reschedule if possible.''
      | Light_rain \<Rightarrow> ''Light rain possible. Check radar before heading out.''
      | Strong_winds \<Rightarrow> ''Strong winds expected. Avoid exposed areas.''
      | Gusty \<Rightarrow> ''Gusty conditions. Secure loose items and be cautious.''
      | High_heat \<Rightarrow> ''High heat risk. Hydrate, use sunscreen, and limit exposure.''
      | Warm \<Rightarrow> ''Warm conditions. Hydrate well and pace yourself.''
      | Extreme_cold \<Rightarrow> ''Extreme cold. Layer up and limit time outside.''
      | Cold \<Rightarrow> ''Cold conditions. Wear warm layers and protect extremities.''
      | Avoid_headwinds \<Rightarrow> ''Plan route to avoid headwinds.''
      | Warm_up \<Rightarrow> ''Warm up properly and monitor hydration.''
      | Trail_conditions \<Rightarrow> ''Check trail conditions and bring appropriate footwear.''
      | Backup_indoor \<Rightarrow> ''Have a backup indoor location.''
      | Pack_shade \<Rightarrow> ''Pack shade and water; check UV index.'')"

record InsightResult =
  activity :: string
  riskLevel :: Risk
  summary :: template
  tips :: "tip list"

section \<open>Operations\<close>

definition rainRiskPct :: "Forecast option \<Rightarrow> number" where
  "rainRiskPct forecast =
     (case forecast of
        None \<Rightarrow> 0
      | Some f \<Rightarrow>
          (let ds = slice0 1 (days f)
           in nullish (Math_max (map (\<lambda>d. nullish (chanceOfRainPct d) 0) ds @ [0])) 0))"

definition risk_text :: "Risk \<Rightarrow> string" where
  "risk_text r = (case r of low \<Rightarrow> ''low'' | moderate \<Rightarrow> ''moderate'' | high \<Rightarrow> ''high'')"

definition rain_block :: "number \<Rightarrow> string \<Rightarrow> Risk \<times> tip list" where
  "rain_block rainChance cond =
     (if 70 \<le> rainChance \<or> str_includes cond ''rain'' \<or> str_includes cond ''storm''
      then (high, [Waterproof_gear])
      else if 40 \<le> rainChance then (moderate, [Light_rain])
      else (low, []))"

definition wind_block :: "number \<Rightarrow> Risk \<times> tip list \<Rightarrow> Risk \<times> tip list" where
  "wind_block wnd p =
     (if 40 \<le> wnd then (high, snd p @ [Strong_winds])
      else if 25 \<le> wnd \<and> fst p \<noteq> high then (moderate, snd p @ [Gusty])
      else p)"

definition temp_block :: "number \<Rightarrow> Risk \<times> tip list \<Rightarrow> Risk \<times> tip list" where
  "temp_block tempC p =
     (if 32 \<le> tempC then (high, snd p @ [High_heat])
      else if 26 \<le> tempC \<and> fst p \<noteq> high then (moderate, snd p @ [Warm])
      else if tempC \<le> - 5 then (high, snd p @ [Extreme_cold])
      else if tempC \<le> 5 \<and> fst p \<noteq> high then (moderate, snd p @ [Cold])
      else p)"

definition activity_tips :: "string \<Rightarrow> number \<Rightarrow> number \<Rightarrow> tip list" where
  "activity_tips a wnd rainChance =
     (if str_includes a ''running'' \<or> str_includes a ''cycling''
      then (if 30 \<le> wnd then [Avoid_headwinds] else []) @ [Warm_up]
      else if str_includes a ''hiking'' then [Trail_conditions]
      else if str_includes a ''picnic'' \<or> str_includes a ''outdoor''
      then (if 40 \<le> rainChance then [Backup_indoor] else []) @ [Pack_shade]
      else [])"

definition assessActivity :: "string \<Rightarrow> 'a CurrentWeather_scheme \<Rightarrow> Forecast option \<Rightarrow> InsightResult" where
  "assessActivity act current forecast =
     (let rainChance = rainRiskPct forecast;
          wnd = nullish (windKph current) 0;
          tempC = temperatureC current;
          cond = toLowerCase (nullish (or_else (cond_text (condition current)) (Some [])) []);
          p = temp_block tempC (wind_block wnd (rain_block rainChance cond));
          a = toLowerCase act;
          summ = [Lit ''Risk for '', Lit act, Lit '': '', Lit (risk_text (fst p)), Lit ''. Temp '',
                  Num (of_int (Math_round tempC)),
                  Lit ([CHR 0xC3, CHR 0x82, CHR 0xC2, CHR 0xB0] @ ''C, wind ''),
                  Num (of_int (Math_round wnd)),
                  Lit '' kph, rain chance '', Num rainChance, Lit ''%'']
      in \<lparr>activity = act, riskLevel = fst p, summary = summ,
          tips = snd p @ activity_tips a wnd rainChance\<rparr>)"

section \<open>The conditions of the hazard blocks\<close>

definition cond_of :: "'a CurrentWeather_scheme \<Rightarrow> string" where
  "cond_of current = toLowerCase (nullish (or_else (cond_text (condition current)) (Some [])) [])"

definition rain_high :: "'a CurrentWeather_scheme \<Rightarrow> Forecast option \<Rightarrow> bool" where
  "rain_high current forecast =
     (70 \<le> rainRiskPct forecast \<or> str_includes (cond_of current) ''rain'' \<or>
      str_includes (cond_of current) ''storm'')"

definition rain_moderate :: "'a CurrentWeather_scheme \<Rightarrow> Forecast option \<Rightarrow> bool" where
  "rain_moderate current forecast = (\<not> rain_high current forecast \<and> 40 \<le> rainRiskPct forecast)"

definition wind_of :: "'a CurrentWeather_scheme \<Rightarrow> number" where
  "wind_of current = nullish (windKph current) 0"

definition temp_high :: "'a CurrentWeather_scheme \<Rightarrow> bool" where
  "temp_high current = (32 \<le> temperatureC current \<or> temperatureC current \<le> - 5)"

definition temp_moderate :: "'a CurrentWeather_scheme \<Rightarrow> bool" where
  "temp_moderate current =
     (\<not> temp_high current \<and> (26 \<le> temperatureC current \<or> temperatureC current \<le> 5))"

definition any_high :: "'a CurrentWeather_scheme \<Rightarrow> Forecast option \<Rightarrow> bool" where
  "any_high current forecast =
     (rain_high current forecast \<or> 40 \<le> wind_of current \<or> temp_high current)"

definition any_moderate :: "'a CurrentWeather_scheme \<Rightarrow> Forecast option \<Rightarrow> bool" where
  "any_moderate current forecast =
     (rain_moderate current forecast \<or> 25 \<le> wind_of current \<or> temp_moderate current)"

named_theorems insight_defs "definitions of the insights"

lemmas [insight_defs] =
  rainRiskPct_def rain_block_def wind_block_def temp_block_def activity_tips_def
  assessActivity_def cond_of_def rain_high_def rain_moderate_def wind_of_def
  temp_high_def temp_moderate_def any_high_def any_moderate_def

instantiation Risk :: linorder
begin

definition less_eq_Risk :: "Risk \<Rightarrow> Risk \<Rightarrow> bool" where
  "less_eq_Risk a b = (a = low \<or> b = high \<or> a = b)"

definition less_Risk :: "Risk \<Rightarrow> Risk \<Rightarrow> bool" where
  "less_Risk a b = (a \<noteq> b \<and> (a = low \<or> b = high))"

instance
proof
  fix x y z :: Risk
  show "(x < y) = (x \<le> y \<and> \<not> y \<le> x)"
    by (cases x; cases y) (simp_all add: less_eq_Risk_def less_Risk_def)
  show "x \<le> x" by (simp add: less_eq_Risk_def)
  show "x \<le> y \<Longrightarrow> y \<le> z \<Longrightarrow> x \<le> z"
    by (cases x; cases y; cases z) (simp_all add: less_eq_Risk_def)
  show "x \<le> y \<Longrightarrow> y \<le> x \<Longrightarrow> x = y"
    by (cases x; cases y) (simp_all add: less_eq_Risk_def)
  show "x \<le> y \<or> y \<le> x"
    by (cases x; cases y) (simp_all add: less_eq_Risk_def)
qed

end

section \<open>The rain chance\<close>

lemma rainRiskPct_None [simp]: "rainRiskPct None = 0"
  by (simp add: rainRiskPct_def)

lemma rainRiskPct_no_days [simp]: "days f = [] \<Longrightarrow> rainRiskPct (Some f) = 0"
  by (simp add: rainRiskPct_def Math_max_def)

lemma rainRiskPct_first_day:
  "days f = d # ds \<Longrightarrow> rainRiskPct (Some f) = max (nullish (chanceOfRainPct d) 0) 0"
  by (simp add: rainRiskPct_def slice0_def Math_max_def max.commute)

lemma rainRiskPct_nonneg: "0 \<le> rainRiskPct forecast"
proof (cases forecast)
  case None
  then show ?thesis by simp
next
  case (Some f)
  then show ?thesis by (cases "days f") (simp_all add: rainRiskPct_first_day)
qed

section \<open>The blocks\<close>

lemma fst_rain_block:
  "fst (rain_block rc cond) =
    (if 70 \<le> rc \<or> str_includes cond ''rain'' \<or> str_includes cond ''storm'' then high
     else if 40 \<le> rc then moderate else low)"
  by (simp add: rain_block_def)

lemma fst_wind_block:
  "fst (wind_block wnd p) =
    (if 40 \<le> wnd then high else if 25 \<le> wnd \<and> fst p \<noteq> high then moderate else fst p)"
  by (simp add: wind_block_def)

lemma fst_temp_block:
  "fst (temp_block t p) =
    (if 32 \<le> t \<or> t \<le> - 5 then high
     else if (26 \<le> t \<or> t \<le> 5) \<and> fst p \<noteq> high then moderate else fst p)"
  by (simp add: temp_block_def)

lemma length_blocks:
  "length (snd (rain_block rc cond)) \<le> 1"
  "length (snd (wind_block wnd p)) \<le> Suc (length (snd p))"
  "length (snd (temp_block t p)) \<le> Suc (length (snd p))"
  "length (activity_tips a wnd rc) \<le> 2"
  by (simp_all add: rain_block_def wind_block_def temp_block_def activity_tips_def)

lemma set_blocks:
  "set (snd (rain_block rc cond)) \<subseteq> {Waterproof_gear, Light_rain}"
  "set (snd (wind_block wnd p)) \<subseteq> set (snd p) \<union> {Strong_winds, Gusty}"
  "set (snd (temp_block t p)) \<subseteq> set (snd p) \<union> {High_heat, Warm, Extreme_cold, Cold}"
  "set (activity_tips a wnd rc) \<subseteq>
    {Avoid_headwinds, Warm_up, Trail_conditions, Backup_indoor, Pack_shade}"
  by (auto simp: rain_block_def wind_block_def temp_block_def activity_tips_def split: if_splits)

lemma blocks_low:
  "fst (rain_block rc cond) = low \<Longrightarrow> snd (rain_block rc cond) = []"
  "fst (wind_block wnd p) = low \<Longrightarrow> wind_block wnd p = p"
  "fst (temp_block t p) = low \<Longrightarrow> temp_block t p = p"
  by (auto simp: rain_block_def wind_block_def temp_block_def split: if_splits)

lemma riskLevel_blocks:
  "riskLevel (assessActivity act current forecast) =
    fst (temp_block (temperatureC current)
          (wind_block (wind_of current) (rain_block (rainRiskPct forecast) (cond_of current))))"
  by (simp add: assessActivity_def Let_def wind_of_def cond_of_def)

lemma assessActivity_simps [simp]:
  "tips (assessActivity act current forecast) =
    snd (temp_block (temperatureC current)
          (wind_block (wind_of current) (rain_block (rainRiskPct forecast) (cond_of current)))) @
    activity_tips (toLowerCase act) (wind_of current) (rainRiskPct forecast)"
  "activity (assessActivity act current forecast) = act"
  by (simp_all add: assessActivity_def Let_def wind_of_def cond_of_def)

section \<open>The risk level\<close>

lemma riskLevel_cases:
  "riskLevel (assessActivity act current forecast) =
    (if any_high current forecast then high
     else if any_moderate current forecast then moderate
     else low)"
  by (simp add: riskLevel_blocks fst_temp_block fst_wind_block fst_rain_block any_high_def
      any_moderate_def rain_high_def rain_moderate_def temp_high_def temp_moderate_def)

lemma Risk_le_simps [simp]:
  "low \<le> r" "r \<le> high" "high \<le> r \<longleftrightarrow> r = high" "r \<le> low \<longleftrightarrow> r = low"
  "moderate \<le> r \<longleftrightarrow> r \<noteq> low"
  by (cases r; simp add: less_eq_Risk_def)+

lemma any_high_wind_mono:
  "wind_of c \<le> v \<Longrightarrow> any_high c f \<Longrightarrow> any_high (c\<lparr>windKph := Some v\<rparr>) f"
  by (auto simp: any_high_def wind_of_def rain_high_def cond_of_def temp_high_def)

lemma any_moderate_wind_mono:
  "wind_of c \<le> v \<Longrightarrow> any_moderate c f \<Longrightarrow> any_moderate (c\<lparr>windKph := Some v\<rparr>) f"
  by (auto simp: any_moderate_def wind_of_def rain_moderate_def rain_high_def cond_of_def
      temp_moderate_def temp_high_def)

section \<open>The tips\<close>

definition hazard_tips :: "tip list" where
  "hazard_tips = [Waterproof_gear, Light_rain, Strong_winds, Gusty, High_heat, Warm, Extreme_cold, Cold]"

lemma tips_length: "length (tips (assessActivity act current forecast)) \<le> 5"
proof -
  let ?r = "rain_block (rainRiskPct forecast) (cond_of current)"
  let ?w = "wind_block (wind_of current) ?r"
  have "length (snd (temp_block (temperatureC current) ?w)) \<le> 3"
    using length_blocks(1) [of "rainRiskPct forecast" "cond_of current"]
      length_blocks(2) [of "wind_of current" ?r]
      length_blocks(3) [of "temperatureC current" ?w]
    by linarith
  with length_blocks(4) [of "toLowerCase act" "wind_of current" "rainRiskPct forecast"]
  show ?thesis by simp
qed

lemma tips_low:
  assumes "riskLevel (assessActivity act current forecast) = low"
  shows "list_all (\<lambda>t. t \<notin> set hazard_tips) (tips (assessActivity act current forecast))"
proof -
  let ?r = "rain_block (rainRiskPct forecast) (cond_of current)"
  let ?w = "wind_block (wind_of current) ?r"
  from assms have "fst (temp_block (temperatureC current) ?w) = low"
    by (simp add: riskLevel_blocks)
  then have t: "temp_block (temperatureC current) ?w = ?w" by (rule blocks_low(3))
  with \<open>fst (temp_block (temperatureC current) ?w) = low\<close> have "fst ?w = low" by simp
  then have w: "?w = ?r" by (rule blocks_low(2))
  with \<open>fst ?w = low\<close> have "fst ?r = low" by simp
  then have "snd ?r = []" by (rule blocks_low(1))
  with t w set_blocks(4) [of "toLowerCase act" "wind_of current" "rainRiskPct forecast"]
  show ?thesis by (auto simp: list_all_iff hazard_tips_def)
qed

lemma gusty_suppressed:
  "rain_high current forecast \<Longrightarrow> Gusty \<notin> set (tips (assessActivity act current forecast))"
  by (auto simp: rain_high_def rain_block_def wind_block_def temp_block_def activity_tips_def)

lemma only_first_day:
  "assessActivity act current (Some f) = assessActivity act current (Some (f\<lparr>days := take 1 (days f)\<rparr>))"
  by (simp add: assessActivity_def rainRiskPct_def slice0_def)

section \<open>Properties\<close>

text \<open>
  C36. The risk level is \<open>high\<close> exactly when one of the hazards is at its high mark:
  a rain chance of 70 or more on the first forecast day or a current condition that
  mentions rain or storm, wind of 40 kph or more, or a temperature of 32 degrees or
  more or of -5 degrees or less. It is \<open>low\<close> exactly when no hazard is at its high or
  its moderate mark.
\<close>

theorem riskLevel_high_iff:
  "(riskLevel (assessActivity act current forecast) = high \<longleftrightarrow> any_high current forecast) \<and>
   (riskLevel (assessActivity act current forecast) = low \<longleftrightarrow>
      \<not> any_high current forecast \<and> \<not> any_moderate current forecast)"
  by (simp add: riskLevel_cases)

text \<open>
  More wind never lowers the risk: with everything else the same, a current record
  with a higher wind speed is assessed at the same or a higher risk level.
\<close>

theorem riskLevel_wind_mono:
  assumes "wind_of c \<le> v"
  shows "riskLevel (assessActivity act c f) \<le> riskLevel (assessActivity act (c\<lparr>windKph := Some v\<rparr>) f)"
  using any_high_wind_mono [OF assms, of f] any_moderate_wind_mono [OF assms, of f]
  by (auto simp: riskLevel_cases)

theorem riskLevel_wind_mono_witness:
  "riskLevel (assessActivity ''picnic'' wa_male_now None) \<le>
    riskLevel (assessActivity ''picnic'' (wa_male_now\<lparr>windKph := Some 45\<rparr>) None)"
  using riskLevel_wind_mono [where c = wa_male_now and v = 45 and act = "''picnic''" and f = None]
  by (simp add: wind_of_def wa_male_now_def)

text \<open>The sample record: a sunny day of 30 degrees with 18 kph of wind, for a picnic.\<close>

lemma assess_sample:
  "riskLevel (assessActivity ''Beach Picnic'' wa_male_now None) = moderate"
  "tips (assessActivity ''Beach Picnic'' wa_male_now None) = [Warm, Pack_shade]"
proof -
  have "toLowerCase ''Beach Picnic'' = ''beach picnic''" "toLowerCase ''Sunny'' = ''sunny''"
    "str_includes ''beach picnic'' ''picnic''" "\<not> str_includes ''beach picnic'' ''running''"
    "\<not> str_includes ''beach picnic'' ''cycling''" "\<not> str_includes ''beach picnic'' ''hiking''"
    "\<not> str_includes ''sunny'' ''rain''" "\<not> str_includes ''sunny'' ''storm''"
    by code_simp+
  then show "riskLevel (assessActivity ''Beach Picnic'' wa_male_now None) = moderate"
    and "tips (assessActivity ''Beach Picnic'' wa_male_now None) = [Warm, Pack_shade]"
    by (simp_all add: riskLevel_blocks rain_block_def wind_block_def temp_block_def
        activity_tips_def wind_of_def cond_of_def wa_male_now_def)
qed

end
