(* ===== verification/Server.thy ===== *)
theory Server
  imports Alert_Service Insights
begin

text \<open>
  The tools and routes of \<open>server.ts\<close>.

  \<^item> \<open>tool_call\<close> has one constructor per tool the server registers, with the
    arguments of its handler; \<open>valid_call\<close> is what the input schemas of the
    registrations demand of them (the unit enumeration and the bounds of the day
    count; the URL check of the webhook address is left out). \<open>tool_result\<close> is the
    \<open>structuredContent\<close> a handler returns.
  \<^item> One definition per handler (\<open>get_current_weather\<close> to \<open>provider_status\<close>),
    and \<open>call_tool\<close>, the dispatch of a call to the handler registered under its name.
    A handler that throws gives \<open>Inl\<close>.
  \<^item> \<open>api_current\<close> and \<open>api_forecast\<close> are the two REST routes. Their query
    parameters are strings taken from the URL; \<open>units\<close> goes to the aggregator as it
    is (\<open>units_of_string\<close>), and the numeric parameters are given as the numbers
    \<open>parseFloat\<close> and \<open>parseInt\<close> make of them. An exception becomes status 400.
  \<^item> \<open>listen\<close> is the callback of \<open>app.listen\<close>, which announces the server on the
    console and starts the scheduler.
\<close>

section \<open>Tools\<close>

record set_alert_input =
  in_name :: "string option"
  in_location :: LocationQuery
  in_condition :: WeatherAlertCondition
  in_channel :: AlertChannel
  in_webhookUrl :: "string option"
  in_sensitivity :: "Sensitivity option"

datatype tool_call =
    Get_current_weather LocationQuery "Units option"
  | Get_forecast LocationQuery "Units option" "number option"
  | Get_historical LocationQuery string
  | Weather_insights string LocationQuery
  | Set_weather_alert set_alert_input
  | List_weather_alerts
  | Remove_weather_alert string
  | Provider_status

datatype tool_result =
    Current_data CurrentWeather
  | Forecast_data Forecast
  | Historical_data HistoricalWeather
  | Insight_data InsightResult
  | Alert_data WeatherAlert
  | Alerts_data "WeatherAlert list"
  | Removed_data bool string
  | Status_data provider_keys

definition valid_units :: "Units option \<Rightarrow> bool" where
  "valid_units u = (u = None \<or> u = Some metric \<or> u = Some imperial)"

fun valid_call :: "tool_call \<Rightarrow> bool" where
  "valid_call (Get_current_weather loc units) = valid_units units"
| "valid_call (Get_forecast loc units nd) =
     (valid_units units \<and> (case nd of None \<Rightarrow> True | Some n \<Rightarrow> 1 \<le> n \<and> n \<le> 7))"
| "valid_call c = True"

section \<open>Handlers\<close>

definition get_current_weather ::
  "config \<Rightarrow> world \<Rightarrow> LocationQuery \<Rightarrow> Units option \<Rightarrow> alert_state \<Rightarrow> tool_result result \<times> alert_state" where
  "get_current_weather cfg w loc units s =
     (case getCurrentWeather cfg w loc units (agg s) of
        (Inl e, g) \<Rightarrow> (Inl e, s\<lparr>agg := g\<rparr>)
      | (Inr data, g) \<Rightarrow> (Inr (Current_data data), s\<lparr>agg := g\<rparr>))"

definition get_forecast ::
  "config \<Rightarrow> world \<Rightarrow> LocationQuery \<Rightarrow> Units option \<Rightarrow> number option \<Rightarrow> alert_state \<Rightarrow>
    tool_result result \<times> alert_state" where
  "get_forecast cfg w loc units nd s =
     (case getForecast cfg w loc units (Some (nullish nd 3)) (agg s) of
        (Inl e, g) \<Rightarrow> (Inl e, s\<lparr>agg := g\<rparr>)
      | (Inr data, g) \<Rightarrow> (Inr (Forecast_data data), s\<lparr>agg := g\<rparr>))"

definition get_historical ::
  "config \<Rightarrow> world \<Rightarrow> LocationQuery \<Rightarrow> string \<Rightarrow> alert_state \<Rightarrow> tool_result result \<times> alert_state" where
  "get_historical cfg w loc dateISO s =
     (case getHistorical cfg w loc dateISO (agg s) of
        (Inl e, g) \<Rightarrow> (Inl e, s\<lparr>agg := g\<rparr>)
      | (Inr data, g) \<Rightarrow> (Inr (Historical_data data), s\<lparr>agg := g\<rparr>))"

definition weather_insights ::
  "config \<Rightarrow> world \<Rightarrow> string \<Rightarrow> LocationQuery \<Rightarrow> alert_state \<Rightarrow> tool_result result \<times> alert_state" where
  "weather_insights cfg w act loc s =
     (case getCurrentWeather cfg w loc None (agg s) of
        (Inl e, g) \<Rightarrow> (Inl e, s\<lparr>agg := g\<rparr>)
      | (Inr current, g) \<Rightarrow>
          (case getForecast cfg w loc None None g of
             (Inl e, g') \<Rightarrow> (Inl e, s\<lparr>agg := g'\<rparr>)
           | (Inr forecast, g') \<Rightarrow>
               (Inr (Insight_data (assessActivity act current (Some forecast))), s\<lparr>agg := g'\<rparr>)))"

definition set_weather_alert ::
  "set_alert_input \<Rightarrow> string \<Rightarrow> alert_state \<Rightarrow> tool_result result \<times> alert_state" where
  "set_weather_alert input rnd s =
     (case registerAlert
             \<lparr>al_name = in_name input, al_location = in_location input,
              al_condition = in_condition input, channel = in_channel input,
              webhookUrl = in_webhookUrl input, sensitivity = in_sensitivity input,
              lastTriggeredAt = None\<rparr> rnd s of
        (a, s') \<Rightarrow> (Inr (Alert_data (heap s' ! a)), s'))"

definition list_weather_alerts :: "alert_state \<Rightarrow> tool_result result \<times> alert_state" where
  "list_weather_alerts s = (Inr (Alerts_data (list_view s)), s)"

definition remove_weather_alert :: "string \<Rightarrow> alert_state \<Rightarrow> tool_result result \<times> alert_state" where
  "remove_weather_alert i s =
     (case removeAlert i s of (ok, s') \<Rightarrow> (Inr (Removed_data ok i), s'))"

definition provider_status :: "config \<Rightarrow> alert_state \<Rightarrow> tool_result result \<times> alert_state" where
  "provider_status cfg s = (Inr (Status_data (hasProviderKeys cfg)), s)"

text \<open>
  The dispatch. \<open>rnd\<close> is the random string the registration of an alert draws; the
  other tools do not read it.
\<close>

fun call_tool ::
  "config \<Rightarrow> world \<Rightarrow> string \<Rightarrow> tool_call \<Rightarrow> alert_state \<Rightarrow> tool_result result \<times> alert_state" where
  "call_tool cfg w rnd (Get_current_weather loc units) s =
     get_current_weather cfg w loc units s"
| "call_tool cfg w rnd (Get_forecast loc units nd) s = get_forecast cfg w loc units nd s"
| "call_tool cfg w rnd (Get_historical loc dateISO) s = get_historical cfg w loc dateISO s"
| "call_tool cfg w rnd (Weather_insights act loc) s = weather_insights cfg w act loc s"
| "call_tool cfg w rnd (Set_weather_alert input) s = set_weather_alert input rnd s"
| "call_tool cfg w rnd List_weather_alerts s = list_weather_alerts s"
| "call_tool cfg w rnd (Remove_weather_alert i) s = remove_weather_alert i s"
| "call_tool cfg w rnd Provider_status s = provider_status cfg s"

section \<open>REST routes\<close>

record rest_query =
  q_city :: "string option"
  q_country :: "string option"
  q_lat :: "number option"
  q_lon :: "number option"
  q_units :: "string option"
  q_days :: "number option"

datatype http_response = Json tool_result | Status400 error

definition units_of_string :: "string option \<Rightarrow> Units option" where
  "units_of_string u =
     (case u of
        None \<Rightarrow> None
      | Some x \<Rightarrow>
          Some (if x = ''metric'' then metric else if x = ''imperial'' then imperial
                else other_units x))"

definition location_of :: "rest_query \<Rightarrow> LocationQuery" where
  "location_of rq = \<lparr>city = q_city rq, country = q_country rq, lat = q_lat rq, lon = q_lon rq\<rparr>"

definition api_current :: "config \<Rightarrow> world \<Rightarrow> rest_query \<Rightarrow> alert_state \<Rightarrow> http_response \<times> alert_state" where
  "api_current cfg w rq s =
     (case getCurrentWeather cfg w (location_of rq) (units_of_string (q_units rq)) (agg s) of
        (Inl e, g) \<Rightarrow> (Status400 e, s\<lparr>agg := g\<rparr>)
      | (Inr data, g) \<Rightarrow> (Json (Current_data data), s\<lparr>agg := g\<rparr>))"

definition api_forecast :: "config \<Rightarrow> world \<Rightarrow> rest_query \<Rightarrow> alert_state \<Rightarrow> http_response \<times> alert_state" where
  "api_forecast cfg w rq s =
     (case getForecast cfg w (location_of rq) (units_of_string (q_units rq))
             (Some (nullish (q_days rq) 3)) (agg s) of
        (Inl e, g) \<Rightarrow> (Status400 e, s\<lparr>agg := g\<rparr>)
      | (Inr data, g) \<Rightarrow> (Json (Forecast_data data), s\<lparr>agg := g\<rparr>))"

definition listen :: "config \<Rightarrow> alert_state \<Rightarrow> alert_state" where
  "listen cfg s =
     startAlertScheduler cfg (s\<lparr>console_log := console_log s @ [ServerRunning (port cfg)]\<rparr>)"

named_theorems server_defs "definitions of the server"

lemmas [server_defs] =
  get_current_weather_def get_forecast_def get_historical_def weather_insights_def
  set_weather_alert_def list_weather_alerts_def remove_weather_alert_def provider_status_def
  units_of_string_def location_of_def api_current_def api_forecast_def listen_def

section \<open>Handlers and the process\<close>

lemma agg_call_reachable:
  "alert_reachable cfg w s \<Longrightarrow> alert_reachable cfg w (s\<lparr>agg := agg_step cfg w c (agg s)\<rparr>)"
  by (erule alert_reachable.step [where ev = "Client c"]) simp

lemma client_reachable:
  assumes "alert_reachable cfg w s"
  shows "alert_reachable cfg w (s\<lparr>agg := snd (getCurrentWeather cfg w loc u (agg s))\<rparr>)"
    and "alert_reachable cfg w (s\<lparr>agg := snd (getForecast cfg w loc u n (agg s))\<rparr>)"
    and "alert_reachable cfg w (s\<lparr>agg := snd (getHistorical cfg w loc d (agg s))\<rparr>)"
  using agg_call_reachable [OF assms, of "Current loc u"]
    agg_call_reachable [OF assms, of "Forecast loc u n"]
    agg_call_reachable [OF assms, of "Historical loc d"]
  by simp_all

lemma handler_states:
  "snd (get_current_weather cfg w loc units s) =
    s\<lparr>agg := agg_step cfg w (Current loc units) (agg s)\<rparr>"
  "snd (get_forecast cfg w loc units nd s) =
    s\<lparr>agg := agg_step cfg w (Forecast loc units (Some (nullish nd 3))) (agg s)\<rparr>"
  "snd (get_historical cfg w loc dateISO s) =
    s\<lparr>agg := agg_step cfg w (Historical loc dateISO) (agg s)\<rparr>"
  "snd (set_weather_alert input rnd s) =
    snd (registerAlert
          \<lparr>al_name = in_name input, al_location = in_location input,
           al_condition = in_condition input, channel = in_channel input,
           webhookUrl = in_webhookUrl input, sensitivity = in_sensitivity input,
           lastTriggeredAt = None\<rparr> rnd s)"
  "snd (list_weather_alerts s) = s"
  "snd (remove_weather_alert i s) = snd (removeAlert i s)"
  "snd (provider_status cfg s) = s"
  by (simp_all add: server_defs split: prod.splits sum.splits)

lemma weather_insights_state:
  "snd (weather_insights cfg w act loc s) =
    (if is_ok (fst (getCurrentWeather cfg w loc None (agg s)))
     then s\<lparr>agg := run cfg w [Current loc None, Forecast loc None None] (agg s)\<rparr>
     else s\<lparr>agg := agg_step cfg w (Current loc None) (agg s)\<rparr>)"
  by (simp add: weather_insights_def split: prod.splits sum.splits)

lemma call_tool_reachable:
  assumes "alert_reachable cfg w s"
  shows "alert_reachable cfg w (snd (call_tool cfg w rnd c s))"
proof (cases c)
  case (Weather_insights act loc)
  from agg_call_reachable [OF agg_call_reachable [OF assms], of "Forecast loc None None"
      "Current loc None"]
  have "alert_reachable cfg w
      (s\<lparr>agg := run cfg w [Current loc None, Forecast loc None None] (agg s)\<rparr>)"
    by simp
  with Weather_insights client_reachable [OF assms] show ?thesis
    by (simp add: weather_insights_state)
next
  case (Set_weather_alert input)
  with assms show ?thesis
    by (auto simp: handler_states
        intro: alert_reachable.step [where ev = "Register x rnd" for x, simplified])
next
  case (Remove_weather_alert i)
  with assms show ?thesis
    by (auto simp: handler_states intro: alert_reachable.step [where ev = "Remove i", simplified])
qed (use assms in \<open>simp_all add: handler_states client_reachable\<close>)

lemma listen_reachable:
  assumes "alert_reachable cfg w s"
  shows "alert_reachable cfg w (listen cfg s)"
  using alert_reachable.step [OF alert_reachable.step [OF assms, where ev = "Print (ServerRunning (port cfg))"],
      where ev = Start]
  by (simp add: listen_def)

section \<open>Properties\<close>

text \<open>
  C17. Every tool call takes a reachable state of the process to a reachable state, so the
  invariant of the alert service and of the caches holds after every call, whatever the
  tool and its arguments, and whether or not the handler throws.
\<close>

theorem call_tool_keeps_invariant:
  assumes "alert_reachable cfg w s"
  shows "alert_inv (snd (call_tool cfg w rnd c s))"
  using call_tool_reachable [OF assms] by (rule alert_inv_reachable)

theorem call_tool_keeps_invariant_witness:
  "alert_inv (snd (call_tool cfg_wa world_ok ''0.z9'' (Weather_insights ''picnic'' male_query)
     (one_alert cfg_wa)))"
  by (rule call_tool_keeps_invariant [OF one_alert_reachable])

text \<open>
  C35. An alert set through the tool and not colliding with a registered id is the last
  of the alerts the list tool returns next, and it is the record the set tool returned:
  the input fields, the generated id, the time of the call, and no trigger time.
\<close>

theorem set_then_list:
  assumes "registry_ok s" and "map_of (alerts s) (generateId rnd) = None"
  shows "\<exists>alert. fst (call_tool cfg w rnd (Set_weather_alert input) s) = Inr (Alert_data alert) \<and>
    fst (call_tool cfg w rnd' List_weather_alerts (snd (call_tool cfg w rnd (Set_weather_alert input) s))) =
      Inr (Alerts_data (list_view s @ [alert])) \<and>
    al_id alert = generateId rnd \<and> createdAt alert = Now (now_of s) \<and>
    lastTriggeredAt alert = None \<and> al_name alert = in_name input \<and>
    al_location alert = in_location input \<and> al_condition alert = in_condition input \<and>
    channel alert = in_channel input \<and> webhookUrl alert = in_webhookUrl input \<and>
    sensitivity alert = in_sensitivity input"
  using registerAlert_appends [OF assms]
  by (simp add: set_weather_alert_def list_weather_alerts_def split: prod.splits)
    (simp add: registerAlert_def Let_def)

theorem set_then_list_witness:
  "\<exists>alert. fst (call_tool cfg_wa world_ok ''0.z9''
        (Set_weather_alert \<lparr>in_name = None, in_location = male_query,
           in_condition = \<lparr>ctype = rain, threshold = None, daysAhead = Some 2\<rparr>,
           in_channel = console, in_webhookUrl = None, in_sensitivity = None\<rparr>)
        (one_alert cfg_wa)) = Inr (Alert_data alert) \<and> al_id alert = ''z9''"
  using set_then_list [where s = "one_alert cfg_wa" and rnd = "''0.z9''" and cfg = cfg_wa
      and w = world_ok and rnd' = "[]"
      and input = "\<lparr>in_name = None, in_location = male_query,
           in_condition = \<lparr>ctype = rain, threshold = None, daysAhead = Some 2\<rparr>,
           in_channel = console, in_webhookUrl = None, in_sensitivity = None\<rparr>"]
  by (auto simp: generateId_def)

end
