(* ===== verification/Weather_Agent.thy ===== *)
theory Weather_Agent
  imports Aggregator
begin

text \<open>
  The weather agent, \<open>agents/weatherAgent.ts\<close>: the code around a language model.

  \<^item> \<open>agent_mem\<close> is the module state: \<open>weatherAgent\<close> and \<open>agentRunner\<close>, both \<open>null\<close>
    until an agent has been built, the lines the module writes to the console, and the
    prompts it has sent.
  \<^item> \<open>agent_env\<close> is what the module reads and calls outside the program: the
    environment variable \<open>OPENAI_API_KEY\<close>, whether \<open>AgentBuilder ... build()\<close> succeeds
    for a model, and what \<open>runner.ask\<close> answers to a prompt sent at a time, after how
    long, or that it fails. The reply of the model is an input; nothing is assumed of
    its text.
  \<^item> A prompt is kept as the values the template literal interpolates
    (\<open>InsightsPrompt\<close>, \<open>SummaryPrompt\<close>), the texts the module returns as one
    constructor per literal (\<open>agent_text\<close>).
  \<^item> \<open>initializeWeatherAgent\<close>, \<open>getWeatherInsights\<close>, \<open>getEnhancedWeatherSummary\<close> and
    \<open>getBasicInsights\<close> are the functions of the source. The first returns \<open>null\<close>
    (\<open>Inr None\<close>) without a key and throws (\<open>Inl\<close>) when the build fails; the other two
    run the aggregator on the state of the caller, so they take and return it.
  \<^item> \<open>agent_ok\<close>: agent and runner are set together, and to one of the two models.
  \<^item> \<open>with_agent\<close> is the contract of the two operations, \<open>weather_for\<close> the pair of
    aggregator calls they make, and \<open>agent_calls\<close> what an operation does to the
    aggregator, as a sequence of its calls.

  The lemmas give the initialization and the contract branch by branch
  (\<open>initialize_cases\<close>, \<open>with_agent_cases\<close>), show that the operations implement the
  contract, that they preserve \<open>agent_ok\<close> and the invariant of the aggregator, and that
  an error of an operation is never an error of the model.
\<close>

section \<open>State and environment\<close>

datatype agent = Agent string

datatype runner = Runner string

record agentData =
  d_agent :: agent
  d_runner :: "runner option"

datatype prompt =
    InsightsPrompt string "string option" "string option" CurrentWeather Forecast
  | SummaryPrompt "string option" "string option" CurrentWeather Forecast

record llm_reply =
  reply_text :: "string option"
  reply_toString :: string

datatype agent_line =
    NoLlmKey
  | AgentInitialized string
  | AgentAnalysisFailed
  | AgentSummaryFailed

datatype agent_text =
    BasicInsights string "string option" "string option"
  | SummaryNeedsLlm
  | SummaryUnavailable
  | LlmText string

record agent_mem =
  weatherAgent :: "agent option"
  agentRunner :: "runner option"
  agent_console :: "agent_line list"
  asked :: "prompt list"

record agent_env =
  openai_api_key :: "string option"
  build_ok :: "string \<Rightarrow> bool"
  answer :: "millis \<Rightarrow> runner \<Rightarrow> prompt \<Rightarrow> millis \<times> llm_reply option"

definition agent_init :: agent_mem where
  "agent_init = \<lparr>weatherAgent = None, agentRunner = None, agent_console = [], asked = []\<rparr>"

section \<open>Initialization\<close>

definition initializeWeatherAgent ::
  "config \<Rightarrow> agent_env \<Rightarrow> agent_mem \<Rightarrow> agentData option result \<times> agent_mem" where
  "initializeWeatherAgent cfg env m =
     (case weatherAgent m of
        Some a \<Rightarrow> (Inr (Some \<lparr>d_agent = a, d_runner = agentRunner m\<rparr>), m)
      | None \<Rightarrow>
          (let hasGoogleKey = (googleApiKey cfg \<noteq> []);
               hasOpenAIKey = truthy (openai_api_key env)
           in if \<not> hasGoogleKey \<and> \<not> hasOpenAIKey
              then (Inr None, m\<lparr>agent_console := agent_console m @ [NoLlmKey]\<rparr>)
              else (let model = (if hasGoogleKey then ''gemini-2.5-flash'' else ''gpt-4o-mini'')
                    in if build_ok env model
                       then (Inr (Some \<lparr>d_agent = Agent model, d_runner = Some (Runner model)\<rparr>),
                             m\<lparr>weatherAgent := Some (Agent model),
                                agentRunner := Some (Runner model),
                                agent_console := agent_console m @ [AgentInitialized model]\<rparr>)
                       else (Inl AgentBuildFailed, m))))"

section \<open>Asking the model\<close>

text \<open>
  \<open>await runner.ask(prompt)\<close> inside a \<open>try\<close>: \<open>None\<close> when the call throws, which it
  also does on a runner that is \<open>null\<close>. The prompt is logged and the time the model
  takes passes on the clock of the program.
\<close>

definition runner_ask ::
  "agent_env \<Rightarrow> runner option \<Rightarrow> prompt \<Rightarrow> agent_mem \<Rightarrow> agg_state \<Rightarrow>
    llm_reply option \<times> agent_mem \<times> agg_state" where
  "runner_ask env r p m g =
     (case r of
        None \<Rightarrow> (None, m, g)
      | Some rn \<Rightarrow>
          (snd (answer env (clock (net g)) rn p),
           m\<lparr>asked := asked m @ [p]\<rparr>,
           elapse (fst (answer env (clock (net g)) rn p)) g))"

text \<open>\<open>response.text || response.toString()\<close>\<close>

definition reply_string :: "llm_reply \<Rightarrow> string" where
  "reply_string r = nullish (or_else (reply_text r) (Some (reply_toString r))) []"

section \<open>The exported operations\<close>

definition getBasicInsights :: "string \<Rightarrow> LocationQuery \<Rightarrow> agent_text" where
  "getBasicInsights activity loc = BasicInsights activity (city loc) (country loc)"

definition getWeatherInsights ::
  "config \<Rightarrow> agent_env \<Rightarrow> world \<Rightarrow> string \<Rightarrow> LocationQuery \<Rightarrow> agent_mem \<Rightarrow> agg_state \<Rightarrow>
    agent_text result \<times> agent_mem \<times> agg_state" where
  "getWeatherInsights cfg env w activity loc m g =
     (case initializeWeatherAgent cfg env m of
        (Inl e, m1) \<Rightarrow> (Inl e, m1, g)
      | (Inr None, m1) \<Rightarrow> (Inr (getBasicInsights activity loc), m1, g)
      | (Inr (Some agentData), m1) \<Rightarrow>
          (case getCurrentWeather cfg w loc None g of
             (Inl e, g1) \<Rightarrow> (Inl e, m1, g1)
           | (Inr current, g1) \<Rightarrow>
               (case getForecast cfg w loc None (Some 3) g1 of
                  (Inl e, g2) \<Rightarrow> (Inl e, m1, g2)
                | (Inr forecast, g2) \<Rightarrow>
                    (case runner_ask env (d_runner agentData)
                            (InsightsPrompt activity (city loc) (country loc) current forecast)
                            m1 g2 of
                       (None, m2, g3) \<Rightarrow>
                         (Inr (getBasicInsights activity loc),
                          m2\<lparr>agent_console := agent_console m2 @ [AgentAnalysisFailed]\<rparr>, g3)
                     | (Some response, m2, g3) \<Rightarrow>
                         (Inr (LlmText (reply_string response)), m2, g3)))))"

definition getEnhancedWeatherSummary ::
  "config \<Rightarrow> agent_env \<Rightarrow> world \<Rightarrow> LocationQuery \<Rightarrow> number option \<Rightarrow> agent_mem \<Rightarrow> agg_state \<Rightarrow>
    agent_text result \<times> agent_mem \<times> agg_state" where
  "getEnhancedWeatherSummary cfg env w loc days0 m g =
     (case initializeWeatherAgent cfg env m of
        (Inl e, m1) \<Rightarrow> (Inl e, m1, g)
      | (Inr None, m1) \<Rightarrow> (Inr SummaryNeedsLlm, m1, g)
      | (Inr (Some agentData), m1) \<Rightarrow>
          (case getCurrentWeather cfg w loc None g of
             (Inl e, g1) \<Rightarrow> (Inl e, m1, g1)
           | (Inr current, g1) \<Rightarrow>
               (case getForecast cfg w loc None (or_num days0 (Some 3)) g1 of
                  (Inl e, g2) \<Rightarrow> (Inl e, m1, g2)
                | (Inr forecast, g2) \<Rightarrow>
                    (case runner_ask env (d_runner agentData)
                            (SummaryPrompt (city loc) (country loc) current forecast) m1 g2 of
                       (None, m2, g3) \<Rightarrow>
                         (Inr SummaryUnavailable,
                          m2\<lparr>agent_console := agent_console m2 @ [AgentSummaryFailed]\<rparr>, g3)
                     | (Some response, m2, g3) \<Rightarrow>
                         (Inr (LlmText (reply_string response)), m2, g3)))))"

named_theorems agent_defs "definitions of the weather agent"

lemmas [agent_defs] =
  agent_init_def initializeWeatherAgent_def runner_ask_def reply_string_def getBasicInsights_def
  getWeatherInsights_def getEnhancedWeatherSummary_def

section \<open>Invariant\<close>

definition known_model :: "string \<Rightarrow> bool" where
  "known_model x = (x = ''gemini-2.5-flash'' \<or> x = ''gpt-4o-mini'')"

fun model_of :: "agent \<Rightarrow> string" where
  "model_of (Agent x) = x"

definition agent_ok :: "agent_mem \<Rightarrow> bool" where
  "agent_ok m =
     (case weatherAgent m of
        None \<Rightarrow> agentRunner m = None
      | Some a \<Rightarrow> agentRunner m = Some (Runner (model_of a)) \<and> known_model (model_of a))"

section \<open>Initialization, branch by branch\<close>

lemma initialize_memoised:
  "weatherAgent m = Some a \<Longrightarrow>
    initializeWeatherAgent cfg env m = (Inr (Some \<lparr>d_agent = a, d_runner = agentRunner m\<rparr>), m)"
  by (simp add: initializeWeatherAgent_def)

lemma initialize_no_key:
  "weatherAgent m = None \<Longrightarrow> googleApiKey cfg = [] \<Longrightarrow> \<not> truthy (openai_api_key env) \<Longrightarrow>
    initializeWeatherAgent cfg env m = (Inr None, m\<lparr>agent_console := agent_console m @ [NoLlmKey]\<rparr>)"
  by (simp add: initializeWeatherAgent_def)

definition chosen_model :: "config \<Rightarrow> string" where
  "chosen_model cfg = (if googleApiKey cfg \<noteq> [] then ''gemini-2.5-flash'' else ''gpt-4o-mini'')"

lemma known_chosen_model [simp]: "known_model (chosen_model cfg)"
  by (simp add: known_model_def chosen_model_def)

lemma initialize_builds:
  assumes "weatherAgent m = None" and "googleApiKey cfg \<noteq> [] \<or> truthy (openai_api_key env)"
    and "build_ok env (chosen_model cfg)"
  shows "initializeWeatherAgent cfg env m =
    (Inr (Some \<lparr>d_agent = Agent (chosen_model cfg), d_runner = Some (Runner (chosen_model cfg))\<rparr>),
     m\<lparr>weatherAgent := Some (Agent (chosen_model cfg)),
        agentRunner := Some (Runner (chosen_model cfg)),
        agent_console := agent_console m @ [AgentInitialized (chosen_model cfg)]\<rparr>)"
  using assms by (auto simp: initializeWeatherAgent_def chosen_model_def Let_def)

lemma initialize_build_fails:
  assumes "weatherAgent m = None" and "googleApiKey cfg \<noteq> [] \<or> truthy (openai_api_key env)"
    and "\<not> build_ok env (chosen_model cfg)"
  shows "initializeWeatherAgent cfg env m = (Inl AgentBuildFailed, m)"
  using assms by (auto simp: initializeWeatherAgent_def chosen_model_def Let_def)

lemma initialize_cases:
  obtains (memoised) a where "weatherAgent m = Some a"
      "initializeWeatherAgent cfg env m = (Inr (Some \<lparr>d_agent = a, d_runner = agentRunner m\<rparr>), m)"
  | (no_key) "weatherAgent m = None" "googleApiKey cfg = []" "\<not> truthy (openai_api_key env)"
      "initializeWeatherAgent cfg env m =
        (Inr None, m\<lparr>agent_console := agent_console m @ [NoLlmKey]\<rparr>)"
  | (built) "weatherAgent m = None" "googleApiKey cfg \<noteq> [] \<or> truthy (openai_api_key env)"
      "build_ok env (chosen_model cfg)"
      "initializeWeatherAgent cfg env m =
        (Inr (Some \<lparr>d_agent = Agent (chosen_model cfg), d_runner = Some (Runner (chosen_model cfg))\<rparr>),
         m\<lparr>weatherAgent := Some (Agent (chosen_model cfg)),
            agentRunner := Some (Runner (chosen_model cfg)),
            agent_console := agent_console m @ [AgentInitialized (chosen_model cfg)]\<rparr>)"
  | (failed) "weatherAgent m = None" "googleApiKey cfg \<noteq> [] \<or> truthy (openai_api_key env)"
      "\<not> build_ok env (chosen_model cfg)"
      "initializeWeatherAgent cfg env m = (Inl AgentBuildFailed, m)"
proof (cases "weatherAgent m")
  case (Some a)
  then show ?thesis by (auto intro: memoised simp: initialize_memoised)
next
  case None
  show ?thesis
  proof (cases "googleApiKey cfg \<noteq> [] \<or> truthy (openai_api_key env)")
    case True
    with None show ?thesis
      by (cases "build_ok env (chosen_model cfg)")
        (blast intro: built failed initialize_builds initialize_build_fails)+
  next
    case False
    with None show ?thesis by (intro no_key) (simp_all add: initialize_no_key)
  qed
qed

lemma agent_ok_init [simp]: "agent_ok agent_init"
  by (simp add: agent_ok_def agent_init_def)

lemma agent_ok_console [simp]: "agent_ok (m\<lparr>agent_console := l\<rparr>) = agent_ok m"
  by (simp add: agent_ok_def split: option.splits)

lemma agent_ok_asked [simp]: "agent_ok (m\<lparr>asked := l\<rparr>) = agent_ok m"
  by (simp add: agent_ok_def split: option.splits)

lemma agent_ok_initialize [inv_intros]:
  "agent_ok m \<Longrightarrow> agent_ok (snd (initializeWeatherAgent cfg env m))"
  by (cases rule: initialize_cases [of m cfg env]) (simp_all add: agent_ok_def)

text \<open>What a successful initialization returns is what the module then holds.\<close>

lemma initialize_result:
  assumes "agent_ok m" and "initializeWeatherAgent cfg env m = (Inr (Some d), m1)"
  shows "weatherAgent m1 = Some (d_agent d) \<and> agentRunner m1 = d_runner d \<and> d_runner d \<noteq> None \<and>
    asked m1 = asked m"
  using assms
  by (cases rule: initialize_cases [of m cfg env]) (auto simp: agent_ok_def)

lemma initialize_frame [simp]: "asked (snd (initializeWeatherAgent cfg env m)) = asked m"
  by (cases rule: initialize_cases [of m cfg env]) simp_all

section \<open>Asking, branch by branch\<close>

lemma runner_ask_simps [simp]:
  "runner_ask env None p m g = (None, m, g)"
  "runner_ask env (Some rn) p m g =
    (snd (answer env (clock (net g)) rn p), m\<lparr>asked := asked m @ [p]\<rparr>,
     elapse (fst (answer env (clock (net g)) rn p)) g)"
  by (simp_all add: runner_ask_def)

lemma reply_string_simps [simp]:
  "t \<noteq> [] \<Longrightarrow> reply_string \<lparr>reply_text = Some t, reply_toString = x\<rparr> = t"
  "reply_string \<lparr>reply_text = None, reply_toString = x\<rparr> = x"
  "reply_string \<lparr>reply_text = Some [], reply_toString = x\<rparr> = x"
  by (simp_all add: reply_string_def)

section \<open>The contract of the two operations\<close>

text \<open>
  Both operations have one shape: obtain the agent; without one, answer with a fixed
  text and do nothing else; with one, fetch the current weather and a forecast, make a
  prompt of them and ask; if asking fails, answer with a second fixed text and write a
  line to the console. \<open>weather_for\<close> is the pair of aggregator calls, \<open>with_agent\<close>
  the shape.
\<close>

definition weather_for ::
  "config \<Rightarrow> world \<Rightarrow> LocationQuery \<Rightarrow> number option \<Rightarrow> agg_state \<Rightarrow>
    (CurrentWeather \<times> Forecast) result \<times> agg_state" where
  "weather_for cfg w loc n g =
     (case getCurrentWeather cfg w loc None g of
        (Inl e, g1) \<Rightarrow> (Inl e, g1)
      | (Inr current, g1) \<Rightarrow>
          (case getForecast cfg w loc None n g1 of
             (Inl e, g2) \<Rightarrow> (Inl e, g2)
           | (Inr forecast, g2) \<Rightarrow> (Inr (current, forecast), g2)))"

definition with_agent ::
  "config \<Rightarrow> agent_env \<Rightarrow> world \<Rightarrow> LocationQuery \<Rightarrow> number option \<Rightarrow>
    (CurrentWeather \<Rightarrow> Forecast \<Rightarrow> prompt) \<Rightarrow> agent_text \<Rightarrow> agent_text \<Rightarrow> agent_line \<Rightarrow>
    agent_mem \<Rightarrow> agg_state \<Rightarrow> agent_text result \<times> agent_mem \<times> agg_state" where
  "with_agent cfg env w loc n mk no_agent failed line m g =
     (case initializeWeatherAgent cfg env m of
        (Inl e, m1) \<Rightarrow> (Inl e, m1, g)
      | (Inr None, m1) \<Rightarrow> (Inr no_agent, m1, g)
      | (Inr (Some agentData), m1) \<Rightarrow>
          (case weather_for cfg w loc n g of
             (Inl e, g2) \<Rightarrow> (Inl e, m1, g2)
           | (Inr (current, forecast), g2) \<Rightarrow>
               (case runner_ask env (d_runner agentData) (mk current forecast) m1 g2 of
                  (None, m2, g3) \<Rightarrow>
                    (Inr failed, m2\<lparr>agent_console := agent_console m2 @ [line]\<rparr>, g3)
                | (Some response, m2, g3) \<Rightarrow> (Inr (LlmText (reply_string response)), m2, g3))))"

lemma insights_refines:
  "getWeatherInsights cfg env w activity loc m g =
    with_agent cfg env w loc (Some 3) (InsightsPrompt activity (city loc) (country loc))
      (getBasicInsights activity loc) (getBasicInsights activity loc) AgentAnalysisFailed m g"
  by (simp add: getWeatherInsights_def with_agent_def weather_for_def
      split: prod.splits sum.splits option.splits)

lemma summary_refines:
  "getEnhancedWeatherSummary cfg env w loc days0 m g =
    with_agent cfg env w loc (or_num days0 (Some 3)) (SummaryPrompt (city loc) (country loc))
      SummaryNeedsLlm SummaryUnavailable AgentSummaryFailed m g"
  by (simp add: getEnhancedWeatherSummary_def with_agent_def weather_for_def
      split: prod.splits sum.splits option.splits)

section \<open>The two aggregator calls\<close>

lemma weather_for_state:
  "snd (weather_for cfg w loc n g) =
    (if is_ok (fst (getCurrentWeather cfg w loc None g))
     then run cfg w [Current loc None, Forecast loc None n] g
     else agg_step cfg w (Current loc None) g)"
  by (simp add: weather_for_def split: prod.splits sum.splits)

lemma weather_for_Inl:
  "fst (weather_for cfg w loc n g) = Inl e \<longleftrightarrow>
    fst (getCurrentWeather cfg w loc None g) = Inl e \<or>
    is_ok (fst (getCurrentWeather cfg w loc None g)) \<and>
      fst (getForecast cfg w loc None n (snd (getCurrentWeather cfg w loc None g))) = Inl e"
  by (auto simp: weather_for_def split: prod.splits sum.splits)

lemma weather_for_Inr:
  "fst (weather_for cfg w loc n g) = Inr (c, f) \<longleftrightarrow>
    fst (getCurrentWeather cfg w loc None g) = Inr c \<and>
    fst (getForecast cfg w loc None n (snd (getCurrentWeather cfg w loc None g))) = Inr f"
  by (auto simp: weather_for_def split: prod.splits sum.splits)

lemma weather_for_reachable:
  "reachable cfg w g \<Longrightarrow> reachable cfg w (snd (weather_for cfg w loc n g))"
  using reachable_run [of cfg w g "[Current loc None, Forecast loc None n]"]
    reachable_run [of cfg w g "[Current loc None]"]
  by (simp add: weather_for_state)

lemma weather_for_grew: "grew 4 (net g) (net (snd (weather_for cfg w loc n g)))"
proof -
  have 1: "grew 2 (net g) (net (agg_step cfg w (Current loc None) g))"
    using step_grew [of "Current loc None" g cfg w] by simp
  have "grew (2 + 2) (net g) (net (run cfg w [Current loc None, Forecast loc None n] g))"
    using grew_trans [OF 1 step_grew [of "Forecast loc None n" "agg_step cfg w (Current loc None) g" cfg w]]
    by simp
  with 1 show ?thesis
    by (auto simp: weather_for_state intro: grew_mono [of 2 _ _ 4] simp del: agg_step.simps)
qed

text \<open>The two calls as a sequence of calls of the aggregator.\<close>

definition weather_calls ::
  "config \<Rightarrow> world \<Rightarrow> LocationQuery \<Rightarrow> number option \<Rightarrow> agg_state \<Rightarrow> call list" where
  "weather_calls cfg w loc n g =
     (if is_ok (fst (getCurrentWeather cfg w loc None g))
      then [Current loc None, Forecast loc None n] else [Current loc None])"

lemma weather_for_calls: "snd (weather_for cfg w loc n g) = run cfg w (weather_calls cfg w loc n g) g"
  by (simp add: weather_for_state weather_calls_def)

lemma weather_for_agg_inv [inv_intros]:
  "agg_inv g \<Longrightarrow> agg_inv (snd (weather_for cfg w loc n g))"
  using agg_inv_step [of g cfg w "Current loc None"]
    agg_inv_step [of "agg_step cfg w (Current loc None) g" cfg w "Forecast loc None n"]
  by (simp add: weather_for_state)

section \<open>The contract, branch by branch\<close>

lemma initialize_Inl:
  "initializeWeatherAgent cfg env m = (Inl e, m1) \<Longrightarrow>
    e = AgentBuildFailed \<and> m1 = m \<and> weatherAgent m = None \<and> \<not> build_ok env (chosen_model cfg)"
  by (cases rule: initialize_cases [of m cfg env]) auto

lemma initialize_None:
  "initializeWeatherAgent cfg env m = (Inr None, m1) \<Longrightarrow>
    m1 = m\<lparr>agent_console := agent_console m @ [NoLlmKey]\<rparr> \<and> weatherAgent m = None \<and>
    googleApiKey cfg = [] \<and> \<not> truthy (openai_api_key env)"
  by (cases rule: initialize_cases [of m cfg env]) auto

lemma initialize_Some:
  "initializeWeatherAgent cfg env m = (Inr (Some d), m1) \<Longrightarrow>
    d_runner d = agentRunner m1 \<and> weatherAgent m1 = Some (d_agent d)"
  by (cases rule: initialize_cases [of m cfg env]) auto

lemma with_agent_cases:
  fixes cfg env m w loc n g
  defines "m1 \<equiv> snd (initializeWeatherAgent cfg env m)"
    and "g2 \<equiv> snd (weather_for cfg w loc n g)"
  obtains (build_failed) "weatherAgent m = None" "\<not> build_ok env (chosen_model cfg)" "m1 = m"
      "with_agent cfg env w loc n mk no_agent failed line m g = (Inl AgentBuildFailed, m, g)"
  | (no_agent) "weatherAgent m = None" "googleApiKey cfg = []" "\<not> truthy (openai_api_key env)"
      "m1 = m\<lparr>agent_console := agent_console m @ [NoLlmKey]\<rparr>"
      "with_agent cfg env w loc n mk no_agent failed line m g =
        (Inr no_agent, m\<lparr>agent_console := agent_console m @ [NoLlmKey]\<rparr>, g)"
  | (weather_failed) e where "weatherAgent m1 \<noteq> None" "fst (weather_for cfg w loc n g) = Inl e"
      "with_agent cfg env w loc n mk no_agent failed line m g = (Inl e, m1, g2)"
  | (no_runner) c f where "weatherAgent m1 \<noteq> None" "fst (weather_for cfg w loc n g) = Inr (c, f)"
      "agentRunner m1 = None"
      "with_agent cfg env w loc n mk no_agent failed line m g =
        (Inr failed, m1\<lparr>agent_console := agent_console m1 @ [line]\<rparr>, g2)"
  | (ask_failed) c f rn where "weatherAgent m1 \<noteq> None" "fst (weather_for cfg w loc n g) = Inr (c, f)"
      "agentRunner m1 = Some rn" "snd (answer env (clock (net g2)) rn (mk c f)) = None"
      "with_agent cfg env w loc n mk no_agent failed line m g =
        (Inr failed,
         m1\<lparr>asked := asked m @ [mk c f], agent_console := agent_console m1 @ [line]\<rparr>,
         elapse (fst (answer env (clock (net g2)) rn (mk c f))) g2)"
  | (answered) c f rn r where "weatherAgent m1 \<noteq> None" "fst (weather_for cfg w loc n g) = Inr (c, f)"
      "agentRunner m1 = Some rn" "snd (answer env (clock (net g2)) rn (mk c f)) = Some r"
      "with_agent cfg env w loc n mk no_agent failed line m g =
        (Inr (LlmText (reply_string r)), m1\<lparr>asked := asked m @ [mk c f]\<rparr>,
         elapse (fst (answer env (clock (net g2)) rn (mk c f))) g2)"
proof (cases "initializeWeatherAgent cfg env m")
  case (Pair r m')
  show ?thesis
  proof (cases r)
    case (Inl e)
    with Pair show ?thesis
      using initialize_Inl [of cfg env m e m'] by (intro build_failed) (simp_all add: with_agent_def m1_def)
  next
    case (Inr o1)
    show ?thesis
    proof (cases o1)
      case None
      with Pair Inr show ?thesis
        using initialize_None [of cfg env m m'] by (intro no_agent) (simp_all add: with_agent_def m1_def)
    next
      case (Some d)
      with Pair Inr have d: "d_runner d = agentRunner m1" "weatherAgent m1 \<noteq> None" "m' = m1"
        using initialize_Some [of cfg env m d m'] by (simp_all add: m1_def)
      have a: "asked m1 = asked m" by (simp add: m1_def)
      show ?thesis
      proof (cases "fst (weather_for cfg w loc n g)")
        case (Inl e)
        with Pair Inr Some d show ?thesis
          by (intro weather_failed [of e]) (auto simp: with_agent_def g2_def split: prod.splits)
      next
        case cf: (Inr p)
        obtain c f where p: "p = (c, f)" by (cases p)
        show ?thesis
        proof (cases "agentRunner m1")
          case None
          with Pair Inr Some d cf p show ?thesis
            by (intro no_runner [of c f])
              (auto simp: with_agent_def g2_def m1_def split: prod.splits)
        next
          case rn: (Some rn)
          show ?thesis
          proof (cases "snd (answer env (clock (net g2)) rn (mk c f))")
            case None
            with Pair Inr Some d cf p rn a show ?thesis
              by (intro ask_failed [of c f rn])
                (auto simp: with_agent_def g2_def split: prod.splits)
          next
            case r: (Some r)
            with Pair Inr Some d cf p rn a show ?thesis
              by (intro answered [of c f rn r])
                (auto simp: with_agent_def g2_def split: prod.splits)
          qed
        qed
      qed
    qed
  qed
qed

section \<open>What every call preserves\<close>

lemma with_agent_agent_ok [inv_intros]:
  "agent_ok m \<Longrightarrow> agent_ok (fst (snd (with_agent cfg env w loc n mk no_agent failed line m g)))"
  using agent_ok_initialize [of m cfg env]
  by (cases rule: with_agent_cases [where cfg = cfg and env = env and m = m and w = w and loc = loc
        and n = n and g = g and mk = mk and no_agent = no_agent and failed = failed and line = line])
    simp_all

lemma reachable_elapse: "reachable cfg w g \<Longrightarrow> reachable cfg w (elapse d g)"
  using reachable.step [where c = "Elapse d"] by fastforce

lemma with_agent_reachable:
  "reachable cfg w g \<Longrightarrow>
    reachable cfg w (snd (snd (with_agent cfg env w loc n mk no_agent failed line m g)))"
  using weather_for_reachable [of cfg w g loc n]
  by (cases rule: with_agent_cases [where cfg = cfg and env = env and m = m and w = w and loc = loc
        and n = n and g = g and mk = mk and no_agent = no_agent and failed = failed and line = line])
    (simp_all add: reachable_elapse)

text \<open>
  What an operation does to the aggregator is a sequence of aggregator calls:
  \<open>agent_calls\<close> is that sequence, the two calls for the weather followed by the pause
  in which the model answers.
\<close>

definition agent_calls ::
  "config \<Rightarrow> agent_env \<Rightarrow> world \<Rightarrow> LocationQuery \<Rightarrow> number option \<Rightarrow>
    (CurrentWeather \<Rightarrow> Forecast \<Rightarrow> prompt) \<Rightarrow> agent_mem \<Rightarrow> agg_state \<Rightarrow> call list" where
  "agent_calls cfg env w loc n mk m g =
     (if weatherAgent (snd (initializeWeatherAgent cfg env m)) = None then []
      else weather_calls cfg w loc n g @
        (case (fst (weather_for cfg w loc n g), agentRunner (snd (initializeWeatherAgent cfg env m))) of
           (Inr (c, f), Some rn) \<Rightarrow>
             [Elapse (fst (answer env (clock (net (snd (weather_for cfg w loc n g)))) rn (mk c f)))]
         | _ \<Rightarrow> []))"

lemma with_agent_calls:
  "snd (snd (with_agent cfg env w loc n mk no_agent failed line m g)) =
    run cfg w (agent_calls cfg env w loc n mk m g) g"
  by (cases rule: with_agent_cases [where cfg = cfg and env = env and m = m and w = w and loc = loc
        and n = n and g = g and mk = mk and no_agent = no_agent and failed = failed and line = line])
    (auto simp: agent_calls_def weather_for_calls)

lemma agent_calls_cost: "sum_list (map cost (agent_calls cfg env w loc n mk m g)) \<le> 4"
  by (auto simp: agent_calls_def weather_calls_def split: sum.splits option.splits prod.splits)

lemma with_agent_grew:
  "grew 4 (net g) (net (snd (snd (with_agent cfg env w loc n mk no_agent failed line m g))))"
  using weather_for_grew [of g cfg w loc n]
    grew_trans [OF weather_for_grew [of g cfg w loc n] grew_elapse [of 0]]
  by (cases rule: with_agent_cases [where cfg = cfg and env = env and m = m and w = w and loc = loc
        and n = n and g = g and mk = mk and no_agent = no_agent and failed = failed and line = line])
    simp_all

text \<open>
  An error of the operation is an error of the build or of the aggregator; a failure
  of the model is answered with the fallback text.
\<close>

lemma with_agent_Inl:
  assumes "fst (with_agent cfg env w loc n mk no_agent failed line m g) = Inl e"
  shows "e = AgentBuildFailed \<and> weatherAgent m = None \<and> \<not> build_ok env (chosen_model cfg) \<and>
      snd (with_agent cfg env w loc n mk no_agent failed line m g) = (m, g) \<or>
    fst (weather_for cfg w loc n g) = Inl e"
  using assms
  by (cases rule: with_agent_cases [where cfg = cfg and env = env and m = m and w = w and loc = loc
        and n = n and g = g and mk = mk and no_agent = no_agent and failed = failed and line = line])
    simp_all

text \<open>With the invariant, an agent that exists has a runner: the prompt is always sent.\<close>

lemma agent_ok_runner: "agent_ok m \<Longrightarrow> weatherAgent m \<noteq> None \<Longrightarrow> agentRunner m \<noteq> None"
  by (auto simp: agent_ok_def)

lemma with_agent_asked:
  assumes "agent_ok m"
  shows "asked (fst (snd (with_agent cfg env w loc n mk no_agent failed line m g))) =
    (if weatherAgent (snd (initializeWeatherAgent cfg env m)) = None then asked m
     else case fst (weather_for cfg w loc n g) of
            Inl e \<Rightarrow> asked m
          | Inr (c, f) \<Rightarrow> asked m @ [mk c f])"
  using agent_ok_runner [OF agent_ok_initialize [OF assms, of cfg env]]
  by (cases rule: with_agent_cases [where cfg = cfg and env = env and m = m and w = w and loc = loc
        and n = n and g = g and mk = mk and no_agent = no_agent and failed = failed and line = line])
    simp_all

section \<open>Sample environments\<close>

text \<open>
  \<open>env_llm\<close> has an OpenAI key and a model that answers after 1.2 seconds; in
  \<open>env_silent\<close> asking fails after 30 seconds; in \<open>env_broken\<close> the agent cannot be
  built; \<open>env_none\<close> has no key.
\<close>

definition advice :: llm_reply where
  "advice = \<lparr>reply_text = Some ''Go before noon.'', reply_toString = ''[object Object]''\<rparr>"

definition env_llm :: agent_env where
  "env_llm = \<lparr>openai_api_key = Some ''sk-test'', build_ok = (\<lambda>_. True),
     answer = (\<lambda>now rn p. (1200, Some advice))\<rparr>"

definition env_silent :: agent_env where
  "env_silent = env_llm\<lparr>answer := (\<lambda>now rn p. (30000, None))\<rparr>"

definition env_broken :: agent_env where
  "env_broken = env_llm\<lparr>build_ok := (\<lambda>_. False)\<rparr>"

definition env_none :: agent_env where
  "env_none = env_llm\<lparr>openai_api_key := None\<rparr>"

lemmas env_defs = advice_def env_llm_def env_silent_def env_broken_def env_none_def

lemma chosen_model_samples [simp]:
  "chosen_model cfg_wa = ''gpt-4o-mini''" "chosen_model cfg_ow = ''gpt-4o-mini''"
  "googleApiKey cfg_wa = []" "googleApiKey cfg_ow = []"
  by (simp_all add: chosen_model_def sample_defs)

lemma male_query_fields: "city male_query = Some ''Male''" "country male_query = Some ''MV''"
  by (simp_all add: male_query_def)

definition built :: agent_mem where
  "built = agent_init\<lparr>weatherAgent := Some (Agent ''gpt-4o-mini''),
     agentRunner := Some (Runner ''gpt-4o-mini''),
     agent_console := [AgentInitialized ''gpt-4o-mini'']\<rparr>"

lemma initialize_samples [simp]:
  "initializeWeatherAgent cfg_ow env_llm agent_init =
    (Inr (Some \<lparr>d_agent = Agent ''gpt-4o-mini'', d_runner = Some (Runner ''gpt-4o-mini'')\<rparr>), built)"
  "initializeWeatherAgent cfg_ow env_silent agent_init =
    (Inr (Some \<lparr>d_agent = Agent ''gpt-4o-mini'', d_runner = Some (Runner ''gpt-4o-mini'')\<rparr>), built)"
  "initializeWeatherAgent cfg_ow env_broken agent_init = (Inl AgentBuildFailed, agent_init)"
  "initializeWeatherAgent cfg_ow env_none agent_init =
    (Inr None, agent_init\<lparr>agent_console := [NoLlmKey]\<rparr>)"
  by (simp_all add: initialize_builds initialize_build_fails initialize_no_key env_defs built_def
      agent_init_def truthy_def)

lemma weather_for_male:
  "fst (weather_for cfg_ow world_ok male_query (Some 3) (agg_init cfg_ow 0)) =
    Inr (ow_male_now, ow_male_days)"
  "net (snd (weather_for cfg_ow world_ok male_query (Some 3) (agg_init cfg_ow 0))) =
    \<lparr>clock = 240,
     calls = [OW_weather ''ow-key'' [Lit ''q=Male%2CMV''] ''metric'',
              OW_forecast ''ow-key'' [Lit ''q=Male%2CMV''] ''metric''],
     warned = []\<rparr>"
  by (simp_all add: weather_for_def current_refines forecast_refines cof_miss_ok fetch_first_ow_only
      ow_getCurrent_male ow_getForecast_male split: prod.splits)

lemma built_simps [simp]:
  "weatherAgent built = Some (Agent ''gpt-4o-mini'')" "agentRunner built = Some (Runner ''gpt-4o-mini'')"
  "asked built = []" "answer env_llm now rn p = (1200, Some advice)"
  "initializeWeatherAgent cfg env built =
    (Inr (Some \<lparr>d_agent = Agent ''gpt-4o-mini'', d_runner = Some (Runner ''gpt-4o-mini'')\<rparr>), built)"
  by (simp_all add: built_def agent_init_def env_llm_def initializeWeatherAgent_def)

lemma current_male_ok:
  "is_ok (fst (getCurrentWeather cfg_ow world_ok male_query None (agg_init cfg_ow 0)))"
  using weather_for_male(1) by (simp add: weather_for_Inr)

lemma reachable_cold [simp]: "reachable cfg w (agg_init cfg now)"
  by (rule reachable.init)

section \<open>Properties\<close>

text \<open>
  C26. An error of \<open>getWeatherInsights\<close> is either the failure to build the agent, in
  which case nothing was fetched and neither the module nor the aggregator changed, or
  the error of one of the two aggregator calls. A failure of the model is never an error
  of the operation.
\<close>

theorem insights_errors:
  assumes "fst (getWeatherInsights cfg env w activity loc m g) = Inl e"
  shows "e = AgentBuildFailed \<and> weatherAgent m = None \<and> \<not> build_ok env (chosen_model cfg) \<and>
      snd (getWeatherInsights cfg env w activity loc m g) = (m, g) \<or>
    fst (weather_for cfg w loc (Some 3) g) = Inl e"
  using with_agent_Inl assms unfolding insights_refines .

theorem insights_errors_witness:
  "fst (getWeatherInsights cfg_ow env_broken world_ok ''surfing'' male_query agent_init
         (agg_init cfg_ow 0)) = Inl AgentBuildFailed \<and>
   snd (getWeatherInsights cfg_ow env_broken world_ok ''surfing'' male_query agent_init
         (agg_init cfg_ow 0)) = (agent_init, agg_init cfg_ow 0) \<and>
   fst (weather_for cfg_ow world_ok male_query (Some 3) (agg_init cfg_ow 0)) \<noteq> Inl AgentBuildFailed"
  using insights_errors [where cfg = cfg_ow and env = env_broken and w = world_ok
      and activity = "''surfing''" and loc = male_query and m = agent_init
      and g = "agg_init cfg_ow 0" and e = AgentBuildFailed]
  by (simp add: getWeatherInsights_def weather_for_male)

text \<open>
  C25. With an agent in the module, \<open>getWeatherInsights\<close> fetches the current weather
  and a three-day forecast, asks the runner one prompt made of the activity, the place
  and the two results, and lets the time of the answer pass. The answer of the model is
  returned as it is; when asking fails, the basic insights are returned and one line is
  written to the console.
\<close>

theorem insights_answered:
  assumes "weatherAgent m = Some a" and "agentRunner m = Some rn"
    and "fst (weather_for cfg w loc (Some 3) g) = Inr (c, f)"
  shows "getWeatherInsights cfg env w activity loc m g =
    (case snd (answer env (clock (net (snd (weather_for cfg w loc (Some 3) g)))) rn
                (InsightsPrompt activity (city loc) (country loc) c f)) of
       None \<Rightarrow>
         (Inr (getBasicInsights activity loc),
          m\<lparr>asked := asked m @ [InsightsPrompt activity (city loc) (country loc) c f],
            agent_console := agent_console m @ [AgentAnalysisFailed]\<rparr>,
          elapse (fst (answer env (clock (net (snd (weather_for cfg w loc (Some 3) g)))) rn
                        (InsightsPrompt activity (city loc) (country loc) c f)))
            (snd (weather_for cfg w loc (Some 3) g)))
     | Some r \<Rightarrow>
         (Inr (LlmText (reply_string r)),
          m\<lparr>asked := asked m @ [InsightsPrompt activity (city loc) (country loc) c f]\<rparr>,
          elapse (fst (answer env (clock (net (snd (weather_for cfg w loc (Some 3) g)))) rn
                        (InsightsPrompt activity (city loc) (country loc) c f)))
            (snd (weather_for cfg w loc (Some 3) g))))"
  using assms unfolding insights_refines
  by (cases rule: with_agent_cases [where cfg = cfg and env = env and m = m and w = w and loc = loc
        and n = "Some 3" and g = g and mk = "InsightsPrompt activity (city loc) (country loc)"
        and no_agent = "getBasicInsights activity loc" and failed = "getBasicInsights activity loc"
        and line = AgentAnalysisFailed])
    (simp_all add: initialize_memoised)

theorem insights_answered_witness:
  "fst (getWeatherInsights cfg_ow env_llm world_ok ''surfing'' male_query built (agg_init cfg_ow 0)) =
     Inr (LlmText ''Go before noon.'') \<and>
   asked (fst (snd (getWeatherInsights cfg_ow env_llm world_ok ''surfing'' male_query built
                     (agg_init cfg_ow 0)))) =
     [InsightsPrompt ''surfing'' (Some ''Male'') (Some ''MV'') ow_male_now ow_male_days] \<and>
   clock (net (snd (snd (getWeatherInsights cfg_ow env_llm world_ok ''surfing'' male_query built
                          (agg_init cfg_ow 0))))) = 1440"
  using insights_answered [where cfg = cfg_ow and env = env_llm and w = world_ok
      and activity = "''surfing''" and loc = male_query and m = built and g = "agg_init cfg_ow 0"
      and a = "Agent ''gpt-4o-mini''" and rn = "Runner ''gpt-4o-mini''" and c = ow_male_now
      and f = ow_male_days]
  by (simp add: weather_for_male built_def agent_init_def env_defs male_query_fields)

text \<open>
  C27. Both operations keep the module and the aggregator well formed: an agent in the
  module has the runner that was built with it and one of the two models, the state of
  the aggregator stays one that calls of the aggregator reach, at most four requests are
  issued, and the clock does not go back.
\<close>

theorem agent_calls_keep_invariants:
  assumes "agent_ok m" and "reachable cfg w g"
  shows "agent_ok (fst (snd (getWeatherInsights cfg env w activity loc m g))) \<and>
    reachable cfg w (snd (snd (getWeatherInsights cfg env w activity loc m g))) \<and>
    grew 4 (net g) (net (snd (snd (getWeatherInsights cfg env w activity loc m g)))) \<and>
    agent_ok (fst (snd (getEnhancedWeatherSummary cfg env w loc n m g))) \<and>
    reachable cfg w (snd (snd (getEnhancedWeatherSummary cfg env w loc n m g))) \<and>
    grew 4 (net g) (net (snd (snd (getEnhancedWeatherSummary cfg env w loc n m g))))"
  using assms
  by (simp add: insights_refines summary_refines with_agent_agent_ok with_agent_reachable
      with_agent_grew)

theorem agent_calls_keep_invariants_witness:
  "agent_ok (fst (snd (getWeatherInsights cfg_ow env_silent world_ok ''surfing'' male_query
                        agent_init (agg_init cfg_ow 0)))) \<and>
   reachable cfg_ow world_ok
     (snd (snd (getEnhancedWeatherSummary cfg_ow env_silent world_ok male_query (Some 0)
                 agent_init (agg_init cfg_ow 0))))"
  using agent_calls_keep_invariants [where cfg = cfg_ow and env = env_silent and w = world_ok
      and activity = "''surfing''" and loc = male_query and m = agent_init
      and g = "agg_init cfg_ow 0" and n = "Some 0"]
  by simp

text \<open>
  Without a key for a language model neither operation touches the aggregator: the
  answer is the fixed text of the operation, no request is issued, no agent is stored,
  and the warning that the agent is disabled is written to the console on every call.
\<close>

theorem agent_disabled_without_key:
  assumes "weatherAgent m = None" and "googleApiKey cfg = []" and "\<not> truthy (openai_api_key env)"
  shows "getWeatherInsights cfg env w activity loc m g =
      (Inr (getBasicInsights activity loc), m\<lparr>agent_console := agent_console m @ [NoLlmKey]\<rparr>, g) \<and>
    getEnhancedWeatherSummary cfg env w loc n m g =
      (Inr SummaryNeedsLlm, m\<lparr>agent_console := agent_console m @ [NoLlmKey]\<rparr>, g)"
  using assms
  by (simp add: getWeatherInsights_def getEnhancedWeatherSummary_def initialize_no_key)

theorem agent_disabled_without_key_witness:
  "agent_console (fst (snd (getWeatherInsights cfg_ow env_none world_ok ''surfing'' male_query
      (fst (snd (getEnhancedWeatherSummary cfg_ow env_none world_ok male_query None agent_init
                  (agg_init cfg_ow 0))))
      (agg_init cfg_ow 0)))) = [NoLlmKey, NoLlmKey]"
  using agent_disabled_without_key [where cfg = cfg_ow and env = env_none and w = world_ok
      and activity = "''surfing''" and loc = male_query and g = "agg_init cfg_ow 0" and n = None
      and m = agent_init]
    agent_disabled_without_key [where cfg = cfg_ow and env = env_none and w = world_ok
      and activity = "''surfing''" and loc = male_query and g = "agg_init cfg_ow 0" and n = None
      and m = "agent_init\<lparr>agent_console := [NoLlmKey]\<rparr>"]
  by (simp add: env_defs agent_init_def truthy_def)

text \<open>
  \<open>days || 3\<close>: a summary asked for zero days is a summary of three.
\<close>

lemma summary_zero_days:
  "getEnhancedWeatherSummary cfg env w loc (Some 0) m g =
    getEnhancedWeatherSummary cfg env w loc None m g"
  by (simp add: summary_refines)

end
