(* ===== verification/Server_Agent.thy ===== *)
theory Server_Agent
  imports Server Weather_Agent
begin

text \<open>
  The server with the language-model agent (\<open>src/unnamed/part_004\<close>), a variant of
  \<open>server.ts\<close>.

  \<^item> \<open>app_state\<close> is the state of its process: the modules of the alert service and of
    the aggregator (\<open>alerts_of\<close>) and the module of the agent (\<open>agent_of\<close>).
  \<^item> \<open>ai_tool_call\<close> has one constructor per registered tool, \<open>ai_valid_call\<close> is what
    the input schemas demand, \<open>ai_content\<close> is the \<open>structuredContent\<close> of an answer:
    this variant wraps what \<open>server.ts\<close> returns bare in an object with one field.
  \<^item> One definition per handler (\<open>ai_get_current_weather\<close> to \<open>ai_provider_status\<close>),
    the dispatch \<open>ai_call_tool\<close>, the two REST routes and \<open>ai_listen\<close>, the callback
    of \<open>app.listen\<close>, which builds the agent before it starts the scheduler.
  \<^item> \<open>app_step\<close>, \<open>app_run\<close> and \<open>app_reachable\<close> are the process: tool calls, REST
    requests, the listen callback and the events of the alert service in any order.
    \<open>app_events\<close> and \<open>app_trace\<close> give the events of the alert service that a step and
    a run amount to.

  The lemmas show that the tools this variant shares with \<open>server.ts\<close> behave as those
  (\<open>plain\<close>, \<open>wrap\<close>), that every run of the process is a run of the alert service
  on \<open>alerts_of\<close> (a refinement, with \<open>app_trace\<close> as its witness), so that the
  invariant of the alert service holds in every reachable state, and what a failed build
  of the agent does to the scheduler.
\<close>

section \<open>State\<close>

record app_state =
  alerts_of :: alert_state
  agent_of :: agent_mem

definition app_init :: "config \<Rightarrow> millis \<Rightarrow> app_state" where
  "app_init cfg now = \<lparr>alerts_of = alert_init cfg now, agent_of = agent_init\<rparr>"

definition set_agg :: "agg_state \<Rightarrow> app_state \<Rightarrow> app_state" where
  "set_agg g s = s\<lparr>alerts_of := (alerts_of s)\<lparr>agg := g\<rparr>\<rparr>"

section \<open>Tools\<close>

datatype ai_tool_call =
    AI_get_current_weather LocationQuery "Units option"
  | AI_get_forecast LocationQuery "Units option" "number option"
  | AI_get_weather_summary LocationQuery "number option"
  | AI_get_historical LocationQuery string
  | AI_weather_insights string LocationQuery
  | AI_set_weather_alert set_alert_input
  | AI_list_weather_alerts
  | AI_remove_weather_alert string
  | AI_provider_status

datatype ai_content =
    Bare tool_result
  | Field string tool_result
  | Summary_content LocationQuery "number option" agent_text
  | Insights_content string LocationQuery agent_text
  | Ok_flag bool

definition valid_days :: "number option \<Rightarrow> bool" where
  "valid_days nd = (case nd of None \<Rightarrow> True | Some n \<Rightarrow> 1 \<le> n \<and> n \<le> 7)"

fun ai_valid_call :: "ai_tool_call \<Rightarrow> bool" where
  "ai_valid_call (AI_get_current_weather loc units) = valid_units units"
| "ai_valid_call (AI_get_forecast loc units nd) = (valid_units units \<and> valid_days nd)"
| "ai_valid_call (AI_get_weather_summary loc nd) = valid_days nd"
| "ai_valid_call c = True"

section \<open>Handlers\<close>

definition ai_get_current_weather ::
  "config \<Rightarrow> world \<Rightarrow> LocationQuery \<Rightarrow> Units option \<Rightarrow> app_state \<Rightarrow> ai_content result \<times> app_state" where
  "ai_get_current_weather cfg w loc units s =
     (case getCurrentWeather cfg w loc units (agg (alerts_of s)) of
        (Inl e, g) \<Rightarrow> (Inl e, set_agg g s)
      | (Inr data, g) \<Rightarrow> (Inr (Field ''data'' (Current_data data)), set_agg g s))"

definition ai_get_forecast ::
  "config \<Rightarrow> world \<Rightarrow> LocationQuery \<Rightarrow> Units option \<Rightarrow> number option \<Rightarrow> app_state \<Rightarrow>
    ai_content result \<times> app_state" where
  "ai_get_forecast cfg w loc units nd s =
     (case getForecast cfg w loc units (Some (nullish nd 3)) (agg (alerts_of s)) of
        (Inl e, g) \<Rightarrow> (Inl e, set_agg g s)
      | (Inr data, g) \<Rightarrow> (Inr (Field ''data'' (Forecast_data data)), set_agg g s))"

definition ai_get_weather_summary ::
  "config \<Rightarrow> agent_env \<Rightarrow> world \<Rightarrow> LocationQuery \<Rightarrow> number option \<Rightarrow> app_state \<Rightarrow>
    ai_content result \<times> app_state" where
  "ai_get_weather_summary cfg env w loc nd s =
     (case getEnhancedWeatherSummary cfg env w loc nd (agent_of s) (agg (alerts_of s)) of
        (Inl e, m, g) \<Rightarrow> (Inl e, set_agg g (s\<lparr>agent_of := m\<rparr>))
      | (Inr out, m, g) \<Rightarrow>
          (Inr (Summary_content loc nd out), set_agg g (s\<lparr>agent_of := m\<rparr>)))"

definition ai_get_historical ::
  "config \<Rightarrow> world \<Rightarrow> LocationQuery \<Rightarrow> string \<Rightarrow> app_state \<Rightarrow> ai_content result \<times> app_state" where
  "ai_get_historical cfg w loc dateISO s =
     (case getHistorical cfg w loc dateISO (agg (alerts_of s)) of
        (Inl e, g) \<Rightarrow> (Inl e, set_agg g s)
      | (Inr data, g) \<Rightarrow> (Inr (Field ''data'' (Historical_data data)), set_agg g s))"

definition ai_weather_insights ::
  "config \<Rightarrow> agent_env \<Rightarrow> world \<Rightarrow> string \<Rightarrow> LocationQuery \<Rightarrow> app_state \<Rightarrow>
    ai_content result \<times> app_state" where
  "ai_weather_insights cfg env w act loc s =
     (case getWeatherInsights cfg env w act loc (agent_of s) (agg (alerts_of s)) of
        (Inl e, m, g) \<Rightarrow> (Inl e, set_agg g (s\<lparr>agent_of := m\<rparr>))
      | (Inr out, m, g) \<Rightarrow>
          (Inr (Insights_content act loc out), set_agg g (s\<lparr>agent_of := m\<rparr>)))"

definition ai_set_weather_alert ::
  "set_alert_input \<Rightarrow> string \<Rightarrow> app_state \<Rightarrow> ai_content result \<times> app_state" where
  "ai_set_weather_alert input rnd s =
     (case registerAlert
             \<lparr>al_name = in_name input, al_location = in_location input,
              al_condition = in_condition input, channel = in_channel input,
              webhookUrl = in_webhookUrl input, sensitivity = in_sensitivity input,
              lastTriggeredAt = None\<rparr> rnd (alerts_of s) of
        (a, s') \<Rightarrow> (Inr (Field ''alert'' (Alert_data (heap s' ! a))), s\<lparr>alerts_of := s'\<rparr>))"

definition ai_list_weather_alerts :: "app_state \<Rightarrow> ai_content result \<times> app_state" where
  "ai_list_weather_alerts s = (Inr (Field ''items'' (Alerts_data (list_view (alerts_of s)))), s)"

definition ai_remove_weather_alert :: "string \<Rightarrow> app_state \<Rightarrow> ai_content result \<times> app_state" where
  "ai_remove_weather_alert i s =
     (case removeAlert i (alerts_of s) of
        (ok, s') \<Rightarrow> (Inr (Bare (Removed_data ok i)), s\<lparr>alerts_of := s'\<rparr>))"

definition ai_provider_status :: "config \<Rightarrow> app_state \<Rightarrow> ai_content result \<times> app_state" where
  "ai_provider_status cfg s = (Inr (Field ''status'' (Status_data (hasProviderKeys cfg))), s)"

fun ai_call_tool ::
  "config \<Rightarrow> agent_env \<Rightarrow> world \<Rightarrow> string \<Rightarrow> ai_tool_call \<Rightarrow> app_state \<Rightarrow>
    ai_content result \<times> app_state" where
  "ai_call_tool cfg env w rnd (AI_get_current_weather loc units) s =
     ai_get_current_weather cfg w loc units s"
| "ai_call_tool cfg env w rnd (AI_get_forecast loc units nd) s = ai_get_forecast cfg w loc units nd s"
| "ai_call_tool cfg env w rnd (AI_get_weather_summary loc nd) s =
     ai_get_weather_summary cfg env w loc nd s"
| "ai_call_tool cfg env w rnd (AI_get_historical loc dateISO) s =
     ai_get_historical cfg w loc dateISO s"
| "ai_call_tool cfg env w rnd (AI_weather_insights act loc) s =
     ai_weather_insights cfg env w act loc s"
| "ai_call_tool cfg env w rnd (AI_set_weather_alert input) s = ai_set_weather_alert input rnd s"
| "ai_call_tool cfg env w rnd AI_list_weather_alerts s = ai_list_weather_alerts s"
| "ai_call_tool cfg env w rnd (AI_remove_weather_alert i) s = ai_remove_weather_alert i s"
| "ai_call_tool cfg env w rnd AI_provider_status s = ai_provider_status cfg s"

section \<open>REST routes and start\<close>

definition ai_api_current ::
  "config \<Rightarrow> world \<Rightarrow> rest_query \<Rightarrow> app_state \<Rightarrow> http_response \<times> app_state" where
  "ai_api_current cfg w rq s =
     (case getCurrentWeather cfg w (location_of rq) (units_of_string (q_units rq))
             (agg (alerts_of s)) of
        (Inl e, g) \<Rightarrow> (Status400 e, set_agg g s)
      | (Inr data, g) \<Rightarrow> (Json (Current_data data), set_agg g s))"

definition ai_api_forecast ::
  "config \<Rightarrow> world \<Rightarrow> rest_query \<Rightarrow> app_state \<Rightarrow> http_response \<times> app_state" where
  "ai_api_forecast cfg w rq s =
     (case getForecast cfg w (location_of rq) (units_of_string (q_units rq))
             (Some (nullish (q_days rq) 3)) (agg (alerts_of s)) of
        (Inl e, g) \<Rightarrow> (Status400 e, set_agg g s)
      | (Inr data, g) \<Rightarrow> (Json (Forecast_data data), set_agg g s))"

text \<open>
  The callback of \<open>app.listen\<close> writes its line, awaits the initialization of the
  agent and then starts the scheduler. When the initialization throws, the promise of
  the callback is rejected and the last statement is not reached.
\<close>

definition ai_listen :: "config \<Rightarrow> agent_env \<Rightarrow> app_state \<Rightarrow> unit result \<times> app_state" where
  "ai_listen cfg env s =
     (let s1 = s\<lparr>alerts_of := (alerts_of s)
                  \<lparr>console_log := console_log (alerts_of s) @ [ServerRunning (port cfg)]\<rparr>\<rparr>
      in case initializeWeatherAgent cfg env (agent_of s1) of
           (Inl e, m) \<Rightarrow> (Inl e, s1\<lparr>agent_of := m\<rparr>)
         | (Inr agentData, m) \<Rightarrow>
             (Inr (), s1\<lparr>agent_of := m, alerts_of := startAlertScheduler cfg (alerts_of s1)\<rparr>))"

named_theorems ai_defs "definitions of the server with the agent"

lemmas [ai_defs] =
  app_init_def set_agg_def valid_days_def ai_get_current_weather_def ai_get_forecast_def
  ai_get_weather_summary_def ai_get_historical_def ai_weather_insights_def
  ai_set_weather_alert_def ai_list_weather_alerts_def ai_remove_weather_alert_def
  ai_provider_status_def ai_api_current_def ai_api_forecast_def ai_listen_def

section \<open>The process\<close>

datatype app_event =
    Tool string ai_tool_call
  | Api_current rest_query
  | Api_forecast rest_query
  | Listen
  | Alerts event

fun app_step :: "config \<Rightarrow> agent_env \<Rightarrow> world \<Rightarrow> app_event \<Rightarrow> app_state \<Rightarrow> app_state option" where
  "app_step cfg env w (Tool rnd c) s = Some (snd (ai_call_tool cfg env w rnd c s))"
| "app_step cfg env w (Api_current rq) s = Some (snd (ai_api_current cfg w rq s))"
| "app_step cfg env w (Api_forecast rq) s = Some (snd (ai_api_forecast cfg w rq s))"
| "app_step cfg env w Listen s = Some (snd (ai_listen cfg env s))"
| "app_step cfg env w (Alerts ev) s =
     (case alert_step cfg w ev (alerts_of s) of
        None \<Rightarrow> None
      | Some a \<Rightarrow> Some (s\<lparr>alerts_of := a\<rparr>))"

inductive app_reachable :: "config \<Rightarrow> agent_env \<Rightarrow> world \<Rightarrow> app_state \<Rightarrow> bool" for cfg env w where
  init: "app_reachable cfg env w (app_init cfg now)"
| step: "app_reachable cfg env w s \<Longrightarrow> app_step cfg env w ev s = Some s' \<Longrightarrow>
    app_reachable cfg env w s'"

section \<open>The shared tools\<close>

text \<open>
  \<open>plain\<close> is the call of \<open>server.ts\<close> that a call of this server corresponds to, when
  there is one, and \<open>wrap\<close> the object this server puts around the answer.
\<close>

fun plain :: "ai_tool_call \<Rightarrow> tool_call option" where
  "plain (AI_get_current_weather loc units) = Some (Get_current_weather loc units)"
| "plain (AI_get_forecast loc units nd) = Some (Get_forecast loc units nd)"
| "plain (AI_get_historical loc dateISO) = Some (Get_historical loc dateISO)"
| "plain (AI_set_weather_alert input) = Some (Set_weather_alert input)"
| "plain AI_list_weather_alerts = Some List_weather_alerts"
| "plain (AI_remove_weather_alert i) = Some (Remove_weather_alert i)"
| "plain AI_provider_status = Some Provider_status"
| "plain (AI_get_weather_summary loc nd) = None"
| "plain (AI_weather_insights act loc) = None"

fun wrap :: "tool_result \<Rightarrow> ai_content" where
  "wrap (Alert_data a) = Field ''alert'' (Alert_data a)"
| "wrap (Alerts_data l) = Field ''items'' (Alerts_data l)"
| "wrap (Removed_data ok i) = Bare (Removed_data ok i)"
| "wrap (Status_data st) = Field ''status'' (Status_data st)"
| "wrap r = Field ''data'' r"

section \<open>Steps as events of the alert service\<close>

text \<open>
  A run of the process, and the events of the alert service that each step amounts to:
  \<open>tool_events\<close> for a tool of \<open>server.ts\<close>, \<open>ai_events\<close> for a tool of this server,
  \<open>app_events\<close> for a step and \<open>app_trace\<close> for a run.
\<close>

fun app_run :: "config \<Rightarrow> agent_env \<Rightarrow> world \<Rightarrow> app_event list \<Rightarrow> app_state \<Rightarrow> app_state option" where
  "app_run cfg env w [] s = Some s"
| "app_run cfg env w (ev # evs) s =
     (case app_step cfg env w ev s of None \<Rightarrow> None | Some s' \<Rightarrow> app_run cfg env w evs s')"

fun tool_events :: "config \<Rightarrow> world \<Rightarrow> string \<Rightarrow> tool_call \<Rightarrow> alert_state \<Rightarrow> event list" where
  "tool_events cfg w rnd (Get_current_weather loc units) s = [Client (Current loc units)]"
| "tool_events cfg w rnd (Get_forecast loc units nd) s =
     [Client (Forecast loc units (Some (nullish nd 3)))]"
| "tool_events cfg w rnd (Get_historical loc dateISO) s = [Client (Historical loc dateISO)]"
| "tool_events cfg w rnd (Weather_insights act loc) s =
     map Client (weather_calls cfg w loc None (agg s))"
| "tool_events cfg w rnd (Set_weather_alert input) s =
     [Register \<lparr>al_name = in_name input, al_location = in_location input,
                al_condition = in_condition input, channel = in_channel input,
                webhookUrl = in_webhookUrl input, sensitivity = in_sensitivity input,
                lastTriggeredAt = None\<rparr> rnd]"
| "tool_events cfg w rnd List_weather_alerts s = []"
| "tool_events cfg w rnd (Remove_weather_alert i) s = [Remove i]"
| "tool_events cfg w rnd Provider_status s = []"

fun ai_events ::
  "config \<Rightarrow> agent_env \<Rightarrow> world \<Rightarrow> string \<Rightarrow> ai_tool_call \<Rightarrow> app_state \<Rightarrow> event list" where
  "ai_events cfg env w rnd (AI_get_weather_summary loc nd) s =
     map Client (agent_calls cfg env w loc (or_num nd (Some 3))
                   (SummaryPrompt (city loc) (country loc)) (agent_of s) (agg (alerts_of s)))"
| "ai_events cfg env w rnd (AI_weather_insights act loc) s =
     map Client (agent_calls cfg env w loc (Some 3)
                   (InsightsPrompt act (city loc) (country loc)) (agent_of s) (agg (alerts_of s)))"
| "ai_events cfg env w rnd c s =
     (case plain c of None \<Rightarrow> [] | Some c' \<Rightarrow> tool_events cfg w rnd c' (alerts_of s))"

fun app_events :: "config \<Rightarrow> agent_env \<Rightarrow> world \<Rightarrow> app_event \<Rightarrow> app_state \<Rightarrow> event list" where
  "app_events cfg env w (Tool rnd c) s = ai_events cfg env w rnd c s"
| "app_events cfg env w (Api_current rq) s =
     [Client (Current (location_of rq) (units_of_string (q_units rq)))]"
| "app_events cfg env w (Api_forecast rq) s =
     [Client (Forecast (location_of rq) (units_of_string (q_units rq)) (Some (nullish (q_days rq) 3)))]"
| "app_events cfg env w Listen s =
     Print (ServerRunning (port cfg)) #
     (if is_ok (fst (initializeWeatherAgent cfg env (agent_of s))) then [Start] else [])"
| "app_events cfg env w (Alerts ev) s = [ev]"

fun app_trace :: "config \<Rightarrow> agent_env \<Rightarrow> world \<Rightarrow> app_event list \<Rightarrow> app_state \<Rightarrow> event list" where
  "app_trace cfg env w [] s = []"
| "app_trace cfg env w (ev # evs) s =
     app_events cfg env w ev s @
     (case app_step cfg env w ev s of None \<Rightarrow> [] | Some s' \<Rightarrow> app_trace cfg env w evs s')"

section \<open>The shared tools agree\<close>

lemma plain_valid: "plain c = Some c' \<Longrightarrow> ai_valid_call c = valid_call c'"
  by (cases c) (auto simp: valid_days_def)

lemma ai_shared:
  assumes "plain c = Some c'"
  shows "ai_call_tool cfg env w rnd c s =
    (map_sum id wrap (fst (call_tool cfg w rnd c' (alerts_of s))),
     s\<lparr>alerts_of := snd (call_tool cfg w rnd c' (alerts_of s))\<rparr>)"
  using assms by (cases c) (auto simp: ai_defs server_defs split: prod.splits sum.splits)

section \<open>Every step is a sequence of events of the alert service\<close>

lemma alert_run_append:
  "alert_run cfg w (xs @ ys) s =
    (case alert_run cfg w xs s of None \<Rightarrow> None | Some s1 \<Rightarrow> alert_run cfg w ys s1)"
  by (induction xs arbitrary: s) (auto split: option.splits)

lemma alert_run_clients:
  "alert_run cfg w (map Client cs) s = Some (s\<lparr>agg := run cfg w cs (agg s)\<rparr>)"
  by (induction cs arbitrary: s) simp_all

lemma call_tool_events:
  "alert_run cfg w (tool_events cfg w rnd c s) s = Some (snd (call_tool cfg w rnd c s))"
  by (cases c)
    (simp_all add: handler_states weather_insights_state alert_run_clients weather_calls_def)

lemma agent_tool_states:
  "alerts_of (snd (ai_get_weather_summary cfg env w loc nd s)) =
    (alerts_of s)\<lparr>agg := snd (snd (getEnhancedWeatherSummary cfg env w loc nd (agent_of s)
                                      (agg (alerts_of s))))\<rparr>"
  "agent_of (snd (ai_get_weather_summary cfg env w loc nd s)) =
    fst (snd (getEnhancedWeatherSummary cfg env w loc nd (agent_of s) (agg (alerts_of s))))"
  "alerts_of (snd (ai_weather_insights cfg env w act loc s)) =
    (alerts_of s)\<lparr>agg := snd (snd (getWeatherInsights cfg env w act loc (agent_of s)
                                      (agg (alerts_of s))))\<rparr>"
  "agent_of (snd (ai_weather_insights cfg env w act loc s)) =
    fst (snd (getWeatherInsights cfg env w act loc (agent_of s) (agg (alerts_of s))))"
  by (simp_all add: ai_defs split: prod.splits sum.splits)

lemma ai_events_plain:
  "plain c = Some c' \<Longrightarrow> ai_events cfg env w rnd c s = tool_events cfg w rnd c' (alerts_of s)"
  by (cases c) auto

lemma ai_call_tool_events:
  "alert_run cfg w (ai_events cfg env w rnd c s) (alerts_of s) =
    Some (alerts_of (snd (ai_call_tool cfg env w rnd c s)))"
proof (cases "plain c")
  case None
  then show ?thesis
    by (cases c)
      (simp_all add: agent_tool_states alert_run_clients insights_refines summary_refines
        with_agent_calls)
next
  case (Some c')
  then show ?thesis by (simp add: ai_events_plain ai_shared call_tool_events)
qed

lemma ai_api_states:
  "snd (ai_api_current cfg w rq s) =
    set_agg (agg_step cfg w (Current (location_of rq) (units_of_string (q_units rq)))
              (agg (alerts_of s))) s"
  "snd (ai_api_forecast cfg w rq s) =
    set_agg (agg_step cfg w
               (Forecast (location_of rq) (units_of_string (q_units rq)) (Some (nullish (q_days rq) 3)))
               (agg (alerts_of s))) s"
  by (simp_all add: ai_api_current_def ai_api_forecast_def split: prod.splits sum.splits)

lemma ai_listen_state:
  "snd (ai_listen cfg env s) =
    \<lparr>alerts_of =
       (if is_ok (fst (initializeWeatherAgent cfg env (agent_of s)))
        then listen cfg (alerts_of s)
        else (alerts_of s)\<lparr>console_log := console_log (alerts_of s) @ [ServerRunning (port cfg)]\<rparr>),
     agent_of = snd (initializeWeatherAgent cfg env (agent_of s))\<rparr>"
  by (simp add: ai_listen_def listen_def Let_def split: prod.splits sum.splits)

lemma app_step_events:
  assumes "app_step cfg env w ev s = Some s'"
  shows "alert_run cfg w (app_events cfg env w ev s) (alerts_of s) = Some (alerts_of s')"
  using assms
  by (cases ev)
    (auto simp: ai_call_tool_events ai_api_states set_agg_def ai_listen_state listen_def
      split: option.splits)

lemma app_run_events:
  assumes "app_run cfg env w evs s = Some s'"
  shows "alert_run cfg w (app_trace cfg env w evs s) (alerts_of s) = Some (alerts_of s')"
  using assms
  by (induction evs arbitrary: s) (auto simp: alert_run_append app_step_events split: option.splits)

section \<open>What every step preserves\<close>

lemma ai_call_tool_alerts:
  "alert_reachable cfg w (alerts_of s) \<Longrightarrow>
    alert_reachable cfg w (alerts_of (snd (ai_call_tool cfg env w rnd c s)))"
  by (erule alert_reachable_run) (rule ai_call_tool_events)

lemma app_step_alerts:
  "alert_reachable cfg w (alerts_of s) \<Longrightarrow> app_step cfg env w ev s = Some s' \<Longrightarrow>
    alert_reachable cfg w (alerts_of s')"
  by (erule alert_reachable_run) (rule app_step_events)

lemma ai_call_tool_agent:
  "agent_ok (agent_of s) \<Longrightarrow> agent_ok (agent_of (snd (ai_call_tool cfg env w rnd c s)))"
proof (cases "plain c")
  case None
  assume "agent_ok (agent_of s)"
  with None show ?thesis
    by (cases c)
      (simp_all add: agent_tool_states insights_refines summary_refines with_agent_agent_ok)
next
  case (Some c')
  assume "agent_ok (agent_of s)"
  with Some show ?thesis by (simp add: ai_shared)
qed

lemma app_step_agent:
  assumes "agent_ok (agent_of s)" and "app_step cfg env w ev s = Some s'"
  shows "agent_ok (agent_of s')"
  using assms
  by (cases ev)
    (auto simp: ai_call_tool_agent ai_listen_state ai_api_states set_agg_def agent_ok_initialize
      split: option.splits)

lemma app_reachable_run:
  "app_reachable cfg env w s \<Longrightarrow> app_run cfg env w evs s = Some s' \<Longrightarrow>
    app_reachable cfg env w s'"
  by (induction evs arbitrary: s) (auto split: option.splits intro: app_reachable.step)

section \<open>Properties\<close>

text \<open>
  C22. The seven tools this server shares with \<open>server.ts\<close> are the same operations: a
  call leaves the module of the agent alone, changes the alert service and the
  aggregator exactly as the call of \<open>server.ts\<close> does, fails when that fails, and
  answers with the same content inside the wrapper of this server.
\<close>

theorem shared_tools_agree:
  assumes "plain c = Some c'"
  shows "fst (ai_call_tool cfg env w rnd c s) =
      map_sum id wrap (fst (call_tool cfg w rnd c' (alerts_of s))) \<and>
    alerts_of (snd (ai_call_tool cfg env w rnd c s)) = snd (call_tool cfg w rnd c' (alerts_of s)) \<and>
    agent_of (snd (ai_call_tool cfg env w rnd c s)) = agent_of s \<and>
    ai_valid_call c = valid_call c'"
  using assms by (simp add: ai_shared plain_valid)

theorem shared_tools_agree_witness:
  "fst (ai_call_tool cfg_wa env_llm world_ok ''abc'' (AI_get_current_weather male_query None)
         (app_init cfg_wa 0)) = Inr (Field ''data'' (Current_data wa_male_now)) \<and>
   agg (alerts_of (snd (ai_call_tool cfg_wa env_llm world_ok ''abc''
         (AI_get_current_weather male_query None) (app_init cfg_wa 0)))) = warm_state"
  using shared_tools_agree [where c = "AI_get_current_weather male_query None"
      and c' = "Get_current_weather male_query None" and cfg = cfg_wa and env = env_llm
      and w = world_ok and rnd = "''abc''" and s = "app_init cfg_wa 0"]
  by (simp add: app_init_def alert_init_def get_current_weather_def first_call_male)

text \<open>
  C24. In every state the server reaches, by tool calls, REST requests, the listen
  callback and the events of the alert service in any order, the alert service is in a
  state its own events reach, so its invariant and that of the caches hold, and an agent
  in the module has its runner and a known model.
\<close>

theorem app_reachable_inv:
  assumes "app_reachable cfg env w s"
  shows "alert_reachable cfg w (alerts_of s) \<and> alert_inv (alerts_of s) \<and> agent_ok (agent_of s)"
proof -
  from assms have "alert_reachable cfg w (alerts_of s) \<and> agent_ok (agent_of s)"
    by (induction rule: app_reachable.induct)
      (auto simp: app_init_def intro: alert_reachable.init app_step_alerts app_step_agent)
  then show ?thesis by (auto dest: alert_inv_reachable)
qed

theorem app_reachable_inv_witness:
  "alert_inv (alerts_of (snd (ai_listen cfg_ow env_llm (app_init cfg_ow 0)))) \<and>
   agent_ok (agent_of (snd (ai_listen cfg_ow env_llm (app_init cfg_ow 0))))"
  using app_reachable_inv [OF app_reachable.step [OF app_reachable.init [of cfg_ow env_llm world_ok 0],
      where ev = Listen and s' = "snd (ai_listen cfg_ow env_llm (app_init cfg_ow 0))"]]
  by simp

text \<open>
  C23. The server refines the alert service: whatever tool calls, REST requests, listen
  callbacks and alert events a run of the server consists of, its effect on the alert
  service and the aggregator is that of a sequence of events of the alert service, and
  \<open>app_trace\<close> computes that sequence. A call of the agent is the two client calls for the
  weather followed by the pause in which the model answers, and it does nothing else to
  the alert service.
\<close>

theorem app_refines_alerts:
  assumes "app_run cfg env w evs s = Some s'"
  shows "alert_run cfg w (app_trace cfg env w evs s) (alerts_of s) = Some (alerts_of s') \<and>
    (alert_reachable cfg w (alerts_of s) \<longrightarrow> alert_reachable cfg w (alerts_of s'))"
  using app_run_events [OF assms] by (auto elim: alert_reachable_run)

theorem app_refines_alerts_witness:
  "app_trace cfg_ow env_llm world_ok [Tool ''abc'' (AI_weather_insights ''surfing'' male_query)]
     \<lparr>alerts_of = alert_init cfg_ow 0, agent_of = built\<rparr> =
     [Client (Current male_query None), Client (Forecast male_query None (Some 3)),
      Client (Elapse 1200)] \<and>
   alert_run cfg_ow world_ok
     [Client (Current male_query None), Client (Forecast male_query None (Some 3)),
      Client (Elapse 1200)] (alert_init cfg_ow 0) =
     Some (alerts_of (snd (ai_weather_insights cfg_ow env_llm world_ok ''surfing'' male_query
                             \<lparr>alerts_of = alert_init cfg_ow 0, agent_of = built\<rparr>)))"
  using app_refines_alerts [where cfg = cfg_ow and env = env_llm and w = world_ok
      and evs = "[Tool ''abc'' (AI_weather_insights ''surfing'' male_query)]"
      and s = "\<lparr>alerts_of = alert_init cfg_ow 0, agent_of = built\<rparr>"
      and s' = "snd (ai_weather_insights cfg_ow env_llm world_ok ''surfing'' male_query
                      \<lparr>alerts_of = alert_init cfg_ow 0, agent_of = built\<rparr>)"]
  by (simp add: agent_calls_def weather_calls_def weather_for_male current_male_ok alert_init_def
      del: alert_run.simps alert_step.simps)

text \<open>
  C30. The listen callback announces the server in every case, but it leaves the scheduler
  started only if it was started before or the agent could be initialized: when the build
  of the agent fails, the callback fails with that error before it reaches the start of
  the scheduler, and no timer is created.
\<close>

theorem ai_listen_scheduler:
  "(schedulerStarted (alerts_of (snd (ai_listen cfg env s))) \<longleftrightarrow>
      schedulerStarted (alerts_of s) \<or> is_ok (fst (initializeWeatherAgent cfg env (agent_of s)))) \<and>
   (\<not> is_ok (fst (initializeWeatherAgent cfg env (agent_of s))) \<longrightarrow>
      fst (ai_listen cfg env s) = Inl AgentBuildFailed \<and>
      timers (alerts_of (snd (ai_listen cfg env s))) = timers (alerts_of s) \<and>
      console_log (alerts_of (snd (ai_listen cfg env s))) =
        console_log (alerts_of s) @ [ServerRunning (port cfg)])"
proof (cases "initializeWeatherAgent cfg env (agent_of s)")
  case (Pair r m)
  then show ?thesis
    using initialize_Inl [of cfg env "agent_of s" _ m]
    by (cases r) (auto simp: ai_listen_def listen_def Let_def)
qed

theorem ai_listen_scheduler_witness:
  "fst (ai_listen cfg_ow env_broken (app_init cfg_ow 0)) = Inl AgentBuildFailed \<and>
   \<not> schedulerStarted (alerts_of (snd (ai_listen cfg_ow env_broken (app_init cfg_ow 0)))) \<and>
   timers (alerts_of (snd (ai_listen cfg_ow env_broken (app_init cfg_ow 0)))) = [] \<and>
   schedulerStarted (alerts_of (snd (ai_listen cfg_ow env_llm (app_init cfg_ow 0))))"
  using ai_listen_scheduler [of cfg_ow env_broken "app_init cfg_ow 0"]
    ai_listen_scheduler [of cfg_ow env_llm "app_init cfg_ow 0"]
  by (simp add: app_init_def alert_init_def)

end
