(* ===== verification/Server_Cli.thy ===== *)
theory Server_Cli
  imports Server_Agent
begin

text \<open>
  The command-line server (\<open>src/unnamed/part_000\<close>), which serves the tools over
  standard input and output or over HTTP.

  \<^item> \<open>getArg\<close> and \<open>hasFlag\<close> read the arguments of the process and \<open>settings\<close> is
    what the module reads with them when it is loaded. Every call of \<open>getArg\<close> in the
    file passes a default, so the default is a string here.
  \<^item> \<open>cli_tool_call\<close> has one constructor per tool that \<open>createMcpServer\<close> registers;
    one definition per handler (\<open>cli_get_current_weather\<close> to \<open>cli_remove_alert\<close>) and
    the dispatch \<open>cli_call_tool\<close>. An answer is the text of its \<open>content\<close>, as far as
    the handler chooses it, and its \<open>structuredContent\<close>.
  \<^item> \<open>authorized\<close> is the check of the \<open>authorization\<close> header in the route \<open>/mcp\<close> and
    \<open>post_mcp\<close> the route.
  \<^item> \<open>cli_main\<close> is \<open>main\<close> with the handler of its rejection: the state of the
    process is that of the modules (\<open>app\<close>), the lines \<open>main\<close> writes, what is being
    served and the exit code.

  The lemmas show what the arguments are read as, that the default port is the
  configured one, which headers the check lets pass, that a refused request changes
  nothing, and that over standard input and output no alert is ever evaluated.
\<close>

section \<open>Arguments and settings\<close>

definition getArg :: "string list \<Rightarrow> string \<Rightarrow> string \<Rightarrow> string" where
  "getArg argv key defaultValue =
     (case List.find (\<lambda>a. prefix (''--'' @ key @ ''='') a) argv of
        None \<Rightarrow> defaultValue
      | Some match \<Rightarrow>
          if match = [] then defaultValue else drop (length (''--'' @ key @ ''='')) match)"

definition hasFlag :: "string list \<Rightarrow> string \<Rightarrow> bool" where
  "hasFlag argv key = (''--'' @ key \<in> set argv)"

record cli_settings =
  transport :: string
  cli_port :: "int option"
  host :: string
  requireAuth :: bool
  bearerToken :: string

definition settings :: "config \<Rightarrow> string list \<Rightarrow> cli_settings" where
  "settings cfg argv =
     \<lparr>transport = getArg argv ''transport'' ''stdio'',
      cli_port = parseInt10 (getArg argv ''port'' (String_nat (port cfg))),
      host = getArg argv ''host'' ''0.0.0.0'',
      requireAuth = hasFlag argv ''require-auth'',
      bearerToken = getArg argv ''token'' []\<rparr>"

section \<open>Tools\<close>

record register_input =
  rg_name :: "string option"
  rg_location :: LocationQuery
  rg_condition :: WeatherAlertCondition
  rg_channel :: "AlertChannel option"
  rg_webhookUrl :: "string option"
  rg_sensitivity :: "Sensitivity option"

datatype cli_tool_call =
    Cli_get_current_weather LocationQuery "Units option"
  | Cli_get_forecast LocationQuery "Units option" "number option"
  | Cli_get_historical LocationQuery string "Units option"
  | Cli_provider_status
  | Cli_weather_insights LocationQuery string
  | Cli_get_weather_summary LocationQuery "number option"
  | Cli_list_alerts
  | Cli_register_alert register_input
  | Cli_remove_alert string

fun cli_valid_call :: "cli_tool_call \<Rightarrow> bool" where
  "cli_valid_call (Cli_get_current_weather loc units) = valid_units units"
| "cli_valid_call (Cli_get_forecast loc units nd) = (valid_units units \<and> valid_days nd)"
| "cli_valid_call (Cli_get_historical loc dateISO units) = valid_units units"
| "cli_valid_call (Cli_get_weather_summary loc nd) = valid_days nd"
| "cli_valid_call c = True"

datatype cli_text = Json_text | Said agent_text | Literal string

type_synonym cli_answer = "cli_text \<times> ai_content"

definition cli_get_current_weather ::
  "config \<Rightarrow> world \<Rightarrow> LocationQuery \<Rightarrow> Units option \<Rightarrow> app_state \<Rightarrow> cli_answer result \<times> app_state" where
  "cli_get_current_weather cfg w loc units s =
     (case getCurrentWeather cfg w loc units (agg (alerts_of s)) of
        (Inl e, g) \<Rightarrow> (Inl e, set_agg g s)
      | (Inr data, g) \<Rightarrow> (Inr (Json_text, Field ''data'' (Current_data data)), set_agg g s))"

definition cli_get_forecast ::
  "config \<Rightarrow> world \<Rightarrow> LocationQuery \<Rightarrow> Units option \<Rightarrow> number option \<Rightarrow> app_state \<Rightarrow>
    cli_answer result \<times> app_state" where
  "cli_get_forecast cfg w loc units nd s =
     (case getForecast cfg w loc units (Some (nullish nd 3)) (agg (alerts_of s)) of
        (Inl e, g) \<Rightarrow> (Inl e, set_agg g s)
      | (Inr data, g) \<Rightarrow> (Inr (Json_text, Field ''data'' (Forecast_data data)), set_agg g s))"

text \<open>The schema of \<open>get_historical\<close> accepts units; the handler does not pass them on.\<close>

definition cli_get_historical ::
  "config \<Rightarrow> world \<Rightarrow> LocationQuery \<Rightarrow> string \<Rightarrow> Units option \<Rightarrow> app_state \<Rightarrow>
    cli_answer result \<times> app_state" where
  "cli_get_historical cfg w loc dateISO units s =
     (case getHistorical cfg w loc dateISO (agg (alerts_of s)) of
        (Inl e, g) \<Rightarrow> (Inl e, set_agg g s)
      | (Inr data, g) \<Rightarrow> (Inr (Json_text, Field ''data'' (Historical_data data)), set_agg g s))"

definition cli_provider_status :: "config \<Rightarrow> app_state \<Rightarrow> cli_answer result \<times> app_state" where
  "cli_provider_status cfg s =
     (Inr (Json_text, Field ''hasKeys'' (Status_data (hasProviderKeys cfg))), s)"

definition cli_weather_insights ::
  "config \<Rightarrow> agent_env \<Rightarrow> world \<Rightarrow> LocationQuery \<Rightarrow> string \<Rightarrow> app_state \<Rightarrow>
    cli_answer result \<times> app_state" where
  "cli_weather_insights cfg env w loc act s =
     (case getWeatherInsights cfg env w act loc (agent_of s) (agg (alerts_of s)) of
        (Inl e, m, g) \<Rightarrow> (Inl e, set_agg g (s\<lparr>agent_of := m\<rparr>))
      | (Inr out, m, g) \<Rightarrow>
          (Inr (Said out, Insights_content act loc out), set_agg g (s\<lparr>agent_of := m\<rparr>)))"

definition cli_get_weather_summary ::
  "config \<Rightarrow> agent_env \<Rightarrow> world \<Rightarrow> LocationQuery \<Rightarrow> number option \<Rightarrow> app_state \<Rightarrow>
    cli_answer result \<times> app_state" where
  "cli_get_weather_summary cfg env w loc nd s =
     (case getEnhancedWeatherSummary cfg env w loc nd (agent_of s) (agg (alerts_of s)) of
        (Inl e, m, g) \<Rightarrow> (Inl e, set_agg g (s\<lparr>agent_of := m\<rparr>))
      | (Inr out, m, g) \<Rightarrow>
          (Inr (Said out, Summary_content loc nd out), set_agg g (s\<lparr>agent_of := m\<rparr>)))"

definition cli_list_alerts :: "app_state \<Rightarrow> cli_answer result \<times> app_state" where
  "cli_list_alerts s =
     (Inr (Json_text, Field ''alerts'' (Alerts_data (list_view (alerts_of s)))), s)"

text \<open>
  \<open>registerAlert\<close> returns the alert, which the handler calls \<open>ok\<close> and tests: an object
  is true, so the text is always that of success.
\<close>

definition cli_register_alert ::
  "register_input \<Rightarrow> string \<Rightarrow> app_state \<Rightarrow> cli_answer result \<times> app_state" where
  "cli_register_alert input rnd s =
     (case registerAlert
             \<lparr>al_name = rg_name input, al_location = rg_location input,
              al_condition = rg_condition input, channel = nullish (rg_channel input) console,
              webhookUrl = rg_webhookUrl input, sensitivity = rg_sensitivity input,
              lastTriggeredAt = None\<rparr> rnd (alerts_of s) of
        (a, s') \<Rightarrow>
          (Inr (Literal ''alert_registered'', Field ''ok'' (Alert_data (heap s' ! a))),
           s\<lparr>alerts_of := s'\<rparr>))"

definition cli_remove_alert :: "string \<Rightarrow> app_state \<Rightarrow> cli_answer result \<times> app_state" where
  "cli_remove_alert i s =
     (case removeAlert i (alerts_of s) of
        (ok, s') \<Rightarrow>
          (Inr (Literal (if ok then ''alert_removed'' else ''alert_not_found''), Ok_flag ok),
           s\<lparr>alerts_of := s'\<rparr>))"

fun cli_call_tool ::
  "config \<Rightarrow> agent_env \<Rightarrow> world \<Rightarrow> string \<Rightarrow> cli_tool_call \<Rightarrow> app_state \<Rightarrow>
    cli_answer result \<times> app_state" where
  "cli_call_tool cfg env w rnd (Cli_get_current_weather loc units) s =
     cli_get_current_weather cfg w loc units s"
| "cli_call_tool cfg env w rnd (Cli_get_forecast loc units nd) s =
     cli_get_forecast cfg w loc units nd s"
| "cli_call_tool cfg env w rnd (Cli_get_historical loc dateISO units) s =
     cli_get_historical cfg w loc dateISO units s"
| "cli_call_tool cfg env w rnd Cli_provider_status s = cli_provider_status cfg s"
| "cli_call_tool cfg env w rnd (Cli_weather_insights loc act) s =
     cli_weather_insights cfg env w loc act s"
| "cli_call_tool cfg env w rnd (Cli_get_weather_summary loc nd) s =
     cli_get_weather_summary cfg env w loc nd s"
| "cli_call_tool cfg env w rnd Cli_list_alerts s = cli_list_alerts s"
| "cli_call_tool cfg env w rnd (Cli_register_alert input) s = cli_register_alert input rnd s"
| "cli_call_tool cfg env w rnd (Cli_remove_alert i) s = cli_remove_alert i s"

section \<open>The HTTP route\<close>

text \<open>
  The value of a request header is absent, a string or an array of strings.
  \<open>auth_token\<close> is \<open>token\<close> after lines 135 and 136, \<open>None\<close> for \<open>undefined\<close>.
\<close>

datatype header = Header string | Headers "string list"

definition auth_token :: "header option \<Rightarrow> string option" where
  "auth_token h =
     (case h of
        None \<Rightarrow> Some []
      | Some (Header v) \<Rightarrow> Some v
      | Some (Headers vs) \<Rightarrow> (case vs of [] \<Rightarrow> None | v # rest \<Rightarrow> Some v))"

definition authorized :: "cli_settings \<Rightarrow> header option \<Rightarrow> bool" where
  "authorized st h =
     (if requireAuth st
      then (case auth_token h of
              None \<Rightarrow> False
            | Some token \<Rightarrow> \<not> (token = [] \<or> \<not> str_includes token (bearerToken st)))
      else True)"

datatype mcp_response = Unauthorized | Answered "cli_answer result"

definition post_mcp ::
  "cli_settings \<Rightarrow> config \<Rightarrow> agent_env \<Rightarrow> world \<Rightarrow> string \<Rightarrow> header option \<Rightarrow> cli_tool_call \<Rightarrow>
    app_state \<Rightarrow> mcp_response \<times> app_state" where
  "post_mcp st cfg env w rnd h c s =
     (if authorized st h
      then (case cli_call_tool cfg env w rnd c s of (r, s') \<Rightarrow> (Answered r, s'))
      else (Unauthorized, s))"

section \<open>The process\<close>

datatype serving = Stdio | Http string "int option"

datatype cli_line = StdioReady | HttpRunning string "int option" | CliFailed error

record cli_state =
  app :: app_state
  cli_console :: "cli_line list"
  served :: "serving option"
  exit_code :: "nat option"

definition cli_init :: "config \<Rightarrow> millis \<Rightarrow> cli_state" where
  "cli_init cfg now = \<lparr>app = app_init cfg now, cli_console = [], served = None, exit_code = None\<rparr>"

definition cli_main :: "config \<Rightarrow> agent_env \<Rightarrow> string list \<Rightarrow> cli_state \<Rightarrow> cli_state" where
  "cli_main cfg env argv s =
     (case initializeWeatherAgent cfg env (agent_of (app s)) of
        (Inl e, m) \<Rightarrow>
          s\<lparr>app := (app s)\<lparr>agent_of := m\<rparr>, cli_console := cli_console s @ [CliFailed e],
            exit_code := Some 1\<rparr>
      | (Inr agentData, m) \<Rightarrow>
          (if transport (settings cfg argv) = ''stdio''
           then s\<lparr>app := (app s)\<lparr>agent_of := m\<rparr>, served := Some Stdio,
                  cli_console := cli_console s @ [StdioReady]\<rparr>
           else if transport (settings cfg argv) = ''http''
           then s\<lparr>app := (app s)\<lparr>agent_of := m,
                          alerts_of := startAlertScheduler cfg (alerts_of (app s))\<rparr>,
                  served := Some (Http (host (settings cfg argv)) (cli_port (settings cfg argv))),
                  cli_console := cli_console s @
                    [HttpRunning (host (settings cfg argv)) (cli_port (settings cfg argv))]\<rparr>
           else s\<lparr>app := (app s)\<lparr>agent_of := m\<rparr>\<rparr>))"

text \<open>What clients do to a running process: a sequence of tool calls.\<close>

fun cli_calls ::
  "config \<Rightarrow> agent_env \<Rightarrow> world \<Rightarrow> (string \<times> cli_tool_call) list \<Rightarrow> app_state \<Rightarrow> app_state" where
  "cli_calls cfg env w [] s = s"
| "cli_calls cfg env w ((rnd, c) # cs) s =
     cli_calls cfg env w cs (snd (cli_call_tool cfg env w rnd c s))"

named_theorems cli_defs "definitions of the command-line server"

lemmas [cli_defs] =
  cli_get_current_weather_def cli_get_forecast_def cli_get_historical_def cli_provider_status_def
  cli_weather_insights_def cli_get_weather_summary_def cli_list_alerts_def cli_register_alert_def
  cli_remove_alert_def

section \<open>Reading arguments\<close>

lemma getArg_absent:
  "\<forall>a \<in> set argv. \<not> prefix (''--'' @ key @ ''='') a \<Longrightarrow> getArg argv key d = d"
proof -
  assume "\<forall>a \<in> set argv. \<not> prefix (''--'' @ key @ ''='') a"
  then have "List.find (\<lambda>a. prefix (''--'' @ key @ ''='') a) argv = None"
    by (simp add: find_None_iff)
  then show ?thesis by (simp add: getArg_def)
qed

text \<open>The first argument with the prefix is the one that counts.\<close>

lemma getArg_first:
  assumes "\<forall>a \<in> set xs. \<not> prefix (''--'' @ key @ ''='') a"
  shows "getArg (xs @ (''--'' @ key @ ''='' @ v) # ys) key d = v"
proof -
  have "List.find (\<lambda>a. prefix (''--'' @ key @ ''='') a) (xs @ (''--'' @ key @ ''='' @ v) # ys) =
      Some (''--'' @ key @ ''='' @ v)"
    using assms by (induction xs) auto
  then show ?thesis by (simp add: getArg_def)
qed

lemma settings_default:
  "settings cfg [] =
    \<lparr>transport = ''stdio'', cli_port = Some (int (port cfg)), host = ''0.0.0.0'',
     requireAuth = False, bearerToken = []\<rparr>"
  by (simp add: settings_def getArg_def hasFlag_def)

section \<open>The tools again\<close>

text \<open>
  Every tool of this server changes the state as a tool of the server with the agent
  does: \<open>to_ai\<close> is that tool.
\<close>

fun to_ai :: "cli_tool_call \<Rightarrow> ai_tool_call" where
  "to_ai (Cli_get_current_weather loc units) = AI_get_current_weather loc units"
| "to_ai (Cli_get_forecast loc units nd) = AI_get_forecast loc units nd"
| "to_ai (Cli_get_historical loc dateISO units) = AI_get_historical loc dateISO"
| "to_ai Cli_provider_status = AI_provider_status"
| "to_ai (Cli_weather_insights loc act) = AI_weather_insights act loc"
| "to_ai (Cli_get_weather_summary loc nd) = AI_get_weather_summary loc nd"
| "to_ai Cli_list_alerts = AI_list_weather_alerts"
| "to_ai (Cli_register_alert input) =
     AI_set_weather_alert
       \<lparr>in_name = rg_name input, in_location = rg_location input,
        in_condition = rg_condition input, in_channel = nullish (rg_channel input) console,
        in_webhookUrl = rg_webhookUrl input, in_sensitivity = rg_sensitivity input\<rparr>"
| "to_ai (Cli_remove_alert i) = AI_remove_weather_alert i"

lemma cli_as_ai:
  "snd (cli_call_tool cfg env w rnd c s) = snd (ai_call_tool cfg env w rnd (to_ai c) s)"
  by (cases c) (simp_all add: cli_defs ai_defs split: prod.splits sum.splits)

lemma cli_register_state:
  "alerts_of (snd (cli_register_alert input rnd s)) =
    snd (registerAlert
          \<lparr>al_name = rg_name input, al_location = rg_location input,
           al_condition = rg_condition input, channel = nullish (rg_channel input) console,
           webhookUrl = rg_webhookUrl input, sensitivity = rg_sensitivity input,
           lastTriggeredAt = None\<rparr> rnd (alerts_of s))"
  by (simp add: cli_register_alert_def split: prod.splits)

lemma cli_call_tool_reachable:
  "alert_reachable cfg w (alerts_of s) \<Longrightarrow>
    alert_reachable cfg w (alerts_of (snd (cli_call_tool cfg env w rnd c s)))"
  "agent_ok (agent_of s) \<Longrightarrow> agent_ok (agent_of (snd (cli_call_tool cfg env w rnd c s)))"
  by (simp_all add: cli_as_ai ai_call_tool_alerts ai_call_tool_agent)

text \<open>So a call is the events of the alert service that the call of that server is.\<close>

lemma cli_call_tool_events:
  "alert_run cfg w (ai_events cfg env w rnd (to_ai c) s) (alerts_of s) =
    Some (alerts_of (snd (cli_call_tool cfg env w rnd c s)))"
  by (simp add: cli_as_ai ai_call_tool_events)

text \<open>No tool touches the scheduler, its timers or the sweeps.\<close>

lemma call_tool_frame:
  "timers (snd (call_tool cfg w rnd c s)) = timers s \<and>
   schedulerStarted (snd (call_tool cfg w rnd c s)) = schedulerStarted s \<and>
   sweeps (snd (call_tool cfg w rnd c s)) = sweeps s"
  by (cases c) (simp_all add: handler_states weather_insights_state)

lemma ai_call_tool_frame:
  "timers (alerts_of (snd (ai_call_tool cfg env w rnd c s))) = timers (alerts_of s) \<and>
   schedulerStarted (alerts_of (snd (ai_call_tool cfg env w rnd c s))) =
     schedulerStarted (alerts_of s) \<and>
   sweeps (alerts_of (snd (ai_call_tool cfg env w rnd c s))) = sweeps (alerts_of s)"
proof (cases "plain c")
  case None
  then show ?thesis by (cases c) (simp_all add: agent_tool_states)
next
  case (Some c')
  then show ?thesis by (simp add: ai_shared call_tool_frame)
qed

lemma cli_calls_frame:
  "timers (alerts_of (cli_calls cfg env w cs s)) = timers (alerts_of s) \<and>
   schedulerStarted (alerts_of (cli_calls cfg env w cs s)) = schedulerStarted (alerts_of s) \<and>
   sweeps (alerts_of (cli_calls cfg env w cs s)) = sweeps (alerts_of s)"
proof (induction cs arbitrary: s)
  case (Cons rc cs)
  obtain rnd c where rc: "rc = (rnd, c)" by (cases rc)
  let ?s1 = "snd (cli_call_tool cfg env w rnd c s)"
  have 1: "timers (alerts_of ?s1) = timers (alerts_of s)"
    "schedulerStarted (alerts_of ?s1) = schedulerStarted (alerts_of s)"
    "sweeps (alerts_of ?s1) = sweeps (alerts_of s)"
    by (simp_all only: cli_as_ai ai_call_tool_frame)
  from Cons.IH [of ?s1] show ?case unfolding rc cli_calls.simps 1 .
qed simp

section \<open>The check of the header\<close>

lemma auth_token_simps [simp]:
  "auth_token None = Some []" "auth_token (Some (Header v)) = Some v"
  "auth_token (Some (Headers [])) = None" "auth_token (Some (Headers (v # vs))) = Some v"
  by (simp_all add: auth_token_def)

lemma authorized_iff:
  "authorized st h \<longleftrightarrow>
    (requireAuth st \<longrightarrow>
      (\<exists>v. auth_token h = Some v \<and> v \<noteq> [] \<and> sublist (bearerToken st) v))"
  by (auto simp: authorized_def str_includes_iff split: option.splits)

text \<open>A request that is refused changes nothing; one that passes is the tool call.\<close>

lemma post_mcp_simps:
  "\<not> authorized st h \<Longrightarrow> post_mcp st cfg env w rnd h c s = (Unauthorized, s)"
  "authorized st h \<Longrightarrow>
    post_mcp st cfg env w rnd h c s =
      (Answered (fst (cli_call_tool cfg env w rnd c s)), snd (cli_call_tool cfg env w rnd c s))"
  by (simp_all add: post_mcp_def split: prod.splits)

lemma post_mcp_reachable:
  "alert_reachable cfg w (alerts_of s) \<Longrightarrow>
    alert_reachable cfg w (alerts_of (snd (post_mcp st cfg env w rnd h c s)))"
  by (cases "authorized st h") (simp_all add: post_mcp_simps cli_call_tool_reachable)

section \<open>Start\<close>

lemma cli_main_cases:
  obtains (failed) "\<not> is_ok (fst (initializeWeatherAgent cfg env (agent_of (app s))))"
      "cli_main cfg env argv s =
        s\<lparr>cli_console := cli_console s @ [CliFailed AgentBuildFailed], exit_code := Some 1\<rparr>"
  | (stdio) "is_ok (fst (initializeWeatherAgent cfg env (agent_of (app s))))"
      "transport (settings cfg argv) = ''stdio''"
      "cli_main cfg env argv s =
        s\<lparr>app := (app s)\<lparr>agent_of := snd (initializeWeatherAgent cfg env (agent_of (app s)))\<rparr>,
          served := Some Stdio, cli_console := cli_console s @ [StdioReady]\<rparr>"
  | (http) "is_ok (fst (initializeWeatherAgent cfg env (agent_of (app s))))"
      "transport (settings cfg argv) = ''http''"
      "cli_main cfg env argv s =
        s\<lparr>app := (app s)\<lparr>agent_of := snd (initializeWeatherAgent cfg env (agent_of (app s))),
                        alerts_of := startAlertScheduler cfg (alerts_of (app s))\<rparr>,
          served := Some (Http (host (settings cfg argv)) (cli_port (settings cfg argv))),
          cli_console := cli_console s @
            [HttpRunning (host (settings cfg argv)) (cli_port (settings cfg argv))]\<rparr>"
  | (other) "is_ok (fst (initializeWeatherAgent cfg env (agent_of (app s))))"
      "transport (settings cfg argv) \<noteq> ''stdio''" "transport (settings cfg argv) \<noteq> ''http''"
      "cli_main cfg env argv s =
        s\<lparr>app := (app s)\<lparr>agent_of := snd (initializeWeatherAgent cfg env (agent_of (app s)))\<rparr>\<rparr>"
proof (cases "initializeWeatherAgent cfg env (agent_of (app s))")
  case (Pair r m)
  show ?thesis
  proof (cases r)
    case (Inl e)
    with Pair initialize_Inl [of cfg env "agent_of (app s)" e m] show ?thesis
      by (intro failed) (simp_all add: cli_main_def)
  next
    case (Inr d)
    with Pair show ?thesis
      by (cases "transport (settings cfg argv) = ''stdio''";
          cases "transport (settings cfg argv) = ''http''")
        (auto intro: stdio http other simp: cli_main_def)
  qed
qed

lemma cli_main_reachable:
  assumes "alert_reachable cfg w (alerts_of (app s))" and "agent_ok (agent_of (app s))"
  shows "alert_reachable cfg w (alerts_of (app (cli_main cfg env argv s))) \<and>
    agent_ok (agent_of (app (cli_main cfg env argv s)))"
  using assms agent_ok_initialize [OF assms(2), of cfg env]
    alert_reachable.step [OF assms(1), where ev = Start]
  by (cases rule: cli_main_cases [of cfg env s argv]) simp_all

text \<open>
  Over HTTP the scheduler is started, unless the agent could not be built: there is a
  timer, and the timer can fire.
\<close>

lemma http_can_sweep:
  assumes "transport (settings cfg argv) = ''http''"
    and "is_ok (fst (initializeWeatherAgent cfg env agent_init))"
  shows "alert_step cfg w (Fire 0) (alerts_of (app (cli_main cfg env argv (cli_init cfg now)))) \<noteq> None"
  using assms
  by (cases rule: cli_main_cases [of cfg env "cli_init cfg now" argv])
    (simp_all add: cli_init_def app_init_def alert_init_def)

section \<open>Sample command lines\<close>

definition argv_http :: "string list" where
  "argv_http = [''node'', ''cli.js'', ''--transport=http'', ''--require-auth'', ''--token=s3cret'']"

definition argv_open :: "string list" where
  "argv_open = [''node'', ''cli.js'', ''--transport=http'', ''--require-auth'', ''--port=8080'']"

lemma sample_settings:
  "settings cfg_wa argv_http =
    \<lparr>transport = ''http'', cli_port = Some 3000, host = ''0.0.0.0'', requireAuth = True,
     bearerToken = ''s3cret''\<rparr>"
  "settings cfg_wa argv_open =
    \<lparr>transport = ''http'', cli_port = Some 8080, host = ''0.0.0.0'', requireAuth = True,
     bearerToken = []\<rparr>"
  by (simp_all add: settings_def getArg_def hasFlag_def argv_http_def argv_open_def
      parseInt10_samples(1) cfg_wa_def default_config_def)

definition rain_tomorrow :: register_input where
  "rain_tomorrow =
     \<lparr>rg_name = None, rg_location = male_query,
      rg_condition = \<lparr>ctype = rain, threshold = None, daysAhead = Some 1\<rparr>,
      rg_channel = None, rg_webhookUrl = None, rg_sensitivity = None\<rparr>"

section \<open>Properties\<close>

text \<open>
  C28. When authorization is required, a request with one \<open>authorization\<close> header
  passes the check exactly if the header is not empty and the configured token occurs
  somewhere in it: the header need not be the token, nor end with it.
\<close>

theorem auth_is_containment:
  assumes "requireAuth st"
  shows "authorized st (Some (Header v)) \<longleftrightarrow> v \<noteq> [] \<and> sublist (bearerToken st) v"
  using assms by (simp add: authorized_iff)

theorem auth_is_containment_witness:
  "requireAuth (settings cfg_wa argv_http) \<and>
   authorized (settings cfg_wa argv_http) (Some (Header ''Bearer not-s3cret-at-all'')) \<and>
   \<not> authorized (settings cfg_wa argv_http) (Some (Header ''Bearer secret''))"
  using auth_is_containment [where st = "settings cfg_wa argv_http" and v = "''Bearer not-s3cret-at-all''"]
    auth_is_containment [where st = "settings cfg_wa argv_http" and v = "''Bearer secret''"]
  by (simp add: sample_settings sublist_code)

text \<open>
  When the process is started with \<open>--require-auth\<close> and without \<open>--token=\<close>, the
  token is the empty string, and every request that carries a non-empty \<open>authorization\<close>
  header passes the check, whatever the header says.
\<close>

theorem require_auth_without_token:
  assumes "''--require-auth'' \<in> set argv" and "\<forall>a \<in> set argv. \<not> prefix ''--token='' a"
  shows "authorized (settings cfg argv) h \<longleftrightarrow> (\<exists>v. auth_token h = Some v \<and> v \<noteq> [])"
  using assms getArg_absent [of argv "''token''" "[]"]
  by (simp add: authorized_iff settings_def hasFlag_def)

theorem require_auth_without_token_witness:
  "authorized (settings cfg_wa argv_open) (Some (Header ''anything'')) \<and>
   \<not> authorized (settings cfg_wa argv_open) None"
  using require_auth_without_token [where argv = argv_open and cfg = cfg_wa
      and h = "Some (Header ''anything'')"]
    require_auth_without_token [where argv = argv_open and cfg = cfg_wa and h = None]
  by (simp add: argv_open_def)

text \<open>
  Without a \<open>--port=\<close> argument the server listens on the configured port: the
  default is written as a decimal string and read back as the same number.
\<close>

theorem default_port_is_config:
  assumes "\<forall>a \<in> set argv. \<not> prefix ''--port='' a"
  shows "cli_port (settings cfg argv) = Some (int (port cfg))"
  using assms getArg_absent [of argv "''port''" "String_nat (port cfg)"]
  by (simp add: settings_def)

theorem default_port_is_config_witness:
  "cli_port (settings cfg_wa argv_http) = Some (int (port cfg_wa)) \<and>
   cli_port (settings cfg_wa argv_open) = Some 8080"
  using default_port_is_config [where argv = argv_http and cfg = cfg_wa]
  by (simp add: argv_http_def sample_settings)

text \<open>
  C29. Served over standard input and output, the process never evaluates an alert: \<open>main\<close>
  does not start the scheduler on that branch and no tool starts it, so whatever alerts
  the clients register afterwards, there is no timer, no timer event is possible and no sweep
  begins.
\<close>

theorem stdio_never_sweeps:
  assumes "transport (settings cfg argv) = ''stdio''"
  shows "timers (alerts_of (cli_calls cfg env w cs (app (cli_main cfg env argv (cli_init cfg now))))) = [] \<and>
    sweeps (alerts_of (cli_calls cfg env w cs (app (cli_main cfg env argv (cli_init cfg now))))) = [] \<and>
    (\<forall>h. alert_step cfg w (Fire h)
           (alerts_of (cli_calls cfg env w cs (app (cli_main cfg env argv (cli_init cfg now))))) = None)"
proof -
  have "timers (alerts_of (app (cli_main cfg env argv (cli_init cfg now)))) = [] \<and>
      sweeps (alerts_of (app (cli_main cfg env argv (cli_init cfg now)))) = []"
    using assms
    by (cases rule: cli_main_cases [of cfg env "cli_init cfg now" argv])
      (simp_all add: cli_init_def app_init_def alert_init_def)
  then show ?thesis by (simp add: cli_calls_frame)
qed

theorem stdio_never_sweeps_witness:
  "length (alerts (alerts_of (cli_calls cfg_wa env_llm world_ok [(''abc'', Cli_register_alert rain_tomorrow)]
      (app (cli_main cfg_wa env_llm [] (cli_init cfg_wa 0)))))) = 1 \<and>
   timers (alerts_of (cli_calls cfg_wa env_llm world_ok [(''abc'', Cli_register_alert rain_tomorrow)]
      (app (cli_main cfg_wa env_llm [] (cli_init cfg_wa 0))))) = [] \<and>
   served (cli_main cfg_wa env_llm [] (cli_init cfg_wa 0)) = Some Stdio"
  using stdio_never_sweeps [where cfg = cfg_wa and argv = "[]" and env = env_llm and w = world_ok
      and cs = "[(''abc'', Cli_register_alert rain_tomorrow)]" and now = 0]
  by (simp add: settings_default cli_main_def cli_init_def app_init_def alert_init_def
      cli_register_state initialize_builds agent_init_def env_defs truthy_def)

end
