(* ===== verification/Config_Load.thy ===== *)
theory Config_Load
  imports WW_Types JS_Builtins
begin

text \<open>
  The reading of the environment in \<open>config.ts\<close>.

  \<^item> An \<open>environment\<close> is \<open>process.env\<close> after \<open>dotenv.config()\<close>: a value or nothing for
    each name. \<open>env_or\<close> is \<open>process.env.NAME || "default"\<close>.
  \<^item> \<open>env_nat\<close> is \<open>parseInt(process.env.NAME || "default", 10)\<close> when that is a natural
    number (\<open>parse_nat\<close>). \<open>units_of\<close> is the cast of a string to \<open>Units\<close>, which checks nothing.
  \<^item> \<open>load_config\<close> is the object literal of the module. The configuration of the
    model holds natural numbers, so \<open>load_config\<close> is \<open>None\<close> when one of the four
    numbers is read as \<open>NaN\<close> or is negative; the program has no such check and goes on
    with the value.

  The lemmas show that an environment that sets nothing, or sets empty strings, gives
  the defaults, that a number written in decimal is read back, and what is read from
  values that are not what the program expects.
\<close>

section \<open>Definitions\<close>

type_synonym environment = "string \<Rightarrow> string option"

definition env_or :: "environment \<Rightarrow> string \<Rightarrow> string \<Rightarrow> string" where
  "env_or env k d = nullish (or_else (env k) (Some d)) d"

definition parse_nat :: "string \<Rightarrow> nat option" where
  "parse_nat x =
     (case parseInt10 x of
        None \<Rightarrow> None
      | Some i \<Rightarrow> if i < 0 then None else Some (nat i))"

definition env_nat :: "environment \<Rightarrow> string \<Rightarrow> string \<Rightarrow> nat option" where
  "env_nat env k d = parse_nat (env_or env k d)"

definition units_of :: "string \<Rightarrow> Units" where
  "units_of x =
     (if x = ''metric'' then metric else if x = ''imperial'' then imperial else other_units x)"

definition load_config :: "environment \<Rightarrow> config option" where
  "load_config env =
     (case (env_nat env ''PORT'' ''3000'', env_nat env ''CACHE_TTL_SECONDS'' ''600'',
            env_nat env ''FORECAST_CACHE_TTL_SECONDS'' ''10800'',
            env_nat env ''ALERT_POLL_INTERVAL_SECONDS'' ''600'') of
        (Some p, Some c, Some f, Some a) \<Rightarrow>
          Some \<lparr>port = p,
                openWeatherApiKey = env_or env ''OPENWEATHER_API_KEY'' [],
                weatherApiKey = env_or env ''WEATHERAPI_API_KEY'' [],
                defaultUnits = units_of (env_or env ''DEFAULT_UNITS'' ''metric''),
                cacheTtlSeconds = c, forecastCacheTtlSeconds = f,
                alertPollIntervalSeconds = a,
                googleApiKey = env_or env ''GOOGLE_API_KEY'' []\<rparr>
      | _ \<Rightarrow> None)"

text \<open>The names the module reads.\<close>

definition config_vars :: "string list" where
  "config_vars =
     [''PORT'', ''OPENWEATHER_API_KEY'', ''WEATHERAPI_API_KEY'', ''DEFAULT_UNITS'',
      ''CACHE_TTL_SECONDS'', ''FORECAST_CACHE_TTL_SECONDS'', ''ALERT_POLL_INTERVAL_SECONDS'',
      ''GOOGLE_API_KEY'']"

section \<open>Reading one variable\<close>

lemma env_or_simps:
  "env k = None \<Longrightarrow> env_or env k d = d"
  "env k = Some [] \<Longrightarrow> env_or env k d = d"
  "env k = Some v \<Longrightarrow> v \<noteq> [] \<Longrightarrow> env_or env k d = v"
  by (simp_all add: env_or_def nullish_def)

lemma env_or_unset: "\<not> truthy (env k) \<Longrightarrow> env_or env k d = d"
  by (simp add: env_or_def or_else_def nullish_def)

lemma env_nat_unset: "\<not> truthy (env k) \<Longrightarrow> env_nat env k d = parse_nat d"
  by (simp add: env_nat_def env_or_unset)

text \<open>A natural number in decimal is read as that number.\<close>

lemma env_nat_decimal: "env k = Some (String_nat n) \<Longrightarrow> env_nat env k d = Some n"
  using String_nat_digits [of n] by (simp add: env_nat_def parse_nat_def env_or_simps)

lemma default_numbers:
  "parse_nat ''3000'' = Some 3000" "parse_nat ''600'' = Some 600" "parse_nat ''10800'' = Some 10800"
  by code_simp+

text \<open>Whatever \<open>DEFAULT_UNITS\<close> holds becomes the default unit.\<close>

lemma load_config_units:
  assumes "load_config env = Some cfg"
  shows "defaultUnits cfg = units_of (env_or env ''DEFAULT_UNITS'' ''metric'')"
  using assms by (auto simp: load_config_def split: option.splits)

section \<open>Sample environments\<close>

definition env_empty :: environment where
  "env_empty = (\<lambda>_. None)"

definition env_blank :: environment where
  "env_blank = env_empty(''PORT'' := Some [], ''DEFAULT_UNITS'' := Some [])"

text \<open>
  \<open>parseInt\<close> reads the digits a string begins with and the cast lets any unit pass;
  a number that does not begin with a digit is \<open>NaN\<close>, and then there is no
  configuration of the model.
\<close>

lemma odd_values:
  "parse_nat ''8080/tcp'' = Some 8080" "parse_nat ''ten'' = None" "parse_nat ''-1'' = None"
  "units_of ''kelvin'' = other_units ''kelvin''"
  by code_simp+

lemma load_config_nan:
  assumes "env ''CACHE_TTL_SECONDS'' = Some x" and "x \<noteq> []" and "parse_nat x = None"
  shows "load_config env = None"
  using assms by (simp add: load_config_def env_nat_def env_or_simps split: option.splits)

section \<open>Properties\<close>

text \<open>
  C31. When the environment sets none of the variables the module reads, or sets them to
  the empty string, the configuration is the default one: port 3000, no provider key,
  metric units, ten minutes for current readings, three hours for forecasts, and a sweep
  of the alerts every ten minutes.
\<close>

theorem load_config_defaults:
  assumes "\<forall>k \<in> set config_vars. \<not> truthy (env k)"
  shows "load_config env = Some default_config"
  using assms
  by (simp add: load_config_def config_vars_def env_nat_unset env_or_unset default_numbers
      units_of_def default_config_def)

theorem load_config_defaults_witness:
  "load_config env_blank = Some default_config \<and> port default_config = 3000"
  using load_config_defaults [where env = env_blank]
  by (simp add: env_blank_def env_empty_def config_vars_def truthy_def default_config_def)

end
