(* ===== verification/Spec2Isabelle.thy ===== *)
theory Spec2Isabelle
  imports
    WW_Prelude
    WW_Types
    JS_Builtins
    LRU_Cache
    Upstream
    Samples
    Provider_WeatherApi
    Provider_OpenWeather
    Aggregator
    Alert_Service
    Alert_Sweeps
    Insights
    Server
    Weather_Agent
    Server_Agent
    Server_Cli
    Config_Load
begin

text \<open>
  \<^bold>\<open>WeatherWise: a verification development\<close>

  The program is a server that answers weather queries from two upstream providers,
  WeatherAPI and OpenWeather. Two provider adapters normalize the JSON of a provider
  into one schema. The aggregator consults a cache, asks the first configured provider
  and falls back to the second. The alert service keeps a registry of alerts and, on a
  timer, evaluates each of them against what the aggregator returns. The insights
  module grades an outdoor activity against a reading and a forecast. The agent module
  hands a reading and a forecast to a language model and returns its text. The server
  exposes all of it as tools and as two REST routes; it comes in three variants, of which
  two use the agent and one is started from the command line.

  \<^bold>\<open>Theories and the sources they model\<close>

  \<^item> \<open>WW_Prelude\<close>: the JavaScript the sources rely on. Numbers are reals, a value
    that may be \<open>undefined\<close> is an option, and \<open>truthy\<close>, \<open>nullish\<close> (\<open>??\<close>),
    \<open>or_else\<close> (\<open>||\<close>), \<open>Math_round\<close>, \<open>Math_max\<close>, \<open>Math_min\<close>, \<open>to_integer\<close> and
    \<open>slice0\<close> (\<open>Array.prototype.slice(0, n)\<close>) are the operators and builtins. A
    template literal is a list of pieces and an instant is a constructor over what it
    was made from, so that text and dates are compared without being formatted. The
    collections of facts the component theories add to (\<open>js_defs\<close>, \<open>inv_intros\<close>,
    \<open>frame_simps\<close>) and the shared lemmas on slices, rounding, extrema and association
    lists are here.
  \<^item> \<open>WW_Types\<close>: the interfaces of \<open>weather/types.ts\<close> as records, the exceptions
    of the program as the datatype \<open>error\<close> with the result type \<open>error + 'a\<close>, and the
    configuration object and \<open>hasProviderKeys\<close> of \<open>config.ts\<close>.
  \<^item> \<open>JS_Builtins\<close>: \<open>encodeURIComponent\<close>, \<open>toISOString().slice(0, 10)\<close>
    (\<open>toISODate\<close>, by the civil-from-days algorithm), \<open>toLowerCase\<close> and
    \<open>String.prototype.includes\<close> (\<open>str_includes\<close>), \<open>parseInt\<close> with radix 10
    (\<open>parseInt10\<close>) and \<open>String\<close> of a natural number (\<open>String_nat\<close>), written from
    their specification.
  \<^item> \<open>Config_Load\<close>: the object literal of \<open>config.ts\<close>, which reads the environment:
    \<open>env_or\<close>, \<open>env_nat\<close>, \<open>units_of\<close> and \<open>load_config\<close>.
  \<^item> \<open>LRU_Cache\<close>: the store of the \<open>lru-cache\<close> package, which the aggregator
    instantiates three times: \<open>lru_get\<close>, \<open>lru_set\<close>, the abstraction \<open>live\<close> to the
    map of unexpired entries, and the invariant \<open>lru_inv\<close> (distinct keys, at most
    \<open>maxEntries\<close> of them). The package is not part of the repository; the theory is
    written from its documented behaviour. An entry is expired once its age is greater
    than its time to live, so that a time to live of zero keeps an entry for the
    instant it was written at; the package may read zero as no expiry, and the
    configurations the theorems are applied to have a positive time to live.
  \<^item> \<open>Upstream\<close>: what the program sends and receives. \<open>request\<close> has one
    constructor per URL the sources build, the bodies are records with the fields the
    adapters read, and a \<open>world\<close> answers a request made at a time with a latency and
    a body or a failure. \<open>net_state\<close> is the clock, the log of requests and the
    warnings on the console; \<open>axios_get\<close> is the only operation that extends the log
    of requests and \<open>console_warn\<close> the only one that writes a warning. \<open>grew k s s'\<close> says that
    from \<open>s\<close> to \<open>s'\<close> the log was extended by at most \<open>k\<close> requests and the clock
    did not go back.
  \<^item> \<open>Samples\<close>: the concrete queries, bodies, configurations and worlds on which the
    theorems are applied.
  \<^item> \<open>Provider_WeatherApi\<close>: \<open>weather/providers/weatherApi.ts\<close>. \<open>resolveQuery\<close>,
    and \<open>wa_getCurrent\<close>, \<open>wa_getForecast\<close>, \<open>wa_getHistorical\<close> for the three methods
    of the exported object, each as its guard, its one request and the object literal it
    returns (\<open>wa_current_of\<close>, \<open>wa_forecast_of\<close>, \<open>wa_historical_of\<close>).
  \<^item> \<open>Provider_OpenWeather\<close>: \<open>weather/providers/openWeather.ts\<close>. \<open>unitsParam\<close>,
    \<open>resolveQueryParams\<close>, \<open>ow_getCurrent\<close> with the unit conversions, and
    \<open>ow_getForecast\<close>: the loop over the three-hour samples (\<open>add_item\<close>,
    \<open>add_items\<close>) that fills one \<open>bucket\<close> per calendar day, and the days built from
    the sorted, truncated dates (\<open>sortedDates\<close>, \<open>day_of_bucket\<close>).
  \<^item> \<open>Aggregator\<close>: \<open>weather/aggregator.ts\<close>. \<open>agg_state\<close> is the three module-level
    caches and the network; \<open>keyOf\<close>, \<open>getCurrentWeather\<close>, \<open>getForecast\<close> and
    \<open>getHistorical\<close> are the functions of the source, with the \<open>try\<close>/\<open>catch\<close> around
    the first provider as \<open>try_catch\<close>, its handler as \<open>warn_failed\<close> and the
    provider sequence as \<open>fetch_first\<close>.
    \<open>cache_or_fetch\<close> is the shape the three operations share, into which the
    proofs rewrite them; \<open>memo\<close> is the specification of a cache as a table from keys
    to records and \<open>implements\<close> the relation of an outcome of an operation to an
    outcome of the specification; \<open>agg_step\<close> and \<open>reachable\<close> are the states a
    sequence of calls and pauses reaches, and \<open>agg_inv\<close> the invariant.
  \<^item> \<open>Alert_Service\<close>: \<open>alerts/alertService.ts\<close>. \<open>alert_state\<close> is the registry,
    the scheduler flag, the interval handle, the timers of the runtime, the console, the
    sweeps in flight and the aggregator's state. \<open>registerAlert\<close>, \<open>removeAlert\<close>,
    \<open>listAlerts\<close>, \<open>notify\<close>, \<open>adjustThreshold\<close>, \<open>evaluateAlert\<close>, \<open>pollAlerts\<close>,
    \<open>startAlertScheduler\<close> and \<open>stopAlertScheduler\<close> are the functions of the source.
    \<open>alert_step\<close> is one event of the process and \<open>alert_reachable\<close> its states.
  \<^item> \<open>Alert_Sweeps\<close>: the sweeps of \<open>pollAlerts\<close> as sequences of events. \<open>pending\<close>
    is what a sweep in flight has left to evaluate and \<open>drain\<close> runs its evaluations
    until none is possible.
  \<^item> \<open>Insights\<close>: \<open>insights/insights.ts\<close>. \<open>rainRiskPct\<close> and
    \<open>assessActivity\<close>, the latter as its four blocks (rain, wind, temperature, tips by
    activity), each raising the risk level and appending tips.
  \<^item> \<open>Server\<close>: \<open>server.ts\<close>. One definition per tool handler, \<open>call_tool\<close> for
    the dispatch, \<open>valid_call\<close> for the input schemas, \<open>api_current\<close> and
    \<open>api_forecast\<close> for the REST routes, \<open>listen\<close> for the start of the process.
  \<^item> \<open>Weather_Agent\<close>: \<open>agents/weatherAgent.ts\<close>. \<open>agent_mem\<close> is the state of the
    module (the agent, its runner, the console, the prompts asked) and \<open>agent_env\<close> what
    is outside it (the key of the environment, whether the agent library can build an
    agent, what the model answers). \<open>initializeWeatherAgent\<close>, \<open>getWeatherInsights\<close>,
    \<open>getEnhancedWeatherSummary\<close> and \<open>getBasicInsights\<close> are the functions of the
    source; \<open>with_agent\<close> is the contract the two operations share, \<open>agent_calls\<close>
    the calls of the aggregator an operation makes, and \<open>agent_ok\<close> the invariant of
    the module.
  \<^item> \<open>Server_Agent\<close>: \<open>src/unnamed/part_004\<close>, the server with the agent. Its nine
    handlers, \<open>ai_call_tool\<close>, the REST routes and \<open>ai_listen\<close> over \<open>app_state\<close>,
    the state of the alert service together with that of the agent; \<open>app_step\<close>,
    \<open>app_run\<close> and \<open>app_reachable\<close> are its process, \<open>app_events\<close> and \<open>app_trace\<close>
    the events of the alert service that a step and a run amount to.
  \<^item> \<open>Server_Cli\<close>: \<open>src/unnamed/part_000\<close>, the server started from the command
    line. \<open>getArg\<close>, \<open>hasFlag\<close> and \<open>settings\<close> read the arguments, \<open>authorized\<close>
    is the check of the bearer token, \<open>post_mcp\<close> the HTTP route, \<open>cli_call_tool\<close>
    the dispatch to its nine handlers and \<open>cli_main\<close> the start with the choice of the
    transport.

  \<^bold>\<open>State and effects\<close>

  The state is nested the way the modules own it: \<open>net_state\<close> (clock and request log)
  is a field of \<open>agg_state\<close> (with the three caches), which is a field of
  \<open>alert_state\<close>, which with the state of the agent module makes the \<open>app_state\<close> of
  the two servers that use the agent. An operation that awaits the network takes the \<open>world\<close> and the
  state and returns its result with the new state; an operation of an inner module
  cannot touch the fields of an outer one. A thrown exception is the \<open>Inl\<close> of the
  result. Time passes by the latency of each request and by \<open>Elapse\<close> steps between
  calls and by the time the language model takes to answer. Each module writes to the
  console in a list of its own (\<open>warned\<close>, \<open>console_log\<close>, \<open>agent_console\<close>,
  \<open>cli_console\<close>), so the order of lines is kept within a module and not across
  modules. Alerts are objects that the registry, a sweep and the caller share; they live
  in a heap and are referred to by address, so that a removed alert of a sweep in
  flight is still the object \<open>notify\<close> writes to.

  \<^bold>\<open>What the lemmas show\<close>

  \<^item> Adapters: each operation on every branch (invalid query, rejected request,
    answered request), with the request it logs; the OpenWeather loop keeps every
    bucket consistent and loses no sample; forecast days are sorted, distinct and within
    the requested count; percentages are within 0 and 100; the two temperature scales
    of a reading agree when the unit is one of the two the type allows.
  \<^item> Aggregator: a hit sends no request and returns the cached value; a miss tries
    WeatherAPI, then OpenWeather, and caches a success only; a value is served until its
    time to live has passed and fetched again after; every reachable state satisfies
    \<open>agg_inv\<close>; a sequence of calls sends at most the sum of their costs. Each of the
    three operations implements the memo table on its own cache
    (\<open>caches_implement_memo\<close>): it answers what the table of unexpired entries
    answers, the table afterwards holds nothing that was not there or fetched (expiry
    and the capacity only take entries out), the record answered is in it, and the
    other two caches are untouched.
  \<^item> Alert service: \<open>alert_inv\<close> holds in every reachable state of the process, under
    any interleaving of handlers, timers, sweeps in flight and client calls; the
    registry behaves as an insertion-ordered map; the scheduler owns at most one timer;
    each condition type trips exactly when the adjusted threshold is crossed; a failing
    evaluation is logged and the sweep goes on; an alert removed while a sweep holds it
    is gone from the registry and is evaluated and notifies all the same.
  \<^item> Sweeps: evaluating a sweep terminates, after exactly as many evaluations as it has
    alerts left, however other events interleave; \<open>pollAlerts\<close> run to its end is the
    timer event followed by the evaluations of its sweep.
  \<^item> Insights: the risk level as a function of the three hazards, its monotonicity in
    the wind, and which tips are given.
  \<^item> Server: every tool call takes a reachable state to a reachable state; an alert
    set through the tool is the one the list tool returns next, with every field of the
    input.
  \<^item> Agent: the two operations implement \<open>with_agent\<close>; each on every branch (no key,
    failed build, failed aggregator call, failed or answered prompt); an error of an
    operation is an error of the build or of the aggregator, never of the model; the
    module and the aggregator stay well formed and at most four requests are sent.
  \<^item> Servers with the agent: the seven tools shared with \<open>server.ts\<close> are the same
    operations with wrapped content; every run of the process is a run of the alert
    service, whose events \<open>app_trace\<close> computes (a call of the agent is two client calls
    and a pause), so \<open>alert_inv\<close> holds in every reachable state; a failed build of the
    agent leaves the scheduler unstarted.
  \<^item> Command line: what the arguments are read as; which headers pass the check of the
    token; over standard input and output no sweep ever begins.
  \<^item> Configuration: an environment that sets nothing gives the defaults; a number in
    decimal is read back as it was written.
  \<^item> This theory: the properties that need more than one component: a unit that is not
    one of the two, whether it comes from the query string of a REST route or from the
    environment, reaches the OpenWeather adapter unchecked.

  \<^bold>\<open>Bounds and assumptions\<close>

  Numbers are exact reals: \<open>NaN\<close>, the infinities and floating-point rounding are not
  modelled, and \<open>parseFloat\<close> and \<open>parseInt\<close> of the REST routes are taken to have
  produced a number; \<open>parseInt\<close> of the port argument and of the environment is
  modelled (\<open>parseInt10\<close>) on strings of 8-bit characters, and a configuration whose
  numbers would be \<open>NaN\<close> or negative is no configuration of the model. Time is a natural number of milliseconds. There is no fuel: every
  loop of the modelled sources runs over a finite list and is a structural recursion,
  and a sweep in flight is a finite list that each evaluation shortens; \<open>drain\<close> and
  \<open>String_nat\<close> are general recursions with termination proofs. A body holds
  the fields the adapters read and nothing else. The random part of an alert id is an
  input of \<open>registerAlert\<close>. What the language model answers, how long it takes and
  whether it fails are inputs (\<open>answer\<close> of \<open>agent_env\<close>), as is whether the agent
  library can build an agent; the text of a prompt is kept as its parts, and the time
  the build takes is not counted.

  A call of an asynchronous function is one step: the state it returns is the state at
  its last statement, and no other handler runs between its statements. The one place
  where the interleaving is kept is the sweep of \<open>pollAlerts\<close>, whose evaluations are
  separate events among which any other event may occur; two calls that miss the same
  key at the same time, and so fetch twice, are not in the model. A world answers every
  request, with a body or a failure, after a finite latency: a request that never
  returns is not in the model, and the theorems on termination and progress of sweeps
  are relative to this. A cache key is the triple of prefix, query and extras where
  the source prints them into one string. \<open>toISODate\<close> is defined on every instant,
  where \<open>toISOString\<close> throws outside the range of dates. In \<open>cli_main\<close> the
  scheduler is started within the step that starts the server, where the source starts
  it in the callback of \<open>listen\<close>, and the calls that follow a failed start are still
  run, where the source has left the process; no theorem depends on either.

  \<^bold>\<open>Not modelled\<close>

  The HTTP transport and the MCP protocol library (the servers are modelled from the
  handler inwards), the static files and HTML routes, the JSON text of the answers, the
  loading of the file \<open>.env\<close> into the environment, the inside of the agent library
  and of the language model, the script of the static test page (\<open>src/unnamed/part_006\<close>,
  handlers of DOM events) and the two example scripts (\<open>examples/adk-agent.ts\<close>,
  \<open>src/unnamed/part_007\<close>), which drive a running server from outside.
\<close>

section \<open>Properties that span components\<close>

text \<open>
  A call to an adapter never rewrites what was logged before it.
\<close>

lemma provider_calls_prefix:
  "prefix (calls s) (calls (snd (wa_getCurrent cfg w q s)))"
  "prefix (calls s) (calls (snd (wa_getForecast cfg w q n s)))"
  "prefix (calls s) (calls (snd (wa_getHistorical cfg w q d s)))"
  "prefix (calls s) (calls (snd (ow_getCurrent cfg w q u s)))"
  "prefix (calls s) (calls (snd (ow_getForecast cfg w q u n s)))"
  using wa_grew [of 0 s] ow_grew [of 0 s] by (simp_all add: grew_def)

text \<open>
  The REST route for current weather with OpenWeather as the only provider and nothing
  cached: the response is what the adapter makes of the body, under the units the
  query string carried.
\<close>

lemma api_current_openweather:
  assumes "weatherApiKey cfg = []" and "openWeatherApiKey cfg \<noteq> []"
    and "live (clock (net (agg s))) (currentCache (agg s))
          (keyOf ''current'' (location_of rq)
             (ExtraUnits (nullish (units_of_string (q_units rq)) (defaultUnits cfg)))) = None"
    and "resolveQueryParams (location_of rq) = Inr params"
    and "snd (w (clock (net (agg s)))
            (OW_weather (openWeatherApiKey cfg) params
               (unitsParam (nullish (units_of_string (q_units rq)) (defaultUnits cfg))))) =
          Some (OW_current_body d)"
    and "ow_current_of (nullish (units_of_string (q_units rq)) (defaultUnits cfg)) d = Inr c"
  shows "fst (api_current cfg w rq s) = Json (Current_data c)"
  using assms
  by (simp add: api_current_def current_refines cof_miss_ok fetch_first_ow_only
      ow_getCurrent_answered)

text \<open>
  C18. The REST route for current weather passes the \<open>units\<close> of the query string to the
  aggregator unchecked. With a value other than the two of the type and OpenWeather as
  the provider, the upstream request asks for metric readings, the adapter converts
  them as if they were Fahrenheit, and the response carries two temperatures that
  disagree for every reading but -40.
\<close>

theorem rest_units_unchecked:
  assumes "weatherApiKey cfg = []" and "openWeatherApiKey cfg \<noteq> []"
    and "q_units rq = Some x" and "x \<noteq> ''metric''" and "x \<noteq> ''imperial''"
    and "live (clock (net (agg s))) (currentCache (agg s))
          (keyOf ''current'' (location_of rq) (ExtraUnits (other_units x))) = None"
    and "resolveQueryParams (location_of rq) = Inr params"
    and "snd (w (clock (net (agg s))) (OW_weather (openWeatherApiKey cfg) params ''metric'')) =
          Some (OW_current_body d)"
    and "ow_current_of (other_units x) d = Inr c"
  shows "fst (api_current cfg w rq s) = Json (Current_data c) \<and>
    (\<exists>m. main d = Some m \<and>
       (temperatureF c = temperatureC c * (9 / 5) + 32 \<longleftrightarrow> main_temp m = - 40))"
proof -
  from assms(3-5) have u: "nullish (units_of_string (q_units rq)) (defaultUnits cfg) = other_units x"
    by (simp add: units_of_string_def)
  from ow_current_of_temps [OF assms(9)] obtain m where m: "main d = Some m"
    and "temperatureC c = (main_temp m - 32) * (5 / 9)"
    and "temperatureF c = main_temp m * (9 / 5) + 32"
    by (auto simp: ow_temp_other_units)
  then have "temperatureF c = temperatureC c * (9 / 5) + 32 \<longleftrightarrow> main_temp m = - 40"
    by (auto simp: field_simps)
  with m api_current_openweather [OF assms(1,2), of s rq params w d c] assms(6-9) u
  show ?thesis by simp
qed

theorem rest_units_unchecked_witness:
  "\<exists>c. fst (api_current cfg_ow world_ok
          \<lparr>q_city = Some ''Male'', q_country = Some ''MV'', q_lat = None, q_lon = None,
           q_units = Some ''kelvin'', q_days = None\<rparr> (alert_init cfg_ow 0)) =
        Json (Current_data c) \<and>
      temperatureF c \<noteq> temperatureC c * (9 / 5) + 32"
  using rest_units_unchecked [where cfg = cfg_ow and w = world_ok and x = "''kelvin''"
      and s = "alert_init cfg_ow 0" and params = "[Lit ''q=Male%2CMV'']" and d = ow_male
      and c = "projr (ow_current_of (other_units ''kelvin'') ow_male)"
      and rq = "\<lparr>q_city = Some ''Male'', q_country = Some ''MV'', q_lat = None, q_lon = None,
           q_units = Some ''kelvin'', q_days = None\<rparr>"]
    resolveQueryParams_male
  by (simp add: location_of_def male_query_def ow_current_of_def ow_male_def)

text \<open>
  The same through the environment: a \<open>DEFAULT_UNITS\<close> that is neither of the two units
  becomes the default unit of the configuration, and a request that names no unit is
  then answered with the two temperature scales in disagreement.
\<close>

lemma env_units_unchecked:
  assumes "load_config env = Some cfg" and "env ''DEFAULT_UNITS'' = Some x"
    and "x \<noteq> []" and "x \<noteq> ''metric''" and "x \<noteq> ''imperial''"
    and "weatherApiKey cfg = []" and "openWeatherApiKey cfg \<noteq> []" and "q_units rq = None"
    and "live (clock (net (agg s))) (currentCache (agg s))
          (keyOf ''current'' (location_of rq) (ExtraUnits (other_units x))) = None"
    and "resolveQueryParams (location_of rq) = Inr params"
    and "snd (w (clock (net (agg s))) (OW_weather (openWeatherApiKey cfg) params ''metric'')) =
          Some (OW_current_body d)"
    and "ow_current_of (other_units x) d = Inr c"
  shows "fst (api_current cfg w rq s) = Json (Current_data c) \<and>
    (\<exists>m. main d = Some m \<and> temperatureC c = (main_temp m - 32) * (5 / 9) \<and>
       temperatureF c = main_temp m * (9 / 5) + 32)"
proof -
  from assms(1-5) have u: "defaultUnits cfg = other_units x"
    by (simp add: load_config_units env_or_simps units_of_def)
  from ow_current_of_temps [OF assms(12)] have "\<exists>m. main d = Some m \<and>
      temperatureC c = (main_temp m - 32) * (5 / 9) \<and> temperatureF c = main_temp m * (9 / 5) + 32"
    by (auto simp: ow_temp_other_units)
  with api_current_openweather [OF assms(6,7), of s rq params w d c] assms(8-12) u
  show ?thesis by (simp add: units_of_string_def)
qed

end
